(* ===== verification/Prelude.thy ===== *)
theory Prelude
  imports Main "HOL-Library.Multiset"
begin

text \<open>
  What every component of the development shares: the collections of proof rules, Go's
  machine integers, clock arithmetic and decimal printing, the insertion sort that
  \<open>slices.SortFunc\<close> runs on short slices, and lemmas on lists searched or updated by a key.
\<close>

named_theorems emits_intros \<open>introduction rules of the call-trace calculus\<close>
named_theorems op_simps \<open>evaluation of reconciler operations\<close>
named_theorems quiet_intros \<open>operations that leave the instance object alone\<close>

section \<open>Go integers and instants\<close>

text \<open>\<open>int32\<close> and \<open>int64\<close> arithmetic wraps around; values are kept as \<open>int\<close>.\<close>

definition wrap32 :: "int \<Rightarrow> int" where
  "wrap32 x = (x + 2147483648) mod 4294967296 - 2147483648"

definition wrap64 :: "int \<Rightarrow> int" where
  "wrap64 x = (x + 9223372036854775808) mod 18446744073709551616 - 9223372036854775808"

definition is_int32 :: "int \<Rightarrow> bool" where
  "is_int32 x \<longleftrightarrow> - 2147483648 \<le> x \<and> x < 2147483648"

lemma wrap32_id: "is_int32 x \<Longrightarrow> wrap32 x = x"
  by (simp add: wrap32_def is_int32_def)

lemma wrap32_range: "is_int32 (wrap32 x)"
proof -
  have "0 \<le> (x + 2147483648) mod 4294967296 \<and> (x + 2147483648) mod 4294967296 < 4294967296"
    by simp
  then show ?thesis by (simp add: wrap32_def is_int32_def)
qed

text \<open>
  An instant is a number of nanoseconds since Go's zero time, so \<open>time.Time{}\<close> is \<open>0\<close>
  and \<open>IsZero\<close> is \<open>= 0\<close>. A nil \<open>*metav1.Time\<close> is \<open>None\<close>. Subtraction of instants
  saturates at the range of \<open>time.Duration\<close>.
\<close>

type_synonym time = int
type_synonym duration = int

definition second :: duration where "second = 1000000000"
definition minute :: duration where "minute = 60 * second"

definition time_sub :: "time \<Rightarrow> time \<Rightarrow> duration" where
  "time_sub a b = min (max (a - b) (- 9223372036854775808)) 9223372036854775807"

lemma time_sub_ge: "\<bar>d\<bar> \<le> 9223372036854775807 \<Longrightarrow> b \<le> a \<Longrightarrow> (d \<le> time_sub a b) = (d \<le> a - b)"
  by (auto simp: time_sub_def min_def max_def)

lemma time_sub_mono: "a \<le> a' \<Longrightarrow> time_sub a b \<le> time_sub a' b"
  by (auto simp: time_sub_def min_def max_def)

definition time_ptr_is_zero :: "time option \<Rightarrow> bool" where
  "time_ptr_is_zero p = (case p of None \<Rightarrow> True | Some t \<Rightarrow> t = 0)"

lemma time_ptr_is_zero_simps [simp]:
  "time_ptr_is_zero None" "time_ptr_is_zero (Some t) = (t = 0)"
  by (simp_all add: time_ptr_is_zero_def)

section \<open>Printing of integers\<close>

definition digit_char :: "nat \<Rightarrow> char" where
  "digit_char n = ''0123456789'' ! (n mod 10)"

fun show_nat :: "nat \<Rightarrow> string" where
  "show_nat n = (if n < 10 then [digit_char n] else show_nat (n div 10) @ [digit_char n])"

declare show_nat.simps [simp del]

definition show_int :: "int \<Rightarrow> string" where
  "show_int i = (if i < 0 then ''-'' @ show_nat (nat (- i)) else show_nat (nat i))"

lemma digit_char_inject: "a < 10 \<Longrightarrow> b < 10 \<Longrightarrow> digit_char a = digit_char b \<Longrightarrow> a = b"
proof -
  assume ab: "a < 10" "b < 10" and eq: "digit_char a = digit_char b"
  have d: "distinct ''0123456789''" by simp
  have "''0123456789'' ! a = ''0123456789'' ! b"
    using eq ab by (simp add: digit_char_def)
  with d ab show "a = b"
    by (simp add: nth_eq_iff_index_eq)
qed

lemma show_nat_nonempty: "show_nat n \<noteq> []"
  by (subst show_nat.simps) simp

lemma show_nat_small: "n < 10 \<Longrightarrow> show_nat n = [digit_char n]"
  by (subst show_nat.simps) simp

lemma show_nat_big: "\<not> n < 10 \<Longrightarrow> show_nat n = show_nat (n div 10) @ [digit_char n]"
  by (subst show_nat.simps) simp

lemma digit_char_mod: "digit_char (n mod 10) = digit_char n"
  by (simp add: digit_char_def)

lemma show_nat_inject: "show_nat m = show_nat n \<Longrightarrow> m = n"
proof (induction m arbitrary: n rule: show_nat.induct)
  case (1 m)
  have last: "digit_char m = digit_char n"
    using "1.prems" by (cases "m < 10"; cases "n < 10") (auto simp: show_nat_small show_nat_big)
  then have low: "m mod 10 = n mod 10"
    using digit_char_inject [of "m mod 10" "n mod 10"] by (simp add: digit_char_mod)
  show ?case
  proof (cases "m < 10")
    case True
    have "n < 10"
    proof (rule ccontr)
      assume "\<not> n < 10"
      with "1.prems" True have "[digit_char m] = show_nat (n div 10) @ [digit_char n]"
        by (simp add: show_nat_small show_nat_big)
      then show False using show_nat_nonempty [of "n div 10"] by (cases "show_nat (n div 10)") auto
    qed
    with True low show ?thesis by simp
  next
    case False
    have big: "\<not> n < 10"
    proof
      assume "n < 10"
      with "1.prems" False have "show_nat (m div 10) @ [digit_char m] = [digit_char n]"
        by (simp add: show_nat_small show_nat_big)
      then show False using show_nat_nonempty [of "m div 10"] by (cases "show_nat (m div 10)") auto
    qed
    with "1.prems" False have "show_nat (m div 10) = show_nat (n div 10)"
      by (simp add: show_nat_big)
    with False have "m div 10 = n div 10" by (intro "1.IH") simp_all
    with low show ?thesis by (metis div_mult_mod_eq)
  qed
qed

section \<open>Insertion sort with a three-way comparison\<close>

text \<open>
  \<open>slices.SortFunc\<close> sorts slices of at most twelve elements with an insertion sort that
  swaps each element to the left while it compares below its left neighbour. The prefix
  already sorted is kept reversed, so the left neighbour is its head.
\<close>

fun sink_left :: "('a \<Rightarrow> 'a \<Rightarrow> int) \<Rightarrow> 'a \<Rightarrow> 'a list \<Rightarrow> 'a list" where
  "sink_left cmp x [] = [x]"
| "sink_left cmp x (p # ps) = (if cmp x p < 0 then p # sink_left cmp x ps else x # p # ps)"

fun sort_prefix :: "('a \<Rightarrow> 'a \<Rightarrow> int) \<Rightarrow> 'a list \<Rightarrow> 'a list \<Rightarrow> 'a list" where
  "sort_prefix cmp done [] = rev done"
| "sort_prefix cmp done (x # xs) = sort_prefix cmp (sink_left cmp x done) xs"

definition sort_func :: "('a \<Rightarrow> 'a \<Rightarrow> int) \<Rightarrow> 'a list \<Rightarrow> 'a list" where
  "sort_func cmp xs = sort_prefix cmp [] xs"

lemma set_sink_left: "set (sink_left cmp x ps) = insert x (set ps)"
  by (induction ps) auto

lemma set_sort_prefix: "set (sort_prefix cmp ys xs) = set ys \<union> set xs"
  by (induction xs arbitrary: ys) (auto simp: set_sink_left)

lemma set_sort_func [simp]: "set (sort_func cmp xs) = set xs"
  by (simp add: sort_func_def set_sort_prefix)

lemma length_sink_left: "length (sink_left cmp x ps) = Suc (length ps)"
  by (induction ps) auto

lemma length_sort_prefix: "length (sort_prefix cmp ys xs) = length ys + length xs"
  by (induction xs arbitrary: ys) (auto simp: length_sink_left)

lemma length_sort_func [simp]: "length (sort_func cmp xs) = length xs"
  by (simp add: sort_func_def length_sort_prefix)

lemma sort_func_Nil_iff [simp]: "sort_func cmp xs = [] \<longleftrightarrow> xs = []"
  by (metis length_0_conv length_sort_func)

lemma mset_sink_left: "mset (sink_left cmp x ps) = add_mset x (mset ps)"
  by (induction ps) auto

lemma mset_sort_prefix: "mset (sort_prefix cmp ys xs) = mset ys + mset xs"
  by (induction xs arbitrary: ys) (auto simp: mset_sink_left)

lemma mset_sort_func [simp]: "mset (sort_func cmp xs) = mset xs"
  by (simp add: sort_func_def mset_sort_prefix)

lemma distinct_map_sort_func [simp]: "distinct (map key (sort_func cmp xs)) = distinct (map key xs)"
  by (rule mset_eq_imp_distinct_iff) (simp add: mset_map)

text \<open>
  A comparison agrees with a key when its sign is the order of the keys; the result is then
  sorted by the key.
\<close>

lemma sorted_sink_left:
  assumes "\<And>a b. a \<in> insert x (set ps) \<Longrightarrow> b \<in> insert x (set ps) \<Longrightarrow> (cmp a b < 0) = (key a < (key b :: 'k :: linorder))"
    and "sorted (map key (rev ps))"
  shows "sorted (map key (rev (sink_left cmp x ps)))"
  using assms
proof (induction ps)
  case Nil
  then show ?case by simp
next
  case (Cons p ps)
  have IH: "sorted (map key (rev (sink_left cmp x ps)))"
    using Cons.prems by (intro Cons.IH) (auto simp: sorted_append)
  have px: "(cmp x p < 0) = (key x < key p)" using Cons.prems(1) by simp
  show ?case
    using Cons.prems(2) IH px by (auto simp: sorted_append set_sink_left not_less)
qed

lemma sorted_sort_prefix:
  assumes "\<And>a b. a \<in> set ys \<union> set xs \<Longrightarrow> b \<in> set ys \<union> set xs \<Longrightarrow> (cmp a b < 0) = (key a < (key b :: 'k :: linorder))"
    and "sorted (map key (rev ys))"
  shows "sorted (map key (sort_prefix cmp ys xs))"
  using assms
proof (induction xs arbitrary: ys)
  case Nil
  then show ?case by simp
next
  case (Cons x xs)
  have "sorted (map key (rev (sink_left cmp x ys)))"
    using Cons.prems by (intro sorted_sink_left) auto
  moreover have "\<And>a b. a \<in> set (sink_left cmp x ys) \<union> set xs \<Longrightarrow>
      b \<in> set (sink_left cmp x ys) \<union> set xs \<Longrightarrow> (cmp a b < 0) = (key a < key b)"
    using Cons.prems(1) by (auto simp: set_sink_left)
  ultimately show ?case using Cons.IH by simp
qed

lemma sorted_sort_func:
  assumes "\<And>a b. a \<in> set xs \<Longrightarrow> b \<in> set xs \<Longrightarrow> (cmp a b < 0) = (key a < (key b :: 'k :: linorder))"
  shows "sorted (map key (sort_func cmp xs))"
  unfolding sort_func_def using assms by (intro sorted_sort_prefix) auto

section \<open>Lists searched and changed by a key\<close>

text \<open>\<open>for _, x := range xs { if p(x) { return x, true } }\<close> is the library's \<open>List.find\<close>.\<close>

lemma find_Some_set: "List.find p xs = Some x \<Longrightarrow> x \<in> set xs \<and> p x"
  by (auto simp: find_Some_iff)

lemma find_None_set: "List.find p xs = None \<Longrightarrow> x \<in> set xs \<Longrightarrow> \<not> p x"
  by (auto simp: find_None_iff)

lemma find_map_same:
  assumes "\<And>x. p (f x) = p x"
  shows "List.find p (map f xs) = map_option f (List.find p xs)"
  by (induction xs) (auto simp: assms)

lemma find_unique:
  assumes "distinct (map key xs)" and "x \<in> set xs" and "key x = k"
  shows "List.find (\<lambda>y. key y = k) xs = Some x"
  using assms
proof (induction xs)
  case Nil
  then show ?case by simp
next
  case (Cons y ys)
  then show ?case by (auto simp: image_iff)
qed

text \<open>Indexed update of every element that passes a test, as \<open>for index := range xs\<close>.\<close>

definition update_where :: "('a \<Rightarrow> bool) \<Rightarrow> ('a \<Rightarrow> 'a) \<Rightarrow> 'a list \<Rightarrow> 'a list" where
  "update_where p f xs = map (\<lambda>x. if p x then f x else x) xs"

lemma update_where_key: "(\<And>x. key (f x) = key x) \<Longrightarrow> map key (update_where p f xs) = map key xs"
  by (simp add: update_where_def comp_def if_distrib [of key] cong: if_cong)

lemma length_update_where [simp]: "length (update_where p f xs) = length xs"
  by (simp add: update_where_def)

lemma update_where_nothing: "(\<And>x. x \<in> set xs \<Longrightarrow> \<not> p x) \<Longrightarrow> update_where p f xs = xs"
  by (induction xs) (auto simp: update_where_def)

lemma set_update_where: "set (update_where p f xs) = (\<lambda>x. if p x then f x else x) ` set xs"
  by (simp add: update_where_def)

end
