(* ===== verification/Api_Types.thy ===== *)
theory Api_Types
  imports Prelude
begin

text \<open>
  The data of the operator: the custom resource \<open>ValkeyInstance\<close>
  (\<open>operator/api/v1alpha1/valkeyinstance_types.go\<close>), one record per struct and one datatype
  per string enumeration, and the parts of the Kubernetes objects the operator reads.
  A string enumeration keeps a constructor \<open>\<dots>Other\<close> for the values the constants do not name,
  because the code compares plain strings and has \<open>default\<close> branches. Pointers are options.
\<close>

section \<open>Enumerations of the resource\<close>

datatype valkey_mode = ValkeyModeSingle | ValkeyModeHA | ValkeyModeOther string

datatype instance_phase =
    InstancePhaseProvisioning | InstancePhaseRunning | InstancePhaseDegraded
  | InstancePhaseUpdating | InstancePhaseUnavailable | InstancePhaseError | InstancePhaseOther string

datatype network_verification_status =
    NetworkVerificationPending | NetworkVerificationVerified | NetworkVerificationUnknown

datatype node_role = NodeRolePrimary | NodeRoleReplica | NodeRoleOther string

datatype process_observation_kind =
    ProcessObservationTransportError | ProcessObservationBusy | ProcessObservationLoading
  | ProcessObservationAuthError | ProcessObservationServerError

datatype process_recovery_reason = ProcessRecoveryUnresponsive | ProcessRecoveryBusy

datatype process_recovery_stage =
    ProcessRecoveryStageKillingBusy | ProcessRecoveryStageDeleting
  | ProcessRecoveryStageWaitingForTermination | ProcessRecoveryStageOther string

datatype deletion_stage =
    DeletionStageRemovingNetwork | DeletionStageDisablingApp | DeletionStageStopping
  | DeletionStageVerifying | DeletionStageOther string

datatype failover_reason = FailoverReasonFailure | FailoverReasonResize

datatype failover_stage =
    FailoverStageFencing | FailoverStageChoosing | FailoverStagePromoting
  | FailoverStageReconfiguring | FailoverStageOther string

datatype rollout_stage =
    RolloutStagePreparing | RolloutStageStopping | RolloutStageUpdatingTemplate
  | RolloutStageReplacingReplicas | RolloutStageSwitchingPrimary | RolloutStageReplacingPrimary
  | RolloutStageStarting | RolloutStageVerifying | RolloutStageOther string

datatype credential_rotation_stage =
    CredentialRotationStagePreparing | CredentialRotationStageUpdatingReplicas
  | CredentialRotationStageUpdatingPrimary | CredentialRotationStageCleaningSecret
  | CredentialRotationStageOther string

text \<open>The strings behind the constants, where the code prints or parses them.\<close>

fun rollout_stage_string :: "rollout_stage \<Rightarrow> string" where
  "rollout_stage_string RolloutStagePreparing = ''preparing''"
| "rollout_stage_string RolloutStageStopping = ''stopping''"
| "rollout_stage_string RolloutStageUpdatingTemplate = ''updatingTemplate''"
| "rollout_stage_string RolloutStageReplacingReplicas = ''replacingReplicas''"
| "rollout_stage_string RolloutStageSwitchingPrimary = ''switchingPrimary''"
| "rollout_stage_string RolloutStageReplacingPrimary = ''replacingPrimary''"
| "rollout_stage_string RolloutStageStarting = ''starting''"
| "rollout_stage_string RolloutStageVerifying = ''verifying''"
| "rollout_stage_string (RolloutStageOther s) = s"

fun credential_rotation_stage_string :: "credential_rotation_stage \<Rightarrow> string" where
  "credential_rotation_stage_string CredentialRotationStagePreparing = ''preparing''"
| "credential_rotation_stage_string CredentialRotationStageUpdatingReplicas = ''updatingReplicas''"
| "credential_rotation_stage_string CredentialRotationStageUpdatingPrimary = ''updatingPrimary''"
| "credential_rotation_stage_string CredentialRotationStageCleaningSecret = ''cleaningSecret''"
| "credential_rotation_stage_string (CredentialRotationStageOther s) = s"

text \<open>\<open>NodeRole(s)\<close> and \<open>string(role)\<close>.\<close>

definition node_role_of_string :: "string \<Rightarrow> node_role" where
  "node_role_of_string s =
     (if s = ''primary'' then NodeRolePrimary
      else if s = ''replica'' then NodeRoleReplica else NodeRoleOther s)"

fun node_role_string :: "node_role \<Rightarrow> string" where
  "node_role_string NodeRolePrimary = ''primary''"
| "node_role_string NodeRoleReplica = ''replica''"
| "node_role_string (NodeRoleOther s) = s"

lemma node_role_string_of_string [simp]: "node_role_string (node_role_of_string s) = s"
  by (simp add: node_role_of_string_def)

section \<open>Specification and accepted configuration\<close>

record whitelist_spec =
  wl_is_enabled :: bool
  wl_cidrs :: "string list"

record instance_spec =
  sp_instance_id :: string
  sp_slug :: string
  sp_mode :: "valkey_mode option"   \<comment> \<open>\<open>None\<close> is the empty string\<close>
  sp_vcpu :: int
  sp_ram_gb :: int
  sp_public_port :: int
  sp_whitelist :: "whitelist_spec option"
  sp_password_version :: int
  sp_desired_generation :: int

record accepted_configuration =
  ac_instance_id :: string
  ac_slug :: string
  ac_mode :: valkey_mode
  ac_vcpu :: int
  ac_ram_gb :: int
  ac_public_port :: int
  ac_whitelist :: whitelist_spec
  ac_password_version :: int
  ac_desired_generation :: int

record applied_configuration =
  ap_mode :: valkey_mode
  ap_vcpu :: int
  ap_ram_gb :: int

section \<open>Processes\<close>

record process_identity =
  id_pod_uid :: string
  id_container_id :: string
  id_run_id :: string
  id_node_name :: string
  id_node_uid :: string

record process_termination =
  tm_reason :: string
  tm_exit_code :: int
  tm_finished_at :: time
  tm_evidence :: string

record replication_status =
  rp_replication_id :: string
  rp_secondary_replication_id :: string
  rp_secondary_offset :: int
  rp_offset :: int
  rp_upstream_host :: string
  rp_upstream_port :: int
  rp_link_up :: bool
  rp_sync_in_progress :: bool
  rp_synced_at :: "time option"
  rp_observed_at :: time

record process_observation_status =
  ob_kind :: process_observation_kind
  ob_observed_at :: time
  ob_consecutive_transport_errors :: int
  ob_transport_error_since :: "time option"
  ob_busy_since :: "time option"

record process_recovery_status =
  rc_reason :: process_recovery_reason
  rc_stage :: process_recovery_stage
  rc_started_at :: time
  rc_delete_requested_at :: "time option"

record node_status =
  ns_ordinal :: int
  ns_pod_uid :: string
  ns_container_id :: string
  ns_run_id :: string
  ns_node_name :: string
  ns_node_uid :: string
  ns_role :: node_role
  ns_readiness :: bool
  ns_app_enabled :: bool
  ns_app_password_version :: int
  ns_replication :: "replication_status option"
  ns_observation :: "process_observation_status option"
  ns_recovery :: "process_recovery_status option"
  ns_termination :: "process_termination option"

record node_metric_status =
  nm_ordinal :: int
  nm_pod_uid :: string
  nm_container_id :: string
  nm_run_id :: string
  nm_collected_at :: time
  nm_role :: node_role
  nm_used_memory_bytes :: int
  nm_maxmemory_bytes :: int
  nm_connected_clients :: int
  nm_ops_per_sec :: int
  nm_keyspace_hits :: int
  nm_keyspace_misses :: int
  nm_evicted_keys :: int
  nm_cpu_millicores :: "int option"

section \<open>Long-running operations\<close>

record failover_status =
  fo_reason :: failover_reason
  fo_stage :: failover_stage
  fo_started_at :: time
  fo_source :: process_identity
  fo_candidate :: "process_identity option"
  fo_source_app_disabled :: bool
  fo_source_clients_killed :: bool
  fo_candidate_app_disabled :: bool
  fo_candidate_clients_killed :: bool
  fo_candidate_may_be_primary :: bool
  fo_replication_id :: string
  fo_control_offset :: int
  fo_offset_deadline :: "time option"
  fo_empty_since :: "time option"

record rollout_status =
  ro_desired_generation :: int
  ro_vcpu :: int
  ro_ram_gb :: int
  ro_image :: string
  ro_stage :: rollout_stage
  ro_process :: "process_identity option"
  ro_access_closed :: bool

record rotation_confirmation =
  cf_process :: process_identity
  cf_version :: int

record credential_rotation_status =
  cr_target_version :: int
  cr_previous_version :: int
  cr_stage :: credential_rotation_stage
  cr_confirmations :: "rotation_confirmation list"

record envoy_process_status =
  ep_pod_uid :: string
  ep_node_name :: string
  ep_node_uid :: string
  ep_container_id :: string

record network_status =
  nw_verification_status :: network_verification_status
  nw_verified_at :: "time option"
  nw_desired_fingerprint :: string
  nw_verified_fingerprint :: string
  nw_envoy_processes :: "envoy_process_status list"

record deletion_status =
  dl_stage :: deletion_stage
  dl_started_at :: time

text \<open>\<open>metav1.Condition\<close>.\<close>

datatype condition_status = ConditionTrue | ConditionFalse | ConditionUnknown

record status_condition =
  cd_type :: string
  cd_status :: condition_status
  cd_observed_generation :: int
  cd_last_transition_time :: time
  cd_reason :: string
  cd_message :: string

section \<open>The resource\<close>

record instance_status =
  st_credentials_initialized :: bool
  st_initialized :: bool
  st_valkey_image :: string
  st_phase :: "instance_phase option"   \<comment> \<open>\<open>None\<close> is the empty string\<close>
  st_reason :: string
  st_observed_at :: "time option"
  st_primary_ordinal :: "int option"
  st_primary_pod_uid :: string
  st_primary_container_id :: string
  st_primary_run_id :: string
  st_primary_node_name :: string
  st_primary_node_uid :: string
  st_observed_generation :: int
  st_applied_password_version :: int
  st_accepted :: "accepted_configuration option"
  st_applied :: "applied_configuration option"
  st_network :: "network_status option"
  st_failover :: "failover_status option"
  st_rollout :: "rollout_status option"
  st_credential_rotation :: "credential_rotation_status option"
  st_deletion :: "deletion_status option"
  st_nodes :: "node_status list"
  st_previous_processes :: "node_status list"
  st_metrics :: "node_metric_status list"
  st_conditions :: "status_condition list"

record valkey_instance =
  vi_name :: string
  vi_namespace :: string
  vi_uid :: string
  vi_generation :: int
  vi_resource_version :: string
  vi_creation_timestamp :: time
  vi_deletion_timestamp :: "time option"
  vi_finalizers :: "string list"
  vi_labels :: "string \<rightharpoonup> string"
  vi_annotations :: "string \<rightharpoonup> string"
  vi_spec :: instance_spec
  vi_status :: instance_status

definition update_vi_status :: "(instance_status \<Rightarrow> instance_status) \<Rightarrow> valkey_instance \<Rightarrow> valkey_instance" where
  "update_vi_status f i = i\<lparr>vi_status := f (vi_status i)\<rparr>"

lemma update_vi_status_simps [simp]:
  "vi_status (update_vi_status f i) = f (vi_status i)"
  "vi_finalizers (update_vi_status f i) = vi_finalizers i"
  "vi_annotations (update_vi_status f i) = vi_annotations i"
  "vi_labels (update_vi_status f i) = vi_labels i"
  "vi_spec (update_vi_status f i) = vi_spec i"
  "vi_name (update_vi_status f i) = vi_name i"
  "vi_namespace (update_vi_status f i) = vi_namespace i"
  "vi_uid (update_vi_status f i) = vi_uid i"
  "vi_generation (update_vi_status f i) = vi_generation i"
  by (simp_all add: update_vi_status_def)

section \<open>Kubernetes objects the operator reads\<close>

datatype container_state =
    ContainerWaiting
  | ContainerRunning
  | ContainerTerminated int string time   \<comment> \<open>exit code, reason, finished at\<close>

record container_status =
  cs_name :: string
  cs_container_id :: string
  cs_state :: container_state

record owner_reference =
  ow_api_version :: string
  ow_kind :: string
  ow_name :: string
  ow_uid :: string
  ow_controller :: bool

text \<open>A container of a pod's specification with its limits, \<open>None\<close> where no limit is set.\<close>

record pod_container =
  pc_name :: string
  pc_image :: string
  pc_cpu_limit :: "int option"   \<comment> \<open>thousandths of a core\<close>
  pc_memory_limit :: "int option"   \<comment> \<open>bytes\<close>

record pod_volume =
  pv_name :: string
  pv_config_map :: "string option"

record kube_pod =
  pod_name :: string
  pod_namespace :: string
  pod_uid :: string
  pod_resource_version :: string
  pod_labels :: "string \<rightharpoonup> string"
  pod_annotations :: "string \<rightharpoonup> string"
  pod_finalizers :: "string list"
  pod_deletion_timestamp :: "time option"
  pod_owners :: "owner_reference list"
  pod_node_name :: string
  pod_containers :: "pod_container list"
  pod_volumes :: "pod_volume list"
  pod_ip :: string
  pod_conditions :: "(string \<times> condition_status) list"
  pod_container_statuses :: "container_status list"

record kube_node =
  kn_name :: string
  kn_uid :: string
  kn_conditions :: "(string \<times> condition_status) list"

record kube_namespace =
  nsp_name :: string
  nsp_labels :: "string \<rightharpoonup> string"

record kube_secret =
  sc_type :: string
  sc_data :: "string \<rightharpoonup> string"
  sc_owners :: "owner_reference list"

section \<open>What the Valkey client reports\<close>

record replication_state =
  rs_replication_id :: string
  rs_secondary_replication_id :: string
  rs_secondary_offset :: int
  rs_offset :: int
  rs_upstream_host :: string
  rs_upstream_port :: int
  rs_link_up :: bool
  rs_sync_in_progress :: bool
  rs_synced_at :: "time option"

record process_state =
  ps_role :: string
  ps_run_id :: string
  ps_app_enabled :: bool
  ps_app_password_hashes :: "string list"
  ps_replication :: "replication_state option"

section \<open>Constants of the resource and of the operator\<close>

definition InstanceFinalizer :: string where "InstanceFinalizer = ''valkey.h3llo-demo.com/instance-protection''"
definition InstanceLabelKey :: string where "InstanceLabelKey = ''valkey.h3llo-demo.com/instance''"
definition InstanceIDLabelKey :: string where "InstanceIDLabelKey = ''valkey.h3llo-demo.com/instance-id''"
definition UserIDLabelKey :: string where "UserIDLabelKey = ''valkey.h3llo-demo.com/user-id''"
definition UserEmailAnnotationKey :: string where "UserEmailAnnotationKey = ''valkey.h3llo-demo.com/user-email''"
definition RoleLabelKey :: string where "RoleLabelKey = ''valkey.h3llo-demo.com/role''"

definition applicationNameLabel :: string where "applicationNameLabel = ''app.kubernetes.io/name''"
definition applicationRoleLabel :: string where "applicationRoleLabel = ''role''"
definition processFinalizer :: string where "processFinalizer = ''valkey.h3llo-demo.com/process-stopped''"
definition manualFencingAnnotation :: string where "manualFencingAnnotation = ''valkey.h3llo-demo.com/manual-fencing''"
definition valkeyPort :: int where "valkeyPort = 6379"
definition gibibyte :: int where "gibibyte = 1024 * 1024 * 1024"

definition HealthCheckInterval :: duration where "HealthCheckInterval = second"
definition PrimaryFailureMinDuration :: duration where "PrimaryFailureMinDuration = 10 * second"
definition ScriptBusyTimeout :: duration where "ScriptBusyTimeout = 30 * second"
definition ProcessUnresponsiveTimeout :: duration where "ProcessUnresponsiveTimeout = 60 * second"
definition ProvisionTimeout :: duration where "ProvisionTimeout = 10 * minute"
definition EmptyPrimaryTimeout :: duration where "EmptyPrimaryTimeout = 2 * minute"
definition FailoverTimeout :: duration where "FailoverTimeout = 5 * second"
definition ProcessDeletionGracePeriod :: int where "ProcessDeletionGracePeriod = 30"
definition PrimaryFailureThreshold :: int where "PrimaryFailureThreshold = 3"

lemmas duration_defs = second_def minute_def HealthCheckInterval_def PrimaryFailureMinDuration_def
  ScriptBusyTimeout_def ProcessUnresponsiveTimeout_def ProvisionTimeout_def EmptyPrimaryTimeout_def
  FailoverTimeout_def

end
