(* ===== verification/Runtime.thy ===== *)
theory Runtime
  imports Api_Types
begin

text \<open>
  How the reconciler runs. A handler is an operation on the instance object it holds; it
  talks to the world only through calls, and every call is appended to a history. Each answer is
  a function of the history so far, so an environment is an arbitrary, possibly changing and
  failing, outside world: nothing is assumed about Kubernetes or Valkey except where a theorem
  says so. Go's \<open>if err != nil\<close> is the operation \<open>on_err\<close>. \<open>updateStatus\<close> with its retry on
  conflict is at the end, with the calculus that bounds the calls a handler can make.
\<close>

section \<open>Errors\<close>

text \<open>
  Reasons of \<open>k8s.io/apimachinery/pkg/api/errors\<close>, the sentinel errors of the packages
  \<open>internal/valkey\<close>, \<open>internal/operator\<close> and \<open>api/v1alpha1\<close>, a reply of the Valkey server, the
  wrapper \<open>sanitizedCommandError\<close>, \<open>fmt.Errorf\<close> with and without \<open>%w\<close> and \<open>errors.Join\<close>.
  \<open>Panic\<close> is a run-time panic, which no \<open>if err != nil\<close> sees.
\<close>

datatype kube_reason = KubeNotFound | KubeConflict | KubeAlreadyExists | KubeOther string

datatype sentinel =
    ErrClosed | ErrInvalidAddress | ErrLeaseLost | ErrUnexpectedReply | ErrTransportFailure
  | ErrBusy | ErrLoading | ErrAuthentication | ErrNoBusyProcess | ErrUnkillable | ErrProcessChanged
  | ErrLeaseInactive | ErrAppAdmissionIncomplete | ErrServiceCredentialsMissing
  | ErrInvalidPasswordVersion | ErrAppPasswordHashMissing | ErrAppPasswordHashInvalid
  | ErrServiceCredentialsPartial | ErrServiceCredentialsInvalid | ErrConfigMapCollision
  | ErrIncompleteIntent | ErrInvalidIdentity | ErrInvalidIntent
  | ErrContextCanceled | ErrDeadlineExceeded

datatype error_kind =
    ErrorKindOther | ErrorKindTransport | ErrorKindBusy | ErrorKindLoading
  | ErrorKindAuth | ErrorKindServer

datatype err =
    Panic
  | Kube kube_reason
  | Sentinel sentinel
  | Reply string
  | CommandError string bool err error_kind
  | Wrapped err
  | Joined "err list"
  | Plain string

fun is_not_found :: "err \<Rightarrow> bool" where
  "is_not_found (Kube r) = (r = KubeNotFound)"
| "is_not_found (Wrapped e) = is_not_found e"
| "is_not_found (CommandError _ _ e _) = is_not_found e"
| "is_not_found (Joined es) = list_ex is_not_found es"
| "is_not_found _ = False"

fun is_conflict :: "err \<Rightarrow> bool" where
  "is_conflict (Kube r) = (r = KubeConflict)"
| "is_conflict (Wrapped e) = is_conflict e"
| "is_conflict (CommandError _ _ e _) = is_conflict e"
| "is_conflict (Joined es) = list_ex is_conflict es"
| "is_conflict _ = False"

text \<open>
  \<open>errors.Is\<close> walks the tree of wrapped errors; \<open>sanitizedCommandError\<close> has an \<open>Is\<close> method that
  also matches the sentinel of its kind.
\<close>

fun command_error_is :: "error_kind \<Rightarrow> sentinel \<Rightarrow> bool" where
  "command_error_is kind ErrTransportFailure = (kind = ErrorKindTransport)"
| "command_error_is kind ErrBusy = (kind = ErrorKindBusy)"
| "command_error_is kind ErrLoading = (kind = ErrorKindLoading)"
| "command_error_is kind ErrAuthentication = (kind = ErrorKindAuth)"
| "command_error_is kind _ = False"

fun errors_is :: "sentinel \<Rightarrow> err \<Rightarrow> bool" where
  "errors_is s (Sentinel t) = (s = t)"
| "errors_is s (Wrapped er) = errors_is s er"
| "errors_is s (CommandError _ _ er kind) = (command_error_is kind s \<or> errors_is s er)"
| "errors_is s (Joined es) = list_ex (errors_is s) es"
| "errors_is s _ = False"

section \<open>Calls and the environment\<close>

datatype reader = Cached | Direct   \<comment> \<open>\<open>r.Get\<close> reads the cache, \<open>r.APIReader\<close> the API server\<close>

datatype call =
    ReadClock
  | GetInstance
  | PatchStatus valkey_instance valkey_instance       \<comment> \<open>before and after, with the optimistic lock\<close>
  | PatchInstance valkey_instance valkey_instance
  | GetPod reader string
  | GetNode reader string
  | GetSecret reader string
  | GetNamespace string
  | GetStatefulSet string
  | PatchPod kube_pod kube_pod
  | DeletePod kube_pod int                            \<comment> \<open>grace period; UID and version preconditions\<close>
  | PatchSecret kube_secret kube_secret
  | UpdateSecret kube_secret
  | CreatePod kube_pod
  | ReadRandom
  | RemoveNetwork
  | ListEndpoints string
  | InspectProcess string string string bool          \<comment> \<open>address, password, hash, take control\<close>
  | UpdateAppAccess string string string bool         \<comment> \<open>address, password, hash, enabled\<close>
  | PromoteProcess string string string               \<comment> \<open>address, password, expected run id\<close>
  | FollowProcess string string string string int
  | RotatePassword string string string
  | StopBusyProcess string string
  | RecordEvent string string

text \<open>An endpoint of the primary Service, as \<open>EndpointSlice\<close> lists it.\<close>

record service_endpoint =
  en_ready :: "bool option"
  en_target :: "(string \<times> string \<times> string \<times> string) option"   \<comment> \<open>kind, namespace, name, UID\<close>
  en_addresses :: "string list"

record endpoint_slice =
  es_ports :: "(int option \<times> string option) list"   \<comment> \<open>port and protocol\<close>
  es_endpoints :: "service_endpoint list"

record env =
  retry_steps :: nat                                  \<comment> \<open>\<open>retry.DefaultRetry.Steps\<close>\<close>
  recorder_set :: bool
  own_valkey_image :: string
  observation_started_at :: time
  answer_clock :: "call list \<Rightarrow> time"
  answer_get_instance :: "call list \<Rightarrow> err + valkey_instance"
  answer_patch_status :: "call list \<Rightarrow> valkey_instance \<Rightarrow> valkey_instance \<Rightarrow> err + valkey_instance"
  answer_patch_instance :: "call list \<Rightarrow> valkey_instance \<Rightarrow> valkey_instance \<Rightarrow> err + valkey_instance"
  answer_get_pod :: "call list \<Rightarrow> reader \<Rightarrow> string \<Rightarrow> err + kube_pod"
  answer_get_node :: "call list \<Rightarrow> reader \<Rightarrow> string \<Rightarrow> err + kube_node"
  answer_get_namespace :: "call list \<Rightarrow> string \<Rightarrow> err + kube_namespace"
  answer_get_stateful_set :: "call list \<Rightarrow> string \<Rightarrow> err + unit"
  answer_get_secret :: "call list \<Rightarrow> reader \<Rightarrow> string \<Rightarrow> err + kube_secret"
  answer_patch_pod :: "call list \<Rightarrow> kube_pod \<Rightarrow> kube_pod \<Rightarrow> err + unit"
  answer_delete_pod :: "call list \<Rightarrow> kube_pod \<Rightarrow> int \<Rightarrow> err + unit"
  answer_update_secret :: "call list \<Rightarrow> kube_secret \<Rightarrow> err + unit"
  answer_create_pod :: "call list \<Rightarrow> kube_pod \<Rightarrow> err + unit"
  answer_random :: "call list \<Rightarrow> err + (nat \<Rightarrow> nat)"     \<comment> \<open>\<open>rand.Read\<close>: the byte at each index of the buffer\<close>
  answer_patch_secret :: "call list \<Rightarrow> kube_secret \<Rightarrow> kube_secret \<Rightarrow> err + unit"
  answer_remove_network :: "call list \<Rightarrow> err + bool"
  answer_list_endpoints :: "call list \<Rightarrow> string \<Rightarrow> err + endpoint_slice list"
  answer_inspect :: "call list \<Rightarrow> string \<Rightarrow> string \<Rightarrow> string \<Rightarrow> bool \<Rightarrow> err + process_state"
  answer_app_access :: "call list \<Rightarrow> string \<Rightarrow> string \<Rightarrow> string \<Rightarrow> bool \<Rightarrow> err + process_state"
  answer_promote :: "call list \<Rightarrow> string \<Rightarrow> string \<Rightarrow> string \<Rightarrow> err + process_state"
  answer_follow :: "call list \<Rightarrow> string \<Rightarrow> string \<Rightarrow> string \<Rightarrow> string \<Rightarrow> int \<Rightarrow> err + process_state"
  answer_rotate :: "call list \<Rightarrow> string \<Rightarrow> string \<Rightarrow> string \<Rightarrow> err + process_state"
  answer_stop_busy :: "call list \<Rightarrow> string \<Rightarrow> string \<Rightarrow> err + unit"
  set_status_condition :: "status_condition \<Rightarrow> status_condition list \<Rightarrow> status_condition list"
  remove_status_condition :: "string \<Rightarrow> status_condition list \<Rightarrow> status_condition list"
  set_controller_reference :: "valkey_instance \<Rightarrow> owner_reference list \<Rightarrow> err + owner_reference list"
  uuid_version :: "string \<Rightarrow> nat option"              \<comment> \<open>\<open>uuid.Parse\<close>, then \<open>Version\<close>\<close>
  masked_prefix :: "string \<Rightarrow> string option"
    \<comment> \<open>\<open>netip.ParsePrefix\<close>, then \<open>Masked\<close> and \<open>String\<close>; \<open>None\<close> where it does not parse\<close>
  decode_identity :: "string \<Rightarrow> process_identity option"  \<comment> \<open>\<open>json.Unmarshal\<close>\<close>
  error_text :: "err \<Rightarrow> string"

section \<open>Operations\<close>

record op_state =
  os_inst :: valkey_instance
  os_hist :: "call list"

type_synonym 'a op = "op_state \<Rightarrow> (err + 'a) \<times> op_state"

definition ret :: "'a \<Rightarrow> 'a op" where
  "ret x = (\<lambda>s. (Inr x, s))"

definition fail :: "err \<Rightarrow> 'a op" where
  "fail e = (\<lambda>s. (Inl e, s))"

text \<open>\<open>x, err := m; if err != nil { h } ; k\<close>. A panic is not an \<open>err\<close>.\<close>

definition on_err :: "'a op \<Rightarrow> (err \<Rightarrow> 'b op) \<Rightarrow> ('a \<Rightarrow> 'b op) \<Rightarrow> 'b op" where
  "on_err m h k = (\<lambda>s. case m s of
      (Inr x, s') \<Rightarrow> k x s'
    | (Inl e, s') \<Rightarrow> if e = Panic then (Inl Panic, s') else h e s')"

definition bnd :: "'a op \<Rightarrow> ('a \<Rightarrow> 'b op) \<Rightarrow> 'b op" where
  "bnd m k = on_err m fail k"

definition get_inst :: "valkey_instance op" where
  "get_inst = (\<lambda>s. (Inr (os_inst s), s))"

definition with_inst :: "(valkey_instance \<Rightarrow> 'a op) \<Rightarrow> 'a op" where
  "with_inst k = (\<lambda>s. k (os_inst s) s)"

definition put_inst :: "valkey_instance \<Rightarrow> unit op" where
  "put_inst i = (\<lambda>s. (Inr (), s\<lparr>os_inst := i\<rparr>))"

definition modify_status :: "(instance_status \<Rightarrow> instance_status) \<Rightarrow> unit op" where
  "modify_status f = (\<lambda>s. (Inr (), s\<lparr>os_inst := update_vi_status f (os_inst s)\<rparr>))"

definition do_call :: "call \<Rightarrow> (call list \<Rightarrow> err + 'a) \<Rightarrow> 'a op" where
  "do_call c f = (\<lambda>s. (f (os_hist s), s\<lparr>os_hist := os_hist s @ [c]\<rparr>))"

definition when_op :: "bool \<Rightarrow> unit op \<Rightarrow> unit op" where
  "when_op b m = (if b then m else ret ())"

fun for_each :: "('a \<Rightarrow> 'b option op) \<Rightarrow> 'a list \<Rightarrow> 'b option op" where
  \<comment> \<open>a loop whose body may return from the function: \<open>Some r\<close> returns, \<open>None\<close> continues\<close>
  "for_each f [] = ret None"
| "for_each f (x # xs) =
     bnd (f x) (\<lambda>r. case r of None \<Rightarrow> for_each f xs | Some y \<Rightarrow> ret (Some y))"

fun map_op :: "('a \<Rightarrow> 'b op) \<Rightarrow> 'a list \<Rightarrow> 'b list op" where
  "map_op f [] = ret []"
| "map_op f (x # xs) = bnd (f x) (\<lambda>y. bnd (map_op f xs) (\<lambda>ys. ret (y # ys)))"

definition start :: "valkey_instance \<Rightarrow> op_state" where
  "start i = \<lparr>os_inst = i, os_hist = []\<rparr>"

text \<open>What a pass over the instance \<open>i\<close> does: its outcome, its calls, the object it ends with.\<close>

definition outcome :: "'a op \<Rightarrow> valkey_instance \<Rightarrow> err + 'a" where
  "outcome m i = fst (m (start i))"

definition calls :: "'a op \<Rightarrow> valkey_instance \<Rightarrow> call list" where
  "calls m i = os_hist (snd (m (start i)))"

definition final_inst :: "'a op \<Rightarrow> valkey_instance \<Rightarrow> valkey_instance" where
  "final_inst m i = os_inst (snd (m (start i)))"

section \<open>The calls the handlers make\<close>

definition now_op :: "env \<Rightarrow> time op" where
  "now_op e = do_call ReadClock (\<lambda>h. Inr (answer_clock e h))"

definition get_pod :: "env \<Rightarrow> reader \<Rightarrow> string \<Rightarrow> kube_pod op" where
  "get_pod e r name = do_call (GetPod r name) (\<lambda>h. answer_get_pod e h r name)"

definition get_node :: "env \<Rightarrow> reader \<Rightarrow> string \<Rightarrow> kube_node op" where
  "get_node e r name = do_call (GetNode r name) (\<lambda>h. answer_get_node e h r name)"

definition get_secret :: "env \<Rightarrow> reader \<Rightarrow> string \<Rightarrow> kube_secret op" where
  "get_secret e r name = do_call (GetSecret r name) (\<lambda>h. answer_get_secret e h r name)"

definition patch_pod :: "env \<Rightarrow> kube_pod \<Rightarrow> kube_pod \<Rightarrow> unit op" where
  "patch_pod e b a = do_call (PatchPod b a) (\<lambda>h. answer_patch_pod e h b a)"

definition delete_pod :: "env \<Rightarrow> kube_pod \<Rightarrow> int \<Rightarrow> unit op" where
  "delete_pod e p grace = do_call (DeletePod p grace) (\<lambda>h. answer_delete_pod e h p grace)"

definition record_event :: "env \<Rightarrow> string \<Rightarrow> string \<Rightarrow> unit op" where
  "record_event e reason action =
     when_op (recorder_set e) (do_call (RecordEvent reason action) (\<lambda>h. Inr ()))"

text \<open>\<open>r.Patch(ctx, instance, MergeFrom(before))\<close> with the object's metadata changed by \<open>f\<close>.\<close>

definition patch_instance :: "env \<Rightarrow> (valkey_instance \<Rightarrow> valkey_instance) \<Rightarrow> unit op" where
  "patch_instance e f =
     bnd get_inst (\<lambda>before.
     bnd (put_inst (f before)) (\<lambda>_.
     bnd (do_call (PatchInstance before (f before)) (\<lambda>h. answer_patch_instance e h before (f before)))
       put_inst))"

section \<open>updateStatus\<close>

text \<open>
  \<open>updateStatusChecked\<close>: mutate the object, compare the statuses, patch with the optimistic lock,
  and on a conflict read the object again and start over, at most \<open>retry_steps\<close> times. The object
  stays mutated when the patch fails. \<open>mutate\<close> threads a value of type \<open>'c\<close> through the attempts:
  what the closure shares with the code around it by reference.
\<close>

definition retry_on_conflict :: "(('c \<Rightarrow> bool op) option) \<Rightarrow> 'c \<Rightarrow> err \<Rightarrow> bool op" where
  "retry_on_conflict again c er =
     (case again of
        Some f \<Rightarrow> if is_conflict er then f c else fail er
      | None \<Rightarrow> fail er)"

definition update_attempt ::
  "env \<Rightarrow> bool \<Rightarrow> ('c \<Rightarrow> 'c op) \<Rightarrow> (('c \<Rightarrow> bool op) option) \<Rightarrow> 'c \<Rightarrow> bool op" where
  "update_attempt e first mutate again c =
     on_err (if first then ret ()
             else bnd (do_call GetInstance (answer_get_instance e)) put_inst)
       (retry_on_conflict again c) (\<lambda>_.
     bnd get_inst (\<lambda>before.
     on_err (mutate c) (retry_on_conflict again c) (\<lambda>c'.
     bnd get_inst (\<lambda>after.
     if vi_status before = vi_status after then ret False
     else on_err (do_call (PatchStatus before after) (\<lambda>h. answer_patch_status e h before after))
            (retry_on_conflict again c')
            (\<lambda>server. bnd (put_inst server) (\<lambda>_. ret True))))))"

fun update_attempts ::
  "env \<Rightarrow> nat \<Rightarrow> bool \<Rightarrow> ('c \<Rightarrow> 'c op) \<Rightarrow> 'c \<Rightarrow> bool op" where
  "update_attempts e 0 first mutate c = fail (Plain ''timed out waiting for the condition'')"
| "update_attempts e (Suc n) first mutate c =
     update_attempt e first mutate
       (if n = 0 then None else Some (update_attempts e n False mutate)) c"

definition update_status_captured :: "env \<Rightarrow> ('c \<Rightarrow> 'c op) \<Rightarrow> 'c \<Rightarrow> bool op" where
  "update_status_captured e mutate c =
     on_err (update_attempts e (retry_steps e) True mutate c) (\<lambda>er. fail (Wrapped er)) ret"

definition update_status_checked :: "env \<Rightarrow> unit op \<Rightarrow> bool op" where
  "update_status_checked e mutate = update_status_captured e (\<lambda>_. mutate) ()"

definition update_status :: "env \<Rightarrow> (valkey_instance \<Rightarrow> instance_status \<Rightarrow> instance_status) \<Rightarrow> bool op" where
  "update_status e f =
     update_status_checked e (with_inst (\<lambda>i. modify_status (f i)))"

text \<open>The same with clock readings inside the closure.\<close>

definition update_status_now ::
  "env \<Rightarrow> (time \<Rightarrow> valkey_instance \<Rightarrow> instance_status \<Rightarrow> instance_status) \<Rightarrow> bool op" where
  "update_status_now e f =
     update_status_checked e (bnd (now_op e) (\<lambda>t. with_inst (\<lambda>i. modify_status (f t i))))"

text \<open>
  The same for a closure that may dereference nil: \<open>None\<close> is the run-time panic.
\<close>

definition apply_partial :: "(valkey_instance \<Rightarrow> instance_status \<Rightarrow> instance_status option) \<Rightarrow> unit op" where
  "apply_partial f = with_inst (\<lambda>i. case f i (vi_status i) of
     None \<Rightarrow> fail Panic | Some st \<Rightarrow> modify_status (\<lambda>_. st))"

definition update_status_partial ::
  "env \<Rightarrow> (valkey_instance \<Rightarrow> instance_status \<Rightarrow> instance_status option) \<Rightarrow> bool op" where
  "update_status_partial e f = update_status_checked e (apply_partial f)"

definition update_status_partial_now ::
  "env \<Rightarrow> (time \<Rightarrow> valkey_instance \<Rightarrow> instance_status \<Rightarrow> instance_status option) \<Rightarrow> bool op" where
  "update_status_partial_now e f =
     update_status_checked e (bnd (now_op e) (\<lambda>t. apply_partial (f t)))"

text \<open>A closure that returns early or else reads the clock.\<close>

definition update_status_when_now ::
  "env \<Rightarrow> (valkey_instance \<Rightarrow> bool) \<Rightarrow> (time \<Rightarrow> valkey_instance \<Rightarrow> instance_status \<Rightarrow> instance_status) \<Rightarrow> bool op" where
  "update_status_when_now e guard f =
     update_status_checked e (with_inst (\<lambda>i.
       if guard i then bnd (now_op e) (\<lambda>t. modify_status (f t i)) else ret ()))"

section \<open>Results\<close>

text \<open>\<open>ctrl.Result\<close> is its \<open>RequeueAfter\<close>; the zero result is \<open>0\<close>.\<close>

type_synonym result = duration

definition requeue_if :: "bool \<Rightarrow> result" where
  "requeue_if changed = (if changed then 1 else 0)"

definition earlier_requeue :: "result \<Rightarrow> result \<Rightarrow> result" where
  "earlier_requeue l r = (if l \<le> 0 then r else if r \<le> 0 \<or> l \<le> r then l else r)"

definition requeue_for_observation :: "result \<Rightarrow> result" where
  "requeue_for_observation r = (if r \<le> 0 \<or> r > HealthCheckInterval then HealthCheckInterval else r)"

definition result_requests_immediate_requeue :: "result \<Rightarrow> bool" where
  "result_requests_immediate_requeue r \<longleftrightarrow> 0 < r \<and> r < HealthCheckInterval"

end
