(* ===== verification/Trace_Rules.thy ===== *)
theory Trace_Rules
  imports Runtime
begin

text \<open>
  A calculus for operations: which outcomes an operation can end with (\<open>ends\<close>) and which calls it
  can make (\<open>emits\<close>). The introduction rules follow the shape of the handlers, so a claim about
  every call of a handler is proved by \<open>auto intro!: emits_intros\<close>. The last section lifts facts
  about a closure to \<open>updateStatus\<close> with all its retries.
\<close>

section \<open>How an operation ends\<close>

text \<open>
  \<open>ends m i r j\<close>: started on the object \<open>i\<close> after some history, \<open>m\<close> can finish with the outcome \<open>r\<close>
  and the object \<open>j\<close>. \<open>emits P m i\<close>: every call that \<open>m\<close> adds to the history satisfies \<open>P\<close>.
\<close>

definition ends :: "'a op \<Rightarrow> valkey_instance \<Rightarrow> err + 'a \<Rightarrow> valkey_instance \<Rightarrow> bool" where
  "ends m i r j \<longleftrightarrow> (\<exists>s s'. os_inst s = i \<and> m s = (r, s') \<and> os_inst s' = j)"

definition emits :: "(call \<Rightarrow> bool) \<Rightarrow> 'a op \<Rightarrow> valkey_instance \<Rightarrow> bool" where
  "emits P m i \<longleftrightarrow> (\<forall>s. os_inst s = i \<longrightarrow>
     (\<exists>cs. os_hist (snd (m s)) = os_hist s @ cs \<and> list_all P cs))"

lemma start_simps [simp]: "os_inst (start i) = i" "os_hist (start i) = []"
  by (simp_all add: start_def)

lemma emits_calls:
  assumes "emits P m i" and "c \<in> set (calls m i)"
  shows "P c"
proof -
  have "list_all P (os_hist (snd (m (start i))))" using assms(1) start_simps [of i]
    unfolding emits_def by fastforce
  with assms(2) show ?thesis by (simp add: calls_def list_all_iff)
qed

lemma emits_all: "emits P m i \<Longrightarrow> list_all P (calls m i)"
  by (auto simp: list_all_iff dest: emits_calls)

lemma ends_outcome: "ends m i (outcome m i) (final_inst m i)"
  unfolding ends_def outcome_def final_inst_def
  by (rule exI [of _ "start i"], rule exI [of _ "snd (m (start i))"]) simp

lemma ends_ret [simp]: "ends (ret x) i r j \<longleftrightarrow> r = Inr x \<and> j = i"
  by (auto simp: ends_def ret_def intro: exI [of _ "start i"])

lemma ends_with_inst [simp]: "ends (with_inst k) i r j \<longleftrightarrow> ends (k i) i r j"
  by (auto simp: ends_def with_inst_def)

lemma emits_with_inst [emits_intros]: "emits P (k i) i \<Longrightarrow> emits P (with_inst k) i"
  by (simp add: emits_def with_inst_def)

lemma ends_fail [simp]: "ends (fail er) i r j \<longleftrightarrow> r = Inl er \<and> j = i"
  by (auto simp: ends_def fail_def intro: exI [of _ "start i"])

lemma ends_get_inst [simp]: "ends get_inst i r j \<longleftrightarrow> r = Inr i \<and> j = i"
  by (auto simp: ends_def get_inst_def intro: exI [of _ "start i"])

lemma ends_put_inst [simp]: "ends (put_inst x) i r j \<longleftrightarrow> r = Inr () \<and> j = x"
  by (auto simp: ends_def put_inst_def intro: exI [of _ "start i"])

lemma ends_modify_status [simp]:
  "ends (modify_status f) i r j \<longleftrightarrow> r = Inr () \<and> j = update_vi_status f i"
  by (auto simp: ends_def modify_status_def intro: exI [of _ "start i"])

lemma ends_call [simp]: "ends (do_call c f) i r j \<longleftrightarrow> j = i \<and> (\<exists>h. f h = r)"
proof
  assume "ends (do_call c f) i r j"
  then show "j = i \<and> (\<exists>h. f h = r)" by (auto simp: ends_def do_call_def)
next
  assume "j = i \<and> (\<exists>h. f h = r)"
  then obtain h where "j = i" "f h = r" by blast
  then show "ends (do_call c f) i r j"
    by (auto simp: ends_def do_call_def intro!: exI [of _ "\<lparr>os_inst = i, os_hist = h\<rparr>"])
qed

lemma ends_on_err:
  assumes "ends (on_err m h k) i r j"
  shows "(\<exists>x i'. ends m i (Inr x) i' \<and> ends (k x) i' r j) \<or>
    (\<exists>er i'. ends m i (Inl er) i' \<and> er \<noteq> Panic \<and> ends (h er) i' r j) \<or>
    (ends m i (Inl Panic) j \<and> r = Inl Panic)"
proof -
  from assms obtain s s' where s: "os_inst s = i" "on_err m h k s = (r, s')" "os_inst s' = j"
    by (auto simp: ends_def)
  obtain r1 s1 where m: "m s = (r1, s1)" by (cases "m s")
  then have e1: "ends m i r1 (os_inst s1)" using s(1) by (auto simp: ends_def)
  show ?thesis
  proof (cases r1)
    case (Inr x)
    with s m have "k x s1 = (r, s')" by (simp add: on_err_def)
    then have "ends (k x) (os_inst s1) r j" using s(3) by (auto simp: ends_def)
    with e1 Inr show ?thesis by blast
  next
    case (Inl er)
    show ?thesis
    proof (cases "er = Panic")
      case True
      with s m Inl have "r = Inl Panic" "s' = s1" by (simp_all add: on_err_def)
      with e1 Inl True s(3) show ?thesis by simp
    next
      case False
      with s m Inl have "h er s1 = (r, s')" by (simp add: on_err_def)
      then have "ends (h er) (os_inst s1) r j" using s(3) by (auto simp: ends_def)
      with e1 Inl False show ?thesis by blast
    qed
  qed
qed

lemma ends_on_errE:
  assumes "ends (on_err m h k) i r j"
  obtains x i' where "ends m i (Inr x) i'" "ends (k x) i' r j"
    | er i' where "ends m i (Inl er) i'" "er \<noteq> Panic" "ends (h er) i' r j"
    | "ends m i (Inl Panic) j" "r = Inl Panic"
  using ends_on_err [OF assms] by blast

lemma ends_bndE:
  assumes "ends (bnd m k) i r j"
  obtains x i' where "ends m i (Inr x) i'" "ends (k x) i' r j"
    | er where "ends m i (Inl er) j" "r = Inl er"
proof -
  from assms have "ends (on_err m fail k) i r j" by (simp add: bnd_def)
  then show thesis
  proof (rule ends_on_errE)
    fix x i' assume "ends m i (Inr x) i'" "ends (k x) i' r j"
    then show thesis by (rule that(1))
  next
    fix er i' assume "ends m i (Inl er) i'" "ends (fail er) i' r j"
    then show thesis using that(2) by simp
  next
    assume "ends m i (Inl Panic) j" "r = Inl Panic"
    then show thesis by (rule that(2))
  qed
qed

lemma emits_ret [emits_intros]: "emits P (ret x) i"
  by (simp add: emits_def ret_def)

lemma emits_fail [emits_intros]: "emits P (fail er) i"
  by (simp add: emits_def fail_def)

lemma emits_get_inst [emits_intros]: "emits P get_inst i"
  by (simp add: emits_def get_inst_def)

lemma emits_put_inst [emits_intros]: "emits P (put_inst x) i"
  by (simp add: emits_def put_inst_def)

lemma emits_modify_status [emits_intros]: "emits P (modify_status f) i"
  by (simp add: emits_def modify_status_def)

lemma emits_call [emits_intros]: "P c \<Longrightarrow> emits P (do_call c f) i"
  by (simp add: emits_def do_call_def)

lemma emits_on_err [emits_intros]:
  assumes "emits P m i"
    and "\<And>er j. ends m i (Inl er) j \<Longrightarrow> er \<noteq> Panic \<Longrightarrow> emits P (h er) j"
    and "\<And>x j. ends m i (Inr x) j \<Longrightarrow> emits P (k x) j"
  shows "emits P (on_err m h k) i"
  unfolding emits_def
proof (intro allI impI)
  fix s :: op_state
  assume s: "os_inst s = i"
  obtain r1 s1 where m: "m s = (r1, s1)" by (cases "m s")
  then have e1: "ends m i r1 (os_inst s1)" using s by (auto simp: ends_def)
  obtain cs where cs: "os_hist s1 = os_hist s @ cs" "list_all P cs"
    using assms(1) s m unfolding emits_def by (metis snd_conv)
  have more: "\<exists>cs. os_hist (snd (n s1)) = os_hist s @ cs \<and> list_all P cs"
    if "emits P n (os_inst s1)" for n :: "'b op"
    using that cs unfolding emits_def by (metis append.assoc list_all_append)
  show "\<exists>cs. os_hist (snd (on_err m h k s)) = os_hist s @ cs \<and> list_all P cs"
  proof (cases r1)
    case (Inr x)
    then have "emits P (k x) (os_inst s1)" using assms(3) e1 by blast
    then show ?thesis using more m Inr by (simp add: on_err_def)
  next
    case (Inl er)
    show ?thesis
    proof (cases "er = Panic")
      case True with cs m Inl show ?thesis by (simp add: on_err_def)
    next
      case False
      then have "emits P (h er) (os_inst s1)" using assms(2) e1 Inl by blast
      then show ?thesis using more m Inl False by (simp add: on_err_def)
    qed
  qed
qed

lemma emits_bnd [emits_intros]:
  assumes "emits P m i" and "\<And>x j. ends m i (Inr x) j \<Longrightarrow> emits P (k x) j"
  shows "emits P (bnd m k) i"
  unfolding bnd_def using assms by (intro emits_on_err emits_fail)

lemma emits_if [emits_intros]:
  "(b \<Longrightarrow> emits P m i) \<Longrightarrow> (\<not> b \<Longrightarrow> emits P n i) \<Longrightarrow> emits P (if b then m else n) i"
  by simp

lemma emits_case_option [emits_intros]:
  "(x = None \<Longrightarrow> emits P m i) \<Longrightarrow> (\<And>y. x = Some y \<Longrightarrow> emits P (n y) i) \<Longrightarrow>
   emits P (case x of None \<Rightarrow> m | Some y \<Rightarrow> n y) i"
  by (cases x) auto

lemma emits_case_prod [emits_intros]:
  "(\<And>a b. x = (a, b) \<Longrightarrow> emits P (m a b) i) \<Longrightarrow> emits P (case x of (a, b) \<Rightarrow> m a b) i"
  by (cases x) auto

lemma emits_let [emits_intros]: "(\<And>y. y = x \<Longrightarrow> emits P (m y) i) \<Longrightarrow> emits P (Let x m) i"
  by simp

lemma emits_when [emits_intros]: "(b \<Longrightarrow> emits P m i) \<Longrightarrow> emits P (when_op b m) i"
  by (simp add: when_op_def emits_ret)

lemma ends_when [simp]:
  "ends (when_op b m) i r j \<longleftrightarrow> (if b then ends m i r j else r = Inr () \<and> j = i)"
  by (simp add: when_op_def)

lemma emits_mono: "emits P m i \<Longrightarrow> (\<And>c. P c \<Longrightarrow> Q c) \<Longrightarrow> emits Q m i"
  unfolding emits_def by (metis list.pred_mono_strong)

subsection \<open>Loops\<close>

lemma emits_for_each:
  assumes "\<And>x. x \<in> set xs \<Longrightarrow> emits P (f x) i"
    and "\<And>x r j. x \<in> set xs \<Longrightarrow> ends (f x) i (Inr None) j \<Longrightarrow> j = i"
  shows "emits P (for_each f xs) i"
  using assms
proof (induction xs)
  case Nil
  show ?case by (simp add: emits_ret)
next
  case (Cons x xs)
  show ?case
    unfolding for_each.simps
  proof (rule emits_bnd)
    show "emits P (f x) i" using Cons.prems(1) by simp
  next
    fix r j assume e: "ends (f x) i (Inr r) j"
    show "emits P (case r of None \<Rightarrow> for_each f xs | Some y \<Rightarrow> ret (Some y)) j"
    proof (cases r)
      case None
      then have ji: "j = i" using e Cons.prems(2) by auto
      have "emits P (for_each f xs) i"
        by (rule Cons.IH) (use Cons.prems in auto)
      then show ?thesis using None ji by simp
    next
      case (Some y)
      then show ?thesis by (simp add: emits_ret)
    qed
  qed
qed

text \<open>A loop that runs to its end has passed every element without returning.\<close>

lemma ends_for_each_None:
  assumes "ends (for_each f xs) i (Inr None) j"
    and "\<And>x r j. x \<in> set xs \<Longrightarrow> ends (f x) i (Inr None) j \<Longrightarrow> j = i"
  shows "j = i \<and> (\<forall>x\<in>set xs. ends (f x) i (Inr None) i)"
  using assms
proof (induction xs)
  case Nil
  then show ?case by simp
next
  case (Cons x xs)
  from Cons.prems(1) obtain r i' where 1: "ends (f x) i (Inr r) i'"
    and 2: "ends (case r of None \<Rightarrow> for_each f xs | Some y \<Rightarrow> ret (Some y)) i' (Inr None) j"
    by (auto elim: ends_bndE)
  have "r = None" using 2 by (cases r) auto
  moreover have "i' = i" using 1 \<open>r = None\<close> Cons.prems(2) by auto
  ultimately show ?case using 1 2 Cons.IH Cons.prems(2) by auto
qed

section \<open>Status updates\<close>

definition rereads :: "env \<Rightarrow> valkey_instance \<Rightarrow> bool" where
  "rereads e b \<longleftrightarrow> (\<exists>h. answer_get_instance e h = Inr b)"

lemma emits_retry:
  assumes "\<And>f. again = Some f \<Longrightarrow> emits P (f c) i"
  shows "emits P (retry_on_conflict again c er) i"
  using assms by (auto simp: retry_on_conflict_def emits_fail split: option.splits)

lemma emits_update_attempt:
  assumes reread: "P GetInstance"
    and body: "\<And>c b. b = i \<or> rereads e b \<Longrightarrow> emits P (mutate c) b"
    and patch: "\<And>c c' b a. b = i \<or> rereads e b \<Longrightarrow> ends (mutate c) b (Inr c') a \<Longrightarrow>
      vi_status b \<noteq> vi_status a \<Longrightarrow> P (PatchStatus b a)"
    and again: "\<And>f c j. again = Some f \<Longrightarrow> emits P (f c) j"
    and start: "first \<longrightarrow> k = i"
  shows "emits P (update_attempt e first mutate again c) k"
proof -
  let ?read = "if first then ret () else bnd (do_call GetInstance (answer_get_instance e)) put_inst"
  have base: "b = i \<or> rereads e b" if "ends ?read k (Inr x) b" for x b
    using that start by (auto simp: rereads_def split: if_splits elim!: ends_bndE)
  show ?thesis
    unfolding update_attempt_def
  proof (rule emits_on_err)
    show "emits P ?read k" using reread by (auto intro!: emits_intros)
  next
    fix er j show "emits P (retry_on_conflict again c er) j" by (intro emits_retry again)
  next
    fix x j assume "ends ?read k (Inr x) j"
    then have B: "j = i \<or> rereads e j" by (rule base)
    show "emits P (bnd get_inst (\<lambda>before. on_err (mutate c) (retry_on_conflict again c)
        (\<lambda>c'. bnd get_inst (\<lambda>after. if vi_status before = vi_status after then ret False
          else on_err (do_call (PatchStatus before after) (\<lambda>h. answer_patch_status e h before after))
            (retry_on_conflict again c') (\<lambda>server. bnd (put_inst server) (\<lambda>_. ret True)))))) j"
      using body [OF B] patch [OF B] again
      by (auto intro!: emits_intros emits_retry)
  qed
qed

lemma emits_update_attempts:
  assumes "P GetInstance"
    and "\<And>c b. b = i \<or> rereads e b \<Longrightarrow> emits P (mutate c) b"
    and "\<And>c c' b a. b = i \<or> rereads e b \<Longrightarrow> ends (mutate c) b (Inr c') a \<Longrightarrow>
      vi_status b \<noteq> vi_status a \<Longrightarrow> P (PatchStatus b a)"
    and "first \<longrightarrow> k = i"
  shows "emits P (update_attempts e n first mutate c) k"
  using assms(4)
proof (induction n arbitrary: first c k)
  case 0
  show ?case by (simp add: emits_fail)
next
  case (Suc n)
  show ?case
    unfolding update_attempts.simps
  proof (rule emits_update_attempt [OF assms(1-3)])
    fix f c' j
    assume "(if n = 0 then None else Some (update_attempts e n False mutate)) = Some f"
    then have "f = update_attempts e n False mutate" by (simp split: if_splits)
    then show "emits P (f c') j" using Suc.IH [of False j c'] by simp
  qed (use Suc.prems in auto)
qed

lemma emits_update_captured:
  assumes "P GetInstance"
    and "\<And>c b. b = i \<or> rereads e b \<Longrightarrow> emits P (mutate c) b"
    and "\<And>c c' b a. b = i \<or> rereads e b \<Longrightarrow> ends (mutate c) b (Inr c') a \<Longrightarrow>
      vi_status b \<noteq> vi_status a \<Longrightarrow> P (PatchStatus b a)"
  shows "emits P (update_status_captured e mutate c) i"
  unfolding update_status_captured_def
  by (intro emits_intros emits_update_attempts [OF assms, of i]) simp_all

lemma emits_update_checked [emits_intros]:
  assumes "P GetInstance"
    and "\<And>b. b = i \<or> rereads e b \<Longrightarrow> emits P mutate b"
    and "\<And>b a. b = i \<or> rereads e b \<Longrightarrow> ends mutate b (Inr ()) a \<Longrightarrow>
      vi_status b \<noteq> vi_status a \<Longrightarrow> P (PatchStatus b a)"
  shows "emits P (update_status_checked e mutate) i"
  unfolding update_status_checked_def using assms by (intro emits_update_captured) auto

lemma emits_update_status [emits_intros]:
  assumes "P GetInstance"
    and "\<And>b. b = i \<or> rereads e b \<Longrightarrow> vi_status b \<noteq> f b (vi_status b) \<Longrightarrow>
      P (PatchStatus b (update_vi_status (f b) b))"
  shows "emits P (update_status e f) i"
  unfolding update_status_def using assms
  by (intro emits_update_checked) (auto intro!: emits_intros elim!: ends_bndE)

lemma emits_update_status_now [emits_intros]:
  assumes "P GetInstance" and "P ReadClock"
    and "\<And>t b. b = i \<or> rereads e b \<Longrightarrow> vi_status b \<noteq> f t b (vi_status b) \<Longrightarrow>
      P (PatchStatus b (update_vi_status (f t b) b))"
  shows "emits P (update_status_now e f) i"
  unfolding update_status_now_def now_op_def using assms
  by (intro emits_update_checked) (auto intro!: emits_intros elim!: ends_bndE)

lemma ends_apply_partial:
  "ends (apply_partial f) b (Inr x) a \<longleftrightarrow>
     (\<exists>st. f b (vi_status b) = Some st \<and> a = update_vi_status (\<lambda>_. st) b)"
  unfolding apply_partial_def
  by (auto split: option.splits)

lemma emits_apply_partial [emits_intros]: "emits P (apply_partial f) b"
  unfolding apply_partial_def by (intro emits_intros)

lemma emits_update_status_partial [emits_intros]:
  assumes "P GetInstance"
    and "\<And>b st. b = i \<or> rereads e b \<Longrightarrow> f b (vi_status b) = Some st \<Longrightarrow> vi_status b \<noteq> st \<Longrightarrow>
      P (PatchStatus b (update_vi_status (\<lambda>_. st) b))"
  shows "emits P (update_status_partial e f) i"
  unfolding update_status_partial_def using assms
  by (intro emits_update_checked) (auto simp: ends_apply_partial intro!: emits_intros)

lemma emits_update_status_partial_now [emits_intros]:
  assumes "P GetInstance" and "P ReadClock"
    and "\<And>t b st. b = i \<or> rereads e b \<Longrightarrow> f t b (vi_status b) = Some st \<Longrightarrow> vi_status b \<noteq> st \<Longrightarrow>
      P (PatchStatus b (update_vi_status (\<lambda>_. st) b))"
  shows "emits P (update_status_partial_now e f) i"
  unfolding update_status_partial_now_def now_op_def using assms
  by (intro emits_update_checked)
     (auto simp: ends_apply_partial intro!: emits_intros elim!: ends_bndE)

lemma emits_update_status_when_now [emits_intros]:
  assumes "P GetInstance" and "P ReadClock"
    and "\<And>t b. b = i \<or> rereads e b \<Longrightarrow> guard b \<Longrightarrow> vi_status b \<noteq> f t b (vi_status b) \<Longrightarrow>
      P (PatchStatus b (update_vi_status (f t b) b))"
  shows "emits P (update_status_when_now e guard f) i"
  unfolding update_status_when_now_def now_op_def using assms
  by (intro emits_update_checked) (auto intro!: emits_intros elim!: ends_bndE split: if_splits)

section \<open>The calls of the handlers\<close>

lemma emits_case_sum [emits_intros]:
  "(\<And>y. x = Inl y \<Longrightarrow> emits P (m y) i) \<Longrightarrow> (\<And>y. x = Inr y \<Longrightarrow> emits P (n y) i) \<Longrightarrow>
   emits P (case x of Inl y \<Rightarrow> m y | Inr y \<Rightarrow> n y) i"
  by (cases x) auto

lemma emits_get_secret [emits_intros]: "P (GetSecret r n) \<Longrightarrow> emits P (get_secret e r n) i"
  by (simp add: get_secret_def emits_call)

lemma ends_get_secret [simp]:
  "ends (get_secret e r n) i x j \<longleftrightarrow> j = i \<and> (\<exists>h. answer_get_secret e h r n = x)"
  by (simp add: get_secret_def)

lemma emits_get_pod [emits_intros]: "P (GetPod r n) \<Longrightarrow> emits P (get_pod e r n) i"
  by (simp add: get_pod_def emits_call)

lemma ends_get_pod [simp]:
  "ends (get_pod e r n) i x j \<longleftrightarrow> j = i \<and> (\<exists>h. answer_get_pod e h r n = x)"
  by (simp add: get_pod_def)

lemma emits_get_node [emits_intros]: "P (GetNode r n) \<Longrightarrow> emits P (get_node e r n) i"
  by (simp add: get_node_def emits_call)

lemma ends_get_node [simp]:
  "ends (get_node e r n) i x j \<longleftrightarrow> j = i \<and> (\<exists>h. answer_get_node e h r n = x)"
  by (simp add: get_node_def)

lemma emits_patch_pod [emits_intros]: "P (PatchPod b a) \<Longrightarrow> emits P (patch_pod e b a) i"
  by (simp add: patch_pod_def emits_call)

lemma ends_patch_pod [simp]:
  "ends (patch_pod e b a) i x j \<longleftrightarrow> j = i \<and> (\<exists>h. answer_patch_pod e h b a = x)"
  by (simp add: patch_pod_def)

lemma emits_delete_pod [emits_intros]: "P (DeletePod p g) \<Longrightarrow> emits P (delete_pod e p g) i"
  by (simp add: delete_pod_def emits_call)

lemma ends_delete_pod [simp]:
  "ends (delete_pod e p g) i x j \<longleftrightarrow> j = i \<and> (\<exists>h. answer_delete_pod e h p g = x)"
  by (simp add: delete_pod_def)

lemma emits_now_op [emits_intros]: "P ReadClock \<Longrightarrow> emits P (now_op e) i"
  by (simp add: now_op_def emits_call)

lemma ends_now_op [simp]:
  "ends (now_op e) i (Inr t) j \<longleftrightarrow> j = i \<and> (\<exists>h. answer_clock e h = t)"
  "ends (now_op e) i (Inl er) j \<longleftrightarrow> False"
  by (auto simp: now_op_def)

lemma emits_record_event [emits_intros]: "P (RecordEvent r a) \<Longrightarrow> emits P (record_event e r a) i"
  by (auto simp: record_event_def intro!: emits_intros)

lemma ends_record_event [simp]: "ends (record_event e r a) i x j \<longleftrightarrow> j = i \<and> x = Inr ()"
  by (auto simp: record_event_def)

section \<open>How a status update ends\<close>

text \<open>
  \<open>updateStatus\<close> reports a change only when the API server has accepted the patch of a status that
  the closure produced; it reports none only when the closure left the status as it was.
\<close>

definition update_ended :: "env \<Rightarrow> ('c \<Rightarrow> 'c op) \<Rightarrow> valkey_instance \<Rightarrow> bool \<Rightarrow> valkey_instance \<Rightarrow> bool" where
  "update_ended e mutate i changed j \<longleftrightarrow>
     (\<exists>b c c' a. (b = i \<or> rereads e b) \<and> ends (mutate c) b (Inr c') a \<and>
        (if changed then vi_status b \<noteq> vi_status a \<and> (\<exists>h. answer_patch_status e h b a = Inr j)
         else vi_status b = vi_status a \<and> j = a))"

lemma ends_retry_Inr:
  assumes "ends (retry_on_conflict again c er) i (Inr r) j"
  obtains f where "again = Some f" "ends (f c) i (Inr r) j"
  using assms by (auto simp: retry_on_conflict_def split: option.splits if_splits)

lemma ends_update_attempt:
  assumes "ends (update_attempt e first mutate again c0) k (Inr r) j"
    and "first \<longrightarrow> k = i"
    and again: "\<And>f c k. again = Some f \<Longrightarrow> ends (f c) k (Inr r) j \<Longrightarrow> update_ended e mutate i r j"
  shows "update_ended e mutate i r j"
  using assms(1) unfolding update_attempt_def
proof (cases rule: ends_on_errE)
  case (1 u b)
  have b: "b = i \<or> rereads e b"
    using 1(1) assms(2) by (auto simp: rereads_def split: if_splits elim!: ends_bndE)
  from 1(2) have *: "ends (on_err (mutate c0) (retry_on_conflict again c0) (\<lambda>c'. bnd get_inst (\<lambda>after.
      if vi_status b = vi_status after then ret False
      else on_err (do_call (PatchStatus b after) (\<lambda>h. answer_patch_status e h b after))
             (retry_on_conflict again c') (\<lambda>server. bnd (put_inst server) (\<lambda>_. ret True))))) b (Inr r) j"
    by (auto elim!: ends_bndE)
  from * show ?thesis
  proof (cases rule: ends_on_errE)
    case (1 c' a)
    show ?thesis
    proof (cases "vi_status b = vi_status a")
      case True
      then have "r = False" "j = a" using 1(2) by (auto elim!: ends_bndE)
      then show ?thesis using b 1(1) True unfolding update_ended_def by auto
    next
      case False
      then have "ends (on_err (do_call (PatchStatus b a) (\<lambda>h. answer_patch_status e h b a))
             (retry_on_conflict again c') (\<lambda>server. bnd (put_inst server) (\<lambda>_. ret True))) a (Inr r) j"
        using 1(2) by (auto elim!: ends_bndE)
      then show ?thesis
      proof (cases rule: ends_on_errE)
        case (1 server a')
        then have "r = True" "\<exists>h. answer_patch_status e h b a = Inr j" by (auto elim!: ends_bndE)
        then show ?thesis using b \<open>ends (mutate c0) b (Inr c') a\<close> False unfolding update_ended_def
          by (intro exI [of _ b] exI [of _ c0] exI [of _ c'] exI [of _ a]) auto
      next
        case (2 er a')
        then show ?thesis by (auto elim!: ends_retry_Inr intro: again)
      qed simp
    qed
  next
    case (2 er a)
    then show ?thesis by (auto elim!: ends_retry_Inr intro: again)
  qed simp
next
  case (2 er b)
  then show ?thesis by (auto elim!: ends_retry_Inr intro: again)
qed simp

lemma ends_update_attempts:
  assumes "ends (update_attempts e n first mutate c) k (Inr r) j" and "first \<longrightarrow> k = i"
  shows "update_ended e mutate i r j"
  using assms
proof (induction n arbitrary: first c k)
  case 0
  then show ?case by simp
next
  case (Suc n)
  from Suc.prems(1) have "ends (update_attempt e first mutate
      (if n = 0 then None else Some (update_attempts e n False mutate)) c) k (Inr r) j" by simp
  then show ?case
    by (rule ends_update_attempt [OF _ Suc.prems(2)]) (auto split: if_splits intro: Suc.IH)
qed

lemma ends_update_captured:
  "ends (update_status_captured e mutate c) i (Inr r) j \<Longrightarrow> update_ended e mutate i r j"
  unfolding update_status_captured_def
  by (auto elim!: ends_on_errE intro: ends_update_attempts)

text \<open>The object a handler goes on with: the one it was given, or one it has read again.\<close>

definition fresh :: "env \<Rightarrow> valkey_instance \<Rightarrow> valkey_instance \<Rightarrow> bool" where
  "fresh e i j \<longleftrightarrow> j = i \<or> rereads e j"

lemma fresh_refl [simp]: "fresh e i i"
  by (simp add: fresh_def)

lemma fresh_trans: "fresh e i j \<Longrightarrow> fresh e j k \<Longrightarrow> fresh e i k"
  by (auto simp: fresh_def)

text \<open>A closure that changes nothing but the status.\<close>

definition status_only :: "unit op \<Rightarrow> bool" where
  "status_only m \<longleftrightarrow> (\<forall>b a. ends m b (Inr ()) a \<longrightarrow> a = b\<lparr>vi_status := vi_status a\<rparr>)"

lemma status_only_modify [simp]: "status_only (modify_status f)"
  by (auto simp: status_only_def update_vi_status_def)

lemma status_only_with_inst [simp]: "(\<And>i. status_only (m i)) \<Longrightarrow> status_only (with_inst m)"
  by (simp add: status_only_def)

lemma status_only_partial [simp]: "status_only (apply_partial f)"
  by (auto simp: status_only_def ends_apply_partial update_vi_status_def)

lemma status_only_after:
  "(\<And>x i j. ends m i (Inr x) j \<Longrightarrow> j = i) \<Longrightarrow> (\<And>x. status_only (k x)) \<Longrightarrow> status_only (bnd m k)"
  by (fastforce simp: status_only_def elim!: ends_bndE)

lemma same_status_same: "a = b\<lparr>vi_status := vi_status a\<rparr> \<Longrightarrow> vi_status b = vi_status a \<Longrightarrow> a = (b :: valkey_instance)"
  by (metis valkey_instance.surjective valkey_instance.update_convs(12))

lemma ends_update_checked:
  assumes "ends (update_status_checked e m) i (Inr changed) j" and "status_only m"
  shows "if changed
    then \<exists>b a h. fresh e i b \<and> ends m b (Inr ()) a \<and> vi_status b \<noteq> vi_status a \<and>
           answer_patch_status e h b a = Inr j
    else fresh e i j \<and> ends m j (Inr ()) j"
proof -
  from ends_update_captured [OF assms(1) [unfolded update_status_checked_def]]
  obtain b a where ba: "fresh e i b" "ends m b (Inr ()) a"
    "if changed then vi_status b \<noteq> vi_status a \<and> (\<exists>h. answer_patch_status e h b a = Inr j)
         else vi_status b = vi_status a \<and> j = a"
    by (auto simp: update_ended_def fresh_def)
  show ?thesis
  proof (cases changed)
    case False
    then have "j = b" "a = j" using ba assms(2) same_status_same unfolding status_only_def by auto
    then show ?thesis using ba(1,2) False by simp
  next
    case True
    then show ?thesis using ba by auto
  qed
qed

lemma ends_update_status_False:
  "ends (update_status e f) i (Inr False) j \<Longrightarrow> fresh e i j"
  using ends_update_checked [of e "with_inst (\<lambda>i. modify_status (f i))" i False j]
  by (simp add: update_status_def)

lemma ends_update_status_unchanged:
  assumes "ends (update_status e f) i (Inr False) j"
  shows "f j (vi_status j) = vi_status j"
proof -
  have "update_vi_status g j = j \<Longrightarrow> g (vi_status j) = vi_status j" for g
    by (cases j) (simp add: update_vi_status_def)
  with ends_update_checked [of e "with_inst (\<lambda>i. modify_status (f i))" i False j] assms
  show ?thesis by (simp add: update_status_def)
qed

lemma ends_update_status_True:
  "ends (update_status e f) i (Inr True) j \<Longrightarrow>
   \<exists>b h. fresh e i b \<and> vi_status b \<noteq> f b (vi_status b) \<and>
     answer_patch_status e h b (update_vi_status (f b) b) = Inr j"
  using ends_update_checked [of e "with_inst (\<lambda>i. modify_status (f i))" i True j]
  by (auto simp: update_status_def)

section \<open>Runs of an update\<close>

text \<open>
  What one update does in a world that accepts its patch, or accepts the second after a conflict:
  for evaluating a pass on a concrete object.
\<close>

lemma update_status_first_attempt:
  assumes "f (os_inst s) (vi_status (os_inst s)) \<noteq> vi_status (os_inst s)" and "retry_steps e = Suc n"
    and "\<And>h b a. answer_patch_status e h b a = Inr a"
  shows "update_status e f s = (Inr True, \<lparr>os_inst = update_vi_status (f (os_inst s)) (os_inst s),
    os_hist = os_hist s @ [PatchStatus (os_inst s) (update_vi_status (f (os_inst s)) (os_inst s))]\<rparr>)"
  using assms(1)
  by (simp add: update_status_def update_status_checked_def update_status_captured_def assms(2,3)
      update_attempt_def on_err_def bnd_def with_inst_def modify_status_def get_inst_def ret_def do_call_def
      put_inst_def retry_on_conflict_def update_vi_status_def)

lemma update_status_now_first_attempt:
  assumes "f (answer_clock e (os_hist s)) (os_inst s) (vi_status (os_inst s)) \<noteq> vi_status (os_inst s)"
    and "retry_steps e = Suc n" and "\<And>h b a. answer_patch_status e h b a = Inr a"
  shows "update_status_now e f s = (Inr True,
    \<lparr>os_inst = update_vi_status (f (answer_clock e (os_hist s)) (os_inst s)) (os_inst s),
     os_hist = os_hist s @ [ReadClock, PatchStatus (os_inst s)
       (update_vi_status (f (answer_clock e (os_hist s)) (os_inst s)) (os_inst s))]\<rparr>)"
  using assms(1)
  by (simp add: update_status_now_def update_status_checked_def update_status_captured_def assms(2,3) now_op_def
      update_attempt_def on_err_def bnd_def with_inst_def modify_status_def get_inst_def ret_def do_call_def
      put_inst_def retry_on_conflict_def update_vi_status_def)

lemma update_status_when_now_first_attempt:
  fixes f :: "time \<Rightarrow> valkey_instance \<Rightarrow> instance_status \<Rightarrow> instance_status"
  assumes "guard (os_inst s)"
    and "f (answer_clock e (os_hist s)) (os_inst s) (vi_status (os_inst s)) \<noteq> vi_status (os_inst s)"
    and "retry_steps e = Suc n" and "\<And>h b a. answer_patch_status e h b a = Inr a"
  shows "update_status_when_now e guard f s = (Inr True,
    \<lparr>os_inst = update_vi_status (f (answer_clock e (os_hist s)) (os_inst s)) (os_inst s),
     os_hist = os_hist s @ [ReadClock, PatchStatus (os_inst s)
       (update_vi_status (f (answer_clock e (os_hist s)) (os_inst s)) (os_inst s))]\<rparr>)"
  using assms(1,2)
  by (simp add: update_status_when_now_def update_status_checked_def update_status_captured_def assms(3,4) now_op_def
      update_attempt_def on_err_def bnd_def with_inst_def modify_status_def get_inst_def ret_def do_call_def
      put_inst_def retry_on_conflict_def update_vi_status_def)

lemma update_status_second_attempt:
  assumes "\<And>h a. answer_patch_status e h i a = Inl (Kube KubeConflict)"
    and "\<And>h. answer_get_instance e h = Inr i'" and "\<And>h a. answer_patch_status e h i' a = Inr a"
    and "f i (vi_status i) \<noteq> vi_status i" and "f i' (vi_status i') \<noteq> vi_status i'"
    and "retry_steps e = Suc (Suc n)" and "os_inst s = i"
  shows "update_status e f s = (Inr True, \<lparr>os_inst = update_vi_status (f i') i',
    os_hist = os_hist s @ [PatchStatus i (update_vi_status (f i) i), GetInstance,
      PatchStatus i' (update_vi_status (f i') i')]\<rparr>)"
  using assms(4,5,7)
  by (simp add: update_status_def update_status_checked_def update_status_captured_def assms(1-3,6)
      update_attempt_def on_err_def bnd_def with_inst_def modify_status_def get_inst_def ret_def do_call_def
      put_inst_def retry_on_conflict_def update_vi_status_def)

end
