(* ===== verification/Processes.thy ===== *)
theory Processes
  imports Trace_Rules
begin

text \<open>
  Processes of an instance as the status records them: identity and lookup, the history of
  replaced processes, replication bookkeeping and the thresholds of failed observations. Sources:
  the pure functions of \<open>process_observation.go\<close>, \<open>process_health.go\<close>, \<open>process_termination.go\<close>,
  \<open>failover.go\<close> and \<open>topology.go\<close>.
\<close>

section \<open>Identity and lookup\<close>

definition process_identity :: "node_status \<Rightarrow> process_identity" where
  "process_identity p =
     \<lparr>id_pod_uid = ns_pod_uid p, id_container_id = ns_container_id p, id_run_id = ns_run_id p,
      id_node_name = ns_node_name p, id_node_uid = ns_node_uid p\<rparr>"

definition same_identity :: "process_identity \<Rightarrow> process_identity \<Rightarrow> bool" where
  "same_identity l r \<longleftrightarrow> l = r"

definition same_container_process :: "node_status \<Rightarrow> node_status \<Rightarrow> bool" where
  "same_container_process c ob \<longleftrightarrow>
     ns_ordinal c = ns_ordinal ob \<and> ns_pod_uid c = ns_pod_uid ob \<and>
     ns_container_id c = ns_container_id ob \<and> ns_node_name c = ns_node_name ob \<and>
     ns_node_uid c = ns_node_uid ob"

definition same_process :: "node_status \<Rightarrow> node_status \<Rightarrow> bool" where
  "same_process c ob \<longleftrightarrow> same_container_process c ob \<and> ns_run_id c = ns_run_id ob"

definition node_status_at_ordinal :: "node_status list \<Rightarrow> int \<Rightarrow> node_status option" where
  "node_status_at_ordinal nodes ordinal = List.find (\<lambda>n. ns_ordinal n = ordinal) nodes"

definition known_process :: "instance_status \<Rightarrow> process_identity \<Rightarrow> node_status option" where
  "known_process st ident =
     List.find (\<lambda>p. same_identity (process_identity p) ident) (st_nodes st @ st_previous_processes st)"

definition has_unterminated_previous_process :: "node_status list \<Rightarrow> bool" where
  "has_unterminated_previous_process ps \<longleftrightarrow> list_ex (\<lambda>p. ns_termination p = None) ps"

definition set_primary_identity :: "node_status \<Rightarrow> instance_status \<Rightarrow> instance_status" where
  "set_primary_identity p st = st\<lparr>st_primary_ordinal := Some (ns_ordinal p),
     st_primary_pod_uid := ns_pod_uid p, st_primary_container_id := ns_container_id p,
     st_primary_run_id := ns_run_id p, st_primary_node_name := ns_node_name p,
     st_primary_node_uid := ns_node_uid p\<rparr>"

text \<open>The assignments that forget the primary, repeated in three handlers.\<close>

definition clear_primary_identity :: "instance_status \<Rightarrow> instance_status" where
  "clear_primary_identity st = st\<lparr>st_primary_ordinal := None,
     st_primary_pod_uid := '''', st_primary_container_id := '''',
     st_primary_run_id := '''', st_primary_node_name := '''', st_primary_node_uid := ''''\<rparr>"

section \<open>Accepted configuration\<close>

text \<open>
  \<open>Reconcile\<close> runs the handlers only after it has tested \<open>AcceptedConfiguration\<close> for nil. A handler
  that dereferences it starts with \<open>deref_accepted\<close>, which panics on nil; the pure functions read
  it through \<open>accepted_of\<close>, whose nil case is the struct's zero value.
\<close>

definition zero_accepted :: accepted_configuration where
  "zero_accepted = \<lparr>ac_instance_id = '''', ac_slug = '''', ac_mode = ValkeyModeOther '''', ac_vcpu = 0,
     ac_ram_gb = 0, ac_public_port = 0, ac_whitelist = \<lparr>wl_is_enabled = False, wl_cidrs = []\<rparr>,
     ac_password_version = 0, ac_desired_generation = 0\<rparr>"

definition accepted_of :: "instance_status \<Rightarrow> accepted_configuration" where
  "accepted_of st = (case st_accepted st of None \<Rightarrow> zero_accepted | Some ac \<Rightarrow> ac)"

definition deref_accepted :: "accepted_configuration op" where
  "deref_accepted = with_inst (\<lambda>i. case st_accepted (vi_status i) of
     None \<Rightarrow> fail Panic | Some ac \<Rightarrow> ret ac)"

definition accepted_mode_is :: "instance_status \<Rightarrow> valkey_mode \<Rightarrow> bool" where
  "accepted_mode_is st m = (case st_accepted st of None \<Rightarrow> False | Some ac \<Rightarrow> ac_mode ac = m)"

definition expected_process_count :: "valkey_instance \<Rightarrow> int" where
  "expected_process_count i = (if accepted_mode_is (vi_status i) ValkeyModeHA then 3 else 1)"

definition process_ordinals :: "valkey_instance \<Rightarrow> int list" where
  "process_ordinals i = [0..expected_process_count i - 1]"

text \<open>\<open>fmt.Sprintf("%s-%d", slug, ordinal)\<close>.\<close>

definition pod_key :: "string \<Rightarrow> int \<Rightarrow> string" where
  "pod_key slug ordinal = slug @ ''-'' @ show_int ordinal"

section \<open>The primary\<close>

definition primary_identity_matches :: "valkey_instance \<Rightarrow> node_status \<Rightarrow> bool" where
  "primary_identity_matches i p =
     (let st = vi_status i;
          legacy_single = accepted_mode_is st ValkeyModeSingle \<and>
            (st_primary_ordinal st = None \<and> st_primary_pod_uid st = '''' \<and> st_primary_container_id st = '''' \<or>
             st_primary_run_id st = '''' \<and> st_primary_node_name st = '''' \<and> st_primary_node_uid st = '''')
      in if legacy_single then ns_ordinal p = 0
         else st_primary_ordinal st = Some (ns_ordinal p) \<and>
              st_primary_pod_uid st = ns_pod_uid p \<and>
              st_primary_container_id st = ns_container_id p \<and>
              st_primary_run_id st = ns_run_id p \<and>
              st_primary_node_name st = ns_node_name p \<and>
              st_primary_node_uid st = ns_node_uid p)"

definition selected_primary_ordinal :: "valkey_instance \<Rightarrow> int option" where
  "selected_primary_ordinal i =
     (case st_primary_ordinal (vi_status i) of
        Some n \<Rightarrow> Some n
      | None \<Rightarrow> if accepted_mode_is (vi_status i) ValkeyModeSingle then Some 0 else None)"

definition initial_primary_replacement_safe :: "valkey_instance \<Rightarrow> node_status \<Rightarrow> bool" where
  "initial_primary_replacement_safe i current =
     (let st = vi_status i in
      if st_primary_ordinal st \<noteq> Some (ns_ordinal current) then False
      else case List.find (\<lambda>p. ns_ordinal p = ns_ordinal current \<and>
               ns_pod_uid p = st_primary_pod_uid st \<and>
               ns_container_id p = st_primary_container_id st \<and>
               ns_node_name p = st_primary_node_name st \<and>
               ns_node_uid p = st_primary_node_uid st \<and>
               ns_run_id p = st_primary_run_id st) (st_previous_processes st) of
             Some p \<Rightarrow> ns_termination p \<noteq> None
           | None \<Rightarrow> False)"

text \<open>\<open>failoverPrimaryProcess\<close>: the process the status names as the primary.\<close>

definition primary_identity :: "instance_status \<Rightarrow> process_identity" where
  "primary_identity st =
     \<lparr>id_pod_uid = st_primary_pod_uid st, id_container_id = st_primary_container_id st,
      id_run_id = st_primary_run_id st, id_node_name = st_primary_node_name st,
      id_node_uid = st_primary_node_uid st\<rparr>"

definition failover_primary_process :: "valkey_instance \<Rightarrow> node_status option" where
  "failover_primary_process i =
     (if st_primary_ordinal (vi_status i) = None then None
      else known_process (vi_status i) (primary_identity (vi_status i)))"

section \<open>Current and previous processes\<close>

text \<open>\<open>int(left.Ordinal - right.Ordinal)\<close>: the difference is taken in \<open>int32\<close>.\<close>

definition compare_ordinals :: "node_status \<Rightarrow> node_status \<Rightarrow> int" where
  "compare_ordinals l r = wrap32 (ns_ordinal l - ns_ordinal r)"

definition replace_node_status :: "node_status list \<Rightarrow> node_status \<Rightarrow> node_status list" where
  "replace_node_status nodes ob =
     (let replaced = list_ex (\<lambda>n. ns_ordinal n = ns_ordinal ob) nodes;
          result = map (\<lambda>n. if ns_ordinal n = ns_ordinal ob then ob else n) nodes
      in sort_func compare_ordinals (if replaced then result else result @ [ob]))"

fun append_previous_process :: "node_status list \<Rightarrow> node_status \<Rightarrow> node_status list" where
  "append_previous_process [] p = [p]"
| "append_previous_process (q # qs) p =
     (if same_process q p then p # qs else q # append_previous_process qs p)"

definition record_current_process ::
  "node_status \<Rightarrow> process_termination option \<Rightarrow> instance_status \<Rightarrow> instance_status" where
  "record_current_process observed prior_termination st =
     (case node_status_at_ordinal (st_nodes st) (ns_ordinal observed) of
        Some current \<Rightarrow>
          if same_process current observed
          then st\<lparr>st_nodes := replace_node_status (st_nodes st)
                    (observed\<lparr>ns_termination := ns_termination current\<rparr>)\<rparr>
          else
            (let current' = (if ns_termination current = None \<and> prior_termination \<noteq> None
                             then current\<lparr>ns_termination := prior_termination\<rparr> else current)
             in st\<lparr>st_previous_processes := append_previous_process (st_previous_processes st) current',
                   st_nodes := replace_node_status (st_nodes st) observed\<rparr>)
      | None \<Rightarrow> st\<lparr>st_nodes := replace_node_status (st_nodes st) observed\<rparr>)"

definition previous_process_required :: "instance_status \<Rightarrow> node_status \<Rightarrow> bool" where
  "previous_process_required st p \<longleftrightarrow>
     (let ident = process_identity p in
      (st_primary_ordinal st \<noteq> None \<and> primary_identity st = ident) \<or>
      (case st_failover st of
         Some f \<Rightarrow> same_identity (fo_source f) ident \<or>
           (case fo_candidate f of Some c \<Rightarrow> same_identity c ident | None \<Rightarrow> False)
       | None \<Rightarrow> False) \<or>
      (case st_rollout st of
         Some r \<Rightarrow> (case ro_process r of Some p \<Rightarrow> same_identity p ident | None \<Rightarrow> False)
       | None \<Rightarrow> False))"

text \<open>The closure of \<open>reconcileProcessHistory\<close>.\<close>

definition prune_history :: "instance_status \<Rightarrow> instance_status" where
  "prune_history st = st\<lparr>st_previous_processes :=
     filter (\<lambda>p. \<not> (ns_termination p \<noteq> None \<and> \<not> previous_process_required st p))
       (st_previous_processes st)\<rparr>"

definition instance_has_process_history :: "instance_status \<Rightarrow> bool" where
  "instance_has_process_history st \<longleftrightarrow>
     st_initialized st \<or> st_applied st \<noteq> None \<or> st_nodes st \<noteq> [] \<or> st_previous_processes st \<noteq> []"

definition process_creation_allowed :: "valkey_instance \<Rightarrow> int \<Rightarrow> bool" where
  "process_creation_allowed i ordinal =
     (if list_ex (\<lambda>p. ns_ordinal p = ordinal \<and> ns_termination p = None)
           (st_previous_processes (vi_status i)) then False
      else case node_status_at_ordinal (st_nodes (vi_status i)) ordinal of
             None \<Rightarrow> True | Some current \<Rightarrow> ns_termination current \<noteq> None)"

section \<open>Replication bookkeeping\<close>

definition observed_replication :: "replication_state option \<Rightarrow> time \<Rightarrow> replication_status option" where
  "observed_replication rs now =
     map_option (\<lambda>s. \<lparr>rp_replication_id = rs_replication_id s,
       rp_secondary_replication_id = rs_secondary_replication_id s,
       rp_secondary_offset = rs_secondary_offset s, rp_offset = rs_offset s,
       rp_upstream_host = rs_upstream_host s, rp_upstream_port = rs_upstream_port s,
       rp_link_up = rs_link_up s, rp_sync_in_progress = rs_sync_in_progress s,
       rp_synced_at = rs_synced_at s, rp_observed_at = now\<rparr>) rs"

definition merge_observed_replication ::
  "replication_status option \<Rightarrow> replication_status option \<Rightarrow> node_role \<Rightarrow> time \<Rightarrow> replication_status option" where
  "merge_observed_replication previous observed role now =
     (case observed of
        None \<Rightarrow> None
      | Some ob \<Rightarrow>
          (let ob1 = (case previous of
                 Some pr \<Rightarrow>
                   if rp_replication_id pr = rp_replication_id ob \<and>
                      rp_secondary_replication_id pr = rp_secondary_replication_id ob \<and>
                      rp_upstream_host pr = rp_upstream_host ob \<and>
                      rp_upstream_port pr = rp_upstream_port ob \<and> rp_synced_at pr \<noteq> None
                   then ob\<lparr>rp_synced_at := rp_synced_at pr\<rparr> else ob
               | None \<Rightarrow> ob)
           in Some (if role = NodeRoleReplica \<and> rp_link_up ob1 \<and> \<not> rp_sync_in_progress ob1 \<and>
                       rp_synced_at ob1 = None
                    then ob1\<lparr>rp_synced_at := Some now\<rparr> else ob1)))"

section \<open>Failed observations\<close>

record process_threshold_state =
  th_transport_failure :: bool
  th_busy_intervention :: bool
  th_unresponsive :: bool
  th_empty_primary :: bool

definition elapsed :: "time option \<Rightarrow> time \<Rightarrow> duration \<Rightarrow> bool" where
  "elapsed since now d =
     (case since of None \<Rightarrow> False | Some t \<Rightarrow> \<not> now < t \<and> time_sub now t \<ge> d)"

definition process_thresholds ::
  "process_observation_status option \<Rightarrow> time option \<Rightarrow> time \<Rightarrow> process_threshold_state" where
  "process_thresholds ob empty_since now =
     (let st = \<lparr>th_transport_failure = False, th_busy_intervention = False, th_unresponsive = False,
                th_empty_primary = elapsed empty_since now EmptyPrimaryTimeout\<rparr>
      in case ob of
           None \<Rightarrow> st
         | Some o' \<Rightarrow>
             (case ob_kind o' of
                ProcessObservationTransportError \<Rightarrow>
                  st\<lparr>th_transport_failure :=
                       ob_consecutive_transport_errors o' \<ge> PrimaryFailureThreshold \<and>
                       elapsed (ob_transport_error_since o') now PrimaryFailureMinDuration,
                     th_unresponsive :=
                       ob_consecutive_transport_errors o' \<ge> PrimaryFailureThreshold \<and>
                       elapsed (ob_transport_error_since o') now ProcessUnresponsiveTimeout\<rparr>
              | ProcessObservationBusy \<Rightarrow>
                  st\<lparr>th_busy_intervention := elapsed (ob_busy_since o') now ScriptBusyTimeout\<rparr>
              | _ \<Rightarrow> st))"

definition next_process_observation ::
  "process_observation_status option \<Rightarrow> process_observation_kind \<Rightarrow> time \<Rightarrow> process_observation_status" where
  "next_process_observation previous kind now =
     (let result = \<lparr>ob_kind = kind, ob_observed_at = now, ob_consecutive_transport_errors = 0,
                    ob_transport_error_since = None, ob_busy_since = None\<rparr>
      in case kind of
           ProcessObservationTransportError \<Rightarrow>
             (case previous of
                Some p \<Rightarrow>
                  if ob_kind p = kind \<and> ob_transport_error_since p \<noteq> None
                  then result\<lparr>ob_consecutive_transport_errors := wrap32 (ob_consecutive_transport_errors p + 1),
                              ob_transport_error_since := ob_transport_error_since p\<rparr>
                  else result\<lparr>ob_consecutive_transport_errors := 1, ob_transport_error_since := Some now\<rparr>
              | None \<Rightarrow> result\<lparr>ob_consecutive_transport_errors := 1, ob_transport_error_since := Some now\<rparr>)
         | ProcessObservationBusy \<Rightarrow>
             (case previous of
                Some p \<Rightarrow>
                  if ob_kind p = kind \<and> ob_busy_since p \<noteq> None
                  then result\<lparr>ob_busy_since := ob_busy_since p\<rparr>
                  else result\<lparr>ob_busy_since := Some now\<rparr>
              | None \<Rightarrow> result\<lparr>ob_busy_since := Some now\<rparr>)
         | _ \<Rightarrow> result)"

fun process_observation_kind_of :: "error_kind \<Rightarrow> process_observation_kind option" where
  "process_observation_kind_of ErrorKindTransport = Some ProcessObservationTransportError"
| "process_observation_kind_of ErrorKindBusy = Some ProcessObservationBusy"
| "process_observation_kind_of ErrorKindLoading = Some ProcessObservationLoading"
| "process_observation_kind_of ErrorKindAuth = Some ProcessObservationAuthError"
| "process_observation_kind_of ErrorKindServer = Some ProcessObservationServerError"
| "process_observation_kind_of ErrorKindOther = None"

fun process_observation_reason :: "process_observation_kind \<Rightarrow> string" where
  "process_observation_reason ProcessObservationTransportError = ''PROCESS_UNRESPONSIVE''"
| "process_observation_reason ProcessObservationBusy = ''SCRIPT_BUSY''"
| "process_observation_reason ProcessObservationLoading = ''DATA_LOADING''"
| "process_observation_reason ProcessObservationAuthError = ''AUTH_FAILED''"
| "process_observation_reason ProcessObservationServerError = ''PROCESS_RESPONSE_INVALID''"

definition process_failure_affects_primary :: "instance_status \<Rightarrow> int \<Rightarrow> bool" where
  "process_failure_affects_primary st ordinal =
     (case st_primary_ordinal st of None \<Rightarrow> True | Some n \<Rightarrow> n = ordinal)"

definition heartbeat_due :: "time option \<Rightarrow> time \<Rightarrow> bool" where
  "heartbeat_due previous now =
     (case previous of None \<Rightarrow> True | Some t \<Rightarrow> now < t \<or> time_sub now t \<ge> HealthCheckInterval)"

definition process_needs_control :: "node_status option \<Rightarrow> time \<Rightarrow> bool" where
  "process_needs_control current started_at =
     (started_at = 0 \<or>
      (case current of
         None \<Rightarrow> True
       | Some c \<Rightarrow> (case ns_replication c of None \<Rightarrow> True | Some r \<Rightarrow> rp_observed_at r < started_at)))"

definition retained_process_recovery ::
  "node_status \<Rightarrow> node_status \<Rightarrow> time option \<Rightarrow> process_recovery_status option" where
  "retained_process_recovery current observed deletion_timestamp =
     (case ns_recovery current of
        None \<Rightarrow> None
      | Some rc \<Rightarrow>
          if \<not> same_process current observed \<or>
             rc_stage rc \<noteq> ProcessRecoveryStageWaitingForTermination \<and>
             rc_delete_requested_at rc = None \<and> time_ptr_is_zero deletion_timestamp
          then None
          else Some (if \<not> time_ptr_is_zero deletion_timestamp \<and> rc_stage rc = ProcessRecoveryStageDeleting
                     then rc\<lparr>rc_stage := ProcessRecoveryStageWaitingForTermination,
                             rc_delete_requested_at := deletion_timestamp\<rparr>
                     else rc))"

section \<open>Pods and nodes\<close>

definition group_version :: string where "group_version = ''valkey.h3llo-demo.com/v1alpha1''"

text \<open>\<open>metav1.GetControllerOf\<close> is the first owner marked as the controller.\<close>

definition pod_owned_by_instance :: "kube_pod \<Rightarrow> valkey_instance \<Rightarrow> bool" where
  "pod_owned_by_instance p i =
     (case List.find ow_controller (pod_owners p) of
        None \<Rightarrow> False
      | Some ow \<Rightarrow> ow_api_version ow = group_version \<and> ow_kind ow = ''ValkeyInstance'' \<and>
                  ow_name ow = vi_name i \<and> ow_uid ow = vi_uid i)"

definition valkey_container_status :: "container_status list \<Rightarrow> container_status option" where
  "valkey_container_status cs = List.find (\<lambda>c. cs_name c = ''valkey'') cs"

definition container_is_running :: "container_status option \<Rightarrow> bool" where
  "container_is_running c = (case c of None \<Rightarrow> False | Some s \<Rightarrow> cs_state s = ContainerRunning)"

definition pod_ready :: "(string \<times> condition_status) list \<Rightarrow> bool" where
  "pod_ready cs = (case List.find (\<lambda>(t, _). t = ''Ready'') cs of
     None \<Rightarrow> False | Some (_, s) \<Rightarrow> s = ConditionTrue)"

definition node_ready :: "(string \<times> condition_status) list \<Rightarrow> bool" where
  "node_ready cs = (case List.find (\<lambda>(t, _). t = ''Ready'') cs of
     None \<Rightarrow> False | Some (_, s) \<Rightarrow> s = ConditionTrue)"

definition same_kubernetes_process ::
  "node_status \<Rightarrow> kube_pod \<Rightarrow> kube_node \<Rightarrow> container_status \<Rightarrow> int \<Rightarrow> bool" where
  "same_kubernetes_process current p n c ordinal \<longleftrightarrow>
     ns_ordinal current = ordinal \<and> ns_pod_uid current = pod_uid p \<and>
     ns_container_id current = cs_container_id c \<and> ns_node_name current = kn_name n \<and>
     ns_node_uid current = kn_uid n \<and> ns_run_id current \<noteq> ''''"

text \<open>\<open>net.JoinHostPort\<close> with the Valkey port.\<close>

definition valkey_address :: "string \<Rightarrow> string" where
  "valkey_address host =
     (if CHR '':'' \<in> set host \<or> CHR ''%'' \<in> set host then ''['' @ host @ '']:6379'' else host @ '':6379'')"

definition app_acl_matches :: "string list \<Rightarrow> string \<Rightarrow> bool" where
  "app_acl_matches hashes expected \<longleftrightarrow> length hashes = 1 \<and> hd hashes = expected"

lemma app_acl_matches_iff: "app_acl_matches hashes h \<longleftrightarrow> hashes = [h]"
  by (cases hashes) (auto simp: app_acl_matches_def)

end
