(* ===== verification/Process_Lemmas.thy ===== *)
theory Process_Lemmas
  imports Processes
begin

text \<open>
  What holds of the bookkeeping of processes: the list of node statuses is a store with one entry
  per ordinal, a process without evidence of its stop never leaves the status, and the thresholds
  of failed observations mean what they say about the sequence of observations.
\<close>

section \<open>Stores keyed by an ordinal\<close>

text \<open>
  The interface the handlers rely on when they look up or replace the status of a process: a
  store with one value per key. The list of node statuses provides it.
\<close>

locale keyed_store =
  fixes find_at :: "'s \<Rightarrow> 'k \<Rightarrow> 'v option"
    and replace_at :: "'s \<Rightarrow> 'v \<Rightarrow> 's"
    and key_of :: "'v \<Rightarrow> 'k"
    and store_ok :: "'s \<Rightarrow> bool"
    and value_ok :: "'v \<Rightarrow> bool"
  assumes find_replace: "store_ok s \<Longrightarrow> value_ok v \<Longrightarrow>
      find_at (replace_at s v) k = (if k = key_of v then Some v else find_at s k)"
    and replace_ok: "store_ok s \<Longrightarrow> value_ok v \<Longrightarrow> store_ok (replace_at s v)"
    and find_key: "find_at s k = Some v \<Longrightarrow> key_of v = k"
begin

lemma find_replace_same: "store_ok s \<Longrightarrow> value_ok v \<Longrightarrow> find_at (replace_at s v) (key_of v) = Some v"
  by (simp add: find_replace)

lemma find_replace_other:
  "store_ok s \<Longrightarrow> value_ok v \<Longrightarrow> k \<noteq> key_of v \<Longrightarrow> find_at (replace_at s v) k = find_at s k"
  by (simp add: find_replace)

lemma replace_twice:
  "store_ok s \<Longrightarrow> value_ok v \<Longrightarrow> value_ok w \<Longrightarrow> key_of v = key_of w \<Longrightarrow>
   find_at (replace_at (replace_at s v) w) k = find_at (replace_at s w) k"
  by (simp add: find_replace replace_ok)

lemma replace_commute:
  "store_ok s \<Longrightarrow> value_ok v \<Longrightarrow> value_ok w \<Longrightarrow> key_of v \<noteq> key_of w \<Longrightarrow>
   find_at (replace_at (replace_at s v) w) k = find_at (replace_at (replace_at s w) v) k"
  by (simp add: find_replace replace_ok)

lemma replace_found: "store_ok s \<Longrightarrow> value_ok v \<Longrightarrow> find_at s k \<noteq> None \<Longrightarrow> find_at (replace_at s v) k \<noteq> None"
  by (simp add: find_replace)

end

section \<open>Node lists\<close>

definition ordinal_ok :: "node_status \<Rightarrow> bool" where
  "ordinal_ok n \<longleftrightarrow> 0 \<le> ns_ordinal n \<and> ns_ordinal n < 2147483648"

definition nodes_ok :: "node_status list \<Rightarrow> bool" where
  "nodes_ok ns \<longleftrightarrow> sorted (map ns_ordinal ns) \<and> distinct (map ns_ordinal ns) \<and> list_all ordinal_ok ns"

lemma compare_ordinals_less:
  assumes "ordinal_ok a" and "ordinal_ok b"
  shows "(compare_ordinals a b < 0) = (ns_ordinal a < ns_ordinal b)"
proof -
  have "is_int32 (ns_ordinal a - ns_ordinal b)"
    using assms unfolding ordinal_ok_def is_int32_def by linarith
  then show ?thesis by (simp add: compare_ordinals_def wrap32_id)
qed

lemma set_replace_node_status:
  "set (replace_node_status ns ob) = insert ob {n \<in> set ns. ns_ordinal n \<noteq> ns_ordinal ob}"
  by (auto simp: replace_node_status_def Let_def list_ex_iff image_iff split: if_splits)

lemma map_ordinal_replaced:
  "map ns_ordinal (map (\<lambda>n. if ns_ordinal n = ns_ordinal ob then ob else n) ns) = map ns_ordinal ns"
  by (induction ns) auto

lemma node_at_unique:
  assumes "distinct (map ns_ordinal ns)"
  shows "node_status_at_ordinal ns k = Some n \<longleftrightarrow> n \<in> set ns \<and> ns_ordinal n = k"
  using assms find_unique [of ns_ordinal ns n k]
  by (auto simp: node_status_at_ordinal_def dest: find_Some_set)

lemma node_at_None_iff: "node_status_at_ordinal ns k = None \<longleftrightarrow> (\<forall>n\<in>set ns. ns_ordinal n \<noteq> k)"
  by (auto simp: node_status_at_ordinal_def find_None_iff)

lemma nodes_ok_replace:
  assumes "nodes_ok ns" and "ordinal_ok ob"
  shows "nodes_ok (replace_node_status ns ob)"
proof -
  let ?r = "map (\<lambda>n. if ns_ordinal n = ns_ordinal ob then ob else n) ns"
  let ?xs = "if list_ex (\<lambda>n. ns_ordinal n = ns_ordinal ob) ns then ?r else ?r @ [ob]"
  have ok: "\<forall>n\<in>set ?xs. ordinal_ok n"
    using assms by (auto simp: nodes_ok_def list_all_iff)
  have dist: "distinct (map ns_ordinal ?xs)"
    using assms map_ordinal_replaced [of ob ns]
    by (auto simp: nodes_ok_def list_ex_iff map_ordinal_replaced simp del: map_map)
  have "sorted (map ns_ordinal (sort_func compare_ordinals ?xs))"
    by (rule sorted_sort_func) (use ok compare_ordinals_less in blast)
  moreover have "distinct (map ns_ordinal (sort_func compare_ordinals ?xs))"
    using dist by simp
  moreover have "list_all ordinal_ok (sort_func compare_ordinals ?xs)"
    using ok by (simp add: list_all_iff)
  ultimately show ?thesis by (simp add: nodes_ok_def replace_node_status_def Let_def)
qed

lemma node_at_replace:
  assumes "nodes_ok ns" and "ordinal_ok ob"
  shows "node_status_at_ordinal (replace_node_status ns ob) k =
    (if k = ns_ordinal ob then Some ob else node_status_at_ordinal ns k)"
proof -
  have d: "distinct (map ns_ordinal (replace_node_status ns ob))"
    using nodes_ok_replace [OF assms] by (simp add: nodes_ok_def)
  have d': "distinct (map ns_ordinal ns)" using assms by (simp add: nodes_ok_def)
  show ?thesis
  proof (cases "k = ns_ordinal ob")
    case True
    then show ?thesis using node_at_unique [OF d, of k ob] by (simp add: set_replace_node_status)
  next
    case False
    show ?thesis
    proof (cases "node_status_at_ordinal ns k")
      case None
      then have "node_status_at_ordinal (replace_node_status ns ob) k = None"
        using False by (auto simp: node_at_None_iff set_replace_node_status)
      with None False show ?thesis by simp
    next
      case (Some n)
      then show ?thesis using False node_at_unique [OF d, of k n] node_at_unique [OF d', of k n]
        by (auto simp: set_replace_node_status)
    qed
  qed
qed

interpretation nodes: keyed_store node_status_at_ordinal replace_node_status ns_ordinal nodes_ok ordinal_ok
proof unfold_locales
  fix ns k v assume "node_status_at_ordinal ns k = Some v"
  then show "ns_ordinal v = k" by (auto simp: node_status_at_ordinal_def dest: find_Some_set)
qed (simp_all add: node_at_replace nodes_ok_replace)

section \<open>History of processes\<close>

lemma same_process_refl [simp]: "same_process p p"
  by (simp add: same_process_def same_container_process_def)

lemma same_process_sym: "same_process p q \<Longrightarrow> same_process q p"
  by (simp add: same_process_def same_container_process_def)

lemma same_process_trans: "same_process p q \<Longrightarrow> same_process q r \<Longrightarrow> same_process p r"
  by (simp add: same_process_def same_container_process_def)

lemma same_process_identity: "same_process p q \<Longrightarrow> process_identity p = process_identity q"
  by (simp add: same_process_def same_container_process_def process_identity_def)

lemma same_process_iff: "same_process p q \<longleftrightarrow> ns_ordinal p = ns_ordinal q \<and> process_identity p = process_identity q"
  by (auto simp: same_process_def same_container_process_def process_identity_def)

lemma process_identity_updates [simp]:
  "process_identity (p\<lparr>ns_termination := t\<rparr>) = process_identity p"
  "process_identity (p\<lparr>ns_readiness := b\<rparr>) = process_identity p"
  "process_identity (p\<lparr>ns_observation := ob\<rparr>) = process_identity p"
  "process_identity (p\<lparr>ns_recovery := rc\<rparr>) = process_identity p"
  "process_identity (p\<lparr>ns_app_enabled := b\<rparr>) = process_identity p"
  "process_identity (p\<lparr>ns_app_password_version := v\<rparr>) = process_identity p"
  by (simp_all add: process_identity_def)

lemma same_process_updates [simp]:
  "same_process (p\<lparr>ns_termination := t\<rparr>) q = same_process p q"
  "same_process q (p\<lparr>ns_termination := t\<rparr>) = same_process q p"
  by (simp_all add: same_process_iff)

lemma append_previous_covers:
  "p \<in> set qs \<or> p = x \<Longrightarrow> \<exists>q\<in>set (append_previous_process qs x). q = p \<or> q = x \<and> same_process x p"
  by (induction qs) (auto intro: same_process_sym)

lemma append_previous_in: "x \<in> set (append_previous_process qs x)"
  by (induction qs) auto

lemma append_previous_subset: "set (append_previous_process qs x) \<subseteq> insert x (set qs)"
  by (induction qs) auto

lemma append_previous_known:
  "process_identity ` set (append_previous_process qs x) = insert (process_identity x) (process_identity ` set qs)"
  by (induction qs) (auto simp: same_process_iff)

lemma known_process_None_iff:
  "known_process st ident = None \<longleftrightarrow> ident \<notin> process_identity ` set (st_nodes st @ st_previous_processes st)"
  unfolding known_process_def find_None_iff by (auto simp: same_identity_def)

lemma known_process_Some:
  "known_process st ident = Some p \<Longrightarrow>
   p \<in> set (st_nodes st @ st_previous_processes st) \<and> process_identity p = ident"
  by (auto simp: known_process_def same_identity_def dest: find_Some_set)

definition known_identities :: "instance_status \<Rightarrow> process_identity set" where
  "known_identities st = process_identity ` set (st_nodes st @ st_previous_processes st)"

lemma record_current_absent:
  "node_status_at_ordinal (st_nodes st) (ns_ordinal ob) = None \<Longrightarrow>
   record_current_process ob t st = st\<lparr>st_nodes := replace_node_status (st_nodes st) ob\<rparr>"
  by (simp add: record_current_process_def)

lemma record_current_same:
  "node_status_at_ordinal (st_nodes st) (ns_ordinal ob) = Some c \<Longrightarrow> same_process c ob \<Longrightarrow>
   record_current_process ob t st = st\<lparr>st_nodes :=
     replace_node_status (st_nodes st) (ob\<lparr>ns_termination := ns_termination c\<rparr>)\<rparr>"
  by (simp add: record_current_process_def)

text \<open>The replaced process, with the evidence of its stop if there is any.\<close>

definition retired :: "node_status \<Rightarrow> process_termination option \<Rightarrow> node_status" where
  "retired c t = (if ns_termination c = None \<and> t \<noteq> None then c\<lparr>ns_termination := t\<rparr> else c)"

lemma retired_identity [simp]:
  "process_identity (retired c t) = process_identity c" "ns_ordinal (retired c t) = ns_ordinal c"
  by (simp_all add: retired_def)

lemma record_current_new:
  "node_status_at_ordinal (st_nodes st) (ns_ordinal ob) = Some c \<Longrightarrow> \<not> same_process c ob \<Longrightarrow>
   record_current_process ob t st = st\<lparr>
     st_previous_processes := append_previous_process (st_previous_processes st) (retired c t),
     st_nodes := replace_node_status (st_nodes st) ob\<rparr>"
  by (simp add: record_current_process_def retired_def)

lemma record_current_cases:
  obtains
    (absent) "node_status_at_ordinal (st_nodes st) (ns_ordinal ob) = None"
      "record_current_process ob t st = st\<lparr>st_nodes := replace_node_status (st_nodes st) ob\<rparr>"
  | (same) c where "node_status_at_ordinal (st_nodes st) (ns_ordinal ob) = Some c" "same_process c ob"
      "record_current_process ob t st = st\<lparr>st_nodes :=
         replace_node_status (st_nodes st) (ob\<lparr>ns_termination := ns_termination c\<rparr>)\<rparr>"
  | (replaced) c where "node_status_at_ordinal (st_nodes st) (ns_ordinal ob) = Some c" "\<not> same_process c ob"
      "record_current_process ob t st = st\<lparr>
         st_previous_processes := append_previous_process (st_previous_processes st) (retired c t),
         st_nodes := replace_node_status (st_nodes st) ob\<rparr>"
  using record_current_absent record_current_same record_current_new
  by (cases "node_status_at_ordinal (st_nodes st) (ns_ordinal ob)") metis+

lemma record_current_process_other_fields [simp]:
  "st_failover (record_current_process ob t st) = st_failover st"
  "st_rollout (record_current_process ob t st) = st_rollout st"
  "st_accepted (record_current_process ob t st) = st_accepted st"
  "st_initialized (record_current_process ob t st) = st_initialized st"
  "st_primary_ordinal (record_current_process ob t st) = st_primary_ordinal st"
  by (rule record_current_cases [of st ob t]; simp)+

lemma record_nodes_ok:
  assumes "nodes_ok (st_nodes st)" and "ordinal_ok ob"
  shows "nodes_ok (st_nodes (record_current_process ob t st))"
proof -
  have "ordinal_ok (ob\<lparr>ns_termination := x\<rparr>)" for x using assms(2) by (simp add: ordinal_ok_def)
  then show ?thesis
    using assms by (cases rule: record_current_cases [of st ob t]) (simp_all add: nodes_ok_replace)
qed

lemma replaced_node_identities:
  assumes "nodes_ok ns" and "node_status_at_ordinal ns (ns_ordinal ob) = Some c"
  shows "process_identity ` set ns \<subseteq> insert (process_identity c) (process_identity ` set (replace_node_status ns ob))"
proof -
  have d: "distinct (map ns_ordinal ns)" using assms by (simp add: nodes_ok_def)
  have "n = c" if "n \<in> set ns" "ns_ordinal n = ns_ordinal ob" for n
    using that assms(2) node_at_unique [OF d, of "ns_ordinal ob"] by (metis option.inject)
  then show ?thesis by (auto simp: set_replace_node_status)
qed

lemma record_keeps_identities:
  assumes "nodes_ok (st_nodes st)"
  shows "known_identities st \<subseteq> known_identities (record_current_process ob t st)"
proof (cases rule: record_current_cases [of st ob t])
  case absent
  then show ?thesis
    by (auto simp: known_identities_def set_replace_node_status node_at_None_iff)
next
  case (same c)
  have "process_identity ` set (st_nodes st) \<subseteq>
      process_identity ` set (replace_node_status (st_nodes st) (ob\<lparr>ns_termination := ns_termination c\<rparr>))"
    using replaced_node_identities [OF assms, of "ob\<lparr>ns_termination := ns_termination c\<rparr>" c] same
      same_process_identity [OF same(2)]
    by (auto simp: set_replace_node_status)
  then show ?thesis using same by (auto simp: known_identities_def)
next
  case (replaced c)
  have "process_identity ` set (st_nodes st) \<subseteq>
      insert (process_identity c) (process_identity ` set (replace_node_status (st_nodes st) ob))"
    by (rule replaced_node_identities [OF assms replaced(1)])
  then show ?thesis using replaced
    by (auto simp: known_identities_def append_previous_known image_Un)
qed

text \<open>
  A process without evidence of its stop stays in the status; it gets the evidence only by being
  the current process of the ordinal.
\<close>

lemma record_keeps_unterminated:
  assumes "nodes_ok (st_nodes st)"
    and "p \<in> set (st_nodes st @ st_previous_processes st)" and "ns_termination p = None"
  shows "\<exists>q\<in>set (st_nodes (record_current_process ob t st) @ st_previous_processes (record_current_process ob t st)).
    same_process q p \<and> (ns_termination q = None \<or>
      (\<exists>c. node_status_at_ordinal (st_nodes st) (ns_ordinal ob) = Some c \<and> same_process c p \<and>
         ns_termination q = ns_termination (retired c t)))"
proof -
  let ?st = "record_current_process ob t st"
  have d: "distinct (map ns_ordinal (st_nodes st))" using assms(1) by (simp add: nodes_ok_def)
  have found: "p = c" if "node_status_at_ordinal (st_nodes st) (ns_ordinal ob) = Some c"
    "p \<in> set (st_nodes st)" "ns_ordinal p = ns_ordinal ob" for c
    using that node_at_unique [OF d, of "ns_ordinal ob"] by (metis option.inject)
  have stays: ?thesis if "p \<in> set (st_nodes ?st @ st_previous_processes ?st)"
    using that assms(3) by (intro bexI [of _ p]) simp_all
  show ?thesis
  proof (cases rule: record_current_cases [of st ob t])
    case absent
    then show ?thesis
      using assms(2) by (intro stays) (auto simp: set_replace_node_status node_at_None_iff)
  next
    case (same c)
    show ?thesis
    proof (cases "p \<in> set (st_nodes st) \<and> ns_ordinal p = ns_ordinal ob")
      case True
      then have "p = c" using found [OF same(1)] by simp
      let ?q = "ob\<lparr>ns_termination := ns_termination c\<rparr>"
      have "?q \<in> set (st_nodes ?st)" by (simp add: same(3) set_replace_node_status)
      moreover have "same_process ?q p" using same(2) \<open>p = c\<close> by (simp add: same_process_sym)
      ultimately show ?thesis using assms(3) \<open>p = c\<close> by (intro bexI [of _ ?q]) simp_all
    next
      case False
      then show ?thesis
        using assms(2) by (intro stays) (auto simp: same(3) set_replace_node_status)
    qed
  next
    case (replaced c)
    have in_prev: "retired c t \<in> set (st_previous_processes ?st)"
      by (simp add: replaced(3) append_previous_in)
    have rc: "same_process (retired c t) x = same_process c x" for x
      by (simp add: same_process_iff)
    have retire: ?thesis if "same_process c p"
      using that in_prev rc replaced(1) by (intro bexI [of _ "retired c t"]) auto
    show ?thesis
    proof (cases "p \<in> set (st_nodes st)")
      case True
      show ?thesis
      proof (cases "ns_ordinal p = ns_ordinal ob")
        case True
        then show ?thesis using found [OF replaced(1)] \<open>p \<in> set (st_nodes st)\<close> by (intro retire) simp
      next
        case False
        then show ?thesis
          using \<open>p \<in> set (st_nodes st)\<close> by (intro stays) (simp add: replaced(3) set_replace_node_status)
      qed
    next
      case False
      then have "p \<in> set (st_previous_processes st)" using assms(2) by simp
      then obtain q where q: "q \<in> set (append_previous_process (st_previous_processes st) (retired c t))"
        "q = p \<or> q = retired c t \<and> same_process (retired c t) p"
        using append_previous_covers [of p] by blast
      then show ?thesis using stays retire rc by (auto simp: replaced(3))
    qed
  qed
qed

text \<open>Pruning keeps what a running operation or the primary refers to.\<close>

lemma prune_history_keeps:
  "p \<in> set (st_previous_processes st) \<Longrightarrow> ns_termination p = None \<or> previous_process_required st p \<Longrightarrow>
   p \<in> set (st_previous_processes (prune_history st))"
  by (auto simp: prune_history_def)

lemma find_filter_keep:
  "(\<And>x. x \<in> set xs \<Longrightarrow> p x \<Longrightarrow> q x) \<Longrightarrow> List.find p (filter q xs) = List.find p xs"
  by (induction xs) auto

lemma find_append: "List.find p (xs @ ys) = (case List.find p xs of None \<Rightarrow> List.find p ys | Some x \<Rightarrow> Some x)"
  by (induction xs) auto

lemma known_process_prune:
  assumes "\<And>p. process_identity p = ident \<Longrightarrow> previous_process_required st p"
  shows "known_process (prune_history st) ident = known_process st ident"
proof -
  have "List.find (\<lambda>p. same_identity (process_identity p) ident) (st_previous_processes (prune_history st)) =
      List.find (\<lambda>p. same_identity (process_identity p) ident) (st_previous_processes st)"
    unfolding prune_history_def using assms by (simp add: find_filter_keep same_identity_def)
  moreover have "st_nodes (prune_history st) = st_nodes st" by (simp add: prune_history_def)
  ultimately show ?thesis by (simp only: known_process_def find_append)
qed

section \<open>Dereferencing the accepted configuration\<close>

lemma ends_deref_accepted [simp]:
  "ends deref_accepted i (Inr ac) j \<longleftrightarrow> j = i \<and> st_accepted (vi_status i) = Some ac"
  unfolding deref_accepted_def
  by (auto split: option.splits)

lemma emits_deref_accepted [emits_intros]: "emits P deref_accepted i"
  unfolding deref_accepted_def by (intro emits_intros)

end
