(* ===== verification/Credentials.thy ===== *)
theory Credentials
  imports Process_Lemmas
begin

text \<open>
  The credentials of an instance: the layout of the Secret
  (\<open>operator/api/v1alpha1/auth_secret.go\<close>), the ACL file (\<open>internal/valkey/acl.go\<close>), the handler
  that keeps them (\<open>credentials.go\<close>) and \<open>processCredentials\<close> of \<open>app_admission.go\<close>. Byte slices
  are strings, a missing key of the Secret is \<open>None\<close>.
\<close>

section \<open>Unpadded URL-safe base64\<close>

text \<open>
  \<open>base64.RawURLEncoding\<close> of the standard library: the decoder skips carriage returns and line
  feeds, takes quanta of four characters and accepts a last quantum of two or three.
\<close>

definition base64_alphabet :: string where
  "base64_alphabet = ''ABCDEFGHIJKLMNOPQRSTUVWXYZabcdefghijklmnopqrstuvwxyz0123456789-_''"

fun index_of :: "'a \<Rightarrow> 'a list \<Rightarrow> nat option" where
  "index_of x [] = None"
| "index_of x (y # ys) = (if x = y then Some 0 else map_option Suc (index_of x ys))"

definition base64_value :: "char \<Rightarrow> nat option" where
  "base64_value c = index_of c base64_alphabet"

fun base64_values :: "string \<Rightarrow> nat list option" where
  "base64_values [] = Some []"
| "base64_values (c # cs) =
     (case base64_value c of None \<Rightarrow> None | Some v \<Rightarrow> map_option (Cons v) (base64_values cs))"

fun bytes_of_sextets :: "nat list \<Rightarrow> nat list option" where
  "bytes_of_sextets [] = Some []"
| "bytes_of_sextets [a] = None"
| "bytes_of_sextets [a, b] = Some [a * 4 + b div 16]"
| "bytes_of_sextets [a, b, c] = Some [a * 4 + b div 16, b mod 16 * 16 + c div 4]"
| "bytes_of_sextets (a # b # c # d # rest) =
     map_option (\<lambda>bs. (a * 4 + b div 16) # (b mod 16 * 16 + c div 4) # (c mod 4 * 64 + d) # bs)
       (bytes_of_sextets rest)"

fun sextets_of_bytes :: "nat list \<Rightarrow> nat list" where
  "sextets_of_bytes [] = []"
| "sextets_of_bytes [x] = [x div 4, x mod 4 * 16]"
| "sextets_of_bytes [x, y] = [x div 4, x mod 4 * 16 + y div 16, y mod 16 * 4]"
| "sextets_of_bytes (x # y # z # rest) =
     (x div 4) # (x mod 4 * 16 + y div 16) # (y mod 16 * 4 + z div 64) # (z mod 64) # sextets_of_bytes rest"

definition line_feed :: char where "line_feed = CHR 0x0A"
definition carriage_return :: char where "carriage_return = CHR 0x0D"

definition raw_url_decode :: "string \<Rightarrow> nat list option" where
  "raw_url_decode s =
     Option.bind (base64_values (filter (\<lambda>c. c \<noteq> line_feed \<and> c \<noteq> carriage_return) s)) bytes_of_sextets"

definition raw_url_encode :: "nat list \<Rightarrow> string" where
  "raw_url_encode bs = map (\<lambda>v. base64_alphabet ! v) (sextets_of_bytes bs)"

section \<open>auth\_secret.go\<close>

definition AuthSecretSuffix :: string where "AuthSecretSuffix = ''-auth''"
definition AppPasswordHashKeyPrefix :: string where "AppPasswordHashKeyPrefix = ''app-password-hash.''"
definition OperatorPasswordKey :: string where "OperatorPasswordKey = ''operator-password''"
definition ReplicaPasswordKey :: string where "ReplicaPasswordKey = ''replica-password''"
definition HealthPasswordKey :: string where "HealthPasswordKey = ''health-password''"
definition UsersACLKey :: string where "UsersACLKey = ''users.acl''"
definition ServicePasswordRandomBytes :: nat where "ServicePasswordRandomBytes = 24"

lemmas secret_key_defs = AppPasswordHashKeyPrefix_def OperatorPasswordKey_def ReplicaPasswordKey_def
  HealthPasswordKey_def UsersACLKey_def

record service_credentials =
  cr_operator_password :: string
  cr_replica_password :: string
  cr_health_password :: string
  cr_users_acl :: string

type_synonym secret_data = "string \<rightharpoonup> string"

definition auth_secret_name :: "string \<Rightarrow> string" where
  "auth_secret_name slug = slug @ AuthSecretSuffix"

definition app_password_hash_key :: "int \<Rightarrow> err + string" where
  "app_password_hash_key version =
     (if version < 1 then Inl (Sentinel ErrInvalidPasswordVersion)
      else Inr (AppPasswordHashKeyPrefix @ show_int version))"

definition parse_app_password_hash :: "secret_data \<Rightarrow> int \<Rightarrow> err + string" where
  "parse_app_password_hash data version =
     (case app_password_hash_key version of
        Inl er \<Rightarrow> Inl er
      | Inr key \<Rightarrow>
          (case data key of
             None \<Rightarrow> Inl (Sentinel ErrAppPasswordHashMissing)
           | Some value \<Rightarrow>
               if length value \<noteq> 64 then Inl (Sentinel ErrAppPasswordHashInvalid)
               else if list_ex (\<lambda>c. c \<notin> set ''0123456789abcdef'') value
                    then Inl (Sentinel ErrAppPasswordHashInvalid)
               else Inr value))"

definition valid_service_password :: "string \<Rightarrow> bool" where
  "valid_service_password value =
     (case raw_url_decode value of None \<Rightarrow> False
      | Some decoded \<Rightarrow> length decoded = ServicePasswordRandomBytes)"

definition credential_keys :: "string list" where
  "credential_keys = [OperatorPasswordKey, ReplicaPasswordKey, HealthPasswordKey, UsersACLKey]"

text \<open>The nil slice of an absent key is the empty one.\<close>

definition data_at :: "secret_data \<Rightarrow> string \<Rightarrow> string" where
  "data_at data key = (case data key of None \<Rightarrow> '''' | Some v \<Rightarrow> v)"

definition credentials_valid :: "service_credentials \<Rightarrow> bool" where
  "credentials_valid c \<longleftrightarrow> valid_service_password (cr_operator_password c) \<and>
     valid_service_password (cr_replica_password c) \<and> valid_service_password (cr_health_password c) \<and>
     cr_users_acl c \<noteq> ''''"

definition parse_service_credentials :: "secret_data \<Rightarrow> err + service_credentials option" where
  "parse_service_credentials data =
     (let present = length (filter (\<lambda>key. data key \<noteq> None) credential_keys) in
      if present = 0 then Inr None
      else if present \<noteq> length credential_keys then Inl (Sentinel ErrServiceCredentialsPartial)
      else
        (let c = \<lparr>cr_operator_password = data_at data OperatorPasswordKey,
                  cr_replica_password = data_at data ReplicaPasswordKey,
                  cr_health_password = data_at data HealthPasswordKey,
                  cr_users_acl = data_at data UsersACLKey\<rparr>
         in if \<not> credentials_valid c then Inl (Sentinel ErrServiceCredentialsInvalid)
            else Inr (Some c)))"

definition service_credentials_data :: "service_credentials \<Rightarrow> err + secret_data" where
  "service_credentials_data c =
     (if \<not> credentials_valid c then Inl (Wrapped (Sentinel ErrServiceCredentialsInvalid))
      else Inr [OperatorPasswordKey \<mapsto> cr_operator_password c, ReplicaPasswordKey \<mapsto> cr_replica_password c,
                HealthPasswordKey \<mapsto> cr_health_password c, UsersACLKey \<mapsto> cr_users_acl c])"

section \<open>acl.go\<close>

definition appPermissions :: string where
  "appPermissions = ''~* &* -@all +@read +@write +@pubsub +@transaction +@keyspace +@string +@list +@hash +@set +@sortedset +@stream +@bitmap +@hyperloglog +@geo +@blocking +@connection +@scripting -@dangerous +ping +echo +select +info +flushdb +flushall +sort +sort_ro''"

definition initial_acl :: "string \<Rightarrow> string \<Rightarrow> string \<Rightarrow> string \<Rightarrow> string" where
  "initial_acl app_hash operator_password replica_password health_password =
     ''user default off'' @ [line_feed] @
     ''user app off #'' @ app_hash @ '' '' @ appPermissions @ [line_feed] @
     ''user operator on >'' @ operator_password @ '' ~* &* +@all'' @ [line_feed] @
     ''user replica on >'' @ replica_password @ '' -@all +psync +replconf +ping'' @ [line_feed] @
     ''user health on >'' @ health_password @ '' -@all +ping +role +info'' @ [line_feed]"

definition credentials_acl :: "string \<Rightarrow> service_credentials \<Rightarrow> string" where
  "credentials_acl app_hash c =
     initial_acl app_hash (cr_operator_password c) (cr_replica_password c) (cr_health_password c)"

section \<open>Conditions of the status\<close>

definition find_condition :: "status_condition list \<Rightarrow> string \<Rightarrow> status_condition option" where
  "find_condition cs t = List.find (\<lambda>c. cd_type c = t) cs"

definition set_condition ::
  "env \<Rightarrow> valkey_instance \<Rightarrow> string \<Rightarrow> condition_status \<Rightarrow> string \<Rightarrow> string \<Rightarrow> instance_status \<Rightarrow> instance_status" where
  "set_condition e i t s reason message st =
     st\<lparr>st_conditions := set_status_condition e
          \<lparr>cd_type = t, cd_status = s, cd_observed_generation = vi_generation i,
           cd_last_transition_time = 0, cd_reason = reason, cd_message = message\<rparr>
          (st_conditions st)\<rparr>"

definition remove_condition :: "env \<Rightarrow> string \<Rightarrow> instance_status \<Rightarrow> instance_status" where
  "remove_condition e t st = st\<lparr>st_conditions := remove_status_condition e t (st_conditions st)\<rparr>"

definition conditionTypeCredentialsReady :: string where
  "conditionTypeCredentialsReady = ''CredentialsReady''"
definition conditionTypeRecoveryRequired :: string where
  "conditionTypeRecoveryRequired = ''RecoveryRequired''"

lemma set_condition_fields [simp]:
  "st_credentials_initialized (set_condition e i t s r m st) = st_credentials_initialized st"
  "st_initialized (set_condition e i t s r m st) = st_initialized st"
  "st_phase (set_condition e i t s r m st) = st_phase st"
  "st_reason (set_condition e i t s r m st) = st_reason st"
  "st_primary_ordinal (set_condition e i t s r m st) = st_primary_ordinal st"
  "st_observed_generation (set_condition e i t s r m st) = st_observed_generation st"
  "st_accepted (set_condition e i t s r m st) = st_accepted st"
  "st_applied (set_condition e i t s r m st) = st_applied st"
  "st_applied_password_version (set_condition e i t s r m st) = st_applied_password_version st"
  "st_failover (set_condition e i t s r m st) = st_failover st"
  "st_rollout (set_condition e i t s r m st) = st_rollout st"
  "st_credential_rotation (set_condition e i t s r m st) = st_credential_rotation st"
  "st_deletion (set_condition e i t s r m st) = st_deletion st"
  "st_nodes (set_condition e i t s r m st) = st_nodes st"
  "st_previous_processes (set_condition e i t s r m st) = st_previous_processes st"
  "primary_identity (set_condition e i t s r m st) = primary_identity st"
  by (simp_all add: set_condition_def primary_identity_def)

lemma remove_condition_fields [simp]:
  "st_credentials_initialized (remove_condition e t st) = st_credentials_initialized st"
  "st_initialized (remove_condition e t st) = st_initialized st"
  "st_phase (remove_condition e t st) = st_phase st"
  "st_reason (remove_condition e t st) = st_reason st"
  "st_primary_ordinal (remove_condition e t st) = st_primary_ordinal st"
  "st_observed_generation (remove_condition e t st) = st_observed_generation st"
  "st_accepted (remove_condition e t st) = st_accepted st"
  "st_applied (remove_condition e t st) = st_applied st"
  "st_applied_password_version (remove_condition e t st) = st_applied_password_version st"
  "st_failover (remove_condition e t st) = st_failover st"
  "st_rollout (remove_condition e t st) = st_rollout st"
  "st_credential_rotation (remove_condition e t st) = st_credential_rotation st"
  "st_deletion (remove_condition e t st) = st_deletion st"
  "st_nodes (remove_condition e t st) = st_nodes st"
  "st_previous_processes (remove_condition e t st) = st_previous_processes st"
  "primary_identity (remove_condition e t st) = primary_identity st"
  by (simp_all add: remove_condition_def primary_identity_def)

section \<open>credentials.go\<close>

definition credential_recovery_reason :: "string \<Rightarrow> bool" where
  "credential_recovery_reason reason \<longleftrightarrow> reason \<in> set
     [''SecretNotFound'', ''SecretTypeInvalid'', ''AppPasswordHashMissing'', ''AppPasswordHashInvalid'',
      ''ServiceCredentialsMissing'', ''ServiceCredentialsPartial'', ''ServiceCredentialsInvalid'',
      ''ACLInvalid'']"

definition credential_failure_reason :: "err \<Rightarrow> string" where
  "credential_failure_reason er =
     (if errors_is ErrAppPasswordHashMissing er then ''AppPasswordHashMissing''
      else if errors_is ErrAppPasswordHashInvalid er then ''AppPasswordHashInvalid''
      else if errors_is ErrServiceCredentialsPartial er then ''ServiceCredentialsPartial''
      else ''ServiceCredentialsInvalid'')"

text \<open>\<open>rand.Read\<close> fills the buffer made with \<open>make([]byte, ServicePasswordRandomBytes)\<close>.\<close>

definition random_service_password :: "env \<Rightarrow> string op" where
  "random_service_password e =
     on_err (do_call ReadRandom (answer_random e)) (\<lambda>er. fail (Wrapped er))
       (\<lambda>read. ret (raw_url_encode (map (\<lambda>k. read k mod 256) [0..<ServicePasswordRandomBytes])))"

definition new_service_credentials :: "env \<Rightarrow> string \<Rightarrow> service_credentials op" where
  "new_service_credentials e app_hash =
     bnd (random_service_password e) (\<lambda>operator_password.
     bnd (random_service_password e) (\<lambda>replica_password.
     bnd (random_service_password e) (\<lambda>health_password.
     ret \<lparr>cr_operator_password = operator_password, cr_replica_password = replica_password,
          cr_health_password = health_password,
          cr_users_acl = initial_acl app_hash operator_password replica_password health_password\<rparr>)))"

definition update_credentials_secret ::
  "env \<Rightarrow> valkey_instance \<Rightarrow> kube_secret \<Rightarrow> service_credentials \<Rightarrow> err + kube_secret \<times> bool" where
  "update_credentials_secret e i secret c =
     (if sc_type secret \<noteq> ''Opaque'' then Inl (Sentinel ErrServiceCredentialsInvalid)
      else case set_controller_reference e i (sc_owners secret) of
        Inl er \<Rightarrow> Inl (Wrapped er)
      | Inr owners \<Rightarrow>
          (case service_credentials_data c of
             Inl er \<Rightarrow> Inl er
           | Inr data \<Rightarrow>
               (let after = secret\<lparr>sc_owners := owners, sc_data := sc_data secret ++ data\<rparr>
                in Inr (after, after \<noteq> secret))))"

definition valid_acl_before_rotation ::
  "valkey_instance \<Rightarrow> secret_data \<Rightarrow> service_credentials \<Rightarrow> string \<Rightarrow> bool" where
  "valid_acl_before_rotation i data c target_acl =
     (case st_credential_rotation (vi_status i) of
        None \<Rightarrow> False
      | Some rotation \<Rightarrow>
          if cr_target_version rotation \<noteq> ac_password_version (accepted_of (vi_status i)) then False
          else if data_at data UsersACLKey = target_acl then True
          else (case parse_app_password_hash data (cr_previous_version rotation) of
                  Inl _ \<Rightarrow> False
                | Inr previous_hash \<Rightarrow> data_at data UsersACLKey = credentials_acl previous_hash c))"

definition credentials_failure :: "env \<Rightarrow> string \<Rightarrow> bool \<Rightarrow> result op" where
  "credentials_failure e reason recovery_required =
     bnd (update_status e (\<lambda>i st.
        (let st1 = set_condition e i conditionTypeCredentialsReady ConditionFalse reason
               ''service credentials unavailable'' st
         in if recovery_required
            then set_condition e i conditionTypeRecoveryRequired ConditionTrue reason
                   ''manual recovery of the Secret required'' st1
            else st1))) (\<lambda>changed.
     bnd (when_op (changed \<and> recovery_required) (record_event e ''RecoveryRequired'' ''RecoverCredentials''))
       (\<lambda>_. ret (requeue_if changed)))"

definition save_credentials :: "env \<Rightarrow> kube_secret \<Rightarrow> service_credentials \<Rightarrow> result op" where
  \<comment> \<open>the second half of \<open>reconcileCredentials\<close>, from \<open>updateCredentialsSecret\<close> on\<close>
  "save_credentials e secret c =
     with_inst (\<lambda>i.
     case update_credentials_secret e i secret c of
       Inl er \<Rightarrow> fail er
     | Inr (updated, changed) \<Rightarrow>
         bnd (when_op changed
                (on_err (do_call (UpdateSecret updated) (\<lambda>h. answer_update_secret e h updated))
                   (\<lambda>er. fail (Wrapped er)) ret)) (\<lambda>_.
         bnd (update_status e (\<lambda>i st.
            (let st1 = set_condition e i conditionTypeCredentialsReady ConditionTrue ''Initialized''
                   ''service credentials saved'' (st\<lparr>st_credentials_initialized := True\<rparr>)
             in case find_condition (st_conditions st1) conditionTypeRecoveryRequired of
                  Some c \<Rightarrow> if credential_recovery_reason (cd_reason c)
                            then remove_condition e conditionTypeRecoveryRequired st1 else st1
                | None \<Rightarrow> st1))) (\<lambda>status_changed.
         ret (requeue_if (changed \<or> status_changed)))))"

definition reconcile_credentials :: "env \<Rightarrow> result op" where
  "reconcile_credentials e =
     with_inst (\<lambda>i.
     (let st = vi_status i; initialized = st_credentials_initialized st in
     on_err (get_secret e Cached (auth_secret_name (sp_slug (vi_spec i))))
       (\<lambda>er. if is_not_found er then credentials_failure e ''SecretNotFound'' initialized
             else fail (Wrapped er))
     (\<lambda>secret.
     if sc_type secret \<noteq> ''Opaque'' then credentials_failure e ''SecretTypeInvalid'' initialized
     else bnd deref_accepted (\<lambda>accepted.
     case parse_app_password_hash (sc_data secret) (ac_password_version accepted) of
       Inl er \<Rightarrow> credentials_failure e (credential_failure_reason er) initialized
     | Inr app_hash \<Rightarrow>
     (case parse_service_credentials (sc_data secret) of
       Inl er \<Rightarrow> credentials_failure e (credential_failure_reason er) initialized
     | Inr parsed \<Rightarrow>
         if parsed = None \<and> initialized
         then credentials_failure e ''ServiceCredentialsMissing'' True
         else bnd (case parsed of None \<Rightarrow> new_service_credentials e app_hash | Some c \<Rightarrow> ret c) (\<lambda>c.
         (let expected = credentials_acl app_hash c in
          if data_at (sc_data secret) UsersACLKey \<noteq> '''' \<and>
             data_at (sc_data secret) UsersACLKey \<noteq> expected \<and> initialized \<and>
             \<not> valid_acl_before_rotation i (sc_data secret) c expected
          then credentials_failure e ''ACLInvalid'' True
          else save_credentials e secret (c\<lparr>cr_users_acl := expected\<rparr>))))))))"

section \<open>processCredentials\<close>

definition process_credentials :: "env \<Rightarrow> (service_credentials \<times> string) op" where
  "process_credentials e =
     with_inst (\<lambda>i.
     on_err (get_secret e Cached (auth_secret_name (sp_slug (vi_spec i)))) (\<lambda>er. fail (Wrapped er))
     (\<lambda>secret.
     case parse_service_credentials (sc_data secret) of
       Inl er \<Rightarrow> fail er
     | Inr None \<Rightarrow> fail (Sentinel ErrServiceCredentialsMissing)
     | Inr (Some c) \<Rightarrow>
         bnd deref_accepted (\<lambda>accepted.
         case parse_app_password_hash (sc_data secret) (ac_password_version accepted) of
           Inl er \<Rightarrow> fail er
         | Inr app_hash \<Rightarrow> ret (c, app_hash))))"

end
