(* ===== verification/Credentials_Lemmas.thy ===== *)
theory Credentials_Lemmas
  imports Credentials
begin

text \<open>
  What holds of the credentials: random passwords decode to the bytes drawn, what is written to the
  Secret parses back, and the handler writes a Secret only with the ACL of its own contents,
  never changing the service passwords of an initialized instance.
\<close>

section \<open>Base64\<close>

lemma index_of_nth: "distinct xs \<Longrightarrow> n < length xs \<Longrightarrow> index_of (xs ! n) xs = Some n"
proof (induction xs arbitrary: n)
  case Nil
  then show ?case by simp
next
  case (Cons x xs)
  show ?case
  proof (cases n)
    case 0
    then show ?thesis by simp
  next
    case (Suc m)
    then have "xs ! m \<in> set xs" using Cons.prems by simp
    then have "xs ! m \<noteq> x" using Cons.prems by auto
    then show ?thesis using Suc Cons by simp
  qed
qed

lemma base64_alphabet_facts:
  "distinct base64_alphabet" "length base64_alphabet = 64"
  "line_feed \<notin> set base64_alphabet" "carriage_return \<notin> set base64_alphabet"
  by (simp_all add: base64_alphabet_def line_feed_def carriage_return_def)

lemma base64_value_nth: "v < 64 \<Longrightarrow> base64_value (base64_alphabet ! v) = Some v"
  using index_of_nth [OF base64_alphabet_facts(1)] base64_alphabet_facts(2)
  by (simp add: base64_value_def)

lemma base64_values_map:
  "list_all (\<lambda>v. v < 64) vs \<Longrightarrow> base64_values (map (\<lambda>v. base64_alphabet ! v) vs) = Some vs"
  by (induction vs) (auto simp: base64_value_nth)

lemma sextets_small: "list_all (\<lambda>b. b < 256) bs \<Longrightarrow> list_all (\<lambda>v. v < 64) (sextets_of_bytes bs)"
  by (induction bs rule: sextets_of_bytes.induct) auto

lemma two_bytes: "(x div 4) * 4 + (x mod 4 * 16 + y div 16) div 16 = (x::nat)" if "y < 256"
proof -
  have "(x mod 4 * 16 + y div 16) div 16 = x mod 4"
    using that by simp
  then show ?thesis by simp
qed

lemma second_byte: "(x mod 4 * 16 + y div 16) mod 16 * 16 + (y mod 16 * 4 + z div 64) div 4 = (y::nat)"
  if "y < 256" "z < 256"
proof -
  have "(x mod 4 * 16 + y div 16) mod 16 = y div 16"
    using that by (simp add: mod_less)
  moreover have "(y mod 16 * 4 + z div 64) div 4 = y mod 16"
    using that by simp
  ultimately show ?thesis by simp
qed

lemma third_byte: "(y mod 16 * 4 + z div 64) mod 4 * 64 + z mod 64 = (z::nat)" if "z < 256"
proof -
  have "(y mod 16 * 4 + z div 64) mod 4 = z div 64" using that by simp
  then show ?thesis by simp
qed

lemma sextets_roundtrip:
  "list_all (\<lambda>b. b < 256) bs \<Longrightarrow> bytes_of_sextets (sextets_of_bytes bs) = Some bs"
proof (induction bs rule: sextets_of_bytes.induct)
  case 1
  then show ?case by simp
next
  case (2 x)
  then show ?case by simp
next
  case (3 x y)
  then show ?case using two_bytes [of y x] second_byte [of y 0 x] by simp
next
  case (4 x y z rest)
  then show ?case using two_bytes [of y x] second_byte [of y z x] third_byte [of z y] by simp
qed

lemma raw_url_roundtrip:
  assumes "list_all (\<lambda>b. b < 256) bs"
  shows "raw_url_decode (raw_url_encode bs) = Some bs"
proof -
  have small: "list_all (\<lambda>v. v < 64) (sextets_of_bytes bs)" using assms by (rule sextets_small)
  have "c \<noteq> line_feed \<and> c \<noteq> carriage_return" if "c \<in> set (raw_url_encode bs)" for c
  proof -
    from that obtain v where "v \<in> set (sextets_of_bytes bs)" "c = base64_alphabet ! v"
      by (auto simp: raw_url_encode_def)
    then have "c \<in> set base64_alphabet"
      using small base64_alphabet_facts(2) by (auto simp: list_all_iff)
    then show ?thesis using base64_alphabet_facts by auto
  qed
  then have "filter (\<lambda>c. c \<noteq> line_feed \<and> c \<noteq> carriage_return) (raw_url_encode bs) = raw_url_encode bs"
    by simp
  then show ?thesis using base64_values_map [OF small] sextets_roundtrip [OF assms]
    by (simp add: raw_url_decode_def raw_url_encode_def)
qed

lemma random_password_valid:
  assumes "list_all (\<lambda>b. b < 256) bs" and "length bs = ServicePasswordRandomBytes"
  shows "valid_service_password (raw_url_encode bs)"
  using raw_url_roundtrip [OF assms(1)] assms(2) by (simp add: valid_service_password_def)

lemma ends_random_service_password:
  assumes "ends (random_service_password e) i (Inr password) j"
  obtains h read where "answer_random e h = Inr read"
    and "password = raw_url_encode (map (\<lambda>k. read k mod 256) [0..<ServicePasswordRandomBytes])"
  using assms unfolding random_service_password_def by (auto elim!: ends_on_errE)

section \<open>The Secret\<close>

lemma show_int_head: "1 \<le> n \<Longrightarrow> show_int n = show_nat (nat n)"
  by (simp add: show_int_def)

lemma app_password_hash_key_inject:
  assumes "app_password_hash_key m = Inr k" and "app_password_hash_key n = Inr k"
  shows "m = n"
proof -
  have "1 \<le> m" "1 \<le> n" "show_int m = show_int n"
    using assms by (auto simp: app_password_hash_key_def split: if_splits)
  then have "nat m = nat n" using show_nat_inject by (simp add: show_int_head)
  then show ?thesis using \<open>1 \<le> m\<close> \<open>1 \<le> n\<close> by simp
qed

lemma credential_keys_distinct:
  "OperatorPasswordKey \<noteq> ReplicaPasswordKey" "OperatorPasswordKey \<noteq> HealthPasswordKey"
  "OperatorPasswordKey \<noteq> UsersACLKey" "ReplicaPasswordKey \<noteq> HealthPasswordKey"
  "ReplicaPasswordKey \<noteq> UsersACLKey" "HealthPasswordKey \<noteq> UsersACLKey"
  by (simp_all add: secret_key_defs)

lemma hash_key_not_credential:
  "app_password_hash_key v = Inr k \<Longrightarrow> k \<notin> set credential_keys"
  by (auto simp: app_password_hash_key_def credential_keys_def secret_key_defs split: if_splits)

lemma service_credentials_data_Inr:
  assumes "service_credentials_data c = Inr d"
  shows "credentials_valid c" "d OperatorPasswordKey = Some (cr_operator_password c)"
    "d ReplicaPasswordKey = Some (cr_replica_password c)"
    "d HealthPasswordKey = Some (cr_health_password c)" "d UsersACLKey = Some (cr_users_acl c)"
    "dom d = set credential_keys"
  using assms credential_keys_distinct
  by (auto simp: service_credentials_data_def credential_keys_def split: if_splits)

lemma parse_written_credentials:
  assumes "service_credentials_data c = Inr d"
  shows "parse_service_credentials (data ++ d) = Inr (Some c)"
  using service_credentials_data_Inr [OF assms]
  by (cases c) (simp add: parse_service_credentials_def credential_keys_def map_add_def data_at_def Let_def)

lemma parse_hash_written:
  assumes "service_credentials_data c = Inr d"
  shows "parse_app_password_hash (data ++ d) v = parse_app_password_hash data v"
proof -
  have "(data ++ d) k = data k" if "app_password_hash_key v = Inr k" for k
    using hash_key_not_credential [OF that] service_credentials_data_Inr(6) [OF assms]
    by (metis map_add_dom_app_simps(3))
  then show ?thesis by (simp add: parse_app_password_hash_def split: sum.splits)
qed

lemma parse_service_credentials_Some:
  assumes "parse_service_credentials data = Inr (Some c)"
  shows "credentials_valid c" "data OperatorPasswordKey = Some (cr_operator_password c)"
    "data ReplicaPasswordKey = Some (cr_replica_password c)"
    "data HealthPasswordKey = Some (cr_health_password c)" "data UsersACLKey = Some (cr_users_acl c)"
proof -
  have c: "credentials_valid c"
    "c = \<lparr>cr_operator_password = data_at data OperatorPasswordKey,
          cr_replica_password = data_at data ReplicaPasswordKey,
          cr_health_password = data_at data HealthPasswordKey,
          cr_users_acl = data_at data UsersACLKey\<rparr>"
    and all: "length (filter (\<lambda>key. data key \<noteq> None) credential_keys) = length credential_keys"
    using assms by (auto simp: parse_service_credentials_def Let_def split: if_splits)
  have "filter (\<lambda>key. data key \<noteq> None) credential_keys = credential_keys"
    using all by (metis filter_id_conv length_filter_less nat_neq_iff)
  then have "\<forall>k\<in>set credential_keys. data k \<noteq> None" by (metis (mono_tags, lifting) filter_id_conv)
  then show "credentials_valid c" "data OperatorPasswordKey = Some (cr_operator_password c)"
    "data ReplicaPasswordKey = Some (cr_replica_password c)"
    "data HealthPasswordKey = Some (cr_health_password c)" "data UsersACLKey = Some (cr_users_acl c)"
    using c by (auto simp: credential_keys_def data_at_def)
qed

lemma update_credentials_secret_Inr:
  assumes "update_credentials_secret e i s c = Inr (s', b)"
  shows "parse_service_credentials (sc_data s') = Inr (Some c)"
    "parse_app_password_hash (sc_data s') v = parse_app_password_hash (sc_data s) v"
    "k \<notin> set credential_keys \<Longrightarrow> sc_data s' k = sc_data s k" "sc_type s' = sc_type s"
proof -
  obtain d ow where d: "service_credentials_data c = Inr d" and s': "s' = s\<lparr>sc_owners := ow, sc_data := sc_data s ++ d\<rparr>"
    using assms by (simp add: update_credentials_secret_def Let_def split: if_splits sum.splits) metis
  then have d: "service_credentials_data c = Inr d" "sc_data s' = sc_data s ++ d" and "sc_type s' = sc_type s"
    by simp_all
  then show "sc_type s' = sc_type s" by simp
  show "sc_data s' k = sc_data s k" if "k \<notin> set credential_keys"
    using that d(2) service_credentials_data_Inr(6) [OF d(1)] by (metis map_add_dom_app_simps(3))
  show "parse_service_credentials (sc_data s') = Inr (Some c)"
    using parse_written_credentials [OF d(1)] d(2) by simp
  show "parse_app_password_hash (sc_data s') v = parse_app_password_hash (sc_data s) v"
    using parse_hash_written [OF d(1)] d(2) by simp
qed

section \<open>What the handler writes\<close>

text \<open>
  A Secret that \<open>reconcileCredentials\<close> sends to the API server: \<open>from\<close> is the Secret it has read.
  Everything but the four keys of the service credentials stays, so every password hash stays too.
\<close>

definition secret_write_ok :: "env \<Rightarrow> valkey_instance \<Rightarrow> kube_secret \<Rightarrow> bool" where
  "secret_write_ok e i s \<longleftrightarrow>
     (\<exists>h from accepted hash c.
        answer_get_secret e h Cached (auth_secret_name (sp_slug (vi_spec i))) = Inr from \<and>
        sc_type from = ''Opaque'' \<and> sc_type s = ''Opaque'' \<and>
        (\<forall>key. key \<notin> {OperatorPasswordKey, ReplicaPasswordKey, HealthPasswordKey, UsersACLKey} \<longrightarrow>
           sc_data s key = sc_data from key) \<and>
        st_accepted (vi_status i) = Some accepted \<and>
        parse_app_password_hash (sc_data from) (ac_password_version accepted) = Inr hash \<and>
        (\<forall>v. parse_app_password_hash (sc_data s) v = parse_app_password_hash (sc_data from) v) \<and>
        parse_service_credentials (sc_data s) = Inr (Some c) \<and>
        cr_users_acl c = initial_acl hash (cr_operator_password c) (cr_replica_password c) (cr_health_password c) \<and>
        (st_credentials_initialized (vi_status i) \<longrightarrow>
           sc_data s OperatorPasswordKey = sc_data from OperatorPasswordKey \<and>
           sc_data s ReplicaPasswordKey = sc_data from ReplicaPasswordKey \<and>
           sc_data s HealthPasswordKey = sc_data from HealthPasswordKey))"

fun secret_call_ok :: "env \<Rightarrow> valkey_instance \<Rightarrow> call \<Rightarrow> bool" where
  "secret_call_ok e i (UpdateSecret s) = secret_write_ok e i s"
| "secret_call_ok e i (PatchSecret b a) = False"
| "secret_call_ok e i _ = True"

lemma emits_credentials_failure [emits_intros]:
  "emits (secret_call_ok e i) (credentials_failure e reason b) j"
  unfolding credentials_failure_def by (intro emits_intros) simp_all

lemma emits_new_service_credentials [emits_intros]:
  "P ReadRandom \<Longrightarrow> emits P (new_service_credentials e h) j"
  unfolding new_service_credentials_def random_service_password_def by (intro emits_intros)

lemma ends_new_service_credentials:
  "ends (new_service_credentials e h) i (Inr c) j \<Longrightarrow> j = i"
  unfolding new_service_credentials_def random_service_password_def
  by (auto elim!: ends_bndE ends_on_errE)

lemma emits_save_credentials:
  assumes "\<And>u ch. update_credentials_secret e j s c = Inr (u, ch) \<Longrightarrow> secret_write_ok e i u"
  shows "emits (secret_call_ok e i) (save_credentials e s c) j"
  unfolding save_credentials_def using assms by (intro emits_intros) auto

lemma reconcile_credentials_writes: "emits (secret_call_ok e i) (reconcile_credentials e) i"
proof -
  have save: "secret_write_ok e i u"
    if u: "update_credentials_secret e i s (c\<lparr>cr_users_acl := credentials_acl hash c\<rparr>) = Inr (u, ch)"
      and "answer_get_secret e h Cached (auth_secret_name (sp_slug (vi_spec i))) = Inr s"
      and "sc_type s = ''Opaque''" and "st_accepted (vi_status i) = Some accepted"
      and "parse_app_password_hash (sc_data s) (ac_password_version accepted) = Inr hash"
      and parsed: "parse_service_credentials (sc_data s) = Inr parsed"
      "st_credentials_initialized (vi_status i) \<Longrightarrow> parsed = Some c"
    for s c hash u ch h accepted parsed
  proof -
    note w = update_credentials_secret_Inr [OF u]
    have same: "sc_data u OperatorPasswordKey = sc_data s OperatorPasswordKey \<and>
        sc_data u ReplicaPasswordKey = sc_data s ReplicaPasswordKey \<and>
        sc_data u HealthPasswordKey = sc_data s HealthPasswordKey" if "st_credentials_initialized (vi_status i)"
      using parse_service_credentials_Some [OF w(1)] parse_service_credentials_Some [of "sc_data s" c] parsed that by simp
    show ?thesis
      unfolding secret_write_ok_def using that w same
      by (intro exI [of _ h] exI [of _ s] exI [of _ accepted] exI [of _ hash]
        exI [of _ "c\<lparr>cr_users_acl := credentials_acl hash c\<rparr>"]) (auto simp: credentials_acl_def credential_keys_def)
  qed
  show ?thesis
    unfolding reconcile_credentials_def Let_def
    by (intro emits_intros emits_save_credentials)
      (auto split: option.splits dest: ends_new_service_credentials intro!: save)
qed

section \<open>Line breaks in a password\<close>

text \<open>The ACL file as the server splits it.\<close>

fun acl_lines :: "string \<Rightarrow> string list" where
  "acl_lines [] = [[]]"
| "acl_lines (c # cs) = (if c = line_feed then [] # acl_lines cs
     else case acl_lines cs of [] \<Rightarrow> [[c]] | l # ls \<Rightarrow> (c # l) # ls)"

lemma acl_lines_nonempty: "acl_lines s \<noteq> []"
  by (cases s) (auto split: list.splits)

lemma acl_lines_append:
  "acl_lines (a @ line_feed # b) = acl_lines a @ acl_lines b"
  by (induction a) (auto split: list.splits simp: acl_lines_nonempty)

lemma acl_lines_one: "line_feed \<notin> set a \<Longrightarrow> acl_lines a = [a]"
  by (induction a) auto

lemma acl_lines_member:
  assumes "line_feed \<notin> set l"
  shows "l \<in> set (acl_lines (a @ line_feed # l @ line_feed # b))"
  using assms by (simp add: acl_lines_append acl_lines_one)

lemma base64_values_alphabet: "base64_values s = Some vs \<Longrightarrow> set s \<subseteq> set base64_alphabet"
proof (induction s arbitrary: vs)
  case (Cons c s)
  have "index_of x xs = Some n \<Longrightarrow> x \<in> set xs" for x :: char and xs n
    by (induction xs arbitrary: n) (auto split: if_splits)
  with Cons show ?case by (auto simp: base64_value_def split: option.splits)
qed simp

lemma valid_password_no_space:
  assumes "valid_service_password s"
  shows "CHR '' '' \<notin> set s"
proof -
  obtain vs where "base64_values (filter (\<lambda>c. c \<noteq> line_feed \<and> c \<noteq> carriage_return) s) = Some vs"
    using assms by (auto simp: valid_service_password_def raw_url_decode_def split: option.splits bind_splits)
  then have "set (filter (\<lambda>c. c \<noteq> line_feed \<and> c \<noteq> carriage_return) s) \<subseteq> set base64_alphabet"
    by (rule base64_values_alphabet)
  moreover have "CHR '' '' \<notin> set base64_alphabet" "CHR '' '' \<noteq> line_feed" "CHR '' '' \<noteq> carriage_return"
    by (simp_all add: base64_alphabet_def line_feed_def carriage_return_def)
  ultimately show ?thesis by auto
qed

lemma valid_password_break: "valid_service_password (u @ line_feed # v) = valid_service_password (u @ v)"
  by (simp add: valid_service_password_def raw_url_decode_def)

lemma parse_broken_password:
  assumes "parse_service_credentials data = Inr (Some c)" and "cr_operator_password c = u @ v"
  shows "parse_service_credentials (data(OperatorPasswordKey \<mapsto> u @ line_feed # v)) =
    Inr (Some (c\<lparr>cr_operator_password := u @ line_feed # v\<rparr>))"
  using parse_service_credentials_Some [OF assms(1)] assms(2) credential_keys_distinct
  by (cases c) (simp add: parse_service_credentials_def credential_keys_def data_at_def Let_def
      credentials_valid_def valid_password_break)

lemma not_user_line:
  assumes "CHR '' '' \<notin> set v" and "v \<noteq> ''user''"
  shows "take 5 (v @ CHR '' '' # w) \<noteq> ''user ''"
proof
  let ?first = "takeWhile (\<lambda>c. c \<noteq> CHR '' '')"
  assume "take 5 (v @ CHR '' '' # w) = ''user ''"
  then have "v @ CHR '' '' # w = ''user '' @ drop 5 (v @ CHR '' '' # w)" by (metis append_take_drop_id)
  then have "?first (v @ CHR '' '' # w) = ?first (''user '' @ drop 5 (v @ CHR '' '' # w))" by (rule arg_cong)
  moreover have "?first (''user '' @ x) = ''user''" for x by simp
  moreover have "?first (v @ CHR '' '' # w) = v" using assms(1) by (auto simp: takeWhile_append)
  ultimately show False using assms(2) by simp
qed

lemma broken_acl_line:
  assumes "line_feed \<notin> set v"
  shows "v @ '' ~* &* +@all'' \<in> set (acl_lines (initial_acl app_hash (u @ line_feed # v) replica health))"
  using acl_lines_member [of "v @ '' ~* &* +@all''" "''user default off'' @ [line_feed] @
     ''user app off #'' @ app_hash @ '' '' @ appPermissions @ [line_feed] @ ''user operator on >'' @ u"
     "''user replica on >'' @ replica @ '' -@all +psync +replconf +ping'' @ [line_feed] @
     ''user health on >'' @ health @ '' -@all +ping +role +info'' @ [line_feed]"] assms
  by (simp add: initial_acl_def line_feed_def)

end
