(* ===== verification/Valkey_Errors.thy ===== *)
theory Valkey_Errors
  imports Runtime
begin

text \<open>
  Classification of the errors of the Valkey client (\<open>internal/valkey/client.go\<close>). An error reply of
  the server is \<open>Reply\<close>; \<open>valkeygo.IsValkeyErr\<close> looks at the outermost error only.
\<close>

definition has_prefix :: "string \<Rightarrow> string \<Rightarrow> bool" where
  "has_prefix s p \<longleftrightarrow> take (length p) s = p"

definition reply_is :: "string \<Rightarrow> string \<Rightarrow> bool" where
  "reply_is message code \<longleftrightarrow> message = code \<or> has_prefix message (code @ '' '')"

definition classify_reply :: "string \<Rightarrow> error_kind" where
  "classify_reply message =
     (if reply_is message ''BUSY'' then ErrorKindBusy
      else if reply_is message ''LOADING'' then ErrorKindLoading
      else if reply_is message ''NOAUTH'' \<or> reply_is message ''WRONGPASS'' then ErrorKindAuth
      else ErrorKindServer)"

definition classify_cause :: "err \<Rightarrow> error_kind" where
  "classify_cause er =
     (if errors_is ErrLeaseLost er \<or> errors_is ErrClosed er \<or> errors_is ErrInvalidAddress er \<or>
         errors_is ErrContextCanceled er then ErrorKindOther
      else if errors_is ErrTransportFailure er then ErrorKindTransport
      else if errors_is ErrBusy er then ErrorKindBusy
      else if errors_is ErrLoading er then ErrorKindLoading
      else if errors_is ErrAuthentication er then ErrorKindAuth
      else case er of
        Reply message \<Rightarrow> classify_reply message
      | _ \<Rightarrow> if errors_is ErrUnexpectedReply er then ErrorKindServer else ErrorKindTransport)"

text \<open>\<open>errors.AsType[*sanitizedCommandError]\<close>: the first one in pre-order.\<close>

fun command_kind :: "err \<Rightarrow> error_kind option" and command_kinds :: "err list \<Rightarrow> error_kind option" where
  "command_kind (CommandError _ _ _ kind) = Some kind"
| "command_kind (Wrapped er) = command_kind er"
| "command_kind (Joined es) = command_kinds es"
| "command_kind _ = None"
| "command_kinds [] = None"
| "command_kinds (er # es) = (case command_kind er of Some k \<Rightarrow> Some k | None \<Rightarrow> command_kinds es)"

definition classify_error :: "err \<Rightarrow> error_kind" where
  "classify_error er = (case command_kind er of Some kind \<Rightarrow> kind | None \<Rightarrow> classify_cause er)"

definition command_error :: "string \<Rightarrow> bool \<Rightarrow> err \<Rightarrow> err" where
  "command_error name sensitive cause = CommandError name sensitive cause (classify_cause cause)"

lemma classify_command_error [simp]:
  "classify_error (command_error name sensitive cause) = classify_cause cause"
  by (simp add: classify_error_def command_error_def)

lemma classify_wrapped_command_error [simp]:
  "classify_error (Wrapped (command_error name sensitive cause)) = classify_cause cause"
  by (simp add: classify_error_def command_error_def)

text \<open>A lost lease, a closed client or a canceled context never counts against the process.\<close>

lemma classify_cause_other:
  "errors_is s er \<Longrightarrow> s \<in> {ErrLeaseLost, ErrClosed, ErrInvalidAddress, ErrContextCanceled} \<Longrightarrow>
   classify_cause er = ErrorKindOther"
  by (auto simp: classify_cause_def)

text \<open>
  The errors of the operator itself, in the shapes in which they reach the observation: returned bare
  (\<open>Dial\<close>, \<open>OpenSession\<close>, a closed session), wrapped with \<open>fmt.Errorf\<close>, or put into a command error.
\<close>

inductive operator_error :: "err \<Rightarrow> bool" where
  bare: "s \<in> {ErrLeaseLost, ErrClosed, ErrInvalidAddress, ErrContextCanceled} \<Longrightarrow> operator_error (Sentinel s)"
| wrapped: "operator_error er \<Longrightarrow> operator_error (Wrapped er)"
| command: "operator_error er \<Longrightarrow> operator_error (command_error name sensitive er)"

lemma operator_error_is:
  "operator_error er \<Longrightarrow> \<exists>s\<in>{ErrLeaseLost, ErrClosed, ErrInvalidAddress, ErrContextCanceled}. errors_is s er"
  by (induction rule: operator_error.induct) (auto simp: command_error_def)

lemma classify_operator_cause: "operator_error er \<Longrightarrow> classify_cause er = ErrorKindOther"
  using operator_error_is classify_cause_other by blast

lemma command_kind_operator_error:
  "operator_error er \<Longrightarrow> command_kind er = None \<or> command_kind er = Some ErrorKindOther"
  by (induction rule: operator_error.induct) (auto simp: command_error_def classify_operator_cause)

lemma classify_operator_error: "operator_error er \<Longrightarrow> classify_error er = ErrorKindOther"
  using command_kind_operator_error classify_operator_cause by (fastforce simp: classify_error_def)

end
