(* ===== verification/Pods.thy ===== *)
theory Pods
  imports Credentials_Lemmas Valkey_Errors
begin

text \<open>
  What several handlers do to the pod of a process: \<open>currentProcessPod\<close>, \<open>removeProcessRoleLabel\<close>
  and \<open>fenceProcess\<close> of \<open>failover.go\<close>, and deletion with preconditions. The hooks
  \<open>run\<dots>ActionControl\<close> of the integration build do nothing in the production build and are left out.
\<close>

definition clone_without_key :: "(string \<rightharpoonup> string) \<Rightarrow> string \<Rightarrow> (string \<rightharpoonup> string)" where
  "clone_without_key values key = (\<lambda>name. if name \<noteq> key then values name else None)"

definition current_process_pod :: "env \<Rightarrow> node_status \<Rightarrow> kube_pod op" where
  "current_process_pod e process =
     with_inst (\<lambda>i.
     bnd deref_accepted (\<lambda>accepted.
     bnd (get_pod e Direct (pod_key (ac_slug accepted) (ns_ordinal process))) (\<lambda>pod.
     if \<not> pod_owned_by_instance pod i then fail (Kube KubeNotFound)
     else (case valkey_container_status (pod_container_statuses pod) of
       None \<Rightarrow> fail (Kube KubeNotFound)
     | Some container \<Rightarrow>
         if pod_ip pod = '''' \<or> \<not> container_is_running (Some container) \<or>
            ns_pod_uid process \<noteq> pod_uid pod \<or> ns_container_id process \<noteq> cs_container_id container \<or>
            ns_node_name process \<noteq> pod_node_name pod
         then fail (Kube KubeNotFound)
         else bnd (get_node e Direct (pod_node_name pod)) (\<lambda>node.
              if ns_node_uid process \<noteq> kn_uid node then fail (Kube KubeNotFound) else ret pod)))))"

definition delete_pod_if_present :: "env \<Rightarrow> kube_pod \<Rightarrow> int \<Rightarrow> unit op" where
  "delete_pod_if_present e pod grace =
     on_err (delete_pod e pod grace)
       (\<lambda>er. if is_not_found er then ret () else fail (Wrapped er)) ret"

definition remove_process_role_label :: "env \<Rightarrow> node_status \<Rightarrow> bool op" where
  "remove_process_role_label e process =
     on_err (current_process_pod e process) (\<lambda>er. if is_not_found er then ret False else fail er)
     (\<lambda>pod.
     if pod_labels pod applicationRoleLabel = None then ret False
     else on_err (patch_pod e pod
                   (pod\<lparr>pod_labels := clone_without_key (pod_labels pod) applicationRoleLabel\<rparr>))
            (\<lambda>er. fail (Wrapped er)) (\<lambda>_. ret True))"

definition update_app_access :: "env \<Rightarrow> kube_pod \<Rightarrow> service_credentials \<Rightarrow> string \<Rightarrow> bool \<Rightarrow> process_state op" where
  "update_app_access e pod c app_hash enabled =
     (let address = valkey_address (pod_ip pod); password = cr_operator_password c in
      do_call (UpdateAppAccess address password app_hash enabled)
        (\<lambda>h. answer_app_access e h address password app_hash enabled))"

definition fence_process :: "env \<Rightarrow> node_status \<Rightarrow> bool op" where
  "fence_process e process =
     bnd (current_process_pod e process) (\<lambda>pod.
     bnd (process_credentials e) (\<lambda>(credentials, app_hash).
     bnd (update_app_access e pod credentials app_hash False) (\<lambda>state.
     ret (ps_run_id state = ns_run_id process \<and> \<not> ps_app_enabled state \<and>
          app_acl_matches (ps_app_password_hashes state) app_hash))))"

section \<open>Which pod is found\<close>

text \<open>The pod of a process: the one the API server has under its name and identity.\<close>

definition pod_of_process :: "valkey_instance \<Rightarrow> node_status \<Rightarrow> kube_pod \<Rightarrow> bool" where
  "pod_of_process i process pod \<longleftrightarrow>
     pod_owned_by_instance pod i \<and> pod_ip pod \<noteq> '''' \<and> pod_uid pod = ns_pod_uid process \<and>
     pod_node_name pod = ns_node_name process \<and>
     (\<exists>c. valkey_container_status (pod_container_statuses pod) = Some c \<and>
          cs_state c = ContainerRunning \<and> cs_container_id c = ns_container_id process)"

lemma ends_current_process_pod:
  "ends (current_process_pod e process) i (Inr pod) j \<Longrightarrow> j = i \<and> pod_of_process i process pod"
  unfolding current_process_pod_def pod_of_process_def
  by (auto elim!: ends_bndE split: if_splits option.splits simp: container_is_running_def)

lemma ends_current_process_pod_Inl:
  "ends (current_process_pod e process) i r j \<Longrightarrow> j = i"
  unfolding current_process_pod_def deref_accepted_def
  by (auto elim!: ends_bndE split: if_splits option.splits)

text \<open>Reading never changes anything: the calls that only look.\<close>

fun reading :: "call \<Rightarrow> bool" where
  "reading ReadClock = True"
| "reading GetInstance = True"
| "reading (GetPod _ _) = True"
| "reading (GetNode _ _) = True"
| "reading (GetSecret _ _) = True"
| "reading (GetNamespace _) = True"
| "reading (GetStatefulSet _) = True"
| "reading (ListEndpoints _) = True"
| "reading (RecordEvent _ _) = True"
| "reading _ = False"

lemma emits_current_process_pod [emits_intros]:
  assumes "\<And>c. reading c \<Longrightarrow> P c"
  shows "emits P (current_process_pod e process) i"
  unfolding current_process_pod_def by (intro emits_intros assms) simp_all

lemma emits_process_credentials [emits_intros]:
  assumes "\<And>c. reading c \<Longrightarrow> P c"
  shows "emits P (process_credentials e) i"
  unfolding process_credentials_def by (intro emits_intros assms) simp_all

lemma ends_process_credentials: "ends (process_credentials e) i r j \<Longrightarrow> j = i"
  unfolding process_credentials_def deref_accepted_def
  by (auto elim!: ends_bndE ends_on_errE split: if_splits option.splits sum.splits)

text \<open>What removing the label of a process sends to the API server.\<close>

definition role_label_patch :: "valkey_instance \<Rightarrow> node_status \<Rightarrow> call \<Rightarrow> bool" where
  "role_label_patch i process c \<longleftrightarrow>
     (\<exists>pod. c = PatchPod pod (pod\<lparr>pod_labels := (pod_labels pod)(applicationRoleLabel := None)\<rparr>) \<and>
        pod_of_process i process pod)"

lemma clone_without_key_upd: "clone_without_key m k = m(k := None)"
  by (auto simp: clone_without_key_def)

lemma emits_remove_process_role_label [emits_intros]:
  assumes "\<And>c. reading c \<Longrightarrow> P c" and "\<And>c. role_label_patch i process c \<Longrightarrow> P c"
  shows "emits P (remove_process_role_label e process) i"
  unfolding remove_process_role_label_def
  by (intro emits_intros assms)
    (auto simp: role_label_patch_def clone_without_key_upd dest: ends_current_process_pod)

lemma ends_remove_process_role_label: "ends (remove_process_role_label e process) i r j \<Longrightarrow> j = i"
  unfolding remove_process_role_label_def
  by (auto elim!: ends_on_errE split: if_splits dest!: ends_current_process_pod_Inl)

text \<open>What closing the access of app to a process sends to the process.\<close>

definition fencing_call :: "valkey_instance \<Rightarrow> node_status \<Rightarrow> call \<Rightarrow> bool" where
  "fencing_call i process c \<longleftrightarrow>
     (\<exists>pod password hash. c = UpdateAppAccess (valkey_address (pod_ip pod)) password hash False \<and>
        pod_of_process i process pod)"

lemma emits_fence_process [emits_intros]:
  assumes "\<And>c. reading c \<Longrightarrow> P c" and "\<And>c. fencing_call i process c \<Longrightarrow> P c"
  shows "emits P (fence_process e process) i"
  unfolding fence_process_def update_app_access_def Let_def
  by (intro emits_intros assms)
    (auto simp: fencing_call_def dest!: ends_current_process_pod ends_process_credentials)

lemma ends_fence_process: "ends (fence_process e process) i r j \<Longrightarrow> j = i"
  unfolding fence_process_def update_app_access_def Let_def
  by (auto elim!: ends_bndE dest!: ends_current_process_pod_Inl ends_process_credentials)

text \<open>A confirmed fencing rests on the answer of the process itself.\<close>

lemma fence_process_confirmed:
  assumes "ends (fence_process e process) i (Inr True) j"
  shows "\<exists>h address password hash state.
    answer_app_access e h address password hash False = Inr state \<and>
    ps_run_id state = ns_run_id process \<and> \<not> ps_app_enabled state \<and> ps_app_password_hashes state = [hash]"
  using assms unfolding fence_process_def update_app_access_def Let_def
  by (auto elim!: ends_bndE simp: app_acl_matches_iff) metis

end
