(* ===== verification/Termination.thy ===== *)
theory Termination
  imports Pods
begin

text \<open>
  Evidence that a process has stopped (\<open>process_termination.go\<close>): saved from the state of the
  container, or from the disappearance of the node, before the pod may go.
\<close>

section \<open>The handlers\<close>

definition reconcile_process_history :: "env \<Rightarrow> result op" where
  "reconcile_process_history e =
     bnd (update_status e (\<lambda>_. prune_history)) (\<lambda>changed. ret (requeue_if changed))"

definition record_termination_proof_lost_event :: "env \<Rightarrow> unit op" where
  "record_termination_proof_lost_event e = record_event e ''TerminationProofLost'' ''Fencing''"

definition mark_unavailable :: "string \<Rightarrow> instance_status \<Rightarrow> instance_status" where
  "mark_unavailable reason st = st\<lparr>st_phase := Some InstancePhaseUnavailable, st_reason := reason\<rparr>"

definition termination_proof_lost :: "env \<Rightarrow> result op" where
  "termination_proof_lost e =
     bnd (update_status e (\<lambda>i st.
        set_condition e i conditionTypeRecoveryRequired ConditionTrue ''TerminationProofLost''
          ''process identity changed without evidence of a stop''
          (if st_initialized st then mark_unavailable ''FENCING_REQUIRED'' st else st))) (\<lambda>changed.
     bnd (when_op changed (record_termination_proof_lost_event e)) (\<lambda>_.
     ret (requeue_if changed)))"

definition release_terminated_pod :: "env \<Rightarrow> kube_pod \<Rightarrow> node_status \<Rightarrow> result op" where
  "release_terminated_pod e pod node =
     (case ns_termination node of
        None \<Rightarrow> ret 0
      | Some termination \<Rightarrow>
          if ns_pod_uid node \<noteq> pod_uid pod then ret 0
          else if time_ptr_is_zero (pod_deletion_timestamp pod) then
            (let grace = (if tm_evidence termination = ''manual_fencing'' \<or>
                             tm_evidence termination = ''node_deleted''
                          then 0 else ProcessDeletionGracePeriod)
             in bnd (delete_pod_if_present e pod grace) (\<lambda>_. ret (requeue_if True)))
          else if processFinalizer \<notin> set (pod_finalizers pod) then ret 0
          else on_err (patch_pod e pod
                   (pod\<lparr>pod_finalizers := filter (\<lambda>v. v \<noteq> processFinalizer) (pod_finalizers pod)\<rparr>))
                 (\<lambda>er. if is_not_found er then ret (requeue_if True) else fail (Wrapped er))
                 (\<lambda>_. ret (requeue_if True)))"

definition previous_node_deleted :: "env \<Rightarrow> node_status \<Rightarrow> bool op" where
  "previous_node_deleted e node =
     (if ns_node_name node = '''' \<or> ns_node_uid node = '''' then ret False
      else on_err (get_node e Direct (ns_node_name node))
             (\<lambda>er. if is_not_found er then ret True else fail (Wrapped er))
             (\<lambda>current. ret (kn_uid current \<noteq> ns_node_uid node)))"

text \<open>Updates of single nodes that read the clock for each node they change.\<close>

definition update_where_now :: "env \<Rightarrow> ('a \<Rightarrow> bool) \<Rightarrow> (time \<Rightarrow> 'a \<Rightarrow> 'a) \<Rightarrow> 'a list \<Rightarrow> 'a list op" where
  "update_where_now e p f xs =
     map_op (\<lambda>x. if p x then bnd (now_op e) (\<lambda>t. ret (f t x)) else ret x) xs"

definition node_deleted_evidence :: "time \<Rightarrow> node_status \<Rightarrow> node_status" where
  "node_deleted_evidence t p = p\<lparr>ns_readiness := False, ns_termination :=
     Some \<lparr>tm_reason = ''NodeDeleted'', tm_exit_code = 0, tm_finished_at = t, tm_evidence = ''node_deleted''\<rparr>\<rparr>"

definition degrade_replicas :: "instance_status \<Rightarrow> instance_status" where
  "degrade_replicas st =
     (if st_initialized st \<and> accepted_mode_is st ValkeyModeHA \<and> st_failover st = None \<and>
         st_rollout st = None \<and> st_credential_rotation st = None
      then st\<lparr>st_phase := Some InstancePhaseDegraded, st_reason := ''REPLICAS_NOT_READY''\<rparr> else st)"

definition save_node_deletion_termination :: "env \<Rightarrow> node_status \<Rightarrow> result op" where
  "save_node_deletion_termination e node =
     bnd (update_status_checked e
        (with_inst (\<lambda>i.
         bnd (update_where_now e (\<lambda>p. same_process p node) node_deleted_evidence (st_nodes (vi_status i))) (\<lambda>nodes.
         modify_status (\<lambda>st0. (let st = st0\<lparr>st_nodes := nodes\<rparr> in
           if st_initialized st \<and> process_failure_affects_primary st (ns_ordinal node)
           then mark_unavailable ''PRIMARY_NOT_READY'' st
           else degrade_replicas st)))))) (\<lambda>changed.
     bnd (when_op changed (record_event e ''ProcessNodeDeleted'' ''Fencing'')) (\<lambda>_.
     ret (requeue_if changed)))"

definition empty_node_status :: "node_status" where
  "empty_node_status = \<lparr>ns_ordinal = 0, ns_pod_uid = '''', ns_container_id = '''', ns_run_id = '''',
     ns_node_name = '''', ns_node_uid = '''', ns_role = NodeRoleOther '''', ns_readiness = False,
     ns_app_enabled = False, ns_app_password_version = 0, ns_replication = None, ns_observation = None,
     ns_recovery = None, ns_termination = None\<rparr>"

definition apply_container_termination ::
  "node_status \<Rightarrow> process_termination \<Rightarrow> instance_status \<Rightarrow> instance_status" where
  \<comment> \<open>the closure of \<open>saveContainerTermination\<close>; \<open>stopped\<close> is the node built from the pod\<close>
  "apply_container_termination stopped termination st =
     (let saved = node_status_at_ordinal (st_nodes st) (ns_ordinal stopped);
          node = (case saved of
              Some s \<Rightarrow> if same_container_process s stopped
                        then s\<lparr>ns_readiness := False, ns_termination := Some termination\<rparr> else stopped
            | None \<Rightarrow> stopped);
          st1 = (case saved of
              Some s \<Rightarrow> if \<not> same_container_process s stopped \<and> st_deletion st \<noteq> None
                        then st\<lparr>st_previous_processes := append_previous_process (st_previous_processes st) s\<rparr>
                        else st
            | None \<Rightarrow> st);
          st2 = st1\<lparr>st_nodes := replace_node_status (st_nodes st1) node\<rparr>;
          st3 = st2\<lparr>st_previous_processes := update_where
                  (\<lambda>p. same_container_process p node \<and> ns_termination p = None)
                  (\<lambda>p. p\<lparr>ns_readiness := False, ns_termination := Some termination\<rparr>)
                  (st_previous_processes st2)\<rparr>
      in if st_initialized st3 \<and> (st_primary_ordinal st3 = None \<or> st_primary_ordinal st3 = Some (ns_ordinal stopped))
         then mark_unavailable ''PRIMARY_NOT_READY'' st3 else st3)"

text \<open>The node the stopped process ran on: as saved, or as the API reports it for the pod.\<close>

definition stopped_process_node ::
  "env \<Rightarrow> node_status option \<Rightarrow> bool \<Rightarrow> kube_pod \<Rightarrow> (string \<times> string) op" where
  "stopped_process_node e current identity_changed pod =
     (case (if identity_changed then None else current) of
        Some c \<Rightarrow> ret (ns_node_name c, ns_node_uid c)
      | None \<Rightarrow>
          if pod_node_name pod = '''' then ret ('''', '''')
          else on_err (get_node e Cached (pod_node_name pod)) (\<lambda>er. fail (Wrapped er))
                 (\<lambda>n. ret (pod_node_name pod, kn_uid n)))"

definition stopped_node_status ::
  "kube_pod \<Rightarrow> container_status \<Rightarrow> int \<Rightarrow> string \<times> string \<Rightarrow> process_termination \<Rightarrow> node_status" where
  "stopped_node_status pod container ordinal node termination =
     empty_node_status\<lparr>ns_ordinal := ordinal, ns_pod_uid := pod_uid pod,
       ns_container_id := cs_container_id container, ns_node_name := fst node,
       ns_node_uid := snd node, ns_termination := Some termination\<rparr>"

definition container_replaced :: "node_status option \<Rightarrow> kube_pod \<Rightarrow> container_status \<Rightarrow> bool" where
  "container_replaced current pod container =
     (case current of None \<Rightarrow> False
      | Some c \<Rightarrow> ns_pod_uid c \<noteq> pod_uid pod \<or> ns_container_id c \<noteq> cs_container_id container)"

definition already_stopped :: "node_status option \<Rightarrow> bool \<Rightarrow> node_status option" where
  "already_stopped current identity_changed =
     (case current of None \<Rightarrow> None
      | Some c \<Rightarrow> if \<not> identity_changed \<and> ns_termination c \<noteq> None then Some c else None)"

definition save_container_termination ::
  "env \<Rightarrow> kube_pod \<Rightarrow> container_status \<Rightarrow> int \<Rightarrow> result op" where
  "save_container_termination e pod container ordinal =
     (case cs_state container of
        ContainerTerminated exit_code reason0 finished0 \<Rightarrow>
          with_inst (\<lambda>i.
          (let current = node_status_at_ordinal (st_nodes (vi_status i)) ordinal;
               identity_changed = container_replaced current pod container
           in
           if identity_changed \<and> st_deletion (vi_status i) = None then termination_proof_lost e
           else case already_stopped current identity_changed of
             Some c \<Rightarrow> release_terminated_pod e pod c
           | None \<Rightarrow>
               bnd (stopped_process_node e current identity_changed pod) (\<lambda>node.
               bnd (if finished0 = 0 then now_op e else ret finished0) (\<lambda>finished.
               (let termination = \<lparr>tm_reason = (if reason0 = '''' then ''Terminated'' else reason0),
                      tm_exit_code = exit_code, tm_finished_at = finished,
                      tm_evidence = ''container_status''\<rparr>
                in bnd (update_status e (\<lambda>_. apply_container_termination
                          (stopped_node_status pod container ordinal node termination) termination))
                     (\<lambda>changed. ret (requeue_if changed)))))))
      | _ \<Rightarrow> ret 0)"

section \<open>Envelopes of status updates\<close>

text \<open>The patches one \<open>updateStatus\<close> with the closure \<open>f\<close> can send.\<close>

definition patches :: "env \<Rightarrow> valkey_instance \<Rightarrow> (valkey_instance \<Rightarrow> instance_status \<Rightarrow> instance_status) \<Rightarrow> call \<Rightarrow> bool" where
  "patches e i f c \<longleftrightarrow> (\<exists>b. (b = i \<or> rereads e b) \<and> c = PatchStatus b (update_vi_status (f b) b))"

lemma emits_update_status_patches:
  "P GetInstance \<Longrightarrow> (\<And>c. patches e i f c \<Longrightarrow> P c) \<Longrightarrow> emits P (update_status e f) i"
  by (intro emits_update_status) (auto simp: patches_def)

lemma emits_update_status_now_patches:
  "P GetInstance \<Longrightarrow> P ReadClock \<Longrightarrow> (\<And>t c. patches e i (f t) c \<Longrightarrow> P c) \<Longrightarrow> emits P (update_status_now e f) i"
  by (intro emits_update_status_now) (auto simp: patches_def)

text \<open>A handler that only reads and updates the status.\<close>

definition status_call :: "call \<Rightarrow> bool" where
  "status_call c \<longleftrightarrow> reading c \<or> (\<exists>b a. c = PatchStatus b a)"

lemma status_call_simps [simp]:
  "reading c \<Longrightarrow> status_call c" "status_call (PatchStatus b a)"
  "patches e i f c \<Longrightarrow> status_call c"
  "status_call ReadClock" "status_call GetInstance" "status_call (RecordEvent r ac)"
  by (auto simp: status_call_def patches_def)

lemma ends_map_op:
  assumes "ends (map_op f xs) i (Inr ys) j"
    and "\<And>x y i j. x \<in> set xs \<Longrightarrow> ends (f x) i (Inr y) j \<Longrightarrow> j = i \<and> R x y"
  shows "j = i \<and> list_all2 R xs ys"
  using assms
proof (induction xs arbitrary: ys i)
  case Nil
  then show ?case by simp
next
  case (Cons x xs)
  from Cons.prems(1) obtain y zs i1 i2 where 1: "ends (f x) i (Inr y) i1" "ends (map_op f xs) i1 (Inr zs) i2"
      "ys = y # zs" "j = i2"
    by (auto elim!: ends_bndE)
  then have "i1 = i" "R x y" using Cons.prems(2) by auto
  then show ?case using Cons.IH [of i1 zs] Cons.prems(2) 1 by auto
qed

lemma emits_map_op:
  assumes "\<And>x j. x \<in> set xs \<Longrightarrow> emits P (f x) j"
  shows "emits P (map_op f xs) i"
  using assms by (induction xs arbitrary: i) (auto intro!: emits_intros)

lemma ends_update_where_now:
  "ends (update_where_now e p f xs) i (Inr ys) j \<Longrightarrow>
   j = i \<and> list_all2 (\<lambda>x y. if p x then \<exists>t. y = f t x else y = x) xs ys"
  unfolding update_where_now_def
  by (rule ends_map_op) (auto elim!: ends_bndE split: if_splits, blast)

lemma emits_update_where_now [emits_intros]: "P ReadClock \<Longrightarrow> emits P (update_where_now e p f xs) i"
  unfolding update_where_now_def by (intro emits_map_op) (auto intro!: emits_intros)

section \<open>Releasing a pod\<close>

text \<open>
  The calls that let a pod go: only with evidence of the stop of the very process in it, and
  without a grace period only where no kubelet is left to report the stop.
\<close>

fun release_call :: "kube_pod \<Rightarrow> node_status \<Rightarrow> call \<Rightarrow> bool" where
  "release_call pod node (DeletePod p grace) =
     (p = pod \<and> ns_pod_uid node = pod_uid pod \<and>
      (\<exists>tm. ns_termination node = Some tm \<and>
         (grace = ProcessDeletionGracePeriod \<or>
          grace = 0 \<and> tm_evidence tm \<in> {''manual_fencing'', ''node_deleted''})))"
| "release_call pod node (PatchPod b a) =
     (b = pod \<and> ns_pod_uid node = pod_uid pod \<and> ns_termination node \<noteq> None \<and>
      \<not> time_ptr_is_zero (pod_deletion_timestamp pod) \<and>
      a = pod\<lparr>pod_finalizers := filter (\<lambda>v. v \<noteq> processFinalizer) (pod_finalizers pod)\<rparr>)"
| "release_call pod node _ = False"

lemma emits_delete_pod_if_present [emits_intros]:
  "P (DeletePod pod g) \<Longrightarrow> emits P (delete_pod_if_present e pod g) i"
  unfolding delete_pod_if_present_def by (intro emits_intros)

lemma emits_release_terminated_pod [emits_intros]:
  assumes "\<And>c. release_call pod node c \<Longrightarrow> P c"
  shows "emits P (release_terminated_pod e pod node) i"
  unfolding release_terminated_pod_def Let_def
  by (intro emits_intros assms) auto

section \<open>Saving the evidence\<close>

lemma same_container_process_refl [simp]: "same_container_process p p"
  by (simp add: same_container_process_def)

lemma same_container_updates [simp]:
  "same_container_process (p\<lparr>ns_termination := t\<rparr>) q = same_container_process p q"
  "same_container_process (p\<lparr>ns_readiness := r\<rparr>) q = same_container_process p q"
  "same_container_process q (p\<lparr>ns_termination := t\<rparr>) = same_container_process q p"
  "same_container_process q (p\<lparr>ns_readiness := r\<rparr>) = same_container_process q p"
  by (simp_all add: same_container_process_def)

lemma same_container_sym: "same_container_process p q \<Longrightarrow> same_container_process q p"
  by (simp add: same_container_process_def)

lemma same_container_ordinal: "same_container_process p q \<Longrightarrow> ns_ordinal p = ns_ordinal q"
  by (simp add: same_container_process_def)

lemma emits_termination_proof_lost [emits_intros]:
  assumes "\<And>c. status_call c \<Longrightarrow> P c"
  shows "emits P (termination_proof_lost e) i"
  unfolding termination_proof_lost_def record_termination_proof_lost_event_def
  by (intro emits_intros assms) simp_all

lemma emits_previous_node_deleted [emits_intros]:
  assumes "\<And>c. reading c \<Longrightarrow> P c"
  shows "emits P (previous_node_deleted e node) i"
  unfolding previous_node_deleted_def by (intro emits_intros assms) simp_all

lemma ends_previous_node_deleted: "ends (previous_node_deleted e node) i r j \<Longrightarrow> j = i"
  unfolding previous_node_deleted_def by (auto elim!: ends_on_errE split: if_splits)

text \<open>
  The node of a process is gone: the answer to a read of it was that it does not exist, or that
  another machine has its name. \<open>previousNodeDeleted\<close> asks the API server, never the cache.
\<close>

definition node_gone :: "env \<Rightarrow> reader \<Rightarrow> node_status \<Rightarrow> bool" where
  "node_gone e r node \<longleftrightarrow> ns_node_uid node \<noteq> '''' \<and>
    (\<exists>h name. case answer_get_node e h r name of
       Inl er \<Rightarrow> name = ns_node_name node \<and> is_not_found er
     | Inr n \<Rightarrow> (name = ns_node_name node \<or> kn_name n = ns_node_name node) \<and> kn_uid n \<noteq> ns_node_uid node)"

lemma node_gone_Inl:
  "ns_node_uid node \<noteq> '''' \<Longrightarrow> answer_get_node e h r (ns_node_name node) = Inl er \<Longrightarrow> is_not_found er \<Longrightarrow> node_gone e r node"
  unfolding node_gone_def by (rule conjI, assumption, rule exI [of _ h], rule exI [of _ "ns_node_name node"]) simp

lemma node_gone_Inr:
  "ns_node_uid node \<noteq> '''' \<Longrightarrow> answer_get_node e h r name = Inr n \<Longrightarrow>
   name = ns_node_name node \<or> kn_name n = ns_node_name node \<Longrightarrow> kn_uid n \<noteq> ns_node_uid node \<Longrightarrow> node_gone e r node"
  unfolding node_gone_def by (rule conjI, assumption, rule exI [of _ h], rule exI [of _ name]) simp

lemma previous_node_deleted_evidence:
  "ends (previous_node_deleted e node) i (Inr True) j \<Longrightarrow> node_gone e Direct node"
  unfolding previous_node_deleted_def
  by (auto elim!: ends_on_errE split: if_splits intro: node_gone_Inl node_gone_Inr)

lemma emits_save_node_deletion_termination [emits_intros]:
  assumes "\<And>c. status_call c \<Longrightarrow> P c"
  shows "emits P (save_node_deletion_termination e node) i"
  unfolding save_node_deletion_termination_def
  by (intro emits_intros assms) simp_all

lemma emits_stopped_process_node [emits_intros]:
  assumes "\<And>c. reading c \<Longrightarrow> P c"
  shows "emits P (stopped_process_node e c b pod) i"
  unfolding stopped_process_node_def by (intro emits_intros assms) simp_all

lemma already_stopped_Some: "already_stopped current b = Some c \<Longrightarrow> current = Some c \<and> ns_termination c \<noteq> None"
  by (auto simp: already_stopped_def split: option.splits if_splits)

lemma node_at_member: "node_status_at_ordinal ns k = Some n \<Longrightarrow> n \<in> set ns \<and> ns_ordinal n = k"
  by (auto simp: node_status_at_ordinal_def dest: find_Some_set)

lemma emits_save_container_termination [emits_intros]:
  assumes "\<And>c. status_call c \<Longrightarrow> P c"
    and "\<And>c n. n \<in> set (st_nodes (vi_status i)) \<Longrightarrow> release_call pod n c \<Longrightarrow> P c"
  shows "emits P (save_container_termination e pod container ordinal) i"
proof (cases "cs_state container")
  case (ContainerTerminated x y z)
  have release: "P c" if "already_stopped (node_status_at_ordinal (st_nodes (vi_status i)) ordinal) b = Some n"
    "release_call pod n c" for b n c
    using that already_stopped_Some node_at_member assms(2) by blast
  show ?thesis
    unfolding save_container_termination_def Let_def ContainerTerminated container_state.case
    by (intro emits_intros) (blast intro: assms(1) release status_call_simps)+
qed (simp_all add: save_container_termination_def emits_ret)

section \<open>What saving the stop of a container does\<close>

lemma apply_container_termination_nodes:
  "st_nodes (apply_container_termination s t st) = replace_node_status (st_nodes st)
     (case node_status_at_ordinal (st_nodes st) (ns_ordinal s) of
        Some c \<Rightarrow> if same_container_process c s
                  then c\<lparr>ns_readiness := False, ns_termination := Some t\<rparr> else s
      | None \<Rightarrow> s)"
  by (simp add: apply_container_termination_def Let_def mark_unavailable_def split: option.splits)

definition recorded_stop :: "node_status \<Rightarrow> process_termination \<Rightarrow> instance_status \<Rightarrow> node_status" where
  "recorded_stop s t st =
     (case node_status_at_ordinal (st_nodes st) (ns_ordinal s) of
        Some c \<Rightarrow> if same_container_process c s
                  then c\<lparr>ns_readiness := False, ns_termination := Some t\<rparr> else s
      | None \<Rightarrow> s)"

lemma recorded_stop_facts:
  assumes "ns_termination s = Some t"
  shows "same_container_process (recorded_stop s t st) s" "ns_ordinal (recorded_stop s t st) = ns_ordinal s"
    "ns_termination (recorded_stop s t st) = Some t"
  using assms by (auto simp: recorded_stop_def same_container_ordinal split: option.splits)

lemma apply_container_termination_previous:
  "st_previous_processes (apply_container_termination s t st) =
     update_where (\<lambda>p. same_container_process p (recorded_stop s t st) \<and> ns_termination p = None)
       (\<lambda>p. p\<lparr>ns_readiness := False, ns_termination := Some t\<rparr>)
       (case node_status_at_ordinal (st_nodes st) (ns_ordinal s) of
          Some c \<Rightarrow> if \<not> same_container_process c s \<and> st_deletion st \<noteq> None
                    then append_previous_process (st_previous_processes st) c
                    else st_previous_processes st
        | None \<Rightarrow> st_previous_processes st)"
  by (simp add: apply_container_termination_def recorded_stop_def Let_def mark_unavailable_def
      split: option.splits)

lemma same_process_container: "same_process p q \<Longrightarrow> same_container_process p q"
  by (simp add: same_process_def)

lemma same_container_trans:
  "same_container_process p q \<Longrightarrow> same_container_process q r \<Longrightarrow> same_container_process p r"
  by (simp add: same_container_process_def)

text \<open>
  Every process that was not the stopped one stays in the status as it was, provided the saved
  process of the ordinal is the stopped one or the instance is being deleted; and no entry for the
  stopped container is left without evidence.
\<close>

lemma container_termination_keeps_others:
  assumes "nodes_ok (st_nodes st)" and "ns_termination s = Some t"
    and "p \<in> set (st_nodes st @ st_previous_processes st)" and "\<not> same_container_process p s"
    and "st_deletion st \<noteq> None \<or> (\<forall>c\<in>set (st_nodes st). ns_ordinal c = ns_ordinal s \<longrightarrow> same_container_process c s)"
    and "ns_termination p = None"
  shows "\<exists>q\<in>set (st_nodes (apply_container_termination s t st) @
                st_previous_processes (apply_container_termination s t st)).
    same_process q p \<and> (q = p \<or> q \<in> set (st_nodes st))"
proof -
  let ?r = "recorded_stop s t st"
  have d: "distinct (map ns_ordinal (st_nodes st))" using assms(1) by (simp add: nodes_ok_def)
  note r = recorded_stop_facts [OF assms(2), of st]
  have kept: "x \<in> set (st_previous_processes (apply_container_termination s t st))"
    if "x \<in> set (case node_status_at_ordinal (st_nodes st) (ns_ordinal s) of
          Some c \<Rightarrow> if \<not> same_container_process c s \<and> st_deletion st \<noteq> None
                    then append_previous_process (st_previous_processes st) c
                    else st_previous_processes st
        | None \<Rightarrow> st_previous_processes st)" "\<not> same_container_process x s" for x
  proof -
    have "\<not> same_container_process x ?r" using that(2) r(1) same_container_trans by blast
    then show ?thesis using that(1)
      by (auto simp: apply_container_termination_previous set_update_where image_iff
          split: option.splits if_splits)
  qed
  show ?thesis
  proof (cases "p \<in> set (st_nodes st)")
    case True
    show ?thesis
    proof (cases "ns_ordinal p = ns_ordinal s")
      case True
      then have at: "node_status_at_ordinal (st_nodes st) (ns_ordinal s) = Some p"
        using \<open>p \<in> set (st_nodes st)\<close> node_at_unique [OF d] by simp
      have "st_deletion st \<noteq> None" using assms(4,5) True \<open>p \<in> set (st_nodes st)\<close> by auto
      then have "p \<in> set (st_previous_processes (apply_container_termination s t st))"
        using kept [of p] at assms(4) by (simp add: append_previous_in)
      then show ?thesis by (intro bexI [of _ p]) simp_all
    next
      case False
      then have "p \<in> set (st_nodes (apply_container_termination s t st))"
        using \<open>p \<in> set (st_nodes st)\<close> r(2)
        by (simp add: apply_container_termination_nodes set_replace_node_status
            flip: recorded_stop_def)
      then show ?thesis by (intro bexI [of _ p]) simp_all
    qed
  next
    case False
    then have prev: "p \<in> set (st_previous_processes st)" using assms(3) by simp
    show ?thesis
    proof (cases "node_status_at_ordinal (st_nodes st) (ns_ordinal s)")
      case None
      then have "p \<in> set (st_previous_processes (apply_container_termination s t st))"
        using kept [of p] prev assms(4) by simp
      then show ?thesis by (intro bexI [of _ p]) simp_all
    next
      case (Some c)
      show ?thesis
      proof (cases "\<not> same_container_process c s \<and> st_deletion st \<noteq> None")
        case True
        obtain q where q: "q \<in> set (append_previous_process (st_previous_processes st) c)"
          "q = p \<or> q = c \<and> same_process c p"
          using append_previous_covers [of p "st_previous_processes st" c] prev by blast
        have "same_process q p" using q(2) by auto
        then have "\<not> same_container_process q s"
          using assms(4) same_container_trans same_container_sym same_process_container by blast
        then have "q \<in> set (st_previous_processes (apply_container_termination s t st))"
          using kept [of q] q(1) Some True by simp
        moreover have "q = p \<or> q \<in> set (st_nodes st)"
          using q(2) Some node_at_unique [OF d] by auto
        ultimately show ?thesis using \<open>same_process q p\<close> by (intro bexI [of _ q]) simp_all
      next
        case False
        then have "p \<in> set (st_previous_processes (apply_container_termination s t st))"
          using kept [of p] prev assms(4) Some by auto
        then show ?thesis by (intro bexI [of _ p]) simp_all
      qed
    qed
  qed
qed

lemma container_termination_recorded:
  assumes "ns_termination s = Some t"
    and "q \<in> set (st_nodes (apply_container_termination s t st) @
                st_previous_processes (apply_container_termination s t st))"
    and "same_container_process q s"
  shows "ns_termination q \<noteq> None"
proof -
  note r = recorded_stop_facts [OF assms(1), of st]
  have sr: "same_container_process q (recorded_stop s t st)"
    using assms(3) r(1) same_container_trans same_container_sym by blast
  show ?thesis
  proof (cases "q \<in> set (st_nodes (apply_container_termination s t st))")
    case True
    then have "q = recorded_stop s t st"
      using same_container_ordinal [OF assms(3)] r(2)
      by (simp add: apply_container_termination_nodes set_replace_node_status flip: recorded_stop_def)
    then show ?thesis using r(3) by simp
  next
    case False
    then have "q \<in> set (st_previous_processes (apply_container_termination s t st))" using assms(2) by simp
    then obtain x where "q = (if same_container_process x (recorded_stop s t st) \<and> ns_termination x = None
        then x\<lparr>ns_readiness := False, ns_termination := Some t\<rparr> else x)"
      unfolding apply_container_termination_previous set_update_where by blast
    then show ?thesis using sr by (auto split: if_splits)
  qed
qed

end
