(* ===== verification/Availability.thy ===== *)
theory Availability
  imports Termination
begin

text \<open>
  What the status says about availability: \<open>availability.go\<close>, and the predicates on a rollout of
  \<open>workload.go\<close>, \<open>failover.go\<close> and \<open>topology.go\<close> that several handlers ask.
\<close>

definition conditionTypePublicReady :: string where "conditionTypePublicReady = ''PublicReady''"
definition conditionTypeReplicasReady :: string where "conditionTypeReplicasReady = ''ReplicasReady''"
definition conditionTypeDataLoss :: string where "conditionTypeDataLoss = ''DataLoss''"

section \<open>availability.go\<close>

definition app_admitted :: "instance_status \<Rightarrow> node_status \<Rightarrow> bool" where
  \<comment> \<open>the conjuncts the primary and the replicas share\<close>
  "app_admitted st n \<longleftrightarrow> ns_termination n = None \<and> ns_observation n = None \<and> ns_readiness n \<and>
     ns_app_enabled n \<and> ns_app_password_version n = ac_password_version (accepted_of st)"

definition primary_publicly_ready :: "instance_status \<Rightarrow> bool" where
  "primary_publicly_ready st =
     (case find_condition (st_conditions st) conditionTypePublicReady of
        None \<Rightarrow> False
      | Some c \<Rightarrow>
          (if cd_status c \<noteq> ConditionTrue then False
           else case st_primary_ordinal st of
             None \<Rightarrow> False
           | Some ordinal \<Rightarrow>
               (case node_status_at_ordinal (st_nodes st) ordinal of
                  None \<Rightarrow> False
                | Some primary \<Rightarrow> ns_role primary = NodeRolePrimary \<and> app_admitted st primary)))"

definition replica_synced :: "node_status \<Rightarrow> bool" where
  "replica_synced n =
     (case ns_replication n of None \<Rightarrow> False
      | Some r \<Rightarrow> rp_link_up r \<and> \<not> rp_sync_in_progress r \<and> rp_synced_at r \<noteq> None)"

definition ready_replica_count :: "instance_status \<Rightarrow> nat" where
  "ready_replica_count st =
     length (filter (\<lambda>n. ns_role n = NodeRoleReplica \<and> app_admitted st n \<and> replica_synced n) (st_nodes st))"

definition confirm_applied_generation :: "instance_status \<Rightarrow> instance_status" where
  "confirm_applied_generation st =
     (let accepted = accepted_of st in
      case st_applied st of
        None \<Rightarrow> st
      | Some applied \<Rightarrow>
          if ap_mode applied = ac_mode accepted \<and> ap_vcpu applied = ac_vcpu accepted \<and>
             ap_ram_gb applied = ac_ram_gb accepted \<and>
             st_applied_password_version st = ac_password_version accepted
          then st\<lparr>st_observed_generation := ac_desired_generation accepted\<rparr> else st)"

definition active_operation :: "instance_status \<Rightarrow> bool" where
  "active_operation st \<longleftrightarrow> st_failover st \<noteq> None \<or> st_rollout st \<noteq> None \<or> st_credential_rotation st \<noteq> None"

definition set_phase :: "instance_phase \<Rightarrow> string \<Rightarrow> instance_status \<Rightarrow> instance_status" where
  "set_phase phase reason st = st\<lparr>st_phase := Some phase, st_reason := reason\<rparr>"

definition apply_operational_phase :: "env \<Rightarrow> valkey_instance \<Rightarrow> instance_status \<Rightarrow> instance_status" where
  "apply_operational_phase e i st =
     (if \<not> st_initialized st \<or> st_accepted st = None then st
      else if \<not> primary_publicly_ready st \<or> has_unterminated_previous_process (st_previous_processes st)
      then set_phase InstancePhaseUnavailable ''PRIMARY_NOT_READY'' st
      else if ac_mode (accepted_of st) = ValkeyModeHA then
        (let ready = ready_replica_count st;
             st1 = (if ready < 2
                    then set_condition e i conditionTypeReplicasReady ConditionFalse ''ReplicaSetIncomplete''
                           ''not all HA replicas are ready'' st
                    else set_condition e i conditionTypeReplicasReady ConditionTrue ''ReplicasReady''
                           ''both HA replicas are ready'' st)
         in if active_operation st then set_phase InstancePhaseUpdating ''CONFIGURATION_APPLYING'' st1
            else if ready < 2
            then confirm_applied_generation (set_phase InstancePhaseDegraded ''REPLICAS_NOT_READY'' st1)
            else confirm_applied_generation (set_phase InstancePhaseRunning '''' st1))
      else if active_operation st then set_phase InstancePhaseUpdating ''CONFIGURATION_APPLYING'' st
      else confirm_applied_generation (set_phase InstancePhaseRunning '''' st))"

section \<open>Predicates on a rollout\<close>

definition rollout_requires_full_stop :: "valkey_instance \<Rightarrow> bool" where
  "rollout_requires_full_stop i =
     (case (st_rollout (vi_status i), st_applied (vi_status i)) of
        (Some rollout, Some applied) \<Rightarrow>
          ac_mode (accepted_of (vi_status i)) = ValkeyModeSingle \<or> ro_ram_gb rollout < ap_ram_gb applied
      | _ \<Rightarrow> False)"

definition rollout_stage_in :: "rollout_stage list \<Rightarrow> valkey_instance \<Rightarrow> bool" where
  "rollout_stage_in stages i =
     (case st_rollout (vi_status i) of None \<Rightarrow> False | Some rollout \<Rightarrow> ro_stage rollout \<in> set stages)"

definition full_stop_rollout_owns_availability :: "valkey_instance \<Rightarrow> bool" where
  "full_stop_rollout_owns_availability i \<longleftrightarrow>
     rollout_requires_full_stop i \<and> rollout_stage_in [RolloutStageStopping, RolloutStageUpdatingTemplate] i"

definition empty_primary_assignment_allowed :: "valkey_instance \<Rightarrow> bool" where
  "empty_primary_assignment_allowed i =
     (let st = vi_status i;
          at_primary = Option.bind (st_primary_ordinal st) (node_status_at_ordinal (st_nodes st))
      in if \<not> st_initialized st then True
         else if (case at_primary of None \<Rightarrow> False
                  | Some primary \<Rightarrow> primary_identity_matches i primary \<and> ns_role primary = NodeRolePrimary \<and>
                                    ns_termination primary = None)
         then False
         else if rollout_requires_full_stop i \<and> rollout_stage_in [RolloutStageStarting, RolloutStageVerifying] i
         then (if st_primary_ordinal st = None then True
               else case at_primary of None \<Rightarrow> False
                    | Some target \<Rightarrow> ns_termination target = None \<and> primary_identity_matches i target)
         else st_reason st = ''EMPTY_RECOVERY'' \<and>
              (case find_condition (st_conditions st) conditionTypeDataLoss of None \<Rightarrow> False
               | Some c \<Rightarrow> cd_status c = ConditionTrue \<and> cd_reason c = ''AllProcessesStopped''))"

section \<open>What the phase means\<close>

lemma confirm_applied_generation_fields [simp]:
  "st_phase (confirm_applied_generation st) = st_phase st"
  "st_reason (confirm_applied_generation st) = st_reason st"
  "st_nodes (confirm_applied_generation st) = st_nodes st"
  "st_previous_processes (confirm_applied_generation st) = st_previous_processes st"
  "st_failover (confirm_applied_generation st) = st_failover st"
  "st_rollout (confirm_applied_generation st) = st_rollout st"
  "st_credential_rotation (confirm_applied_generation st) = st_credential_rotation st"
  "st_deletion (confirm_applied_generation st) = st_deletion st"
  "st_applied (confirm_applied_generation st) = st_applied st"
  "st_accepted (confirm_applied_generation st) = st_accepted st"
  "st_initialized (confirm_applied_generation st) = st_initialized st"
  "st_applied_password_version (confirm_applied_generation st) = st_applied_password_version st"
  "primary_identity (confirm_applied_generation st) = primary_identity st"
  "st_primary_ordinal (confirm_applied_generation st) = st_primary_ordinal st"
  by (simp_all add: confirm_applied_generation_def primary_identity_def Let_def split: option.splits)

lemma set_phase_fields [simp]:
  "st_phase (set_phase p r st) = Some p" "st_reason (set_phase p r st) = r"
  "st_nodes (set_phase p r st) = st_nodes st"
  "st_previous_processes (set_phase p r st) = st_previous_processes st"
  "st_failover (set_phase p r st) = st_failover st"
  "st_rollout (set_phase p r st) = st_rollout st"
  "st_credential_rotation (set_phase p r st) = st_credential_rotation st"
  "st_deletion (set_phase p r st) = st_deletion st"
  "st_applied (set_phase p r st) = st_applied st"
  "st_accepted (set_phase p r st) = st_accepted st"
  "st_initialized (set_phase p r st) = st_initialized st"
  "st_applied_password_version (set_phase p r st) = st_applied_password_version st"
  "st_observed_generation (set_phase p r st) = st_observed_generation st"
  "primary_identity (set_phase p r st) = primary_identity st"
  "st_primary_ordinal (set_phase p r st) = st_primary_ordinal st"
  by (simp_all add: set_phase_def primary_identity_def)

lemma apply_operational_phase_fields [simp]:
  "st_nodes (apply_operational_phase e i st) = st_nodes st"
  "st_previous_processes (apply_operational_phase e i st) = st_previous_processes st"
  "st_failover (apply_operational_phase e i st) = st_failover st"
  "st_rollout (apply_operational_phase e i st) = st_rollout st"
  "st_credential_rotation (apply_operational_phase e i st) = st_credential_rotation st"
  "st_deletion (apply_operational_phase e i st) = st_deletion st"
  "st_applied (apply_operational_phase e i st) = st_applied st"
  "st_accepted (apply_operational_phase e i st) = st_accepted st"
  "st_initialized (apply_operational_phase e i st) = st_initialized st"
  "st_applied_password_version (apply_operational_phase e i st) = st_applied_password_version st"
  "primary_identity (apply_operational_phase e i st) = primary_identity st"
  "st_primary_ordinal (apply_operational_phase e i st) = st_primary_ordinal st"
  by (simp_all add: apply_operational_phase_def Let_def)

text \<open>An abstract specification of the phase the status should show.\<close>

definition phase_spec :: "instance_status \<Rightarrow> instance_phase" where
  "phase_spec st =
     (if \<not> primary_publicly_ready st \<or> has_unterminated_previous_process (st_previous_processes st)
      then InstancePhaseUnavailable
      else if active_operation st then InstancePhaseUpdating
      else if accepted_mode_is st ValkeyModeHA \<and> ready_replica_count st < 2 then InstancePhaseDegraded
      else InstancePhaseRunning)"

lemma accepted_mode_is_of: "st_accepted st \<noteq> None \<Longrightarrow> accepted_mode_is st m = (ac_mode (accepted_of st) = m)"
  by (auto simp: accepted_mode_is_def accepted_of_def split: option.splits)

lemma apply_operational_phase_spec:
  "st_initialized st \<Longrightarrow> st_accepted st \<noteq> None \<Longrightarrow>
   st_phase (apply_operational_phase e i st) = Some (phase_spec st)"
  unfolding phase_spec_def accepted_mode_is_of
  by (simp add: apply_operational_phase_def Let_def accepted_mode_is_of del: not_None_eq)

lemma confirm_observed_generation:
  "st_observed_generation (confirm_applied_generation st) =
     (case st_applied st of
        Some applied \<Rightarrow>
          if ap_mode applied = ac_mode (accepted_of st) \<and> ap_vcpu applied = ac_vcpu (accepted_of st) \<and>
             ap_ram_gb applied = ac_ram_gb (accepted_of st) \<and>
             st_applied_password_version st = ac_password_version (accepted_of st)
          then ac_desired_generation (accepted_of st) else st_observed_generation st
      | None \<Rightarrow> st_observed_generation st)"
  by (simp add: confirm_applied_generation_def Let_def split: option.splits)

lemma accepted_of_fields [simp]:
  "accepted_of (set_phase p r st) = accepted_of st"
  "accepted_of (set_condition e i t s rs m st) = accepted_of st"
  by (simp_all add: accepted_of_def)

text \<open>
  The generation is confirmed only by a status that runs or is degraded, with every operation
  finished and the applied configuration equal to the accepted one.
\<close>

lemma apply_operational_phase_generation:
  assumes "st_observed_generation (apply_operational_phase e i st) \<noteq> st_observed_generation st"
  shows "st_observed_generation (apply_operational_phase e i st) = ac_desired_generation (accepted_of st) \<and>
    \<not> active_operation st \<and> phase_spec st \<in> {InstancePhaseRunning, InstancePhaseDegraded} \<and>
    (\<exists>applied. st_applied st = Some applied \<and> ap_mode applied = ac_mode (accepted_of st) \<and>
       ap_vcpu applied = ac_vcpu (accepted_of st) \<and> ap_ram_gb applied = ac_ram_gb (accepted_of st)) \<and>
    st_applied_password_version st = ac_password_version (accepted_of st)"
  using assms
  by (auto simp: apply_operational_phase_def phase_spec_def Let_def accepted_mode_is_of
      confirm_observed_generation split: if_splits option.splits)

section \<open>The phase, from the accepted configuration\<close>

text \<open>
  The specification written out over the fields of the status, without the helpers of the code: a
  process serves app, it is the publicly ready primary, it is a ready replica.
\<close>

definition serves_app :: "accepted_configuration \<Rightarrow> node_status \<Rightarrow> bool" where
  "serves_app ac n \<longleftrightarrow> ns_readiness n \<and> ns_app_enabled n \<and> ns_app_password_version n = ac_password_version ac \<and>
     ns_observation n = None \<and> ns_termination n = None"

definition public_primary :: "accepted_configuration \<Rightarrow> instance_status \<Rightarrow> bool" where
  "public_primary ac st \<longleftrightarrow>
     (\<exists>c. find_condition (st_conditions st) ''PublicReady'' = Some c \<and> cd_status c = ConditionTrue) \<and>
     (\<exists>n\<in>set (st_nodes st). st_primary_ordinal st = Some (ns_ordinal n) \<and> ns_role n = NodeRolePrimary \<and> serves_app ac n)"

definition ready_replica :: "accepted_configuration \<Rightarrow> node_status \<Rightarrow> bool" where
  "ready_replica ac n \<longleftrightarrow> ns_role n = NodeRoleReplica \<and> serves_app ac n \<and>
     (\<exists>r. ns_replication n = Some r \<and> rp_link_up r \<and> \<not> rp_sync_in_progress r \<and> rp_synced_at r \<noteq> None)"

definition phase_expected :: "accepted_configuration \<Rightarrow> instance_status \<Rightarrow> instance_phase" where
  "phase_expected ac st =
     (if (\<exists>p\<in>set (st_previous_processes st). ns_termination p = None) \<or> \<not> public_primary ac st
      then InstancePhaseUnavailable
      else if st_failover st \<noteq> None \<or> st_rollout st \<noteq> None \<or> st_credential_rotation st \<noteq> None
      then InstancePhaseUpdating
      else if ac_mode ac = ValkeyModeHA \<and> card {n \<in> set (st_nodes st). ready_replica ac n} < 2
      then InstancePhaseDegraded
      else InstancePhaseRunning)"

lemma primary_publicly_ready_expected:
  assumes "distinct (map ns_ordinal (st_nodes st))" and "st_accepted st = Some ac"
  shows "primary_publicly_ready st = public_primary ac st"
proof -
  have "primary_publicly_ready st \<longleftrightarrow>
    (\<exists>c. find_condition (st_conditions st) ''PublicReady'' = Some c \<and> cd_status c = ConditionTrue) \<and>
    (\<exists>n. (\<exists>k. st_primary_ordinal st = Some k \<and> node_status_at_ordinal (st_nodes st) k = Some n) \<and>
       ns_role n = NodeRolePrimary \<and> serves_app ac n)"
    using assms(2) by (auto simp: primary_publicly_ready_def app_admitted_def serves_app_def accepted_of_def
        conditionTypePublicReady_def split: option.splits)
  then show ?thesis using node_at_unique [OF assms(1)] by (auto simp: public_primary_def)
qed

lemma ready_replica_count_expected:
  assumes "distinct (map ns_ordinal (st_nodes st))" and "st_accepted st = Some ac"
  shows "ready_replica_count st = card {n \<in> set (st_nodes st). ready_replica ac n}"
proof -
  have "(\<lambda>n. ns_role n = NodeRoleReplica \<and> app_admitted st n \<and> replica_synced n) = ready_replica ac"
    using assms(2) by (auto simp: fun_eq_iff ready_replica_def app_admitted_def serves_app_def accepted_of_def
        replica_synced_def split: option.splits)
  moreover have "distinct (st_nodes st)" using assms(1) by (simp add: distinct_map)
  ultimately show ?thesis
    by (simp add: ready_replica_count_def distinct_card [symmetric] del: distinct_card flip: set_filter)
qed

lemma has_unterminated_iff: "has_unterminated_previous_process ps \<longleftrightarrow> (\<exists>p\<in>set ps. ns_termination p = None)"
  by (simp add: has_unterminated_previous_process_def list_ex_iff)

lemma apply_operational_phase_expected:
  assumes "nodes_ok (st_nodes st)" and "st_initialized st" and "st_accepted st = Some ac"
  shows "st_phase (apply_operational_phase e i st) = Some (phase_expected ac st)"
proof -
  have d: "distinct (map ns_ordinal (st_nodes st))" using assms(1) by (simp add: nodes_ok_def)
  show ?thesis
    using assms(2,3) apply_operational_phase_spec [of st e i]
    by (auto simp: phase_spec_def phase_expected_def primary_publicly_ready_expected [OF d] has_unterminated_iff
        ready_replica_count_expected [OF d] active_operation_def accepted_mode_is_def)
qed

end
