(* ===== verification/Observation.thy ===== *)
theory Observation
  imports Availability
begin

text \<open>
  One look at every process (\<open>process_observation.go\<close> and \<open>recordProcessObservationError\<close> of
  \<open>process_health.go\<close>): pod, node, credentials, answer of the process, and what of it is saved.
\<close>

definition conditionTypeProcessReady :: string where "conditionTypeProcessReady = ''ProcessReady''"

section \<open>Failed observations\<close>

definition relevant_observation :: "env \<Rightarrow> process_observation_status option \<Rightarrow> process_observation_status option" where
  \<comment> \<open>observations from before this run of the operator do not count\<close>
  "relevant_observation e previous =
     (case previous of None \<Rightarrow> None
      | Some p \<Rightarrow> if observation_started_at e \<noteq> 0 \<and> ob_observed_at p < observation_started_at e
                  then None else Some p)"

definition observe_failure ::
  "env \<Rightarrow> process_observation_kind \<Rightarrow> kube_pod \<Rightarrow> time \<Rightarrow> node_status \<Rightarrow> node_status" where
  "observe_failure e kind pod now n =
     n\<lparr>ns_readiness := pod_ready (pod_conditions pod),
       ns_observation := Some (next_process_observation
         (relevant_observation e (ns_observation n)) kind now)\<rparr>"

text \<open>The flag as the loop over the nodes leaves it.\<close>

definition primary_failure_confirmed ::
  "env \<Rightarrow> process_observation_kind \<Rightarrow> kube_pod \<Rightarrow> time \<Rightarrow> node_status list \<Rightarrow> bool" where
  "primary_failure_confirmed e kind pod now matching =
     foldl (\<lambda>flag n. if kind = ProcessObservationTransportError
                     then th_transport_failure
                            (process_thresholds (ns_observation (observe_failure e kind pod now n)) None now)
                     else flag)
       (kind \<noteq> ProcessObservationTransportError) matching"

definition apply_observation_error ::
  "env \<Rightarrow> process_observation_kind \<Rightarrow> node_status option \<Rightarrow> kube_pod \<Rightarrow> time \<Rightarrow> int \<Rightarrow>
   instance_status \<Rightarrow> instance_status" where
  \<comment> \<open>\<open>known\<close> is the saved process if it is the one in the pod\<close>
  "apply_observation_error e kind known pod now ordinal st0 =
     (let match = (\<lambda>n. case known of None \<Rightarrow> False | Some current \<Rightarrow> same_process n current);
          confirmed = primary_failure_confirmed e kind pod now (filter match (st_nodes st0));
          st = st0\<lparr>st_nodes := update_where match (observe_failure e kind pod now) (st_nodes st0)\<rparr>
      in if st_initialized st \<and> process_failure_affects_primary st ordinal \<and> confirmed
         then mark_unavailable (process_observation_reason kind) st
         else degrade_replicas st)"

definition record_process_observation_error ::
  "env \<Rightarrow> kube_pod \<Rightarrow> kube_node \<Rightarrow> container_status \<Rightarrow> int \<Rightarrow> err \<Rightarrow> result op" where
  "record_process_observation_error e pod node container ordinal cause =
     (case process_observation_kind_of (classify_error cause) of
        None \<Rightarrow> fail cause
      | Some kind \<Rightarrow>
          with_inst (\<lambda>i.
          (let current = node_status_at_ordinal (st_nodes (vi_status i)) ordinal;
               known = (case current of
                   Some c \<Rightarrow> if same_kubernetes_process c pod node container ordinal then Some c else None
                 | None \<Rightarrow> None)
           in bnd (now_op e) (\<lambda>now.
              bnd (update_status e (\<lambda>_. apply_observation_error e kind known pod now ordinal)) (\<lambda>_.
              if kind = ProcessObservationServerError then fail cause else ret HealthCheckInterval)))))"

definition apply_process_unavailable :: "int \<Rightarrow> instance_status \<Rightarrow> instance_status" where
  "apply_process_unavailable ordinal st0 =
     (let st = st0\<lparr>st_nodes := update_where (\<lambda>n. ns_ordinal n = ordinal)
                 (\<lambda>n. n\<lparr>ns_readiness := False\<rparr>) (st_nodes st0)\<rparr>
      in if st_initialized st \<and> process_failure_affects_primary st ordinal
         then mark_unavailable ''PRIMARY_NOT_READY'' st else st)"

definition process_unavailable :: "env \<Rightarrow> int \<Rightarrow> result op" where
  "process_unavailable e ordinal =
     bnd (update_status e (\<lambda>_. apply_process_unavailable ordinal)) (\<lambda>_. ret HealthCheckInterval)"

definition set_pod_ownership_conflict :: "env \<Rightarrow> string \<Rightarrow> bool op" where
  "set_pod_ownership_conflict e name =
     update_status e (\<lambda>i. set_condition e i conditionTypeRecoveryRequired ConditionTrue
       ''PodOwnershipConflict'' (''Pod name '' @ name @ '' belongs to another owner''))"

section \<open>A process that answers\<close>

definition observed_process ::
  "int \<Rightarrow> kube_pod \<Rightarrow> kube_node \<Rightarrow> container_status \<Rightarrow> process_state \<Rightarrow> accepted_configuration \<Rightarrow>
   string \<Rightarrow> time \<Rightarrow> node_status" where
  "observed_process ordinal pod node container state accepted app_hash now =
     \<lparr>ns_ordinal = ordinal, ns_pod_uid = pod_uid pod, ns_container_id = cs_container_id container,
      ns_run_id = ps_run_id state, ns_node_name = kn_name node, ns_node_uid = kn_uid node,
      ns_role = node_role_of_string (ps_role state), ns_readiness = pod_ready (pod_conditions pod),
      ns_app_enabled = ps_app_enabled state,
      ns_app_password_version = (if app_acl_matches (ps_app_password_hashes state) app_hash
                                 then ac_password_version accepted else 0),
      ns_replication = observed_replication (ps_replication state) now, ns_observation = None,
      ns_recovery = None, ns_termination = None\<rparr>"

definition require_fencing :: "env \<Rightarrow> valkey_instance \<Rightarrow> instance_status \<Rightarrow> instance_status" where
  "require_fencing e i st =
     (if has_unterminated_previous_process (st_previous_processes st)
      then set_condition e i conditionTypeRecoveryRequired ConditionTrue ''TerminationProofLost''
             ''the previous process has no evidence of a stop''
             (if st_initialized st then mark_unavailable ''FENCING_REQUIRED'' st else st)
      else st)"

definition apply_identity_change ::
  "env \<Rightarrow> node_status \<Rightarrow> node_status \<Rightarrow> process_termination option \<Rightarrow> valkey_instance \<Rightarrow>
   instance_status \<Rightarrow> instance_status" where
  "apply_identity_change e current observed prior i st =
     (let st1 = record_current_process observed prior st;
          st2 = (if accepted_mode_is st1 ValkeyModeSingle \<and> ns_termination current \<noteq> None
                 then set_primary_identity observed st1 else st1)
      in require_fencing e i st2)"

definition save_identity_change ::
  "env \<Rightarrow> node_status \<Rightarrow> node_status \<Rightarrow> process_termination option \<Rightarrow> result op" where
  "save_identity_change e current observed prior =
     bnd (update_status e (apply_identity_change e current observed prior)) (\<lambda>changed.
     with_inst (\<lambda>i.
     bnd (when_op (changed \<and> has_unterminated_previous_process (st_previous_processes (vi_status i)))
            (record_termination_proof_lost_event e)) (\<lambda>_.
     ret (requeue_if changed))))"

definition apply_observed_process ::
  "env \<Rightarrow> node_status \<Rightarrow> process_termination option \<Rightarrow> time \<Rightarrow> valkey_instance \<Rightarrow>
   instance_status \<Rightarrow> instance_status option" where
  "apply_observed_process e observed prior now i st =
     (let st1 = record_current_process observed prior st;
          same = st_primary_ordinal st1 = Some (ns_ordinal observed) \<and>
                 st_primary_pod_uid st1 = ns_pod_uid observed \<and>
                 st_primary_container_id st1 = ns_container_id observed \<and> st_primary_run_id st1 = ''''
      in if same \<and> st_accepted st1 = None then None
         else
          (let st2 = (if same \<and> accepted_mode_is st1 ValkeyModeSingle
                      then st1\<lparr>st_primary_run_id := ns_run_id observed,
                               st_primary_node_name := ns_node_name observed,
                               st_primary_node_uid := ns_node_uid observed\<rparr> else st1);
               st3 = require_fencing e i st2
           in Some (if heartbeat_due (st_observed_at st3) now then st3\<lparr>st_observed_at := Some now\<rparr> else st3)))"

definition evidence_of_prior ::
  "env \<Rightarrow> node_status option \<Rightarrow> bool \<Rightarrow> process_termination option op" where
  "evidence_of_prior e current identity_changed =
     (case current of
        Some c \<Rightarrow>
          if identity_changed \<and> ns_termination c = None then
            bnd (previous_node_deleted e c) (\<lambda>deleted.
            if deleted then bnd (now_op e) (\<lambda>t. ret (Some
                 \<lparr>tm_reason = ''NodeDeleted'', tm_exit_code = 0, tm_finished_at = t,
                  tm_evidence = ''node_deleted''\<rparr>))
            else ret None)
          else ret None
      | None \<Rightarrow> ret None)"

definition save_observed_process ::
  "env \<Rightarrow> int \<Rightarrow> kube_pod \<Rightarrow> kube_node \<Rightarrow> container_status \<Rightarrow> service_credentials \<Rightarrow> string \<Rightarrow>
   process_state \<Rightarrow> result op" where
  \<comment> \<open>\<open>reconcileProcessOrdinal\<close> from a successful inspection on\<close>
  "save_observed_process e ordinal pod node container credentials app_hash state =
     bnd deref_accepted (\<lambda>accepted.
     with_inst (\<lambda>i.
     bnd (now_op e) (\<lambda>t1.
     bnd (now_op e) (\<lambda>t2.
     (let current = node_status_at_ordinal (st_nodes (vi_status i)) ordinal;
          observed0 = observed_process ordinal pod node container state accepted app_hash t1;
          observed = observed0\<lparr>
            ns_recovery := (case current of None \<Rightarrow> None
              | Some c \<Rightarrow> retained_process_recovery c observed0 (pod_deletion_timestamp pod)),
            ns_replication := merge_observed_replication (Option.bind current ns_replication)
              (ns_replication observed0) (ns_role observed0) t2\<rparr>;
          identity_changed = (case current of None \<Rightarrow> False | Some c \<Rightarrow> \<not> same_process c observed)
      in
      bnd (evidence_of_prior e current identity_changed) (\<lambda>prior.
      case (if identity_changed then current else None) of
        Some c \<Rightarrow> save_identity_change e c observed prior
      | None \<Rightarrow>
          if (empty_primary_assignment_allowed i \<or>
              has_unterminated_previous_process (st_previous_processes (vi_status i))) \<and>
             (ps_app_enabled state \<or> \<not> app_acl_matches (ps_app_password_hashes state) app_hash)
          then bnd (update_app_access e pod credentials app_hash False) (\<lambda>_. ret (requeue_if True))
          else bnd (update_status_partial_now e (apply_observed_process e observed prior))
                 (\<lambda>_. ret 0)))))))"

section \<open>One ordinal\<close>

definition inspect_process :: "env \<Rightarrow> kube_pod \<Rightarrow> service_credentials \<Rightarrow> string \<Rightarrow> bool \<Rightarrow> process_state op" where
  "inspect_process e pod c app_hash take_control =
     (let address = valkey_address (pod_ip pod); password = cr_operator_password c in
      do_call (InspectProcess address password app_hash take_control)
        (\<lambda>h. answer_inspect e h address password app_hash take_control))"

definition observe_running_process ::
  "env \<Rightarrow> int \<Rightarrow> kube_pod \<Rightarrow> kube_node \<Rightarrow> container_status \<Rightarrow> result op" where
  \<comment> \<open>from the credentials to the answer of the process\<close>
  "observe_running_process e ordinal pod node container =
     bnd (process_credentials e) (\<lambda>(credentials, app_hash).
     with_inst (\<lambda>i.
     (let take_control = process_needs_control
            (node_status_at_ordinal (st_nodes (vi_status i)) ordinal) (observation_started_at e)
      in on_err (inspect_process e pod credentials app_hash take_control)
           (record_process_observation_error e pod node container ordinal)
           (save_observed_process e ordinal pod node container credentials app_hash))))"

definition process_on_node :: "node_status \<Rightarrow> kube_pod \<Rightarrow> container_status \<Rightarrow> bool" where
  "process_on_node c pod container \<longleftrightarrow>
     ns_termination c = None \<and> ns_pod_uid c = pod_uid pod \<and>
     ns_container_id c = cs_container_id container \<and> ns_node_uid c \<noteq> ''''"

definition observe_started_pod ::
  "env \<Rightarrow> int \<Rightarrow> kube_pod \<Rightarrow> container_status \<Rightarrow> node_status option \<Rightarrow> result op" where
  \<comment> \<open>a pod whose container has not terminated; \<open>current\<close> is the saved process of the ordinal\<close>
  "observe_started_pod e ordinal pod container current =
     (case List.find (\<lambda>c. ns_termination c \<noteq> None \<and> ns_pod_uid c = pod_uid pod \<and>
              ns_container_id c = cs_container_id container) (case current of None \<Rightarrow> [] | Some c \<Rightarrow> [c]) of
        Some c \<Rightarrow> release_terminated_pod e pod c
      | None \<Rightarrow>
          if pod_ip pod = '''' \<or> pod_node_name pod = '''' \<or> cs_container_id container = '''' \<or>
             cs_state container \<noteq> ContainerRunning
          then process_unavailable e ordinal
          else on_err (get_node e Cached (pod_node_name pod))
            (\<lambda>er. case current of
               Some c \<Rightarrow> if is_not_found er \<and> process_on_node c pod container \<and>
                           ns_node_name c = pod_node_name pod
                         then save_node_deletion_termination e c else fail (Wrapped er)
             | None \<Rightarrow> fail (Wrapped er))
            (\<lambda>node.
             case List.find (\<lambda>c. process_on_node c pod container \<and> ns_node_name c = kn_name node \<and>
                      ns_node_uid c \<noteq> kn_uid node) (case current of None \<Rightarrow> [] | Some c \<Rightarrow> [c]) of
               Some c \<Rightarrow> save_node_deletion_termination e c
             | None \<Rightarrow> observe_running_process e ordinal pod node container))"

definition observe_pod :: "env \<Rightarrow> int \<Rightarrow> kube_pod \<Rightarrow> result op" where
  "observe_pod e ordinal pod =
     (case valkey_container_status (pod_container_statuses pod) of
        None \<Rightarrow> process_unavailable e ordinal
      | Some container \<Rightarrow>
          (case cs_state container of
             ContainerTerminated _ _ _ \<Rightarrow> save_container_termination e pod container ordinal
           | _ \<Rightarrow> with_inst (\<lambda>i. observe_started_pod e ordinal pod container
                    (node_status_at_ordinal (st_nodes (vi_status i)) ordinal))))"

definition observe_missing_pod :: "env \<Rightarrow> int \<Rightarrow> result op" where
  "observe_missing_pod e ordinal =
     with_inst (\<lambda>i.
     case List.find (\<lambda>c. ns_termination c = None)
            (case node_status_at_ordinal (st_nodes (vi_status i)) ordinal of None \<Rightarrow> [] | Some c \<Rightarrow> [c]) of
       Some current \<Rightarrow>
         bnd (previous_node_deleted e current) (\<lambda>deleted.
         if deleted then save_node_deletion_termination e current else process_unavailable e ordinal)
     | None \<Rightarrow> process_unavailable e ordinal)"

definition reconcile_process_ordinal :: "env \<Rightarrow> int \<Rightarrow> result op" where
  "reconcile_process_ordinal e ordinal =
     bnd deref_accepted (\<lambda>accepted.
     on_err (get_pod e Cached (pod_key (ac_slug accepted) ordinal))
       (\<lambda>er. if is_not_found er then observe_missing_pod e ordinal else fail (Wrapped er))
     (\<lambda>pod.
     with_inst (\<lambda>i.
     if \<not> pod_owned_by_instance pod i
     then bnd (set_pod_ownership_conflict e (pod_name pod)) (\<lambda>changed. ret (requeue_if changed))
     else if processFinalizer \<notin> set (pod_finalizers pod) \<and> time_ptr_is_zero (pod_deletion_timestamp pod)
     then on_err (patch_pod e pod (pod\<lparr>pod_finalizers := pod_finalizers pod @ [processFinalizer]\<rparr>))
            (\<lambda>er. fail (Wrapped er)) (\<lambda>_. ret (requeue_if True))
     else observe_pod e ordinal pod)))"

section \<open>All ordinals\<close>

text \<open>
  In HA mode the ordinals run in goroutines, each on its own copy of the object; \<open>order\<close> is the
  order in which they take effect. An error of one does not stop the others.
\<close>

definition attempt :: "'a op \<Rightarrow> (err + 'a) op" where
  "attempt m = on_err m (\<lambda>er. ret (Inl er)) (\<lambda>x. ret (Inr x))"

definition errors_join :: "err option \<Rightarrow> err option \<Rightarrow> err option" where
  "errors_join l r = (case (l, r) of (None, None) \<Rightarrow> None | (Some a, None) \<Rightarrow> Some (Joined [a])
     | (None, Some b) \<Rightarrow> Some (Joined [b]) | (Some a, Some b) \<Rightarrow> Some (Joined [a, b]))"

text \<open>
  The goroutines of \<open>reconcileProcess\<close>, each on its own copy of the object, one after another in a given
  order. In the program their calls interleave; no property of the development is stated of this.
\<close>

fun reconcile_ordinals ::
  "env \<Rightarrow> valkey_instance \<Rightarrow> int list \<Rightarrow> result \<Rightarrow> err option \<Rightarrow> (result \<times> err option) op" where
  "reconcile_ordinals e i0 [] combined combined_err = ret (combined, combined_err)"
| "reconcile_ordinals e i0 (ordinal # rest) combined combined_err =
     bnd (put_inst i0) (\<lambda>_.
     bnd (attempt (reconcile_process_ordinal e ordinal)) (\<lambda>r.
     reconcile_ordinals e i0 rest
       (earlier_requeue combined (case r of Inl _ \<Rightarrow> 0 | Inr result \<Rightarrow> result))
       (errors_join combined_err (case r of Inl er \<Rightarrow> Some er | Inr _ \<Rightarrow> None))))"

definition observed_ready :: "instance_status \<Rightarrow> int \<Rightarrow> bool" where
  "observed_ready st ordinal =
     (case node_status_at_ordinal (st_nodes st) ordinal of None \<Rightarrow> False
      | Some p \<Rightarrow> ns_pod_uid p \<noteq> '''' \<and> ns_container_id p \<noteq> '''' \<and> ns_run_id p \<noteq> '''' \<and>
                  ns_readiness p \<and> ns_observation p = None \<and> ns_termination p = None)"

definition apply_process_ready :: "env \<Rightarrow> int list \<Rightarrow> valkey_instance \<Rightarrow> instance_status \<Rightarrow> instance_status" where
  "apply_process_ready e ordinals i st =
     (let ready = length (filter (observed_ready st) ordinals) in
      if ready = length ordinals
      then set_condition e i conditionTypeProcessReady ConditionTrue ''Observed''
             ''all Valkey processes are observed'' st
      else set_condition e i conditionTypeProcessReady ConditionFalse ''ProcessesNotReady''
             (''Valkey processes ready: '' @ show_nat ready @ '' of '' @ show_nat (length ordinals)) st)"

definition reconcile_process :: "env \<Rightarrow> int list \<Rightarrow> result op" where
  "reconcile_process e order =
     with_inst (\<lambda>i.
     (let ordinals = process_ordinals i in
      bnd (if expected_process_count i = 1
           then bnd (attempt (reconcile_process_ordinal e 0)) (\<lambda>r. ret
                  (case r of Inl er \<Rightarrow> (0, Some er) | Inr result \<Rightarrow> (result, None)))
           else reconcile_ordinals e i order 0 None) (\<lambda>(combined, combined_err).
      on_err (do_call GetInstance (answer_get_instance e))
        (\<lambda>er. fail (Joined (case combined_err of None \<Rightarrow> [Wrapped er] | Some c \<Rightarrow> [c, Wrapped er])))
      (\<lambda>current.
      bnd (put_inst current) (\<lambda>_.
      bnd (attempt (update_status e (apply_process_ready e ordinals))) (\<lambda>condition.
      case errors_join combined_err (case condition of Inl er \<Rightarrow> Some er | Inr _ \<Rightarrow> None) of
        Some er \<Rightarrow> fail er
      | None \<Rightarrow> ret combined))))))"

end
