(* ===== verification/Observation_Lemmas.thy ===== *)
theory Observation_Lemmas
  imports Observation
begin

text \<open>
  What a look at the processes may do: it never loses a process that has not provably stopped, it
  lets a pod go only with evidence, and it opens access for nobody.
\<close>

section \<open>No process is lost\<close>

definition status_processes :: "instance_status \<Rightarrow> node_status list" where
  "status_processes st = st_nodes st @ st_previous_processes st"

definition container_stopped :: "env \<Rightarrow> node_status \<Rightarrow> bool" where
  "container_stopped e p \<longleftrightarrow>
     (\<exists>h name pod c. answer_get_pod e h Cached name = Inr pod \<and>
        valkey_container_status (pod_container_statuses pod) = Some c \<and>
        (\<exists>code reason finished. cs_state c = ContainerTerminated code reason finished) \<and>
        pod_uid pod = ns_pod_uid p \<and> cs_container_id c = ns_container_id p)"

text \<open>
  The evidence an entry carries: none, what was already saved for the process, or what this pass
  has read from Kubernetes.
\<close>

definition stop_justified :: "env \<Rightarrow> instance_status \<Rightarrow> node_status \<Rightarrow> bool" where
  "stop_justified e st q \<longleftrightarrow>
     ns_termination q = None \<or>
     (\<exists>c\<in>set (status_processes st). same_process c q \<and> ns_termination c = ns_termination q) \<or>
     (\<exists>tm. ns_termination q = Some tm \<and>
        (tm_evidence tm = ''node_deleted'' \<and> (\<exists>r. node_gone e r q) \<or>
         tm_evidence tm = ''container_status'' \<and> container_stopped e q))"

definition no_process_lost :: "env \<Rightarrow> instance_status \<Rightarrow> instance_status \<Rightarrow> bool" where
  "no_process_lost e st st' \<longleftrightarrow>
     (\<forall>p\<in>set (status_processes st). ns_termination p = None \<longrightarrow>
        (\<exists>q\<in>set (status_processes st'). same_process q p \<and> stop_justified e st q))"

lemma stop_justified_None: "ns_termination q = None \<Longrightarrow> stop_justified e st q"
  by (simp add: stop_justified_def)

lemma no_process_lost_refl: "no_process_lost e st st"
  unfolding no_process_lost_def
  by (meson same_process_refl stop_justified_None)

lemma no_process_lost_same:
  "st_nodes st' = st_nodes st \<Longrightarrow> st_previous_processes st' = st_previous_processes st \<Longrightarrow> no_process_lost e st st'"
  using no_process_lost_refl by (simp add: no_process_lost_def status_processes_def)

lemma no_process_lost_cong:
  "st_nodes st' = st_nodes st'' \<Longrightarrow> st_previous_processes st' = st_previous_processes st'' \<Longrightarrow>
   no_process_lost e st st'' \<Longrightarrow> no_process_lost e st st'"
  by (simp add: no_process_lost_def status_processes_def)

lemma no_process_lost_each:
  assumes "\<And>p. p \<in> set (st_nodes st) \<Longrightarrow> ns_termination p = None \<Longrightarrow>
      \<exists>q\<in>set (st_nodes st'). same_process q p \<and> stop_justified e st q"
    and "st_previous_processes st' = st_previous_processes st"
  shows "no_process_lost e st st'"
  unfolding no_process_lost_def
proof (intro ballI impI)
  fix p assume p: "p \<in> set (status_processes st)" "ns_termination p = None"
  show "\<exists>q\<in>set (status_processes st'). same_process q p \<and> stop_justified e st q"
  proof (cases "p \<in> set (st_nodes st)")
    case True
    then show ?thesis using assms(1) p(2) by (auto simp: status_processes_def)
  next
    case False
    then have "p \<in> set (status_processes st')" using p(1) assms(2) by (simp add: status_processes_def)
    then show ?thesis using stop_justified_None [OF p(2)] same_process_refl by blast
  qed
qed

lemma no_process_lost_updated:
  assumes "st_nodes st' = update_where p f (st_nodes st)"
    and "st_previous_processes st' = st_previous_processes st"
    and "\<And>n. same_process (f n) n" and "\<And>n. ns_termination (f n) = ns_termination n"
  shows "no_process_lost e st st'"
proof (rule no_process_lost_each)
  fix n assume n: "n \<in> set (st_nodes st)" "ns_termination n = None"
  let ?q = "if p n then f n else n"
  have "?q \<in> set (st_nodes st')" using n(1) by (simp add: assms(1) update_where_def)
  moreover have "same_process ?q n" using assms(3) by simp
  moreover have "stop_justified e st ?q" using assms(4) n(2) by (simp add: stop_justified_def)
  ultimately show "\<exists>q\<in>set (st_nodes st'). same_process q n \<and> stop_justified e st q" by blast
qed (rule assms(2))

lemma node_gone_same: "same_container_process p q \<Longrightarrow> node_gone e r p = node_gone e r q"
  by (simp add: node_gone_def same_container_process_def cong: sum.case_cong)

lemma container_stopped_same: "same_container_process p q \<Longrightarrow> container_stopped e p = container_stopped e q"
  by (simp add: container_stopped_def same_container_process_def)

lemma no_process_lost_record:
  assumes "nodes_ok (st_nodes st)"
    and prior: "\<And>c tm. node_status_at_ordinal (st_nodes st) (ns_ordinal ob) = Some c \<Longrightarrow> prior = Some tm \<Longrightarrow>
        tm_evidence tm = ''node_deleted'' \<and> (\<exists>r. node_gone e r c)"
  shows "no_process_lost e st (record_current_process ob prior st)"
  unfolding no_process_lost_def
proof (intro ballI impI)
  let ?st = "record_current_process ob prior st"
  fix p assume p: "p \<in> set (status_processes st)" "ns_termination p = None"
  then obtain q where q: "q \<in> set (status_processes ?st)" "same_process q p"
    and t: "ns_termination q = None \<or>
      (\<exists>c. node_status_at_ordinal (st_nodes st) (ns_ordinal ob) = Some c \<and> same_process c p \<and>
         ns_termination q = ns_termination (retired c prior))"
    using record_keeps_unterminated [OF assms(1), of p ob prior] by (auto simp: status_processes_def)
  have "stop_justified e st q"
  proof (cases "ns_termination q")
    case None
    then show ?thesis by (simp add: stop_justified_def)
  next
    case (Some tm)
    then obtain c where c: "node_status_at_ordinal (st_nodes st) (ns_ordinal ob) = Some c"
      "same_process c p" "ns_termination q = ns_termination (retired c prior)"
      using t by auto
    have cq: "same_process c q"
      using c(2) q(2) same_process_sym same_process_trans by blast
    have mem: "c \<in> set (status_processes st)"
      using node_at_member [OF c(1)] by (simp add: status_processes_def)
    show ?thesis
    proof (cases "ns_termination c = ns_termination q")
      case True
      then show ?thesis using mem cq by (auto simp: stop_justified_def)
    next
      case False
      then have "prior = Some tm" using c(3) Some by (auto simp: retired_def split: if_splits)
      then have "tm_evidence tm = ''node_deleted'' \<and> (\<exists>r. node_gone e r c)" using prior c(1) by blast
      then show ?thesis using Some node_gone_same [OF same_process_container [OF cq]] by (auto simp: stop_justified_def)
    qed
  qed
  then show "\<exists>q\<in>set (status_processes ?st). same_process q p \<and> stop_justified e st q"
    using q by blast
qed

lemma container_termination_stops:
  assumes ok: "nodes_ok (st_nodes st)" and t: "ns_termination s = Some tm"
    and p: "same_container_process p s" "ns_termination p = None"
    and mem: "p \<in> set (st_nodes st @ st_previous_processes st)"
  shows "\<exists>q\<in>set (st_nodes (apply_container_termination s tm st) @
                st_previous_processes (apply_container_termination s tm st)).
    same_process q p \<and> ns_termination q = Some tm"
proof (cases "p \<in> set (st_nodes st)")
  case True
  then have "node_status_at_ordinal (st_nodes st) (ns_ordinal s) = Some p"
    using same_container_ordinal [OF p(1)] ok node_at_unique unfolding nodes_ok_def by metis
  then have "recorded_stop s tm st = p\<lparr>ns_readiness := False, ns_termination := Some tm\<rparr>"
    using p(1) by (simp add: recorded_stop_def)
  then have "p\<lparr>ns_readiness := False, ns_termination := Some tm\<rparr> \<in> set (st_nodes (apply_container_termination s tm st))"
    by (simp add: apply_container_termination_nodes set_replace_node_status flip: recorded_stop_def)
  then show ?thesis
    by (intro bexI [of _ "p\<lparr>ns_readiness := False, ns_termination := Some tm\<rparr>"])
      (simp_all add: same_process_def same_container_process_def)
next
  case False
  let ?stop = "\<lambda>p. p\<lparr>ns_readiness := False, ns_termination := Some tm\<rparr>"
  let ?r = "recorded_stop s tm st"
  let ?old = "case node_status_at_ordinal (st_nodes st) (ns_ordinal s) of
      Some c \<Rightarrow> if \<not> same_container_process c s \<and> st_deletion st \<noteq> None
                then append_previous_process (st_previous_processes st) c else st_previous_processes st
    | None \<Rightarrow> st_previous_processes st"
  have prev: "p \<in> set (st_previous_processes st)" using mem False by simp
  have "p \<in> set ?old"
  proof (cases "node_status_at_ordinal (st_nodes st) (ns_ordinal s)")
    case None
    then show ?thesis using prev by simp
  next
    case (Some c)
    have "p \<in> set (append_previous_process (st_previous_processes st) c)" if "\<not> same_container_process c s"
    proof -
      have "\<not> same_process c p" using that p(1) same_process_container same_container_trans by blast
      then show ?thesis using append_previous_covers [of p "st_previous_processes st" c] prev by blast
    qed
    then show ?thesis using Some prev by simp
  qed
  moreover have "same_container_process p ?r"
    using p(1) recorded_stop_facts(1) [OF t] same_container_sym same_container_trans by blast
  ultimately have "?stop p \<in> set (st_previous_processes (apply_container_termination s tm st))"
    using p(2) unfolding apply_container_termination_previous set_update_where by (intro image_eqI [of _ _ p]) simp_all
  then show ?thesis by (intro bexI [of _ "?stop p"]) (auto simp: same_process_def same_container_process_def)
qed

lemma no_process_lost_container:
  assumes ok: "nodes_ok (st_nodes st)" and t: "ns_termination s = Some tm"
    and ev: "tm_evidence tm = ''container_status''" "container_stopped e s"
    and same: "st_deletion st \<noteq> None \<or>
      (\<forall>c\<in>set (st_nodes st). ns_ordinal c = ns_ordinal s \<longrightarrow> same_container_process c s)"
  shows "no_process_lost e st (apply_container_termination s tm st)"
  unfolding no_process_lost_def
proof (intro ballI impI)
  let ?st = "apply_container_termination s tm st"
  fix p assume p: "p \<in> set (status_processes st)" "ns_termination p = None"
  show "\<exists>q\<in>set (status_processes ?st). same_process q p \<and> stop_justified e st q"
  proof (cases "same_container_process p s")
    case True
    obtain q where q: "q \<in> set (status_processes ?st)" "same_process q p" "ns_termination q = Some tm"
      using container_termination_stops [OF ok t True p(2)] p(1) unfolding status_processes_def by blast
    then have "same_container_process q s"
      using True same_process_container same_container_trans by blast
    then have "stop_justified e st q"
      using q(3) ev container_stopped_same by (auto simp: stop_justified_def)
    with q show ?thesis by blast
  next
    case False
    then obtain q where q: "q \<in> set (status_processes ?st)" "same_process q p" "q = p \<or> q \<in> set (st_nodes st)"
      using container_termination_keeps_others [OF ok t _ False same p(2)] p(1)
      unfolding status_processes_def by blast
    have "stop_justified e st q"
    proof (cases "q = p")
      case True
      then show ?thesis using p(2) by (simp add: stop_justified_def)
    next
      case False
      then have "q \<in> set (status_processes st)" using q(3) by (simp add: status_processes_def)
      then show ?thesis by (auto simp: stop_justified_def)
    qed
    then show ?thesis using q by blast
  qed
qed

section \<open>The calls of a look at the processes\<close>

definition good_update :: "env \<Rightarrow> instance_status \<Rightarrow> instance_status \<Rightarrow> bool" where
  "good_update e st st' \<longleftrightarrow> nodes_ok (st_nodes st') \<and> no_process_lost e st st'"

text \<open>
  The entry is the one of the process in the pod that the API server has shown: the same pod, the
  same container, and with a termination.
\<close>

definition stopped_in_pod :: "env \<Rightarrow> kube_pod \<Rightarrow> node_status \<Rightarrow> bool" where
  "stopped_in_pod e pod n \<longleftrightarrow>
     (\<exists>h name. answer_get_pod e h Cached name = Inr pod) \<and> ns_termination n \<noteq> None \<and>
     ns_pod_uid n = pod_uid pod \<and>
     (\<exists>c. valkey_container_status (pod_container_statuses pod) = Some c \<and>
        cs_container_id c = ns_container_id n)"

fun observation_call :: "env \<Rightarrow> valkey_instance \<Rightarrow> call \<Rightarrow> bool" where
  "observation_call e i (PatchStatus b a) =
     (vi_status b = vi_status i \<longrightarrow> good_update e (vi_status i) (vi_status a))"
| "observation_call e i (UpdateAppAccess _ _ _ enabled) = (\<not> enabled)"
| "observation_call e i (DeletePod pod g) =
     (\<exists>n\<in>set (st_nodes (vi_status i)). stopped_in_pod e pod n \<and> release_call pod n (DeletePod pod g))"
| "observation_call e i (PatchPod b a) =
     (a = b\<lparr>pod_finalizers := pod_finalizers b @ [processFinalizer]\<rparr> \<and> pod_owned_by_instance b i \<and>
        processFinalizer \<notin> set (pod_finalizers b) \<and> time_ptr_is_zero (pod_deletion_timestamp b) \<or>
      (\<exists>n\<in>set (st_nodes (vi_status i)). stopped_in_pod e b n \<and> release_call b n (PatchPod b a)))"
| "observation_call e i (InspectProcess _ _ _ _) = True"
| "observation_call e i c = reading c"

lemma observation_call_reading: "reading c \<Longrightarrow> observation_call e i c"
  by (cases c) simp_all

lemma observation_call_release:
  "n \<in> set (st_nodes (vi_status i)) \<Longrightarrow> stopped_in_pod e pod n \<Longrightarrow> release_call pod n c \<Longrightarrow> observation_call e i c"
  by (cases c) auto

lemma emits_good_update:
  assumes "\<And>b. vi_status b = vi_status i \<Longrightarrow> good_update e (vi_status i) (f b (vi_status i))"
  shows "emits (observation_call e i) (update_status e f) i"
  by (intro emits_update_status) (use assms in auto)

lemma nodes_ok_map:
  assumes "nodes_ok ns" and "list_all2 (\<lambda>x y. ns_ordinal y = ns_ordinal x) ns ms"
  shows "nodes_ok ms"
proof -
  have o: "map ns_ordinal ms = map ns_ordinal ns"
    using assms(2) by (induction rule: list_all2_induct) auto
  have "list_all ordinal_ok ms = list_all (\<lambda>k. 0 \<le> k \<and> k < 2147483648) (map ns_ordinal ms)"
    by (auto simp: list_all_iff ordinal_ok_def)
  also have "\<dots> = list_all ordinal_ok ns"
    unfolding o by (auto simp: list_all_iff ordinal_ok_def)
  finally show ?thesis using assms(1) o by (simp add: nodes_ok_def)
qed

lemma nodes_ok_update_where:
  "nodes_ok ns \<Longrightarrow> (\<And>n. ns_ordinal (f n) = ns_ordinal n) \<Longrightarrow> nodes_ok (update_where p f ns)"
  by (rule nodes_ok_map) (auto simp: update_where_def list_all2_conv_all_nth)

lemma good_update_updated:
  assumes "nodes_ok (st_nodes st)" and "st_nodes st' = update_where p f (st_nodes st)"
    and "st_previous_processes st' = st_previous_processes st"
    and "\<And>n. same_process (f n) n" and "\<And>n. ns_termination (f n) = ns_termination n"
  shows "good_update e st st'"
  using no_process_lost_updated [OF assms(2-5)] nodes_ok_update_where [OF assms(1), of f p]
    same_container_ordinal [OF same_process_container [OF assms(4)]] assms(2)
  by (simp add: good_update_def)

lemma good_update_same:
  "nodes_ok (st_nodes st) \<Longrightarrow> st_nodes st' = st_nodes st \<Longrightarrow>
   st_previous_processes st' = st_previous_processes st \<Longrightarrow> good_update e st st'"
  by (simp add: good_update_def no_process_lost_same)

lemma good_update_cong:
  "st_nodes st' = st_nodes st'' \<Longrightarrow> st_previous_processes st' = st_previous_processes st'' \<Longrightarrow>
   good_update e st st'' \<Longrightarrow> good_update e st st'"
  unfolding good_update_def using no_process_lost_cong by metis

lemma good_update_record:
  assumes "nodes_ok (st_nodes st)" and "ordinal_ok ob"
    and "\<And>c tm. node_status_at_ordinal (st_nodes st) (ns_ordinal ob) = Some c \<Longrightarrow> prior = Some tm \<Longrightarrow>
        tm_evidence tm = ''node_deleted'' \<and> (\<exists>r. node_gone e r c)"
  shows "good_update e st (record_current_process ob prior st)"
  using no_process_lost_record [OF assms(1,3)] record_nodes_ok [OF assms(1,2)] by (simp add: good_update_def)

lemma mark_unavailable_fields [simp]:
  "st_nodes (mark_unavailable r st) = st_nodes st"
  "st_previous_processes (mark_unavailable r st) = st_previous_processes st"
  "st_failover (mark_unavailable r st) = st_failover st"
  "st_rollout (mark_unavailable r st) = st_rollout st"
  "st_credential_rotation (mark_unavailable r st) = st_credential_rotation st"
  "st_deletion (mark_unavailable r st) = st_deletion st"
  "st_accepted (mark_unavailable r st) = st_accepted st"
  "st_initialized (mark_unavailable r st) = st_initialized st"
  by (simp_all add: mark_unavailable_def)

lemma degrade_replicas_fields [simp]:
  "st_nodes (degrade_replicas st) = st_nodes st"
  "st_previous_processes (degrade_replicas st) = st_previous_processes st"
  by (simp_all add: degrade_replicas_def)

lemma require_fencing_fields [simp]:
  "st_nodes (require_fencing e i st) = st_nodes st"
  "st_previous_processes (require_fencing e i st) = st_previous_processes st"
  by (simp_all add: require_fencing_def)

lemma set_primary_identity_fields [simp]:
  "st_nodes (set_primary_identity p st) = st_nodes st"
  "st_previous_processes (set_primary_identity p st) = st_previous_processes st"
  by (simp_all add: set_primary_identity_def)

lemma emits_process_unavailable:
  assumes "nodes_ok (st_nodes (vi_status i))"
  shows "emits (observation_call e i) (process_unavailable e ordinal) i"
proof -
  have "good_update e (vi_status i) (apply_process_unavailable ordinal (vi_status i))"
    by (rule good_update_updated [OF assms, where f = "\<lambda>n. n\<lparr>ns_readiness := False\<rparr>"])
      (auto simp: apply_process_unavailable_def Let_def same_process_def same_container_process_def)
  then show ?thesis
    unfolding process_unavailable_def by (intro emits_intros) simp_all
qed

lemma emits_ownership_conflict:
  assumes "nodes_ok (st_nodes (vi_status i))"
  shows "emits (observation_call e i) (set_pod_ownership_conflict e name) i"
  unfolding set_pod_ownership_conflict_def using assms
  by (intro emits_good_update good_update_same) simp_all

lemma observe_failure_same [simp]:
  "same_process (observe_failure e kind pod now n) n"
  "ns_termination (observe_failure e kind pod now n) = ns_termination n"
  by (simp_all add: observe_failure_def same_process_def same_container_process_def)

lemma good_observation_error:
  assumes "nodes_ok (st_nodes st)"
  shows "good_update e st (apply_observation_error e kind known pod now ordinal st)"
  by (rule good_update_updated [OF assms,
        where p = "\<lambda>n. case known of None \<Rightarrow> False | Some current \<Rightarrow> same_process n current"
          and f = "observe_failure e kind pod now"])
    (auto simp: apply_observation_error_def Let_def)

lemma emits_record_observation_error:
  assumes "nodes_ok (st_nodes (vi_status i))"
  shows "emits (observation_call e i) (record_process_observation_error e pod node container ordinal cause) i"
  unfolding record_process_observation_error_def Let_def
  by (intro emits_intros) (simp_all add: good_observation_error [OF assms])

lemma list_all2_member: "list_all2 R xs ys \<Longrightarrow> x \<in> set xs \<Longrightarrow> \<exists>y\<in>set ys. R x y"
  by (induction rule: list_all2_induct) auto

lemma emits_save_node_deletion:
  assumes ok: "nodes_ok (st_nodes (vi_status i))" and gone: "node_gone e r node"
  shows "emits (observation_call e i) (save_node_deletion_termination e node) i"
proof -
  have good: "good_update e (vi_status b) (vi_status a)"
    if b: "vi_status b = vi_status i"
      and all: "list_all2 (\<lambda>x y. if same_process x node then \<exists>t. y = node_deleted_evidence t x else y = x)
        (st_nodes (vi_status b)) nodes"
      and n: "st_nodes (vi_status a) = nodes"
      and p: "st_previous_processes (vi_status a) = st_previous_processes (vi_status b)" for b a nodes
    unfolding good_update_def
  proof
    have "list_all2 (\<lambda>x y. ns_ordinal y = ns_ordinal x) (st_nodes (vi_status b)) nodes"
      using all by (rule list_all2_mono) (auto simp: node_deleted_evidence_def split: if_splits)
    then show "nodes_ok (st_nodes (vi_status a))" using nodes_ok_map ok b n by simp
    show "no_process_lost e (vi_status b) (vi_status a)"
    proof (rule no_process_lost_each)
      fix x assume x: "x \<in> set (st_nodes (vi_status b))" "ns_termination x = None"
      then obtain y where y: "y \<in> set nodes"
        "if same_process x node then \<exists>t. y = node_deleted_evidence t x else y = x"
        using list_all2_member [OF all] by blast
      have "same_process y x \<and> stop_justified e (vi_status b) y"
      proof (cases "same_process x node")
        case True
        then obtain t where t: "y = node_deleted_evidence t x" using y(2) by auto
        have s: "same_process y x" "same_container_process node y"
          using same_process_container [OF True] unfolding t
          by (simp_all add: node_deleted_evidence_def same_process_def same_container_process_def)
        then show ?thesis using node_gone_same [OF s(2)] gone unfolding t
          by (auto simp: stop_justified_def node_deleted_evidence_def)
      next
        case False
        then show ?thesis using y(2) x(2) stop_justified_None by simp
      qed
      then show "\<exists>q\<in>set (st_nodes (vi_status a)). same_process q x \<and> stop_justified e (vi_status b) q"
        using y(1) n by blast
    qed (rule p)
  qed
  show ?thesis
    unfolding save_node_deletion_termination_def
  proof (intro emits_bnd emits_update_checked emits_with_inst emits_update_where_now emits_modify_status
      emits_when emits_record_event emits_ret)
    fix b a
    assume "b = i \<or> rereads e b"
      and e: "ends (with_inst (\<lambda>i. bnd (update_where_now e (\<lambda>p. same_process p node) node_deleted_evidence
        (st_nodes (vi_status i))) (\<lambda>nodes. modify_status (\<lambda>st0. let st = st0\<lparr>st_nodes := nodes\<rparr>
          in if st_initialized st \<and> process_failure_affects_primary st (ns_ordinal node)
             then mark_unavailable ''PRIMARY_NOT_READY'' st else degrade_replicas st)))) b (Inr ()) a"
    then obtain nodes i' where "ends (update_where_now e (\<lambda>p. same_process p node) node_deleted_evidence
        (st_nodes (vi_status b))) b (Inr nodes) i'"
      and a: "a = update_vi_status (\<lambda>st0. let st = st0\<lparr>st_nodes := nodes\<rparr>
          in if st_initialized st \<and> process_failure_affects_primary st (ns_ordinal node)
             then mark_unavailable ''PRIMARY_NOT_READY'' st else degrade_replicas st) i'"
      by (auto elim!: ends_bndE)
    from ends_update_where_now [OF this(1)] have "i' = b"
      "list_all2 (\<lambda>x y. if same_process x node then \<exists>t. y = node_deleted_evidence t x else y = x)
        (st_nodes (vi_status b)) nodes" by simp_all
    then show "observation_call e i (PatchStatus b a)"
      using good [of b nodes a] a by (auto simp: Let_def)
  qed simp_all
qed

lemma stopped_node_ok:
  assumes "0 \<le> ordinal" and "ordinal < 2147483648"
  shows "ordinal_ok (stopped_node_status pod container ordinal node tm)"
  using assms by (simp add: stopped_node_status_def ordinal_ok_def)

lemma good_container_termination:
  assumes ok: "nodes_ok (st_nodes st)" and "ordinal_ok s" and t: "ns_termination s = Some tm"
    and ev: "tm_evidence tm = ''container_status''" "container_stopped e s"
    and same: "st_deletion st \<noteq> None \<or>
      (\<forall>c\<in>set (st_nodes st). ns_ordinal c = ns_ordinal s \<longrightarrow> same_container_process c s)"
  shows "good_update e st (apply_container_termination s tm st)"
proof -
  have "ordinal_ok (recorded_stop s tm st)"
    using assms(2) recorded_stop_facts(2) [OF t, of st] by (simp add: ordinal_ok_def)
  then have "nodes_ok (st_nodes (apply_container_termination s tm st))"
    using nodes_ok_replace [OF ok] by (simp add: apply_container_termination_nodes flip: recorded_stop_def)
  then show ?thesis using no_process_lost_container [OF ok t ev same] by (simp add: good_update_def)
qed

text \<open>The node of the stopped process is taken from the saved entry when there is one.\<close>

lemma ends_stopped_process_node:
  assumes "ends (stopped_process_node e current replaced pod) i (Inr node) j"
  shows "j = i \<and> (\<forall>c. current = Some c \<and> \<not> replaced \<longrightarrow> node = (ns_node_name c, ns_node_uid c))"
  using assms unfolding stopped_process_node_def
  by (auto elim!: ends_on_errE split: option.splits if_splits)

lemma emits_save_container:
  assumes ok: "nodes_ok (st_nodes (vi_status i))" and o: "0 \<le> ordinal" "ordinal < 2147483648"
    and pod: "answer_get_pod e h Cached name = Inr pod"
      "valkey_container_status (pod_container_statuses pod) = Some container"
  shows "emits (observation_call e i) (save_container_termination e pod container ordinal) i"
proof (cases "cs_state container")
  case (ContainerTerminated code reason finished)
  let ?current = "node_status_at_ordinal (st_nodes (vi_status i)) ordinal"
  let ?replaced = "container_replaced ?current pod container"
  have good: "good_update e (vi_status i) (apply_container_termination
      (stopped_node_status pod container ordinal node tm) tm (vi_status i))"
    if c: "\<not> (?replaced \<and> st_deletion (vi_status i) = None)"
      and node: "ends (stopped_process_node e ?current ?replaced pod) i (Inr node) j"
      and tm: "tm_evidence tm = ''container_status''" for node tm j
  proof (rule good_container_termination [OF ok stopped_node_ok [OF o] _ tm])
    let ?s = "stopped_node_status pod container ordinal node tm"
    show "ns_termination ?s = Some tm" by (simp add: stopped_node_status_def)
    show "container_stopped e ?s"
      using pod ContainerTerminated unfolding container_stopped_def stopped_node_status_def
      by (intro exI [of _ h] exI [of _ name] exI [of _ pod] exI [of _ container]) simp
    show "st_deletion (vi_status i) \<noteq> None \<or>
      (\<forall>c\<in>set (st_nodes (vi_status i)). ns_ordinal c = ns_ordinal ?s \<longrightarrow> same_container_process c ?s)"
    proof (cases "st_deletion (vi_status i)")
      case None
      then have nr: "\<not> ?replaced" using c by simp
      have "same_container_process c ?s"
        if "c \<in> set (st_nodes (vi_status i))" "ns_ordinal c = ns_ordinal ?s" for c
      proof -
        have "ns_ordinal c = ordinal" using that(2) by (simp add: stopped_node_status_def)
        then have cur: "?current = Some c"
          using that(1) ok node_at_unique unfolding nodes_ok_def by blast
        then have "node = (ns_node_name c, ns_node_uid c)"
          using ends_stopped_process_node [OF node] nr by blast
        then show ?thesis using nr cur \<open>ns_ordinal c = ordinal\<close>
          by (simp add: container_replaced_def same_container_process_def stopped_node_status_def)
      qed
      then show ?thesis by blast
    qed simp
  qed
  have release: "observation_call e i c"
    if stop: "already_stopped ?current ?replaced = Some n" and call: "release_call pod n c" for n c
  proof (rule observation_call_release [OF _ _ call])
    have n: "?current = Some n" "ns_termination n \<noteq> None" using already_stopped_Some [OF stop] by auto
    then show "n \<in> set (st_nodes (vi_status i))" using node_at_member by blast
    have "\<not> ?replaced" using stop by (auto simp: already_stopped_def split: option.splits if_splits)
    then show "stopped_in_pod e pod n"
      using n pod by (auto simp: stopped_in_pod_def container_replaced_def)
  qed
  have lost: "emits (observation_call e i) (termination_proof_lost e) i"
    unfolding termination_proof_lost_def record_termination_proof_lost_event_def
    by (intro emits_intros) (auto intro!: good_update_same ok)
  have save: "emits (observation_call e i)
      (bnd (stopped_process_node e ?current ?replaced pod) (\<lambda>node.
       bnd (if finished = 0 then now_op e else ret finished) (\<lambda>finished.
       bnd (update_status e (\<lambda>_. apply_container_termination
          (stopped_node_status pod container ordinal node (tm finished)) (tm finished)))
         (\<lambda>changed. ret (requeue_if changed))))) i"
    if c: "\<not> (?replaced \<and> st_deletion (vi_status i) = None)"
      and tm: "\<And>t. tm_evidence (tm t) = ''container_status''" for tm
  proof (intro emits_bnd emits_ret)
    show "emits (observation_call e i) (stopped_process_node e ?current ?replaced pod) i"
      by (intro emits_stopped_process_node observation_call_reading)
    fix node j t j'
    assume n: "ends (stopped_process_node e ?current ?replaced pod) i (Inr node) j"
    then have j: "j = i" using ends_stopped_process_node by blast
    show "emits (observation_call e i) (if finished = 0 then now_op e else ret finished) j"
      by (intro emits_intros) simp
    assume "ends (if finished = 0 then now_op e else ret finished) j (Inr t) j'"
    then have "j' = i" using j by (auto split: if_splits)
    then show "emits (observation_call e i) (update_status e (\<lambda>_. apply_container_termination
          (stopped_node_status pod container ordinal node (tm t)) (tm t))) j'"
      using good [OF c n tm] by (auto intro!: emits_good_update)
  qed
  show ?thesis
    unfolding save_container_termination_def Let_def ContainerTerminated container_state.case
    by (rule emits_with_inst, rule emits_if, rule lost, rule emits_case_option, rule save, assumption, simp,
        rule emits_release_terminated_pod, rule release)
qed (simp_all add: save_container_termination_def emits_ret)

section \<open>A process that answers\<close>

lemma observed_ordinal [simp]:
  "ns_ordinal (observed_process ordinal pod node container state accepted app_hash now) = ordinal"
  by (simp add: observed_process_def)

lemma ends_evidence_of_prior:
  assumes "ends (evidence_of_prior e current changed) i (Inr prior) j"
  shows "j = i \<and> (\<forall>tm. prior = Some tm \<longrightarrow>
    (\<exists>c. current = Some c \<and> node_gone e Direct c) \<and> tm_evidence tm = ''node_deleted'')"
proof -
  have "j = i \<and> (x \<longrightarrow> node_gone e Direct c)" if "ends (previous_node_deleted e c) i (Inr x) j" for c x j
    using that ends_previous_node_deleted [OF that] previous_node_deleted_evidence by (cases x) auto
  then show ?thesis
    using assms unfolding evidence_of_prior_def
    by (auto elim!: ends_bndE split: option.splits if_splits)
qed

lemma emits_evidence_of_prior [emits_intros]:
  assumes "\<And>c. reading c \<Longrightarrow> P c"
  shows "emits P (evidence_of_prior e current changed) i"
  unfolding evidence_of_prior_def by (intro emits_intros assms) simp_all

lemma good_identity_change:
  assumes "nodes_ok (st_nodes st)" and "ordinal_ok ob"
    and "\<And>c tm. node_status_at_ordinal (st_nodes st) (ns_ordinal ob) = Some c \<Longrightarrow> prior = Some tm \<Longrightarrow>
        tm_evidence tm = ''node_deleted'' \<and> (\<exists>r. node_gone e r c)"
  shows "good_update e st (apply_identity_change e' c ob prior b st)"
  by (rule good_update_cong [OF _ _ good_update_record [OF assms]])
    (simp_all add: apply_identity_change_def Let_def)

lemma good_observed_process:
  assumes "nodes_ok (st_nodes st)" and "ordinal_ok ob"
    and "\<And>c tm. node_status_at_ordinal (st_nodes st) (ns_ordinal ob) = Some c \<Longrightarrow> prior = Some tm \<Longrightarrow>
        tm_evidence tm = ''node_deleted'' \<and> (\<exists>r. node_gone e r c)"
    and "apply_observed_process e' ob prior now b st = Some st'"
  shows "good_update e st st'"
  by (rule good_update_cong [OF _ _ good_update_record [OF assms(1-3)]])
    (use assms(4) in \<open>auto simp: apply_observed_process_def Let_def split: if_splits\<close>)

text \<open>What the handler is about to save of the process.\<close>

lemma ordinal_ok_fields:
  "ordinal_ok (n\<lparr>ns_recovery := r, ns_replication := x\<rparr>) = ordinal_ok n"
  by (simp add: ordinal_ok_def)

lemma emits_save_identity_change:
  assumes "\<And>b. good_update e (vi_status i) (apply_identity_change e c ob prior b (vi_status i))"
  shows "emits (observation_call e i) (save_identity_change e c ob prior) i"
  unfolding save_identity_change_def record_termination_proof_lost_event_def using assms
  by (intro emits_intros) simp_all

lemma emits_save_observed_process:
  assumes ok: "nodes_ok (st_nodes (vi_status i))" and o: "0 \<le> ordinal" "ordinal < 2147483648"
  shows "emits (observation_call e i)
    (save_observed_process e ordinal pod node container credentials app_hash state) i"
proof -
  let ?current = "node_status_at_ordinal (st_nodes (vi_status i)) ordinal"
  have ob_ok: "ordinal_ok (observed_process ordinal pod node container state accepted app_hash now
      \<lparr>ns_recovery := r, ns_replication := x\<rparr>)" for accepted now r x
    using o by (simp add: ordinal_ok_def)
  have gone: "tm_evidence tm = ''node_deleted'' \<and> (\<exists>r. node_gone e r c)"
    if "ends (evidence_of_prior e ?current ch) i (Inr prior) j" "?current = Some c" "prior = Some tm"
    for ch prior j c tm
    using ends_evidence_of_prior [OF that(1)] that(2,3) by auto
  show ?thesis
    unfolding save_observed_process_def Let_def
  proof (intro emits_bnd emits_with_inst emits_deref_accepted emits_now_op emits_evidence_of_prior
      emits_case_option emits_if emits_ret)
    fix accepted j t1 j1 t2 j2 prior j3 c
    assume "ends deref_accepted i (Inr accepted) j" "ends (now_op e) j (Inr t1) j1" "ends (now_op e) j1 (Inr t2) j2"
    then have j: "j = i" "j2 = i" by simp_all
    let ?ob = "observed_process ordinal pod node container state accepted app_hash t1"
    let ?observed = "?ob\<lparr>
      ns_recovery := case node_status_at_ordinal (st_nodes (vi_status j)) ordinal of None \<Rightarrow> None
        | Some c \<Rightarrow> retained_process_recovery c ?ob (pod_deletion_timestamp pod),
      ns_replication := merge_observed_replication
        (Option.bind (node_status_at_ordinal (st_nodes (vi_status j)) ordinal) ns_replication)
        (ns_replication ?ob) (ns_role ?ob) t2\<rparr>"
    assume p: "ends (evidence_of_prior e (node_status_at_ordinal (st_nodes (vi_status j)) ordinal)
        (case node_status_at_ordinal (st_nodes (vi_status j)) ordinal of None \<Rightarrow> False
         | Some c \<Rightarrow> \<not> same_process c ?observed)) j2 (Inr prior) j3"
    then have j3: "j3 = i" using ends_evidence_of_prior j by blast
    show "emits (observation_call e i) (save_identity_change e c ?observed prior) j3"
      unfolding j3
      by (rule emits_save_identity_change, rule good_identity_change [OF ok ob_ok])
        (use gone [OF p [unfolded j]] in \<open>auto simp: j\<close>)
    show "emits (observation_call e i) (update_app_access e pod credentials app_hash False) j3"
      unfolding update_app_access_def Let_def by (intro emits_intros) simp
    have "good_update e (vi_status i) st'"
      if "apply_observed_process e ?observed prior t b (vi_status i) = Some st'" for t b st'
      by (rule good_observed_process [OF ok ob_ok _ that]) (use gone [OF p [unfolded j]] in \<open>auto simp: j\<close>)
    then show "emits (observation_call e i) (update_status_partial_now e (apply_observed_process e ?observed prior)) j3"
      unfolding j3 by (intro emits_intros) auto
  qed (simp_all add: observation_call_reading)
qed

section \<open>One ordinal\<close>

lemma emits_observe_running_process:
  assumes ok: "nodes_ok (st_nodes (vi_status i))" and o: "0 \<le> ordinal" "ordinal < 2147483648"
  shows "emits (observation_call e i) (observe_running_process e ordinal pod node container) i"
  unfolding observe_running_process_def inspect_process_def Let_def
  by (intro emits_intros)
    (auto dest!: ends_process_credentials simp: observation_call_reading
      intro: emits_record_observation_error [OF ok] emits_save_observed_process [OF ok o])

lemma find_in_option: "List.find p (case x of None \<Rightarrow> [] | Some c \<Rightarrow> [c]) = Some d \<longleftrightarrow> x = Some d \<and> p d"
  by (auto split: option.splits if_splits)

lemma emits_observe_started_pod:
  assumes ok: "nodes_ok (st_nodes (vi_status i))" and o: "0 \<le> ordinal" "ordinal < 2147483648"
    and current: "current = node_status_at_ordinal (st_nodes (vi_status i)) ordinal"
    and pod: "answer_get_pod e h Cached name = Inr pod"
      "valkey_container_status (pod_container_statuses pod) = Some container"
  shows "emits (observation_call e i) (observe_started_pod e ordinal pod container current) i"
proof -
  have gone1: "emits (observation_call e i) (save_node_deletion_termination e c) i"
    if "process_on_node c pod container" "ns_node_name c = pod_node_name pod"
      "answer_get_node e h Cached (pod_node_name pod) = Inl er" "is_not_found er" for c h er
    using that by (intro emits_save_node_deletion [OF ok, of e Cached])
      (auto simp: process_on_node_def intro: node_gone_Inl)
  have gone2: "emits (observation_call e i) (save_node_deletion_termination e c) i"
    if "process_on_node c pod container" "ns_node_name c = kn_name n"
      "answer_get_node e h Cached (pod_node_name pod) = Inr n" "ns_node_uid c \<noteq> kn_uid n" for c h n
    using that by (intro emits_save_node_deletion [OF ok, of e Cached])
      (auto simp: process_on_node_def intro: node_gone_Inr)
  have release: "emits (observation_call e i) (release_terminated_pod e pod c) i"
    if "current = Some c" "ns_termination c \<noteq> None" "ns_pod_uid c = pod_uid pod"
      "ns_container_id c = cs_container_id container" for c
  proof (rule emits_release_terminated_pod)
    have "c \<in> set (st_nodes (vi_status i))" using that(1) current node_at_member by metis
    moreover have "stopped_in_pod e pod c" using that(2-4) pod by (auto simp: stopped_in_pod_def)
    ultimately show "observation_call e i x" if "release_call pod c x" for x
      using that observation_call_release by blast
  qed
  show ?thesis
    unfolding observe_started_pod_def
    by (intro emits_case_option emits_if emits_process_unavailable [OF ok] emits_on_err emits_get_node
          emits_fail)
      (auto simp: find_in_option intro: release gone1 gone2 emits_observe_running_process [OF ok o])
qed

lemma emits_observe_pod:
  assumes ok: "nodes_ok (st_nodes (vi_status i))" and o: "0 \<le> ordinal" "ordinal < 2147483648"
    and pod: "answer_get_pod e h Cached name = Inr pod"
  shows "emits (observation_call e i) (observe_pod e ordinal pod) i"
proof (cases "valkey_container_status (pod_container_statuses pod)")
  case None
  then show ?thesis by (simp add: observe_pod_def emits_process_unavailable [OF ok])
next
  case (Some container)
  have started: "emits (observation_call e i) (with_inst (\<lambda>i. observe_started_pod e ordinal pod container
      (node_status_at_ordinal (st_nodes (vi_status i)) ordinal))) i"
    by (intro emits_with_inst emits_observe_started_pod [OF ok o _ pod Some]) simp
  show ?thesis
    using Some started emits_save_container [OF ok o pod Some]
    by (cases "cs_state container") (simp_all add: observe_pod_def)
qed

lemma emits_observe_missing_pod:
  assumes ok: "nodes_ok (st_nodes (vi_status i))"
  shows "emits (observation_call e i) (observe_missing_pod e ordinal) i"
  unfolding observe_missing_pod_def
proof (intro emits_with_inst emits_case_option emits_process_unavailable [OF ok] emits_bnd emits_if)
  fix c x j
  show "emits (observation_call e i) (previous_node_deleted e c) i"
    by (intro emits_previous_node_deleted observation_call_reading)
  assume d: "ends (previous_node_deleted e c) i (Inr x) j"
  then have j: "j = i" by (rule ends_previous_node_deleted)
  show "emits (observation_call e i) (process_unavailable e ordinal) j"
    unfolding j by (rule emits_process_unavailable [OF ok])
  assume x
  then have "node_gone e Direct c" using d previous_node_deleted_evidence by simp
  then show "emits (observation_call e i) (save_node_deletion_termination e c) j"
    unfolding j by (rule emits_save_node_deletion [OF ok])
qed

lemma reconcile_process_ordinal_calls:
  assumes ok: "nodes_ok (st_nodes (vi_status i))" and o: "0 \<le> ordinal" "ordinal < 2147483648"
  shows "emits (observation_call e i) (reconcile_process_ordinal e ordinal) i"
  unfolding reconcile_process_ordinal_def
  by (intro emits_bnd emits_on_err emits_deref_accepted emits_get_pod emits_if emits_with_inst
      emits_fail emits_ret emits_patch_pod)
    (auto intro: emits_observe_missing_pod [OF ok] emits_ownership_conflict [OF ok] emits_observe_pod [OF ok o])

end
