(* ===== verification/Recovery.thy ===== *)
theory Recovery
  imports Observation_Lemmas
begin

text \<open>
  A process that hangs (\<open>process_recovery.go\<close>) and a stop an administrator vouches for
  (\<open>manual_fencing.go\<close>).
\<close>

section \<open>Steps of a recovery\<close>

definition map_process :: "node_status \<Rightarrow> (node_status \<Rightarrow> node_status) \<Rightarrow> instance_status \<Rightarrow> instance_status" where
  "map_process process f st = st\<lparr>st_nodes := update_where (\<lambda>n. same_process n process) f (st_nodes st)\<rparr>"

definition clear_process_recovery :: "env \<Rightarrow> node_status \<Rightarrow> result op" where
  "clear_process_recovery e process =
     bnd (update_status e (\<lambda>_. map_process process (\<lambda>n. n\<lparr>ns_recovery := None\<rparr>)))
       (\<lambda>changed. ret (requeue_if changed))"

definition set_recovery_stage :: "process_recovery_stage \<Rightarrow> node_status \<Rightarrow> node_status" where
  "set_recovery_stage stage n =
     n\<lparr>ns_recovery := map_option (\<lambda>rc. rc\<lparr>rc_stage := stage\<rparr>) (ns_recovery n)\<rparr>"

definition advance_process_recovery_to_deletion :: "env \<Rightarrow> node_status \<Rightarrow> result op" where
  "advance_process_recovery_to_deletion e process =
     bnd (update_status e (\<lambda>_. map_process process (set_recovery_stage ProcessRecoveryStageDeleting)))
       (\<lambda>changed. ret (requeue_if changed))"

text \<open>An update of the nodes that reads the clock for each node it changes.\<close>

definition update_nodes_now ::
  "env \<Rightarrow> (node_status \<Rightarrow> bool) \<Rightarrow> (time \<Rightarrow> node_status \<Rightarrow> node_status) \<Rightarrow> bool op" where
  "update_nodes_now e p f =
     update_status_checked e (with_inst (\<lambda>i.
       bnd (update_where_now e p f (st_nodes (vi_status i))) (\<lambda>nodes.
       modify_status (\<lambda>st. st\<lparr>st_nodes := nodes\<rparr>))))"

definition start_process_recovery ::
  "env \<Rightarrow> node_status \<Rightarrow> process_recovery_reason \<Rightarrow> process_recovery_stage \<Rightarrow> result op" where
  "start_process_recovery e process reason stage =
     bnd (update_nodes_now e (\<lambda>n. same_process n process \<and> ns_recovery n = None)
            (\<lambda>t n. n\<lparr>ns_recovery := Some \<lparr>rc_reason = reason, rc_stage = stage, rc_started_at = t,
                     rc_delete_requested_at = None\<rparr>\<rparr>))
       (\<lambda>changed. ret (requeue_if changed))"

definition process_recovery_canceled_by_response :: "node_status \<Rightarrow> bool" where
  "process_recovery_canceled_by_response p =
     (case (ns_recovery p, ns_observation p) of
        (Some rc, Some ob) \<Rightarrow>
          if rc_reason rc = ProcessRecoveryUnresponsive \<and> rc_stage rc = ProcessRecoveryStageDeleting
          then ob_kind ob \<noteq> ProcessObservationTransportError
          else rc_reason rc = ProcessRecoveryBusy \<and> rc_stage rc = ProcessRecoveryStageKillingBusy \<and>
               ob_kind ob \<noteq> ProcessObservationBusy \<and> ob_kind ob \<noteq> ProcessObservationTransportError
      | _ \<Rightarrow> False)"

definition process_eligible_for_deletion :: "env \<Rightarrow> node_status \<Rightarrow> bool op" where
  "process_eligible_for_deletion e process =
     on_err (current_process_pod e process) (\<lambda>er. if is_not_found er then ret False else fail er)
     (\<lambda>pod.
     if pod_ready (pod_conditions pod) \<and> time_ptr_is_zero (pod_deletion_timestamp pod) then ret False
     else bnd (get_node e Direct (ns_node_name process)) (\<lambda>node.
          ret (kn_uid node = ns_node_uid process \<and> node_ready (kn_conditions node))))"

definition recover_busy_process :: "env \<Rightarrow> node_status \<Rightarrow> result op" where
  "recover_busy_process e process =
     on_err (current_process_pod e process)
       (\<lambda>er. if is_not_found er then ret HealthCheckInterval else fail er)
     (\<lambda>pod.
     bnd (process_credentials e) (\<lambda>(credentials, _).
     (let address = valkey_address (pod_ip pod); password = cr_operator_password credentials in
      on_err (do_call (StopBusyProcess address password) (\<lambda>h. answer_stop_busy e h address password))
        (\<lambda>er. if errors_is ErrNoBusyProcess er then clear_process_recovery e process
              else if errors_is ErrUnkillable er then advance_process_recovery_to_deletion e process
              else if classify_error er = ErrorKindTransport then ret HealthCheckInterval
              else fail er)
        (\<lambda>_. clear_process_recovery e process))))"

definition request_process_deletion :: "env \<Rightarrow> node_status \<Rightarrow> result op" where
  "request_process_deletion e process =
     bnd (process_eligible_for_deletion e process) (\<lambda>eligible.
     if \<not> eligible then clear_process_recovery e process
     else on_err (current_process_pod e process)
       (\<lambda>er. if is_not_found er then ret HealthCheckInterval else fail er)
     (\<lambda>pod.
     bnd (when_op (time_ptr_is_zero (pod_deletion_timestamp pod))
            (delete_pod_if_present e pod ProcessDeletionGracePeriod)) (\<lambda>_.
     bnd (update_nodes_now e (\<lambda>n. same_process n process \<and> ns_recovery n \<noteq> None)
            (\<lambda>t n. n\<lparr>ns_recovery := map_option (\<lambda>rc. rc\<lparr>
                rc_stage := ProcessRecoveryStageWaitingForTermination,
                rc_delete_requested_at := Some t\<rparr>) (ns_recovery n)\<rparr>))
       (\<lambda>changed. ret (requeue_if changed)))))"

definition continue_process_recovery :: "env \<Rightarrow> node_status \<Rightarrow> process_recovery_status \<Rightarrow> result op" where
  "continue_process_recovery e process rc =
     (case rc_stage rc of
        ProcessRecoveryStageKillingBusy \<Rightarrow> recover_busy_process e process
      | ProcessRecoveryStageDeleting \<Rightarrow> request_process_deletion e process
      | ProcessRecoveryStageWaitingForTermination \<Rightarrow> ret HealthCheckInterval
      | ProcessRecoveryStageOther _ \<Rightarrow> fail (Plain ''unknown stage of process recovery''))"

section \<open>reconcileProcessRecovery\<close>

text \<open>One process of the loop: \<open>Inl\<close> returns from the handler, \<open>Inr\<close> goes on with \<open>pending\<close>.\<close>

definition recover_process :: "env \<Rightarrow> result \<Rightarrow> node_status \<Rightarrow> (result + result) op" where
  "recover_process e pending process =
     (if ns_termination process \<noteq> None then ret (Inr pending)
      else case ns_recovery process of
        Some rc \<Rightarrow>
          if process_recovery_canceled_by_response process
          then bnd (clear_process_recovery e process) (\<lambda>r. ret (Inl r))
          else bnd (now_op e) (\<lambda>now.
            if rc_stage rc = ProcessRecoveryStageKillingBusy \<and>
               th_unresponsive (process_thresholds (ns_observation process) None now)
            then bnd (advance_process_recovery_to_deletion e process) (\<lambda>r. ret (Inl r))
            else bnd (continue_process_recovery e process rc) (\<lambda>r.
              if result_requests_immediate_requeue r then ret (Inl r)
              else ret (Inr (earlier_requeue pending r))))
      | None \<Rightarrow>
          bnd (now_op e) (\<lambda>now.
          (let thresholds = process_thresholds (ns_observation process) None now in
           if th_busy_intervention thresholds
           then bnd (start_process_recovery e process ProcessRecoveryBusy ProcessRecoveryStageKillingBusy)
                  (\<lambda>r. ret (Inl r))
           else if th_unresponsive thresholds
           then bnd (process_eligible_for_deletion e process) (\<lambda>eligible.
                  if eligible
                  then bnd (start_process_recovery e process ProcessRecoveryUnresponsive
                              ProcessRecoveryStageDeleting) (\<lambda>r. ret (Inl r))
                  else ret (Inr pending))
           else ret (Inr pending))))"

fun recover_processes :: "env \<Rightarrow> result \<Rightarrow> node_status list \<Rightarrow> result op" where
  "recover_processes e pending [] = ret pending"
| "recover_processes e pending (process # rest) =
     bnd (recover_process e pending process) (\<lambda>r. case r of
        Inl result \<Rightarrow> ret result
      | Inr pending' \<Rightarrow> recover_processes e pending' rest)"

definition reconcile_process_recovery :: "env \<Rightarrow> result op" where
  "reconcile_process_recovery e =
     with_inst (\<lambda>i. recover_processes e 0 (st_nodes (vi_status i)))"

section \<open>manual\_fencing.go\<close>

definition conditionTypeManualFencing :: string where "conditionTypeManualFencing = ''ManualFencing''"

definition manual_fencing_expected :: "valkey_instance \<Rightarrow> node_status \<Rightarrow> bool" where
  "manual_fencing_expected i process =
     (let st = vi_status i; ident = process_identity process in
      if st_deletion st \<noteq> None \<or> ns_recovery process \<noteq> None then True
      else if (case st_failover st of None \<Rightarrow> False
               | Some f \<Rightarrow> same_identity (fo_source f) ident \<or>
                   (case fo_candidate f of None \<Rightarrow> False | Some c \<Rightarrow> same_identity c ident))
      then True
      else if (case Option.bind (st_rollout st) ro_process of None \<Rightarrow> False | Some p \<Rightarrow> same_identity p ident)
      then True
      else list_ex (\<lambda>p. ns_termination p = None \<and> same_process p process) (st_previous_processes st))"

definition remove_manual_fencing_annotation :: "env \<Rightarrow> result op" where
  "remove_manual_fencing_annotation e =
     on_err (patch_instance e (\<lambda>i. i\<lparr>vi_annotations := clone_without_key (vi_annotations i) manualFencingAnnotation\<rparr>))
       (\<lambda>er. fail (Wrapped er)) (\<lambda>_. ret (requeue_if True))"

definition manual_fencing_pending :: "env \<Rightarrow> result op" where
  "manual_fencing_pending e =
     bnd (update_status e (\<lambda>i. set_condition e i conditionTypeManualFencing ConditionFalse
            ''NodeStillReady'' ''manual fencing waits for the node to stop'')) (\<lambda>changed.
     bnd (when_op changed (record_event e ''ManualFencingPending'' ''Fencing'')) (\<lambda>_.
     ret HealthCheckInterval))"

definition apply_manual_fencing ::
  "env \<Rightarrow> process_identity \<Rightarrow> time \<Rightarrow> valkey_instance \<Rightarrow> instance_status \<Rightarrow> instance_status" where
  "apply_manual_fencing e identity now i st =
     (let p = (\<lambda>n. same_identity (process_identity n) identity \<and> ns_termination n = None);
          f = (\<lambda>n. n\<lparr>ns_readiness := False, ns_termination := Some \<lparr>tm_reason = ''ManualFencing'',
                 tm_exit_code = 0, tm_finished_at = now, tm_evidence = ''manual_fencing''\<rparr>\<rparr>)
      in remove_condition e conditionTypeManualFencing
           (st\<lparr>st_nodes := update_where p f (st_nodes st),
               st_previous_processes := update_where p f (st_previous_processes st)\<rparr>))"

definition accept_manual_fencing :: "env \<Rightarrow> process_identity \<Rightarrow> result op" where
  "accept_manual_fencing e identity =
     bnd (update_status_now e (apply_manual_fencing e identity)) (\<lambda>changed.
     if changed
     then bnd (record_event e ''ManualFencingAccepted'' ''Fencing'') (\<lambda>_. ret (requeue_if True))
     else remove_manual_fencing_annotation e)"

definition reconcile_manual_fencing :: "env \<Rightarrow> result op" where
  "reconcile_manual_fencing e =
     with_inst (\<lambda>i.
     case Option.bind (vi_annotations i manualFencingAnnotation) (decode_identity e) of
       None \<Rightarrow> ret 0
     | Some identity \<Rightarrow>
         (case known_process (vi_status i) identity of
            None \<Rightarrow> ret 0
          | Some process \<Rightarrow>
              if ns_termination process \<noteq> None then remove_manual_fencing_annotation e
              else if \<not> manual_fencing_expected i process then ret 0
              else on_err (get_node e Direct (ns_node_name process))
                (\<lambda>er. if is_not_found er then accept_manual_fencing e identity else fail (Wrapped er))
                (\<lambda>node. if kn_uid node = ns_node_uid process \<and> node_ready (kn_conditions node)
                        then manual_fencing_pending e else accept_manual_fencing e identity)))"

end
