(* ===== verification/Recovery_Lemmas.thy ===== *)
theory Recovery_Lemmas
  imports Recovery
begin

text \<open>
  What a recovery does and when: a process is killed or deleted only after the thresholds were
  crossed, a pod only while the API server vouches for its node, and the stages only go forward.
\<close>

section \<open>Stages of a recovery\<close>

definition node_answers :: "env \<Rightarrow> node_status \<Rightarrow> bool" where
  "node_answers e p \<longleftrightarrow> (\<exists>h n. answer_get_node e h Direct (ns_node_name p) = Inr n \<and>
     kn_uid n = ns_node_uid p \<and> node_ready (kn_conditions n))"

text \<open>The process has been busy, or silent, for the time of the contract by the clock of the pass.\<close>

definition busy_too_long :: "env \<Rightarrow> node_status \<Rightarrow> bool" where
  "busy_too_long e p \<longleftrightarrow> (\<exists>ob since h. ns_observation p = Some ob \<and> ob_kind ob = ProcessObservationBusy \<and>
     ob_busy_since ob = Some since \<and> since + ScriptBusyTimeout \<le> answer_clock e h)"

definition silent_too_long :: "env \<Rightarrow> node_status \<Rightarrow> bool" where
  "silent_too_long e p \<longleftrightarrow> (\<exists>ob since h. ns_observation p = Some ob \<and>
     ob_kind ob = ProcessObservationTransportError \<and>
     PrimaryFailureThreshold \<le> ob_consecutive_transport_errors ob \<and>
     ob_transport_error_since ob = Some since \<and> since + ProcessUnresponsiveTimeout \<le> answer_clock e h)"

definition script_unkillable :: "env \<Rightarrow> bool" where
  "script_unkillable e \<longleftrightarrow> (\<exists>h address password er. answer_stop_busy e h address password = Inl er \<and>
     errors_is ErrUnkillable er)"

inductive recovery_edge ::
  "env \<Rightarrow> node_status \<Rightarrow> process_recovery_status option \<Rightarrow> process_recovery_status option \<Rightarrow> bool"
  for e p where
  keep: "recovery_edge e p r r"
| cancel: "rc_stage rc = ProcessRecoveryStageKillingBusy \<or> rc_stage rc = ProcessRecoveryStageDeleting \<Longrightarrow>
    recovery_edge e p (Some rc) None"
| start_busy: "busy_too_long e p \<Longrightarrow>
    recovery_edge e p None (Some \<lparr>rc_reason = ProcessRecoveryBusy, rc_stage = ProcessRecoveryStageKillingBusy,
      rc_started_at = t, rc_delete_requested_at = None\<rparr>)"
| start_unresponsive: "silent_too_long e p \<Longrightarrow> node_answers e p \<Longrightarrow>
    recovery_edge e p None (Some \<lparr>rc_reason = ProcessRecoveryUnresponsive, rc_stage = ProcessRecoveryStageDeleting,
      rc_started_at = t, rc_delete_requested_at = None\<rparr>)"
| escalate: "rc_stage rc = ProcessRecoveryStageKillingBusy \<Longrightarrow> silent_too_long e p \<or> script_unkillable e \<Longrightarrow>
    recovery_edge e p (Some rc) (Some (rc\<lparr>rc_stage := ProcessRecoveryStageDeleting\<rparr>))"
| request: "rc_stage rc = ProcessRecoveryStageDeleting \<Longrightarrow> node_answers e p \<Longrightarrow>
    recovery_edge e p (Some rc) (Some (rc\<lparr>rc_stage := ProcessRecoveryStageWaitingForTermination,
      rc_delete_requested_at := Some t\<rparr>))"

lemma busy_intervention_after:
  assumes "th_busy_intervention (process_thresholds (ns_observation p) None (answer_clock e h))"
  shows "busy_too_long e p"
  using assms time_sub_ge [of ScriptBusyTimeout]
  by (auto simp: process_thresholds_def elapsed_def busy_too_long_def Let_def duration_defs
      split: option.splits process_observation_kind.splits) (intro exI [of _ h], simp)

lemma unresponsive_after:
  assumes "th_unresponsive (process_thresholds (ns_observation p) None (answer_clock e h))"
  shows "silent_too_long e p"
  using assms time_sub_ge [of ProcessUnresponsiveTimeout]
  by (auto simp: process_thresholds_def elapsed_def silent_too_long_def Let_def duration_defs
      split: option.splits process_observation_kind.splits) (intro exI [of _ h], simp)

inductive_cases recovery_startE: "recovery_edge e p None (Some rc)"
inductive_cases recovery_moveE: "recovery_edge e p (Some rc) (Some rc')"
inductive_cases recovery_cancelE: "recovery_edge e p (Some rc) None"

definition recovery_update :: "env \<Rightarrow> instance_status \<Rightarrow> instance_status \<Rightarrow> bool" where
  "recovery_update e st st' \<longleftrightarrow>
     (\<exists>nodes. st' = st\<lparr>st_nodes := nodes\<rparr> \<and>
        list_all2 (\<lambda>n n'. n' = n\<lparr>ns_recovery := ns_recovery n'\<rparr> \<and>
           recovery_edge e n (ns_recovery n) (ns_recovery n') \<and>
           (ns_termination n \<noteq> None \<longrightarrow> n' = n)) (st_nodes st) nodes)"

section \<open>Calls of a recovery\<close>

definition recovering :: "valkey_instance \<Rightarrow> node_status \<Rightarrow> process_recovery_stage \<Rightarrow> bool" where
  "recovering i p stage \<longleftrightarrow> p \<in> set (st_nodes (vi_status i)) \<and> ns_termination p = None \<and>
     (\<exists>rc. ns_recovery p = Some rc \<and> rc_stage rc = stage)"

fun recovery_call :: "env \<Rightarrow> valkey_instance \<Rightarrow> call \<Rightarrow> bool" where
  "recovery_call e i (PatchStatus b a) =
     (vi_status b = vi_status i \<longrightarrow> recovery_update e (vi_status i) (vi_status a))"
| "recovery_call e i (DeletePod pod g) =
     (g = ProcessDeletionGracePeriod \<and>
      (\<exists>p k. recovering i p ProcessRecoveryStageDeleting \<and> fresh e i k \<and> pod_of_process k p pod \<and>
         node_answers e p))"
| "recovery_call e i (StopBusyProcess address password) =
     (\<exists>p k pod. recovering i p ProcessRecoveryStageKillingBusy \<and> fresh e i k \<and>
        pod_of_process k p pod \<and> address = valkey_address (pod_ip pod))"
| "recovery_call e i c = reading c"

lemma recovery_call_reading: "reading c \<Longrightarrow> recovery_call e i c"
  by (cases c) simp_all

lemma recovery_update_mapped:
  assumes "nodes_ok (st_nodes st)" and "process \<in> set (st_nodes st)" and "ns_termination process = None"
    and "recovery_edge e process (ns_recovery process) (ns_recovery (f process))"
    and "f process = process\<lparr>ns_recovery := ns_recovery (f process)\<rparr>"
  shows "recovery_update e st (map_process process f st)"
proof -
  have one: "n = process" if "n \<in> set (st_nodes st)" "same_process n process" for n
  proof -
    have "ns_ordinal n = ns_ordinal process" using that(2) by (simp add: same_process_iff)
    then show ?thesis using assms(1,2) that(1) unfolding nodes_ok_def by (simp add: distinct_map inj_on_def)
  qed
  have "list_all2 (\<lambda>n n'. n' = n\<lparr>ns_recovery := ns_recovery n'\<rparr> \<and>
           recovery_edge e n (ns_recovery n) (ns_recovery n') \<and> (ns_termination n \<noteq> None \<longrightarrow> n' = n))
      (st_nodes st) (update_where (\<lambda>n. same_process n process) f (st_nodes st))"
  proof (rule list_all2_all_nthI)
    fix k assume k: "k < length (st_nodes st)"
    let ?n = "st_nodes st ! k"
    have m: "?n \<in> set (st_nodes st)" using k by simp
    show "update_where (\<lambda>n. same_process n process) f (st_nodes st) ! k =
        ?n\<lparr>ns_recovery := ns_recovery (update_where (\<lambda>n. same_process n process) f (st_nodes st) ! k)\<rparr> \<and>
      recovery_edge e ?n (ns_recovery ?n)
        (ns_recovery (update_where (\<lambda>n. same_process n process) f (st_nodes st) ! k)) \<and>
      (ns_termination ?n \<noteq> None \<longrightarrow> update_where (\<lambda>n. same_process n process) f (st_nodes st) ! k = ?n)"
      using k one [OF m] assms(3-5) by (auto simp: update_where_def intro: keep)
  qed simp
  then show ?thesis
    unfolding recovery_update_def map_process_def
    by (intro exI [of _ "update_where (\<lambda>n. same_process n process) f (st_nodes st)"]) simp
qed

lemma emits_clear_recovery:
  assumes "nodes_ok (st_nodes (vi_status i))" and "p \<in> set (st_nodes (vi_status i))" and "ns_termination p = None"
    and "\<And>rc. ns_recovery p = Some rc \<Longrightarrow>
      rc_stage rc = ProcessRecoveryStageKillingBusy \<or> rc_stage rc = ProcessRecoveryStageDeleting"
  shows "emits (recovery_call e i) (clear_process_recovery e p) j"
proof -
  have "recovery_update e (vi_status i) (map_process p (\<lambda>n. n\<lparr>ns_recovery := None\<rparr>) (vi_status i))"
    by (rule recovery_update_mapped [OF assms(1-3)]) (cases "ns_recovery p"; simp add: keep cancel assms(4))+
  then show ?thesis unfolding clear_process_recovery_def by (intro emits_intros) simp_all
qed

lemma emits_advance_recovery:
  assumes "nodes_ok (st_nodes (vi_status i))" and "recovering i p ProcessRecoveryStageKillingBusy"
    and "silent_too_long e p \<or> script_unkillable e"
  shows "emits (recovery_call e i) (advance_process_recovery_to_deletion e p) j"
proof -
  obtain rc where rc: "p \<in> set (st_nodes (vi_status i))" "ns_termination p = None" "ns_recovery p = Some rc"
    "rc_stage rc = ProcessRecoveryStageKillingBusy"
    using assms(2) by (auto simp: recovering_def)
  have "recovery_update e (vi_status i)
      (map_process p (set_recovery_stage ProcessRecoveryStageDeleting) (vi_status i))"
    by (rule recovery_update_mapped [OF assms(1) rc(1,2)])
      (use assms(3) in \<open>simp_all add: set_recovery_stage_def rc escalate\<close>)
  then show ?thesis unfolding advance_process_recovery_to_deletion_def by (intro emits_intros) simp_all
qed

text \<open>The same for updates that read the clock.\<close>

lemma recovery_update_now:
  assumes "nodes_ok (st_nodes st)" and "process \<in> set (st_nodes st)" and "ns_termination process = None"
    and "list_all2 (\<lambda>x y. if p x then \<exists>t. y = f t x else y = x) (st_nodes st) nodes"
    and "\<And>n. p n \<Longrightarrow> same_process n process"
    and "\<And>t. p process \<Longrightarrow> recovery_edge e process (ns_recovery process) (ns_recovery (f t process))"
    and "\<And>t. f t process = process\<lparr>ns_recovery := ns_recovery (f t process)\<rparr>"
  shows "recovery_update e st (st\<lparr>st_nodes := nodes\<rparr>)"
proof -
  have one: "n = process" if "n \<in> set (st_nodes st)" "p n" for n
  proof -
    have "ns_ordinal n = ns_ordinal process" using assms(5) [OF that(2)] by (simp add: same_process_iff)
    then show ?thesis using assms(1,2) that(1) unfolding nodes_ok_def by (simp add: distinct_map inj_on_def)
  qed
  have "list_all2 (\<lambda>n n'. n' = n\<lparr>ns_recovery := ns_recovery n'\<rparr> \<and>
           recovery_edge e n (ns_recovery n) (ns_recovery n') \<and> (ns_termination n \<noteq> None \<longrightarrow> n' = n))
      (st_nodes st) nodes"
  proof (rule list_all2_all_nthI)
    show "length (st_nodes st) = length nodes" using assms(4) by (rule list_all2_lengthD)
    fix k assume k: "k < length (st_nodes st)"
    let ?n = "st_nodes st ! k"
    have m: "?n \<in> set (st_nodes st)" using k by simp
    have "if p ?n then \<exists>t. nodes ! k = f t ?n else nodes ! k = ?n" using list_all2_nthD [OF assms(4) k] .
    then show "nodes ! k = ?n\<lparr>ns_recovery := ns_recovery (nodes ! k)\<rparr> \<and>
      recovery_edge e ?n (ns_recovery ?n) (ns_recovery (nodes ! k)) \<and>
      (ns_termination ?n \<noteq> None \<longrightarrow> nodes ! k = ?n)"
      using one [OF m] assms(3,6,7) by (cases "p ?n") (auto intro: keep)
  qed
  then show ?thesis unfolding recovery_update_def by blast
qed

lemma emits_update_nodes_now:
  assumes "\<And>nodes. list_all2 (\<lambda>x y. if p x then \<exists>t. y = f t x else y = x) (st_nodes (vi_status i)) nodes \<Longrightarrow>
      recovery_update e (vi_status i) ((vi_status i)\<lparr>st_nodes := nodes\<rparr>)"
  shows "emits (recovery_call e i) (update_nodes_now e p f) j"
  unfolding update_nodes_now_def
proof (intro emits_update_checked emits_bnd emits_with_inst emits_update_where_now emits_modify_status)
  fix b a
  assume "ends (with_inst (\<lambda>i. bnd (update_where_now e p f (st_nodes (vi_status i)))
      (\<lambda>nodes. modify_status (\<lambda>st. st\<lparr>st_nodes := nodes\<rparr>)))) b (Inr ()) a"
  then obtain nodes where
    "list_all2 (\<lambda>x y. if p x then \<exists>t. y = f t x else y = x) (st_nodes (vi_status b)) nodes"
    "a = update_vi_status (\<lambda>st. st\<lparr>st_nodes := nodes\<rparr>) b"
    by (auto elim!: ends_bndE dest!: ends_update_where_now)
  then show "recovery_call e i (PatchStatus b a)"
    using assms [of nodes] by auto
qed simp_all

lemma emits_start_recovery:
  assumes "nodes_ok (st_nodes (vi_status i))" and "p \<in> set (st_nodes (vi_status i))"
    and "ns_termination p = None" and "ns_recovery p = None"
    and "\<And>t. recovery_edge e p None (Some \<lparr>rc_reason = reason, rc_stage = stage, rc_started_at = t,
        rc_delete_requested_at = None\<rparr>)"
  shows "emits (recovery_call e i) (start_process_recovery e p reason stage) j"
  unfolding start_process_recovery_def
  by (intro emits_bnd emits_ret emits_update_nodes_now recovery_update_now [OF assms(1-3)], assumption)
    (use assms(4,5) in auto)

lemma ends_process_eligible:
  "ends (process_eligible_for_deletion e p) i (Inr x) j \<Longrightarrow> j = i \<and> (x \<longrightarrow> node_answers e p)"
  unfolding process_eligible_for_deletion_def node_answers_def
  by (auto elim!: ends_on_errE ends_bndE split: if_splits dest!: ends_current_process_pod_Inl) blast+

lemma emits_process_eligible [emits_intros]:
  assumes "\<And>c. reading c \<Longrightarrow> P c"
  shows "emits P (process_eligible_for_deletion e p) i"
  unfolding process_eligible_for_deletion_def by (intro emits_intros assms) simp_all

lemma emits_recover_busy:
  assumes ok: "nodes_ok (st_nodes (vi_status i))" and p: "recovering i p ProcessRecoveryStageKillingBusy"
    and cur: "fresh e i j"
  shows "emits (recovery_call e i) (recover_busy_process e p) j"
proof -
  have clear: "emits (recovery_call e i) (clear_process_recovery e p) j"
    using p by (intro emits_clear_recovery [OF ok]) (auto simp: recovering_def)
  have advance: "emits (recovery_call e i) (advance_process_recovery_to_deletion e p) j"
    if "answer_stop_busy e h address password = Inl er" "errors_is ErrUnkillable er" for h address password er
    using that by (intro emits_advance_recovery [OF ok p]) (auto simp: script_unkillable_def)
  show ?thesis
    unfolding recover_busy_process_def Let_def
    by (intro emits_on_err emits_current_process_pod emits_bnd emits_process_credentials emits_case_prod
        emits_if emits_ret emits_fail emits_call)
      (use p cur in \<open>auto simp: recovery_call_reading intro: clear advance
          dest!: ends_current_process_pod ends_process_credentials\<close>)
qed

lemma emits_request_deletion:
  assumes ok: "nodes_ok (st_nodes (vi_status i))" and p: "recovering i p ProcessRecoveryStageDeleting"
    and cur: "fresh e i j"
  shows "emits (recovery_call e i) (request_process_deletion e p) j"
proof -
  obtain rc where rc: "p \<in> set (st_nodes (vi_status i))" "ns_termination p = None" "ns_recovery p = Some rc"
    "rc_stage rc = ProcessRecoveryStageDeleting"
    using p by (auto simp: recovering_def)
  have clear: "emits (recovery_call e i) (clear_process_recovery e p) j"
    by (rule emits_clear_recovery [OF ok rc(1,2)]) (use rc in simp)
  have save: "emits (recovery_call e i) (update_nodes_now e (\<lambda>n. same_process n p \<and> ns_recovery n \<noteq> None)
            (\<lambda>t n. n\<lparr>ns_recovery := map_option (\<lambda>rc. rc\<lparr>
                rc_stage := ProcessRecoveryStageWaitingForTermination,
                rc_delete_requested_at := Some t\<rparr>) (ns_recovery n)\<rparr>)) j" if "node_answers e p" for j
    by (intro emits_update_nodes_now recovery_update_now [OF ok rc(1,2)], assumption)
      (use rc that in \<open>auto intro: request\<close>)
  have delete: "emits (recovery_call e i) (delete_pod_if_present e pod ProcessDeletionGracePeriod) k"
    if "pod_of_process k p pod" "node_answers e p" "fresh e i k" for pod k
    using that p by (intro emits_intros) auto
  have keeps: "j = k" if "ends (delete_pod_if_present e pod g) k r j" for pod g k r j
    using that unfolding delete_pod_if_present_def by (auto elim!: ends_on_errE split: if_splits)
  show ?thesis
    unfolding request_process_deletion_def
    by (intro emits_on_err emits_current_process_pod emits_bnd emits_process_eligible
        emits_if emits_ret emits_fail emits_when)
      (auto simp: recovery_call_reading intro: clear save [simplified] delete cur split: if_splits
        dest!: ends_current_process_pod ends_process_eligible keeps)
qed

lemma emits_continue_recovery:
  assumes "nodes_ok (st_nodes (vi_status i))" and "recovering i p (rc_stage rc)"
    and cur: "fresh e i j"
  shows "emits (recovery_call e i) (continue_process_recovery e p rc) j"
  using assms emits_recover_busy emits_request_deletion
  by (cases "rc_stage rc") (auto simp: continue_process_recovery_def intro: emits_intros)

lemma emits_recover_process:
  assumes ok: "nodes_ok (st_nodes (vi_status i))" and p: "p \<in> set (st_nodes (vi_status i))"
    and cur: "fresh e i j"
  shows "emits (recovery_call e i) (recover_process e pending p) j"
proof (cases "ns_termination p")
  case None
  show ?thesis
  proof (cases "ns_recovery p")
    case (Some rc)
    have stage: "recovering i p (rc_stage rc)" using p None Some by (simp add: recovering_def)
    have advance: "emits (recovery_call e i) (advance_process_recovery_to_deletion e p) j"
      if "rc_stage rc = ProcessRecoveryStageKillingBusy" "silent_too_long e p"
      using stage that by (intro emits_advance_recovery [OF ok]) simp_all
    have clear: "emits (recovery_call e i) (clear_process_recovery e p) j"
      if "process_recovery_canceled_by_response p"
      using that Some by (intro emits_clear_recovery [OF ok p None])
        (auto simp: process_recovery_canceled_by_response_def split: option.splits if_splits)
    show ?thesis
      unfolding recover_process_def using None Some cur
      by (auto intro!: emits_bnd emits_ret emits_if emits_now_op clear
          emits_continue_recovery [OF ok stage cur] advance unresponsive_after)
  next
    case none: None
    show ?thesis
      unfolding recover_process_def Let_def using None none
      by (auto intro!: emits_bnd emits_ret emits_if emits_now_op emits_start_recovery [OF ok p None none]
          emits_process_eligible start_busy start_unresponsive simp: recovery_call_reading
          dest: ends_process_eligible dest!: busy_intervention_after unresponsive_after)
  qed
qed (simp add: recover_process_def emits_ret)


lemma immediate_requeue [simp]:
  "result_requests_immediate_requeue (requeue_if changed) = changed"
  by (simp add: result_requests_immediate_requeue_def requeue_if_def duration_defs)

text \<open>A step that does not ask to be run again at once has changed nothing.\<close>

lemma ends_update_nodes_now:
  assumes "ends (update_nodes_now e p f) j (Inr False) k"
  shows "fresh e j k"
proof -
  have "status_only (with_inst (\<lambda>i. bnd (update_where_now e p f (st_nodes (vi_status i)))
      (\<lambda>nodes. modify_status (\<lambda>st. st\<lparr>st_nodes := nodes\<rparr>))))"
    by (intro status_only_with_inst status_only_after) (auto dest: ends_update_where_now)
  from ends_update_checked [OF assms [unfolded update_nodes_now_def] this] show ?thesis by simp
qed

lemma ends_clear_recovery:
  "ends (clear_process_recovery e p) j (Inr r) k \<Longrightarrow> \<not> result_requests_immediate_requeue r \<Longrightarrow> fresh e j k"
  unfolding clear_process_recovery_def by (auto elim!: ends_bndE dest: ends_update_status_False)

lemma ends_advance_recovery:
  "ends (advance_process_recovery_to_deletion e p) j (Inr r) k \<Longrightarrow>
   \<not> result_requests_immediate_requeue r \<Longrightarrow> fresh e j k"
  unfolding advance_process_recovery_to_deletion_def
  by (auto elim!: ends_bndE dest: ends_update_status_False)

lemma ends_delete_pod_if_present: "ends (delete_pod_if_present e pod g) i r j \<Longrightarrow> j = i"
  unfolding delete_pod_if_present_def by (auto elim!: ends_on_errE split: if_splits)

lemma ends_recover_busy:
  "ends (recover_busy_process e p) j (Inr r) k \<Longrightarrow> \<not> result_requests_immediate_requeue r \<Longrightarrow> fresh e j k"
  unfolding recover_busy_process_def Let_def
  by (auto elim!: ends_bndE ends_on_errE split: if_splits prod.splits
      dest!: ends_current_process_pod_Inl ends_process_credentials
      intro: ends_clear_recovery ends_advance_recovery)

lemma ends_request_deletion:
  "ends (request_process_deletion e p) j (Inr r) k \<Longrightarrow> \<not> result_requests_immediate_requeue r \<Longrightarrow> fresh e j k"
  unfolding request_process_deletion_def
  by (auto elim!: ends_bndE ends_on_errE split: if_splits
      dest!: ends_current_process_pod_Inl ends_process_eligible ends_delete_pod_if_present ends_update_nodes_now
      intro: ends_clear_recovery)

lemma ends_continue_recovery:
  "ends (continue_process_recovery e p rc) j (Inr r) k \<Longrightarrow> \<not> result_requests_immediate_requeue r \<Longrightarrow> fresh e j k"
  unfolding continue_process_recovery_def
  by (cases "rc_stage rc") (auto intro: ends_recover_busy ends_request_deletion)

lemma ends_recover_process:
  "ends (recover_process e pending p) j (Inr (Inr pending')) k \<Longrightarrow> fresh e j k"
  unfolding recover_process_def Let_def
  by (auto elim!: ends_bndE split: if_splits option.splits dest!: ends_process_eligible)
    (blast intro: ends_continue_recovery)+

lemma emits_recover_processes:
  assumes ok: "nodes_ok (st_nodes (vi_status i))" and "set ps \<subseteq> set (st_nodes (vi_status i))"
    and "fresh e i j"
  shows "emits (recovery_call e i) (recover_processes e pending ps) j"
  using assms(2,3)
proof (induction ps arbitrary: pending j)
  case Nil
  then show ?case by (simp add: emits_ret)
next
  case (Cons p ps)
  show ?case
    unfolding recover_processes.simps
  proof (intro emits_bnd emits_case_sum emits_ret)
    show "emits (recovery_call e i) (recover_process e pending p) j"
      using Cons.prems by (intro emits_recover_process [OF ok]) simp_all
    fix x k y
    assume "ends (recover_process e pending p) j (Inr x) k" "x = Inr y"
    then have "fresh e i k" using ends_recover_process Cons.prems(2) fresh_trans by blast
    then show "emits (recovery_call e i) (recover_processes e y ps) k"
      using Cons by simp
  qed
qed

lemma reconcile_process_recovery_calls:
  assumes "nodes_ok (st_nodes (vi_status i))"
  shows "emits (recovery_call e i) (reconcile_process_recovery e) i"
  unfolding reconcile_process_recovery_def
  by (intro emits_with_inst emits_recover_processes [OF assms]) simp_all

section \<open>Manual fencing\<close>

text \<open>
  Evidence by decree: only for the process the annotation names, only where an operation waits for
  it or its stop is unproven, and only while the API server does not report its node ready.
\<close>

definition node_not_ready :: "env \<Rightarrow> node_status \<Rightarrow> bool" where
  "node_not_ready e p \<longleftrightarrow>
     (\<exists>h. case answer_get_node e h Direct (ns_node_name p) of
        Inl er \<Rightarrow> is_not_found er
      | Inr n \<Rightarrow> \<not> (kn_uid n = ns_node_uid p \<and> node_ready (kn_conditions n)))"

definition fencing_allowed :: "env \<Rightarrow> valkey_instance \<Rightarrow> process_identity \<Rightarrow> bool" where
  "fencing_allowed e i identity \<longleftrightarrow>
     (\<exists>text p. vi_annotations i manualFencingAnnotation = Some text \<and> decode_identity e text = Some identity \<and>
        known_process (vi_status i) identity = Some p \<and> ns_termination p = None \<and>
        manual_fencing_expected i p \<and> node_not_ready e p)"

definition fencing_update :: "env \<Rightarrow> valkey_instance \<Rightarrow> instance_status \<Rightarrow> instance_status \<Rightarrow> bool" where
  "fencing_update e i st st' \<longleftrightarrow>
     (st_nodes st' = st_nodes st \<and> st_previous_processes st' = st_previous_processes st) \<or>
     (\<exists>identity. fencing_allowed e i identity \<and>
        list_all2 (\<lambda>p p'. p' = p \<or> process_identity p = identity \<and> ns_termination p = None \<and>
            p' = p\<lparr>ns_readiness := False, ns_termination := ns_termination p'\<rparr>)
          (status_processes st) (status_processes st'))"

fun fencing_decree_call :: "env \<Rightarrow> valkey_instance \<Rightarrow> call \<Rightarrow> bool" where
  "fencing_decree_call e i (PatchStatus b a) = fencing_update e i (vi_status b) (vi_status a)"
| "fencing_decree_call e i (PatchInstance b a) =
     (a = b\<lparr>vi_annotations := (vi_annotations b)(manualFencingAnnotation := None)\<rparr>)"
| "fencing_decree_call e i c = reading c"

lemma fencing_decree_reading: "reading c \<Longrightarrow> fencing_decree_call e i c"
  by (cases c) simp_all

lemma apply_manual_fencing_update:
  assumes "fencing_allowed e i identity"
  shows "fencing_update e i st (apply_manual_fencing e identity now j st)"
proof -
  have "list_all2 (\<lambda>p p'. p' = p \<or> process_identity p = identity \<and> ns_termination p = None \<and>
            p' = p\<lparr>ns_readiness := False, ns_termination := ns_termination p'\<rparr>)
          (status_processes st) (status_processes (apply_manual_fencing e identity now j st))"
    unfolding status_processes_def
    by (rule list_all2_appendI)
      (auto simp: apply_manual_fencing_def Let_def update_where_def same_identity_def list_all2_conv_all_nth)
  then show ?thesis using assms by (auto simp: fencing_update_def)
qed

lemma emits_patch_instance [emits_intros]: "P (PatchInstance i (f i)) \<Longrightarrow> emits P (patch_instance e f) i"
  unfolding patch_instance_def by (auto intro!: emits_intros elim!: ends_bndE)

lemma reconcile_manual_fencing_calls: "emits (fencing_decree_call e i) (reconcile_manual_fencing e) i"
proof -
  have remove: "emits (fencing_decree_call e i) (remove_manual_fencing_annotation e) j" for j
    unfolding remove_manual_fencing_annotation_def
    by (intro emits_intros) (simp add: clone_without_key_upd)
  have pending: "emits (fencing_decree_call e i) (manual_fencing_pending e) j" for j
    unfolding manual_fencing_pending_def by (intro emits_intros) (auto simp: fencing_update_def)
  have accept: "emits (fencing_decree_call e i) (accept_manual_fencing e identity) j"
    if "fencing_allowed e i identity" for identity j
    unfolding accept_manual_fencing_def
    by (intro emits_intros remove) (simp_all add: apply_manual_fencing_update [OF that])
  have nr1: "node_not_ready e p" if "answer_get_node e h Direct (ns_node_name p) = Inl er" "is_not_found er" for h p er
    unfolding node_not_ready_def using that by (intro exI [of _ h]) simp
  have nr2: "node_not_ready e p" if "answer_get_node e h Direct (ns_node_name p) = Inr n"
    "\<not> (kn_uid n = ns_node_uid p \<and> node_ready (kn_conditions n))" for h p n
    unfolding node_not_ready_def using that by (intro exI [of _ h]) simp
  show ?thesis
    unfolding reconcile_manual_fencing_def
    by (intro emits_with_inst emits_case_option emits_ret emits_if emits_on_err emits_get_node emits_fail)
      (auto simp: fencing_allowed_def bind_eq_Some_conv intro!: remove pending accept dest: nr1 nr2)
qed

end
