(* ===== verification/Failover.thy ===== *)
theory Failover
  imports Recovery_Lemmas
begin

text \<open>
  Replacement of a failed primary (\<open>failover.go\<close>): fencing of the source, choice of the candidate,
  promotion, reconfiguration of the replicas, and the restart of an empty cache when nothing is
  left to promote.
\<close>

definition conditionTypeFailover :: string where "conditionTypeFailover = ''Failover''"
definition emptyReplicaInitialOffset :: int where "emptyReplicaInitialOffset = 1"

section \<open>The candidate\<close>

definition failover_candidate :: "node_status \<Rightarrow> replication_status \<Rightarrow> node_status \<Rightarrow> bool" where
  \<comment> \<open>the nodes \<open>slices.DeleteFunc\<close> keeps; \<open>source_replication\<close> is that of the source\<close>
  "failover_candidate source source_replication node \<longleftrightarrow>
     ns_ordinal node \<noteq> ns_ordinal source \<and> ns_role node = NodeRoleReplica \<and>
     ns_termination node = None \<and> ns_observation node = None \<and>
     (case ns_replication node of None \<Rightarrow> False
      | Some r \<Rightarrow> rp_synced_at r \<noteq> None \<and> \<not> rp_sync_in_progress r \<and>
                  rp_replication_id r = rp_replication_id source_replication)"

definition node_offset :: "node_status \<Rightarrow> int" where
  "node_offset n = (case ns_replication n of None \<Rightarrow> 0 | Some r \<Rightarrow> rp_offset r)"

definition compare_candidates :: "node_status \<Rightarrow> node_status \<Rightarrow> int" where
  "compare_candidates l r =
     (if node_offset l \<noteq> node_offset r then (if node_offset l > node_offset r then -1 else 1)
      else compare_ordinals l r)"

definition choose_failover_candidate :: "node_status \<Rightarrow> node_status list \<Rightarrow> node_status option" where
  "choose_failover_candidate source nodes =
     (case ns_replication source of
        None \<Rightarrow> None
      | Some sr \<Rightarrow>
          if rp_replication_id sr = '''' then None
          else (case filter (failover_candidate source sr) nodes of
                  [] \<Rightarrow> None
                | candidates \<Rightarrow> Some (hd (sort_func compare_candidates candidates))))"

section \<open>Empty recovery\<close>

definition empty_replica :: "instance_status \<Rightarrow> node_status \<Rightarrow> bool" where
  "empty_replica st n \<longleftrightarrow> ns_observation n = None \<and> ns_role n = NodeRoleReplica \<and> \<not> ns_app_enabled n \<and>
     ns_app_password_version n = ac_password_version (accepted_of st) \<and>
     (case ns_replication n of None \<Rightarrow> False
      | Some r \<Rightarrow> rp_synced_at r = None \<and> \<not> rp_offset r > emptyReplicaInitialOffset)"

definition empty_recovery_safe :: "valkey_instance \<Rightarrow> bool" where
  "empty_recovery_safe i =
     (let st = vi_status i in
      if \<not> st_initialized st \<or> \<not> accepted_mode_is st ValkeyModeHA \<or> st_primary_ordinal st = None \<or>
         int (length (st_nodes st)) \<noteq> expected_process_count i \<or>
         int (length (st_previous_processes st)) < expected_process_count i \<or>
         has_unterminated_previous_process (st_previous_processes st)
      then False
      else (case known_process st (primary_identity st) of
              None \<Rightarrow> False
            | Some primary \<Rightarrow> ns_termination primary \<noteq> None \<and>
                list_all (\<lambda>n. ns_termination n = None \<and> empty_replica st n \<and>
                    list_ex (\<lambda>p. ns_ordinal p = ns_ordinal n \<and> ns_termination p \<noteq> None \<and> \<not> same_process p n)
                      (st_previous_processes st))
                  (st_nodes st)))"

definition empty_recovery_waiting_safe :: "valkey_instance \<Rightarrow> failover_status \<Rightarrow> bool" where
  "empty_recovery_waiting_safe i operation =
     (let st = vi_status i in
      if fo_reason operation \<noteq> FailoverReasonFailure \<or> \<not> st_initialized st \<or>
         \<not> accepted_mode_is st ValkeyModeHA \<or> st_nodes st = []
      then False
      else list_all (\<lambda>n. ns_termination n \<noteq> None \<or> empty_replica st n) (st_nodes st) \<and>
           list_all (\<lambda>p. ns_termination p \<noteq> None \<or>
               (let ident = process_identity p in
                same_identity ident (fo_source operation) \<and>
                  fo_source_app_disabled operation \<and> fo_source_clients_killed operation \<or>
                (case fo_candidate operation of None \<Rightarrow> False
                 | Some c \<Rightarrow> same_identity ident c) \<and>
                  fo_candidate_app_disabled operation \<and> fo_candidate_clients_killed operation))
             (st_previous_processes st))"

section \<open>Waiting\<close>

definition apply_failover_wait :: "env \<Rightarrow> string \<Rightarrow> string \<Rightarrow> valkey_instance \<Rightarrow> instance_status \<Rightarrow> instance_status" where
  "apply_failover_wait e reason message i st =
     set_condition e i conditionTypeFailover ConditionFalse reason message
       (mark_unavailable
         (case st_failover st of
            Some f \<Rightarrow> if fo_stage f = FailoverStageFencing then ''FENCING_REQUIRED'' else ''FAILOVER''
          | None \<Rightarrow> ''FAILOVER'') st)"

definition failover_wait :: "env \<Rightarrow> string \<Rightarrow> string \<Rightarrow> result op" where
  "failover_wait e reason message =
     bnd (update_status e (apply_failover_wait e reason message)) (\<lambda>_. ret HealthCheckInterval)"

text \<open>An update of the running operation, guarded by a test on it; nothing without one.\<close>

definition map_failover ::
  "(failover_status \<Rightarrow> bool) \<Rightarrow> (failover_status \<Rightarrow> failover_status) \<Rightarrow> instance_status \<Rightarrow> instance_status" where
  "map_failover p f st =
     (case st_failover st of None \<Rightarrow> st
      | Some fo \<Rightarrow> if p fo then st\<lparr>st_failover := Some (f fo)\<rparr> else st)"

definition same_candidate :: "process_identity \<Rightarrow> failover_status \<Rightarrow> bool" where
  "same_candidate c fo = (case fo_candidate fo of None \<Rightarrow> False | Some c' \<Rightarrow> same_identity c' c)"

definition forget_candidate :: "failover_status \<Rightarrow> failover_status" where
  "forget_candidate fo = fo\<lparr>fo_candidate := None, fo_candidate_app_disabled := False,
     fo_candidate_clients_killed := False, fo_candidate_may_be_primary := False,
     fo_offset_deadline := None\<rparr>"

section \<open>Starting\<close>

definition new_failover :: "failover_reason \<Rightarrow> time \<Rightarrow> process_identity \<Rightarrow> process_identity option \<Rightarrow> failover_status" where
  "new_failover reason now source candidate =
     \<lparr>fo_reason = reason, fo_stage = FailoverStageFencing, fo_started_at = now, fo_source = source,
      fo_candidate = candidate, fo_source_app_disabled = False, fo_source_clients_killed = False,
      fo_candidate_app_disabled = False, fo_candidate_clients_killed = False,
      fo_candidate_may_be_primary = False, fo_replication_id = '''', fo_control_offset = 0,
      fo_offset_deadline = None, fo_empty_since = None\<rparr>"

definition apply_empty_recovery :: "env \<Rightarrow> bool \<Rightarrow> valkey_instance \<Rightarrow> instance_status \<Rightarrow> instance_status" where
  "apply_empty_recovery e timed_out i st =
     set_condition e i conditionTypeDataLoss ConditionTrue
       (if timed_out then ''EmptyProcessesTimedOut'' else ''AllProcessesStopped'')
       (if timed_out then ''previous primaries are isolated, checked empty processes start after the wait''
        else ''all previous processes stopped, an empty cache starts'')
       (mark_unavailable ''EMPTY_RECOVERY'' (clear_primary_identity (st\<lparr>st_failover := None\<rparr>)))"

definition empty_recovery_closure :: "env \<Rightarrow> bool \<Rightarrow> unit op" where
  "empty_recovery_closure e timed_out =
     with_inst (\<lambda>i.
     if timed_out then
       (case st_failover (vi_status i) of
          None \<Rightarrow> ret ()
        | Some operation \<Rightarrow>
            if \<not> empty_recovery_waiting_safe i operation then ret ()
            else bnd (now_op e) (\<lambda>now.
              if \<not> th_empty_primary (process_thresholds None (fo_empty_since operation) now) then ret ()
              else modify_status (apply_empty_recovery e True i)))
     else if \<not> empty_recovery_safe i then ret ()
     else modify_status (apply_empty_recovery e False i))"

definition begin_empty_recovery :: "env \<Rightarrow> bool \<Rightarrow> result op" where
  "begin_empty_recovery e timed_out =
     bnd (update_status_checked e (empty_recovery_closure e timed_out)) (\<lambda>changed.
     bnd (when_op changed (record_event e ''CacheEmptied'' ''Failover'')) (\<lambda>_.
     ret (requeue_if changed)))"

definition start_failure_failover :: "env \<Rightarrow> node_status \<Rightarrow> result op" where
  "start_failure_failover e primary =
     bnd (update_status_now e (\<lambda>now i st.
        set_condition e i conditionTypeFailover ConditionFalse ''Fencing''
          ''waiting for the former primary to be fenced''
          (mark_unavailable ''FENCING_REQUIRED''
            (st\<lparr>st_failover := Some (new_failover FailoverReasonFailure now (process_identity primary) None)\<rparr>))))
       (\<lambda>changed. ret (requeue_if changed))"

definition maybe_start_failure_failover :: "env \<Rightarrow> result op" where
  "maybe_start_failure_failover e =
     with_inst (\<lambda>i.
     if st_primary_ordinal (vi_status i) = None
     then ret (if empty_primary_assignment_allowed i then 0 else HealthCheckInterval)
     else case failover_primary_process i of
       None \<Rightarrow> if empty_recovery_safe i then begin_empty_recovery e False else ret HealthCheckInterval
     | Some primary \<Rightarrow>
         if ns_termination primary \<noteq> None then start_failure_failover e primary
         else bnd (now_op e) (\<lambda>now.
              if th_transport_failure (process_thresholds (ns_observation primary) None now)
              then start_failure_failover e primary else ret 0))"

section \<open>Fencing\<close>

definition set_failover_stage :: "failover_stage \<Rightarrow> failover_status \<Rightarrow> failover_status" where
  "set_failover_stage stage fo = fo\<lparr>fo_stage := stage\<rparr>"

definition from_source :: "process_identity \<Rightarrow> failover_status \<Rightarrow> bool" where
  "from_source source fo = same_identity (fo_source fo) source"

definition apply_source_fenced :: "process_identity \<Rightarrow> instance_status \<Rightarrow> instance_status" where
  "apply_source_fenced source =
     map_failover (from_source source)
       (\<lambda>fo. fo\<lparr>fo_source_app_disabled := True, fo_source_clients_killed := True\<rparr>)"

definition apply_choosing :: "process_identity \<Rightarrow> instance_status \<Rightarrow> instance_status" where
  "apply_choosing source st =
     (case st_failover st of None \<Rightarrow> st
      | Some fo \<Rightarrow>
          if from_source source fo
          then st\<lparr>st_failover := Some (set_failover_stage FailoverStageChoosing fo), st_reason := ''FAILOVER''\<rparr>
          else st)"

definition begin_choosing :: "env \<Rightarrow> failover_status \<Rightarrow> result op" where
  "begin_choosing e operation =
     bnd (update_status e (\<lambda>_. apply_choosing (fo_source operation))) (\<lambda>changed. ret (requeue_if changed))"

definition fence_failover_source :: "env \<Rightarrow> failover_status \<Rightarrow> node_status \<Rightarrow> result op" where
  "fence_failover_source e operation source =
     on_err (fence_process e source)
       (\<lambda>er. if classify_error er = ErrorKindTransport
             then failover_wait e ''FencingSource'' ''the former primary is unavailable without evidence of a stop''
             else fail er)
     (\<lambda>fenced.
     if \<not> fenced
     then failover_wait e ''FencingSource'' ''role or ACL of the former primary are not confirmed''
     else bnd (update_status e (\<lambda>_. apply_source_fenced (fo_source operation)))
            (\<lambda>changed. ret (requeue_if changed)))"

definition source_identity_unknown :: "env \<Rightarrow> result op" where
  "source_identity_unknown e =
     failover_wait e ''SourceIdentityUnknown'' ''identity of the former primary is lost''"

definition reconcile_failover_fencing :: "env \<Rightarrow> failover_status \<Rightarrow> result op" where
  "reconcile_failover_fencing e operation =
     with_inst (\<lambda>i.
     case known_process (vi_status i) (fo_source operation) of
       None \<Rightarrow> source_identity_unknown e
     | Some source \<Rightarrow>
         if ns_termination source = None
         then bnd (remove_process_role_label e source) (\<lambda>changed.
              if changed then ret (requeue_if changed)
              else if \<not> fo_source_app_disabled operation \<or> \<not> fo_source_clients_killed operation
              then fence_failover_source e operation source
              else begin_choosing e operation)
         else begin_choosing e operation)"

section \<open>Choice of the candidate\<close>

definition apply_empty_since :: "time \<Rightarrow> valkey_instance \<Rightarrow> instance_status \<Rightarrow> instance_status" where
  "apply_empty_since now i = map_failover (\<lambda>_. True) (\<lambda>fo. fo\<lparr>fo_empty_since := Some now\<rparr>)"

definition empty_wait_allowed :: "valkey_instance \<Rightarrow> bool" where
  "empty_wait_allowed i =
     (case st_failover (vi_status i) of None \<Rightarrow> False
      | Some fo \<Rightarrow> fo_candidate fo = None \<and> empty_recovery_waiting_safe i fo)"

definition reconcile_empty_recovery_wait :: "env \<Rightarrow> result op" where
  "reconcile_empty_recovery_wait e =
     with_inst (\<lambda>i.
     case st_failover (vi_status i) of
       None \<Rightarrow> failover_wait e ''CandidateNotReady'' ''no synchronized replica for the failover''
     | Some operation \<Rightarrow>
         if \<not> empty_recovery_waiting_safe i operation
         then if fo_empty_since operation \<noteq> None
              then bnd (update_status e (\<lambda>_. map_failover (\<lambda>_. True) (\<lambda>fo. fo\<lparr>fo_empty_since := None\<rparr>)))
                     (\<lambda>changed. ret (requeue_if changed))
              else failover_wait e ''CandidateNotReady'' ''no synchronized replica for the failover''
         else if fo_empty_since operation = None
         then bnd (update_status_when_now e empty_wait_allowed apply_empty_since)
                (\<lambda>changed. ret (requeue_if changed))
         else bnd (now_op e) (\<lambda>now.
              if th_empty_primary (process_thresholds None (fo_empty_since operation) now)
              then begin_empty_recovery e True
              else failover_wait e ''EmptyPrimaryWaiting'' ''checked empty processes wait for the safe time''))"

definition set_control_point :: "node_status \<Rightarrow> failover_status \<Rightarrow> failover_status" where
  "set_control_point source fo =
     (case ns_replication source of None \<Rightarrow> fo
      | Some r \<Rightarrow> fo\<lparr>fo_replication_id := rp_replication_id r, fo_control_offset := rp_offset r\<rparr>)"

definition apply_candidate :: "node_status \<Rightarrow> node_status \<Rightarrow> time \<Rightarrow> instance_status \<Rightarrow> instance_status" where
  "apply_candidate source candidate now =
     map_failover (\<lambda>_. True) (\<lambda>fo.
       (set_control_point source (fo\<lparr>fo_candidate := Some (process_identity candidate), fo_empty_since := None\<rparr>))
         \<lparr>fo_offset_deadline := Some (now + FailoverTimeout)\<rparr>)"

definition apply_offset_deadline :: "node_status \<Rightarrow> time \<Rightarrow> instance_status \<Rightarrow> instance_status" where
  "apply_offset_deadline source now =
     map_failover (\<lambda>_. True) (\<lambda>fo.
       (set_control_point source fo)\<lparr>fo_offset_deadline := Some (now + FailoverTimeout)\<rparr>)"

definition failover_without_candidate :: "valkey_instance \<Rightarrow> bool" where
  "failover_without_candidate i =
     (case st_failover (vi_status i) of None \<Rightarrow> False | Some fo \<Rightarrow> fo_candidate fo = None)"

definition failover_with_candidate :: "valkey_instance \<Rightarrow> bool" where
  "failover_with_candidate i =
     (case st_failover (vi_status i) of None \<Rightarrow> False | Some fo \<Rightarrow> fo_candidate fo \<noteq> None)"

definition choose_candidate :: "env \<Rightarrow> failover_status \<Rightarrow> result op" where
  "choose_candidate e operation =
     with_inst (\<lambda>i.
     case known_process (vi_status i) (fo_source operation) of
       None \<Rightarrow> source_identity_unknown e
     | Some source \<Rightarrow>
         (case choose_failover_candidate source (st_nodes (vi_status i)) of
            None \<Rightarrow> if empty_recovery_safe i then begin_empty_recovery e False
                    else reconcile_empty_recovery_wait e
          | Some candidate \<Rightarrow>
              bnd (update_status_when_now e failover_without_candidate
                     (\<lambda>now _. apply_candidate source candidate now))
                (\<lambda>changed. ret (requeue_if changed))))"

definition set_offset_deadline :: "env \<Rightarrow> failover_status \<Rightarrow> result op" where
  "set_offset_deadline e operation =
     with_inst (\<lambda>i.
     case known_process (vi_status i) (fo_source operation) of
       None \<Rightarrow> source_identity_unknown e
     | Some source \<Rightarrow>
         bnd (update_status_when_now e failover_with_candidate
                (\<lambda>now _. apply_offset_deadline source now))
           (\<lambda>changed. ret (requeue_if changed)))"

text \<open>
  The candidate stopped. The closure compares with \<open>*operation.Candidate\<close>, where \<open>operation\<close> is the
  very failover it clears on the first attempt: from then on the captured pointer is nil.
\<close>

definition forget_stopped_candidate :: "process_identity option \<Rightarrow> process_identity option op" where
  "forget_stopped_candidate captured =
     with_inst (\<lambda>i.
     case st_failover (vi_status i) of
       None \<Rightarrow> ret captured
     | Some fo \<Rightarrow>
         (case fo_candidate fo of
            None \<Rightarrow> ret captured
          | Some c \<Rightarrow>
              (case captured of
                 None \<Rightarrow> fail Panic
               | Some c' \<Rightarrow>
                   if same_identity c c'
                   then bnd (modify_status (map_failover (\<lambda>_. True) forget_candidate)) (\<lambda>_. ret None)
                   else ret captured)))"

definition apply_candidate_fenced :: "process_identity \<Rightarrow> instance_status \<Rightarrow> instance_status" where
  "apply_candidate_fenced c =
     map_failover (same_candidate c)
       (\<lambda>fo. fo\<lparr>fo_candidate_app_disabled := True, fo_candidate_clients_killed := True\<rparr>)"

definition fence_failover_candidate :: "env \<Rightarrow> process_identity \<Rightarrow> node_status \<Rightarrow> result op" where
  "fence_failover_candidate e c candidate =
     on_err (fence_process e candidate)
       (\<lambda>er. if classify_error er = ErrorKindTransport
             then failover_wait e ''FencingCandidate'' ''the candidate is unavailable before the promotion''
             else fail er)
     (\<lambda>fenced.
     if \<not> fenced
     then failover_wait e ''FencingCandidate'' ''role or ACL of the candidate are not confirmed''
     else bnd (update_status e (\<lambda>_. apply_candidate_fenced c)) (\<lambda>changed. ret (requeue_if changed)))"

definition offset_ready :: "failover_status \<Rightarrow> node_status \<Rightarrow> bool" where
  "offset_ready operation candidate =
     (case ns_replication candidate of None \<Rightarrow> False
      | Some r \<Rightarrow> fo_replication_id operation \<noteq> '''' \<and> rp_replication_id r = fo_replication_id operation \<and>
                  rp_offset r \<ge> fo_control_offset operation)"

definition apply_promoting :: "instance_status \<Rightarrow> instance_status" where
  "apply_promoting st =
     (case st_failover st of None \<Rightarrow> st
      | Some fo \<Rightarrow> st\<lparr>st_failover := Some (set_failover_stage FailoverStagePromoting fo),
                      st_reason := ''FAILOVER''\<rparr>)"

definition await_offset :: "env \<Rightarrow> failover_status \<Rightarrow> time \<Rightarrow> node_status \<Rightarrow> result op" where
  "await_offset e operation deadline candidate =
     bnd (now_op e) (\<lambda>now.
     if \<not> offset_ready operation candidate \<and> now < deadline
     then failover_wait e ''WaitingForOffset'' ''the candidate catches up with the control offset''
     else bnd (update_status e (\<lambda>_. apply_promoting)) (\<lambda>changed. ret (requeue_if changed)))"

definition candidate_identity_unknown :: "env \<Rightarrow> result op" where
  "candidate_identity_unknown e =
     failover_wait e ''CandidateIdentityUnknown'' ''identity of the candidate is lost''"

definition reconcile_failover_choosing :: "env \<Rightarrow> failover_status \<Rightarrow> result op" where
  "reconcile_failover_choosing e operation =
     (case fo_candidate operation of
        None \<Rightarrow> choose_candidate e operation
      | Some c \<Rightarrow>
          (case fo_offset_deadline operation of
             None \<Rightarrow> set_offset_deadline e operation
           | Some deadline \<Rightarrow>
               with_inst (\<lambda>i.
               case known_process (vi_status i) c of
                 None \<Rightarrow> candidate_identity_unknown e
               | Some candidate \<Rightarrow>
                   if ns_termination candidate \<noteq> None
                   then bnd (update_status_captured e forget_stopped_candidate (fo_candidate operation))
                          (\<lambda>changed. ret (requeue_if changed))
                   else if \<not> fo_candidate_app_disabled operation \<or> \<not> fo_candidate_clients_killed operation
                   then fence_failover_candidate e c candidate
                   else await_offset e operation deadline candidate)))"

section \<open>Promotion\<close>

definition apply_candidate_stopped :: "instance_status \<Rightarrow> instance_status" where
  "apply_candidate_stopped =
     map_failover (\<lambda>_. True) (\<lambda>fo. forget_candidate (set_failover_stage FailoverStageChoosing fo))"

definition apply_promoted :: "process_identity \<Rightarrow> node_status \<Rightarrow> instance_status \<Rightarrow> instance_status" where
  "apply_promoted c candidate st =
     (case st_failover st of None \<Rightarrow> st
      | Some fo \<Rightarrow>
          if same_candidate c fo
          then (set_primary_identity candidate st)
                 \<lparr>st_failover := Some (set_failover_stage FailoverStageReconfiguring fo),
                  st_reason := ''FAILOVER''\<rparr>
          else st)"

definition promote_process :: "env \<Rightarrow> kube_pod \<Rightarrow> service_credentials \<Rightarrow> string \<Rightarrow> process_state op" where
  "promote_process e pod c run_id =
     (let address = valkey_address (pod_ip pod); password = cr_operator_password c in
      do_call (PromoteProcess address password run_id)
        (\<lambda>h. answer_promote e h address password run_id))"

definition promote_candidate :: "env \<Rightarrow> node_status \<Rightarrow> result op" where
  "promote_candidate e candidate =
     on_err (current_process_pod e candidate)
       (\<lambda>er. if is_not_found er
             then failover_wait e ''CandidateUnavailable'' ''the candidate is unavailable after a possible promotion''
             else fail er)
     (\<lambda>pod.
     bnd (process_credentials e) (\<lambda>(credentials, _).
     on_err (promote_process e pod credentials (ns_run_id candidate))
       (\<lambda>er. if classify_error er = ErrorKindTransport
             then failover_wait e ''PromotionResultUnknown'' ''the result of the promotion is unknown''
             else fail er)
     (\<lambda>state.
     if ps_run_id state \<noteq> ns_run_id candidate \<or> ps_app_enabled state
     then failover_wait e ''CandidateIdentityChanged'' ''the candidate changed before the promotion''
     else ret (requeue_if True))))"

definition reconcile_failover_promoting :: "env \<Rightarrow> failover_status \<Rightarrow> result op" where
  "reconcile_failover_promoting e operation =
     (case fo_candidate operation of
        None \<Rightarrow> fail (Plain ''failover candidate is not saved'')
      | Some c \<Rightarrow>
          with_inst (\<lambda>i.
          case known_process (vi_status i) c of
            None \<Rightarrow> candidate_identity_unknown e
          | Some candidate \<Rightarrow>
              if ns_termination candidate \<noteq> None
              then bnd (update_status e (\<lambda>_. apply_candidate_stopped)) (\<lambda>changed. ret (requeue_if changed))
              else if ns_role candidate = NodeRolePrimary
              then bnd (update_status e (\<lambda>_. apply_promoted c candidate)) (\<lambda>changed. ret (requeue_if changed))
              else if ns_role candidate \<noteq> NodeRoleReplica \<or> ns_app_enabled candidate \<or>
                 ns_app_password_version candidate \<noteq> ac_password_version (accepted_of (vi_status i))
              then failover_wait e ''CandidateNotFenced'' ''the candidate is not ready for the promotion''
              else if \<not> fo_candidate_may_be_primary operation
              then bnd (update_status e (\<lambda>_. map_failover (\<lambda>_. True)
                          (\<lambda>fo. fo\<lparr>fo_candidate_may_be_primary := True\<rparr>)))
                     (\<lambda>changed. ret (requeue_if changed))
              else promote_candidate e candidate))"

section \<open>Reconfiguration of the replicas\<close>

definition replica_reconfigured :: "instance_status \<Rightarrow> node_status \<Rightarrow> kube_pod \<Rightarrow> node_status \<Rightarrow> bool" where
  \<comment> \<open>what the loop of \<open>failoverReconfigurationReady\<close> asks of one node\<close>
  "replica_reconfigured st primary primary_pod node \<longleftrightarrow>
     ns_ordinal node = ns_ordinal primary \<or> ns_termination node \<noteq> None \<or> ns_observation node \<noteq> None \<or>
     ns_role node = NodeRoleReplica \<and>
     (case ns_replication node of None \<Rightarrow> False
      | Some r \<Rightarrow> rp_link_up r \<and> \<not> rp_sync_in_progress r \<and>
                  rp_upstream_host r = pod_ip primary_pod \<and> rp_upstream_port r = valkeyPort) \<and>
     ns_app_password_version node = ac_password_version (accepted_of st)"

definition failover_reconfiguration_ready :: "env \<Rightarrow> bool op" where
  "failover_reconfiguration_ready e =
     with_inst (\<lambda>i.
     (let st = vi_status i in
      if \<not> primary_publicly_ready st then ret False
      else case Option.bind (st_primary_ordinal st) (node_status_at_ordinal (st_nodes st)) of
        None \<Rightarrow> ret False
      | Some primary \<Rightarrow>
          if \<not> primary_identity_matches i primary then ret False
          else on_err (current_process_pod e primary)
                 (\<lambda>er. if is_not_found er then ret False else fail er)
               (\<lambda>primary_pod. ret (list_all (replica_reconfigured st primary primary_pod) (st_nodes st)))))"

definition restart_failover ::
  "env \<Rightarrow> node_status \<Rightarrow> valkey_instance \<Rightarrow> instance_status \<Rightarrow> instance_status" where
  "restart_failover e primary i st =
     (case st_failover st of None \<Rightarrow> st
      | Some fo \<Rightarrow>
          if fo_stage fo \<noteq> FailoverStageReconfiguring then st
          else set_condition e i conditionTypeFailover ConditionFalse ''Fencing''
            ''the new primary failed before the replicas were reconfigured''
            (mark_unavailable ''FENCING_REQUIRED'' (st\<lparr>st_failover := Some
               ((forget_candidate fo)\<lparr>fo_reason := FailoverReasonFailure, fo_stage := FailoverStageFencing,
                  fo_source := process_identity primary,
                  fo_source_app_disabled := False, fo_source_clients_killed := False,
                  fo_replication_id := '''', fo_control_offset := 0\<rparr>)\<rparr>)))"

definition complete_failover :: "env \<Rightarrow> valkey_instance \<Rightarrow> instance_status \<Rightarrow> instance_status" where
  \<comment> \<open>\<open>applyOperationalPhase\<close> gets the instance whose status is being changed\<close>
  "complete_failover e i st =
     apply_operational_phase e i
       (set_condition e i conditionTypeFailover ConditionTrue ''Completed'' ''the switch of the primary is complete''
         (st\<lparr>st_failover := None, st_reason := ''''\<rparr>))"

definition reconcile_failover_reconfiguring :: "env \<Rightarrow> result op" where
  "reconcile_failover_reconfiguring e =
     with_inst (\<lambda>i.
     case failover_primary_process i of
       None \<Rightarrow> failover_wait e ''PrimaryIdentityUnknown'' ''identity of the new primary is lost''
     | Some primary \<Rightarrow>
         bnd (if ns_termination primary \<noteq> None then ret True
              else bnd (now_op e) (\<lambda>now.
                   ret (th_transport_failure (process_thresholds (ns_observation primary) None now)))) (\<lambda>failed.
         if failed
         then bnd (update_status e (restart_failover e primary)) (\<lambda>changed. ret (requeue_if changed))
         else bnd (failover_reconfiguration_ready e) (\<lambda>ready.
              if \<not> ready then ret 0
              else bnd (update_status e (complete_failover e)) (\<lambda>changed. ret (requeue_if changed)))))"

section \<open>reconcileFailover\<close>

definition apply_full_stop :: "env \<Rightarrow> valkey_instance \<Rightarrow> instance_status \<Rightarrow> instance_status option" where
  \<comment> \<open>dereferences \<open>status.Rollout\<close>\<close>
  "apply_full_stop e i st =
     (case st_rollout st of None \<Rightarrow> None
      | Some rollout \<Rightarrow>
          Some (remove_condition e conditionTypeFailover
            (set_phase InstancePhaseUpdating (''ROLLOUT_'' @ rollout_stage_string (ro_stage rollout))
              (st\<lparr>st_failover := None\<rparr>))))"

definition reconcile_failover :: "env \<Rightarrow> result op" where
  "reconcile_failover e =
     with_inst (\<lambda>i.
     if full_stop_rollout_owns_availability i
     then if st_failover (vi_status i) = None then ret 0
          else bnd (update_status_partial e (apply_full_stop e)) (\<lambda>changed. ret (requeue_if changed))
     else if \<not> accepted_mode_is (vi_status i) ValkeyModeHA \<or> \<not> st_initialized (vi_status i) then ret 0
     else case st_failover (vi_status i) of
       None \<Rightarrow> maybe_start_failure_failover e
     | Some operation \<Rightarrow>
         (case fo_stage operation of
            FailoverStageFencing \<Rightarrow> reconcile_failover_fencing e operation
          | FailoverStageChoosing \<Rightarrow> reconcile_failover_choosing e operation
          | FailoverStagePromoting \<Rightarrow> reconcile_failover_promoting e operation
          | FailoverStageReconfiguring \<Rightarrow> reconcile_failover_reconfiguring e
          | FailoverStageOther _ \<Rightarrow> fail (Plain ''unknown stage of failover'')))"

end
