(* ===== verification/Failover_Lemmas.thy ===== *)
theory Failover_Lemmas
  imports Failover "HOL-Library.Product_Lexorder"
begin

text \<open>
  What a failover does: which replica it picks, the transitions a single pass can make and the
  evidence each needs, and that a process is promoted only after its clients were cut off.
\<close>

section \<open>The candidate\<close>

definition candidate_key :: "node_status \<Rightarrow> int \<times> int" where
  "candidate_key n = (- node_offset n, ns_ordinal n)"

lemma compare_candidates_key:
  assumes "is_int32 (ns_ordinal a)" "0 \<le> ns_ordinal a" "is_int32 (ns_ordinal b)" "0 \<le> ns_ordinal b"
  shows "(compare_candidates a b < 0) = (candidate_key a < candidate_key b)"
proof -
  have "is_int32 (ns_ordinal a - ns_ordinal b)" using assms by (auto simp: is_int32_def)
  then have "compare_ordinals a b = ns_ordinal a - ns_ordinal b" by (simp add: compare_ordinals_def wrap32_id)
  then show ?thesis by (auto simp: compare_candidates_def candidate_key_def)
qed

lemma hd_sort_func_least:
  assumes "\<And>a b. a \<in> set xs \<Longrightarrow> b \<in> set xs \<Longrightarrow> (cmp a b < 0) = (key a < (key b :: 'k :: linorder))"
    and "x \<in> set xs"
  shows "hd (sort_func cmp xs) \<in> set xs \<and> key (hd (sort_func cmp xs)) \<le> key x"
proof -
  have sorted: "sorted (map key (sort_func cmp xs))" by (rule sorted_sort_func [OF assms(1)])
  have "sort_func cmp xs \<noteq> []" using assms(2) by auto
  then obtain y ys where s: "sort_func cmp xs = y # ys" by (cases "sort_func cmp xs") auto
  then have "set xs = insert y (set ys)" using set_sort_func [of cmp xs] by simp
  then show ?thesis using s sorted assms(2) by auto
qed

lemma choose_failover_candidate_optimal:
  assumes "choose_failover_candidate source nodes = Some c"
    and "\<And>n. n \<in> set nodes \<Longrightarrow> is_int32 (ns_ordinal n) \<and> 0 \<le> ns_ordinal n"
  shows "\<exists>sr. ns_replication source = Some sr \<and> rp_replication_id sr \<noteq> '''' \<and>
    c \<in> set nodes \<and> failover_candidate source sr c \<and>
    (\<forall>n\<in>set nodes. failover_candidate source sr n \<longrightarrow>
       node_offset n < node_offset c \<or> node_offset n = node_offset c \<and> ns_ordinal c \<le> ns_ordinal n)"
proof -
  from assms(1) obtain sr where sr: "ns_replication source = Some sr" "rp_replication_id sr \<noteq> ''''"
    and c: "filter (failover_candidate source sr) nodes \<noteq> []"
      "c = hd (sort_func compare_candidates (filter (failover_candidate source sr) nodes))"
    by (auto simp: choose_failover_candidate_def split: option.splits if_splits list.splits)
  let ?xs = "filter (failover_candidate source sr) nodes"
  have least: "c \<in> set ?xs \<and> candidate_key c \<le> candidate_key n" if "n \<in> set ?xs" for n
    unfolding c(2) using assms(2) that
    by (intro hd_sort_func_least) (auto simp: compare_candidates_key)
  obtain n0 where "n0 \<in> set ?xs" using c(1) by (cases ?xs) auto
  then have "c \<in> set nodes" "failover_candidate source sr c" using least by auto
  moreover have "node_offset n < node_offset c \<or> node_offset n = node_offset c \<and> ns_ordinal c \<le> ns_ordinal n"
    if "n \<in> set nodes" "failover_candidate source sr n" for n
    using least [of n] that by (auto simp: candidate_key_def)
  ultimately show ?thesis using sr by blast
qed

lemma choose_failover_candidate_None:
  "choose_failover_candidate source nodes = None \<longleftrightarrow>
     (\<forall>sr. ns_replication source = Some sr \<longrightarrow> rp_replication_id sr \<noteq> '''' \<longrightarrow>
        (\<forall>n\<in>set nodes. \<not> failover_candidate source sr n))"
  by (cases "ns_replication source")
    (auto simp: choose_failover_candidate_def filter_empty_conv [symmetric] split: list.splits)

section \<open>Transitions\<close>

text \<open>What a failover decides about: the operation itself, and which process is the primary.\<close>

type_synonym failover_core = "failover_status option \<times> int option \<times> process_identity"

definition failover_core :: "instance_status \<Rightarrow> failover_core" where
  "failover_core st = (st_failover st, st_primary_ordinal st, primary_identity st)"

definition node_failed :: "env \<Rightarrow> node_status \<Rightarrow> bool" where
  "node_failed e p \<longleftrightarrow> ns_termination p \<noteq> None \<or>
     (\<exists>h. th_transport_failure (process_thresholds (ns_observation p) None (answer_clock e h)))"

text \<open>The process itself has confirmed that the access of app is closed.\<close>

definition fencing_confirmed :: "env \<Rightarrow> node_status \<Rightarrow> bool" where
  "fencing_confirmed e p \<longleftrightarrow>
     (\<exists>h address password hash state. answer_app_access e h address password hash False = Inr state \<and>
        ps_run_id state = ns_run_id p \<and> \<not> ps_app_enabled state \<and> ps_app_password_hashes state = [hash])"

definition offset_or_deadline :: "env \<Rightarrow> failover_status \<Rightarrow> node_status \<Rightarrow> bool" where
  "offset_or_deadline e fo p \<longleftrightarrow> offset_ready fo p \<or>
     (\<exists>h d. fo_offset_deadline fo = Some d \<and> d \<le> answer_clock e h)"

definition live_candidate :: "valkey_instance \<Rightarrow> failover_status \<Rightarrow> node_status \<Rightarrow> bool" where
  "live_candidate i fo p \<longleftrightarrow>
     (\<exists>c. fo_candidate fo = Some c \<and> known_process (vi_status i) c = Some p) \<and> ns_termination p = None"

definition emptying_allowed :: "env \<Rightarrow> valkey_instance \<Rightarrow> failover_status option \<Rightarrow> bool" where
  "emptying_allowed e i operation \<longleftrightarrow> empty_recovery_safe i \<or>
     (\<exists>fo h. operation = Some fo \<and> empty_recovery_waiting_safe i fo \<and>
        th_empty_primary (process_thresholds None (fo_empty_since fo) (answer_clock e h)))"

text \<open>Every live replica follows the public primary, whose pod the API server has.\<close>

definition reconfigured :: "valkey_instance \<Rightarrow> bool" where
  "reconfigured i \<longleftrightarrow> primary_publicly_ready (vi_status i) \<and>
     (\<exists>ordinal primary pod. st_primary_ordinal (vi_status i) = Some ordinal \<and>
        node_status_at_ordinal (st_nodes (vi_status i)) ordinal = Some primary \<and>
        primary_identity_matches i primary \<and> pod_of_process i primary pod \<and>
        (\<forall>n\<in>set (st_nodes (vi_status i)). replica_reconfigured (vi_status i) primary pod n))"

definition no_identity :: process_identity where
  "no_identity = \<lparr>id_pod_uid = '''', id_container_id = '''', id_run_id = '''', id_node_name = '''',
     id_node_uid = ''''\<rparr>"

inductive failover_edge :: "env \<Rightarrow> valkey_instance \<Rightarrow> failover_core \<Rightarrow> failover_core \<Rightarrow> bool"
  for e i where
  keep: "failover_edge e i x x"
| begin_failure: "failover_primary_process i = Some p \<Longrightarrow> node_failed e p \<Longrightarrow>
    failover_edge e i (None, pr) (Some (new_failover FailoverReasonFailure t (process_identity p) None), pr)"
| source_fenced: "fo_stage fo = FailoverStageFencing \<Longrightarrow>
    known_process (vi_status i) (fo_source fo) = Some p \<Longrightarrow> fencing_confirmed e p \<Longrightarrow>
    failover_edge e i (Some fo, pr)
      (Some (fo\<lparr>fo_source_app_disabled := True, fo_source_clients_killed := True\<rparr>), pr)"
| choosing: "fo_stage fo = FailoverStageFencing \<Longrightarrow>
    known_process (vi_status i) (fo_source fo) = Some p \<Longrightarrow>
    ns_termination p \<noteq> None \<or> fo_source_app_disabled fo \<and> fo_source_clients_killed fo \<Longrightarrow>
    failover_edge e i (Some fo, pr) (Some (set_failover_stage FailoverStageChoosing fo), pr)"
| candidate: "fo_stage fo = FailoverStageChoosing \<Longrightarrow> fo_candidate fo = None \<Longrightarrow>
    known_process (vi_status i) (fo_source fo) = Some s \<Longrightarrow>
    choose_failover_candidate s (st_nodes (vi_status i)) = Some c \<Longrightarrow>
    failover_edge e i (Some fo, pr)
      (Some ((set_control_point s (fo\<lparr>fo_candidate := Some (process_identity c), fo_empty_since := None\<rparr>))
         \<lparr>fo_offset_deadline := Some t\<rparr>), pr)"
| offset_deadline: "fo_stage fo = FailoverStageChoosing \<Longrightarrow> fo_candidate fo \<noteq> None \<Longrightarrow>
    fo_offset_deadline fo = None \<Longrightarrow> known_process (vi_status i) (fo_source fo) = Some s \<Longrightarrow>
    failover_edge e i (Some fo, pr) (Some ((set_control_point s fo)\<lparr>fo_offset_deadline := Some t\<rparr>), pr)"
| candidate_fenced: "fo_stage fo = FailoverStageChoosing \<Longrightarrow> live_candidate i fo p \<Longrightarrow>
    fencing_confirmed e p \<Longrightarrow>
    failover_edge e i (Some fo, pr)
      (Some (fo\<lparr>fo_candidate_app_disabled := True, fo_candidate_clients_killed := True\<rparr>), pr)"
| candidate_stopped: "fo_stage fo = FailoverStageChoosing \<or> fo_stage fo = FailoverStagePromoting \<Longrightarrow>
    fo_candidate fo = Some c \<Longrightarrow> known_process (vi_status i) c = Some p \<Longrightarrow> ns_termination p \<noteq> None \<Longrightarrow>
    failover_edge e i (Some fo, pr) (Some (forget_candidate (set_failover_stage FailoverStageChoosing fo)), pr)"
| promoting: "fo_stage fo = FailoverStageChoosing \<Longrightarrow> live_candidate i fo p \<Longrightarrow>
    fo_candidate_app_disabled fo \<Longrightarrow> fo_candidate_clients_killed fo \<Longrightarrow> offset_or_deadline e fo p \<Longrightarrow>
    failover_edge e i (Some fo, pr) (Some (set_failover_stage FailoverStagePromoting fo), pr)"
| may_be_primary: "fo_stage fo = FailoverStagePromoting \<Longrightarrow> live_candidate i fo p \<Longrightarrow>
    ns_role p = NodeRoleReplica \<Longrightarrow> \<not> ns_app_enabled p \<Longrightarrow>
    failover_edge e i (Some fo, pr) (Some (fo\<lparr>fo_candidate_may_be_primary := True\<rparr>), pr)"
| promoted: "fo_stage fo = FailoverStagePromoting \<Longrightarrow> live_candidate i fo p \<Longrightarrow> ns_role p = NodeRolePrimary \<Longrightarrow>
    failover_edge e i (Some fo, pr)
      (Some (set_failover_stage FailoverStageReconfiguring fo), Some (ns_ordinal p), process_identity p)"
| restart: "fo_stage fo = FailoverStageReconfiguring \<Longrightarrow> failover_primary_process i = Some p \<Longrightarrow> node_failed e p \<Longrightarrow>
    failover_edge e i (Some fo, pr)
      (Some ((forget_candidate fo)\<lparr>fo_reason := FailoverReasonFailure, fo_stage := FailoverStageFencing,
         fo_source := process_identity p, fo_source_app_disabled := False, fo_source_clients_killed := False,
         fo_replication_id := '''', fo_control_offset := 0\<rparr>), pr)"
| complete: "fo_stage fo = FailoverStageReconfiguring \<Longrightarrow> reconfigured i \<Longrightarrow>
    failover_edge e i (Some fo, pr) (None, pr)"
| emptied: "emptying_allowed e i operation \<Longrightarrow> failover_edge e i (operation, pr) (None, None, no_identity)"
| empty_since: "fo_stage fo = FailoverStageChoosing \<Longrightarrow> fo_candidate fo = None \<Longrightarrow>
    since = None \<or> empty_recovery_waiting_safe i fo \<Longrightarrow>
    failover_edge e i (Some fo, pr) (Some (fo\<lparr>fo_empty_since := since\<rparr>), pr)"
| full_stop: "full_stop_rollout_owns_availability i \<Longrightarrow> failover_edge e i (Some fo, pr) (None, pr)"

text \<open>Closures that leave the processes of the status alone and make one transition.\<close>

definition failover_update :: "env \<Rightarrow> valkey_instance \<Rightarrow> instance_status \<Rightarrow> instance_status \<Rightarrow> bool" where
  "failover_update e i st st' \<longleftrightarrow> st_nodes st' = st_nodes st \<and>
     st_previous_processes st' = st_previous_processes st \<and>
     failover_edge e i (failover_core st) (failover_core st')"

definition failover_operation :: "valkey_instance \<Rightarrow> (failover_status \<Rightarrow> bool) \<Rightarrow> bool" where
  "failover_operation i p = (case st_failover (vi_status i) of None \<Rightarrow> False | Some fo \<Rightarrow> p fo)"

text \<open>The promotion command, and closing the access of app, with what must be on record before.\<close>

definition promotion_allowed :: "valkey_instance \<Rightarrow> string \<Rightarrow> string \<Rightarrow> bool" where
  "promotion_allowed i address run_id \<longleftrightarrow>
     (\<exists>p pod. failover_operation i (\<lambda>fo. fo_stage fo = FailoverStagePromoting \<and> live_candidate i fo p \<and>
                fo_candidate_may_be_primary fo) \<and>
        ns_role p = NodeRoleReplica \<and> \<not> ns_app_enabled p \<and>
        ns_app_password_version p = ac_password_version (accepted_of (vi_status i)) \<and>
        pod_of_process i p pod \<and> address = valkey_address (pod_ip pod) \<and> run_id = ns_run_id p)"

definition source_or_candidate :: "valkey_instance \<Rightarrow> node_status \<Rightarrow> bool" where
  "source_or_candidate i p \<longleftrightarrow>
     failover_operation i (\<lambda>fo.
       fo_stage fo = FailoverStageFencing \<and> known_process (vi_status i) (fo_source fo) = Some p \<or>
       fo_stage fo = FailoverStageChoosing \<and> live_candidate i fo p)"

fun failover_call :: "env \<Rightarrow> valkey_instance \<Rightarrow> call \<Rightarrow> bool" where
  "failover_call e i (PatchStatus b a) =
     (vi_status b = vi_status i \<longrightarrow> failover_update e i (vi_status b) (vi_status a))"
| "failover_call e i (PromoteProcess address password run_id) = promotion_allowed i address run_id"
| "failover_call e i (UpdateAppAccess address password hash enabled) =
     (\<exists>p. source_or_candidate i p \<and> fencing_call i p (UpdateAppAccess address password hash enabled))"
| "failover_call e i (PatchPod b a) =
     (\<exists>p. source_or_candidate i p \<and> role_label_patch i p (PatchPod b a))"
| "failover_call e i c = reading c"

lemma failover_call_reading: "reading c \<Longrightarrow> failover_call e i c"
  by (cases c) simp_all

lemma failover_call_fencing:
  assumes "fencing_call i p c" and "source_or_candidate i p"
  shows "failover_call e i c"
proof (cases c)
  case (UpdateAppAccess address password hash enabled)
  with assms show ?thesis by auto
qed (use assms in \<open>auto simp: fencing_call_def\<close>)


section \<open>The closures\<close>

lemma failover_core_operational_phase [simp]:
  "failover_core (apply_operational_phase e i st) = failover_core st"
  by (simp add: failover_core_def)

lemma failover_core_fields [simp]:
  "failover_core (set_condition e i t s r m st) = failover_core st"
  "failover_core (mark_unavailable x st) = failover_core st"
  "failover_core (set_phase ph x st) = failover_core st"
  "failover_core (remove_condition e t st) = failover_core st"
  "failover_core (st\<lparr>st_reason := x\<rparr>) = failover_core st"
  "failover_core (st\<lparr>st_failover := f\<rparr>) = (f, st_primary_ordinal st, primary_identity st)"
  by (simp_all add: failover_core_def primary_identity_def set_condition_def mark_unavailable_def
      set_phase_def remove_condition_def)

lemma failover_core_primary [simp]:
  "failover_core (set_primary_identity p st) = (st_failover st, Some (ns_ordinal p), process_identity p)"
  "failover_core (clear_primary_identity st) = (st_failover st, None, no_identity)"
  by (simp_all add: failover_core_def primary_identity_def process_identity_def set_primary_identity_def
      clear_primary_identity_def no_identity_def)

lemma set_primary_identity_core [simp]:
  "st_primary_ordinal (set_primary_identity p st) = Some (ns_ordinal p)"
  "primary_identity (set_primary_identity p st) = process_identity p"
  by (simp_all add: primary_identity_def process_identity_def set_primary_identity_def)

lemma failover_processes_fields [simp]:
  "st_nodes (remove_condition e t st) = st_nodes st"
  "st_previous_processes (remove_condition e t st) = st_previous_processes st"
  "st_nodes (clear_primary_identity st) = st_nodes st"
  "st_previous_processes (clear_primary_identity st) = st_previous_processes st"
  "st_failover (remove_condition e t st) = st_failover st"
  "st_failover (clear_primary_identity st) = st_failover st"
  by (simp_all add: remove_condition_def clear_primary_identity_def)

lemma failover_update_keep:
  "failover_core st' = failover_core st \<Longrightarrow> st_nodes st' = st_nodes st \<Longrightarrow>
   st_previous_processes st' = st_previous_processes st \<Longrightarrow> failover_update e i st st'"
  by (simp add: failover_update_def failover_edge.keep)

lemma map_failover_update:
  assumes "\<And>fo. st_failover st = Some fo \<Longrightarrow> p fo \<Longrightarrow>
    failover_edge e i (Some fo, st_primary_ordinal st, primary_identity st)
      (Some (f fo), st_primary_ordinal st, primary_identity st)"
  shows "failover_update e i st (map_failover p f st)"
  using assms by (auto simp: map_failover_def failover_update_def failover_edge.keep failover_core_def [of st]
      split: option.split)

lemma emits_failover_update:
  assumes "\<And>b. vi_status b = vi_status i \<Longrightarrow> failover_update e i (vi_status i) (f b (vi_status i))"
  shows "emits (failover_call e i) (bnd (update_status e f) (\<lambda>changed. ret (requeue_if changed))) j"
  by (intro emits_intros) (use assms in auto)

lemma emits_failover_wait: "emits (failover_call e i) (failover_wait e reason message) j"
  unfolding failover_wait_def apply_failover_wait_def
  by (intro emits_intros) (auto intro!: failover_update_keep split: option.split)


lemma empty_recovery_same_status:
  "vi_status b = vi_status i \<Longrightarrow> empty_recovery_safe b = empty_recovery_safe i"
  "vi_status b = vi_status i \<Longrightarrow> empty_recovery_waiting_safe b fo = empty_recovery_waiting_safe i fo"
  by (simp_all add: empty_recovery_safe_def empty_recovery_waiting_safe_def expected_process_count_def)

lemma apply_empty_recovery_update:
  assumes "emptying_allowed e i (st_failover st)"
  shows "failover_update e i st (apply_empty_recovery e timed_out j st)"
proof -
  have "failover_edge e i (failover_core st) (None, None, no_identity)"
    unfolding failover_core_def using assms by (rule emptied)
  then show ?thesis by (simp add: failover_update_def apply_empty_recovery_def)
qed

lemma ends_empty_recovery_closure:
  assumes "ends (empty_recovery_closure e timed_out) b (Inr ()) a" and "vi_status b \<noteq> vi_status a"
    and "vi_status b = vi_status i"
  shows "emptying_allowed e i (st_failover (vi_status b)) \<and>
    (\<exists>t. vi_status a = apply_empty_recovery e t b (vi_status b))"
proof -
  have same: "empty_recovery_safe b = empty_recovery_safe i"
    "\<And>fo. empty_recovery_waiting_safe b fo = empty_recovery_waiting_safe i fo"
    using assms(3) by (rule empty_recovery_same_status)+
  show ?thesis
    using assms(1,2) unfolding empty_recovery_closure_def emptying_allowed_def
    by (auto simp: same elim!: ends_bndE split: if_splits option.splits)
qed

lemma emits_empty_recovery_closure:
  "failover_call e i ReadClock \<Longrightarrow> emits (failover_call e i) (empty_recovery_closure e timed_out) b"
  unfolding empty_recovery_closure_def by (intro emits_intros)

lemma emits_begin_empty_recovery: "emits (failover_call e i) (begin_empty_recovery e timed_out) i"
  unfolding begin_empty_recovery_def
proof (intro emits_intros emits_empty_recovery_closure)
  fix b a
  assume "ends (empty_recovery_closure e timed_out) b (Inr ()) a" "vi_status b \<noteq> vi_status a"
  from ends_empty_recovery_closure [OF this]
  show "failover_call e i (PatchStatus b a)"
    using apply_empty_recovery_update [of e i "vi_status i"] by fastforce
qed auto

lemma emits_start_failure_failover:
  assumes "failover_primary_process i = Some p" and "node_failed e p" and "st_failover (vi_status i) = None"
  shows "emits (failover_call e i) (start_failure_failover e p) i"
proof -
  have "failover_update e i (vi_status i) (set_condition e b conditionTypeFailover ConditionFalse ''Fencing''
          ''waiting for the former primary to be fenced''
          (mark_unavailable ''FENCING_REQUIRED''
            (vi_status i\<lparr>st_failover := Some (new_failover FailoverReasonFailure t (process_identity p) None)\<rparr>)))"
    for b t
    using begin_failure [OF assms(1,2)] assms(3) by (simp add: failover_update_def failover_core_def [of "vi_status i"])
  then show ?thesis
    unfolding start_failure_failover_def by (intro emits_intros) simp_all
qed

lemma emits_maybe_start_failure_failover:
  assumes "st_failover (vi_status i) = None"
  shows "emits (failover_call e i) (maybe_start_failure_failover e) i"
  unfolding maybe_start_failure_failover_def
  by (intro emits_intros emits_begin_empty_recovery)
    (auto intro!: emits_start_failure_failover assms simp: node_failed_def)


section \<open>The handlers\<close>

lemma known_process_unchanged: "vi_status b = vi_status i \<Longrightarrow> known_process (vi_status b) x = known_process (vi_status i) x"
  by simp

lemma apply_choosing_update:
  assumes "st_failover (vi_status i) = Some fo" and "fo_stage fo = FailoverStageFencing"
    and "known_process (vi_status i) (fo_source fo) = Some p"
    and "ns_termination p \<noteq> None \<or> fo_source_app_disabled fo \<and> fo_source_clients_killed fo"
  shows "failover_update e i (vi_status i) (apply_choosing source (vi_status i))"
  using failover_edge.choosing [OF assms(2-4)] assms(1)
  by (simp add: failover_update_def apply_choosing_def failover_edge.keep failover_core_def [of "vi_status i"])

lemma emits_reconcile_failover_fencing:
  assumes "st_failover (vi_status i) = Some fo" and stage: "fo_stage fo = FailoverStageFencing"
  shows "emits (failover_call e i) (reconcile_failover_fencing e fo) i"
proof -
  have choose: "emits (failover_call e i) (begin_choosing e fo) i"
    if "known_process (vi_status i) (fo_source fo) = Some p"
      "ns_termination p \<noteq> None \<or> fo_source_app_disabled fo \<and> fo_source_clients_killed fo" for p
    unfolding begin_choosing_def
    by (rule emits_failover_update) (rule apply_choosing_update [OF assms that])
  have fence: "emits (failover_call e i) (fence_failover_source e fo p) i"
    if known: "known_process (vi_status i) (fo_source fo) = Some p" for p
    unfolding fence_failover_source_def
  proof (intro emits_on_err emits_fence_process emits_if emits_failover_wait emits_fail)
    fix c assume "fencing_call i p c"
    then show "failover_call e i c"
      using known assms by (auto simp: fencing_call_def source_or_candidate_def failover_operation_def)
  next
    fix fenced j assume "ends (fence_process e p) i (Inr fenced) j" "\<not> \<not> fenced"
    then have "fencing_confirmed e p" using fence_process_confirmed unfolding fencing_confirmed_def by auto
    then show "emits (failover_call e i) (bnd (update_status e (\<lambda>_. apply_source_fenced (fo_source fo)))
        (\<lambda>changed. ret (requeue_if changed))) j"
      unfolding apply_source_fenced_def using assms known
      by (intro emits_failover_update map_failover_update) (auto intro: source_fenced)
  qed (simp add: failover_call_reading)
  have label: "failover_call e i c" if "role_label_patch i p c"
    "known_process (vi_status i) (fo_source fo) = Some p" for p c
    using that assms by (auto simp: role_label_patch_def source_or_candidate_def failover_operation_def)
  show ?thesis
    unfolding reconcile_failover_fencing_def source_identity_unknown_def
    by (intro emits_with_inst emits_case_option emits_if emits_bnd emits_failover_wait emits_ret
        emits_remove_process_role_label)
      (auto dest!: ends_remove_process_role_label intro: choose fence label simp: failover_call_reading)
qed

lemma emits_reconcile_empty_recovery_wait:
  assumes "st_failover (vi_status i) = Some fo" and "fo_stage fo = FailoverStageChoosing" and "fo_candidate fo = None"
  shows "emits (failover_call e i) (reconcile_empty_recovery_wait e) i"
proof -
  have clear: "emits (failover_call e i) (bnd (update_status e (\<lambda>_. map_failover (\<lambda>_. True)
      (\<lambda>fo. fo\<lparr>fo_empty_since := None\<rparr>))) (\<lambda>changed. ret (requeue_if changed))) i"
    using assms by (intro emits_failover_update map_failover_update) (auto intro: empty_since)
  have since: "failover_update e i (vi_status i) (apply_empty_since t b (vi_status i))"
    if "empty_recovery_waiting_safe i fo" for t b
    unfolding apply_empty_since_def using assms that by (intro map_failover_update) (auto intro: empty_since)
  have wait: "emits (failover_call e i) (bnd (update_status_when_now e empty_wait_allowed apply_empty_since)
      (\<lambda>changed. ret (requeue_if changed))) i" if "empty_recovery_waiting_safe i fo"
    by (intro emits_intros) (auto intro: since [OF that])
  have late: "emits (failover_call e i) (bnd (now_op e) (\<lambda>now.
      if th_empty_primary (process_thresholds None since now) then begin_empty_recovery e True
      else failover_wait e reason message)) i" for since reason message
    by (intro emits_bnd emits_now_op emits_if emits_failover_wait) (auto intro: emits_begin_empty_recovery)
  show ?thesis
    unfolding reconcile_empty_recovery_wait_def using assms
    by (intro emits_with_inst emits_case_option emits_if emits_failover_wait)
      (auto intro: clear wait late)
qed

lemma emits_choose_candidate:
  assumes "st_failover (vi_status i) = Some fo" and "fo_stage fo = FailoverStageChoosing" and "fo_candidate fo = None"
  shows "emits (failover_call e i) (choose_candidate e fo) i"
proof -
  have pick: "failover_update e i (vi_status i) (apply_candidate s c t (vi_status i))"
    if "known_process (vi_status i) (fo_source fo) = Some s"
      "choose_failover_candidate s (st_nodes (vi_status i)) = Some c" for s c t
    unfolding apply_candidate_def using assms that by (intro map_failover_update) (auto intro: candidate)
  have save: "emits (failover_call e i) (bnd (update_status_when_now e failover_without_candidate
      (\<lambda>now _. apply_candidate s c now)) (\<lambda>changed. ret (requeue_if changed))) i"
    if "known_process (vi_status i) (fo_source fo) = Some s"
      "choose_failover_candidate s (st_nodes (vi_status i)) = Some c" for s c
    by (intro emits_intros) (auto intro: pick [OF that])
  show ?thesis
    unfolding choose_candidate_def source_identity_unknown_def
    by (intro emits_with_inst emits_case_option emits_if emits_failover_wait emits_begin_empty_recovery
        emits_reconcile_empty_recovery_wait [OF assms] save)
qed

lemma emits_set_offset_deadline:
  assumes "st_failover (vi_status i) = Some fo" and "fo_stage fo = FailoverStageChoosing"
    and "fo_candidate fo \<noteq> None" and "fo_offset_deadline fo = None"
  shows "emits (failover_call e i) (set_offset_deadline e fo) i"
proof -
  have set: "failover_update e i (vi_status i) (apply_offset_deadline s t (vi_status i))"
    if "known_process (vi_status i) (fo_source fo) = Some s" for s t
    unfolding apply_offset_deadline_def using assms that
    by (intro map_failover_update) (auto intro: offset_deadline)
  have save: "emits (failover_call e i) (bnd (update_status_when_now e failover_with_candidate
      (\<lambda>now _. apply_offset_deadline s now)) (\<lambda>changed. ret (requeue_if changed))) i"
    if "known_process (vi_status i) (fo_source fo) = Some s" for s
    by (intro emits_intros) (auto intro: set [OF that])
  show ?thesis
    unfolding set_offset_deadline_def source_identity_unknown_def
    by (intro emits_with_inst emits_case_option emits_failover_wait save)
qed

lemma stage_unchanged [simp]: "fo_stage fo = stage \<Longrightarrow> set_failover_stage stage fo = fo"
  by (simp add: set_failover_stage_def)

lemma emits_forget_stopped_candidate:
  assumes "st_failover (vi_status i) = Some fo" and "fo_stage fo = FailoverStageChoosing"
    and "fo_candidate fo = Some c" and "known_process (vi_status i) c = Some p" and "ns_termination p \<noteq> None"
  shows "emits (failover_call e i) (update_status_captured e forget_stopped_candidate x) i"
proof (rule emits_update_captured)
  have forget: "failover_update e i (vi_status i) (map_failover (\<lambda>_. True) forget_candidate (vi_status i))"
    using candidate_stopped [OF disjI1 [OF assms(2)] assms(3-5), of e] assms(1,2)
    by (intro map_failover_update) simp
  fix x x' b a
  assume "ends (forget_stopped_candidate x) b (Inr x') a" "vi_status b \<noteq> vi_status a"
  then have "vi_status a = map_failover (\<lambda>_. True) forget_candidate (vi_status b)"
    unfolding forget_stopped_candidate_def by (auto elim!: ends_bndE split: option.splits if_splits)
  then show "failover_call e i (PatchStatus b a)" using forget by simp
next
  show "emits (failover_call e i) (forget_stopped_candidate x) b" for x b
    unfolding forget_stopped_candidate_def by (intro emits_intros)
qed simp

lemma emits_fence_failover_candidate:
  assumes "st_failover (vi_status i) = Some fo" and "fo_stage fo = FailoverStageChoosing"
    and live: "live_candidate i fo p"
  shows "emits (failover_call e i) (fence_failover_candidate e c p) i"
  unfolding fence_failover_candidate_def
proof (intro emits_on_err emits_fence_process emits_if emits_failover_wait emits_fail)
  fix c assume "fencing_call i p c"
  then show "failover_call e i c"
    by (rule failover_call_fencing) (use assms in \<open>simp add: source_or_candidate_def failover_operation_def\<close>)
next
  fix fenced j assume "ends (fence_process e p) i (Inr fenced) j" "\<not> \<not> fenced"
  then have "fencing_confirmed e p" using fence_process_confirmed unfolding fencing_confirmed_def by auto
  then show "emits (failover_call e i) (bnd (update_status e (\<lambda>_. apply_candidate_fenced c))
      (\<lambda>changed. ret (requeue_if changed))) j"
    unfolding apply_candidate_fenced_def using assms
    by (intro emits_failover_update map_failover_update) (auto intro: candidate_fenced)
qed (simp add: failover_call_reading)

lemma emits_await_offset:
  assumes "st_failover (vi_status i) = Some fo" and "fo_stage fo = FailoverStageChoosing"
    and "live_candidate i fo p" and "fo_candidate_app_disabled fo" and "fo_candidate_clients_killed fo"
    and "fo_offset_deadline fo = Some deadline"
  shows "emits (failover_call e i) (await_offset e fo deadline p) i"
proof -
  have go: "failover_update e i (vi_status i) (apply_promoting (vi_status i))"
    if "offset_or_deadline e fo p"
    using promoting [OF assms(2-5) that] assms(1)
    by (simp add: failover_update_def apply_promoting_def failover_core_def [of "vi_status i"])
  have over: "offset_or_deadline e fo p" if "\<not> (\<not> offset_ready fo p \<and> now < deadline)"
    "answer_clock e h = now" for now h
    using that assms(6) unfolding offset_or_deadline_def by (metis not_le)
  show ?thesis
    unfolding await_offset_def
    by (intro emits_bnd emits_now_op emits_if emits_failover_wait emits_update_status emits_ret)
      (auto intro: go over)
qed

lemma emits_reconcile_failover_choosing:
  assumes fo: "st_failover (vi_status i) = Some fo" and stage: "fo_stage fo = FailoverStageChoosing"
  shows "emits (failover_call e i) (reconcile_failover_choosing e fo) i"
  unfolding reconcile_failover_choosing_def candidate_identity_unknown_def
  by (intro emits_case_option emits_with_inst emits_if emits_bnd emits_ret emits_failover_wait
      emits_choose_candidate [OF fo stage] emits_set_offset_deadline [OF fo stage]
      emits_fence_failover_candidate [OF fo stage] emits_await_offset [OF fo stage])
    (auto simp: live_candidate_def intro: emits_forget_stopped_candidate [OF fo stage])

lemma ends_promote_process: "ends (promote_process e pod c run_id) i r j \<Longrightarrow> j = i"
  by (simp add: promote_process_def Let_def)

lemma emits_promote_candidate:
  assumes allowed: "\<And>pod. pod_of_process i p pod \<Longrightarrow>
    promotion_allowed i (valkey_address (pod_ip pod)) (ns_run_id p)"
  shows "emits (failover_call e i) (promote_candidate e p) i"
  unfolding promote_candidate_def
proof (intro emits_on_err emits_bnd emits_current_process_pod emits_process_credentials emits_if
    emits_failover_wait emits_fail emits_ret emits_case_prod)
  fix pod j x k a b
  assume "ends (current_process_pod e p) i (Inr pod) j" and "ends (process_credentials e) j (Inr x) k"
  then have "k = i" "pod_of_process i p pod"
    using ends_current_process_pod ends_process_credentials by blast+
  then show "emits (failover_call e i) (promote_process e pod a (ns_run_id p)) k"
    unfolding promote_process_def Let_def using allowed by (intro emits_intros) simp
qed (simp_all add: failover_call_reading)

lemma apply_promoted_update:
  assumes "st_failover (vi_status i) = Some fo" and "fo_stage fo = FailoverStagePromoting"
    and "live_candidate i fo p" and "ns_role p = NodeRolePrimary"
  shows "failover_update e i (vi_status i) (apply_promoted c p (vi_status i))"
  using promoted [OF assms(2-4)] assms(1)
  by (auto simp: failover_update_def apply_promoted_def failover_edge.keep failover_core_def [of "vi_status i"])

lemma emits_reconcile_failover_promoting:
  assumes fo: "st_failover (vi_status i) = Some fo" and stage: "fo_stage fo = FailoverStagePromoting"
  shows "emits (failover_call e i) (reconcile_failover_promoting e fo) i"
proof -
  have stopped: "failover_update e i (vi_status i) (apply_candidate_stopped (vi_status i))"
    if "fo_candidate fo = Some c" "known_process (vi_status i) c = Some p" "ns_termination p \<noteq> None" for c p
    unfolding apply_candidate_stopped_def using candidate_stopped [OF disjI2 [OF stage] that, of e] fo
    by (intro map_failover_update) simp
  have mark: "failover_update e i (vi_status i)
      (map_failover (\<lambda>_. True) (\<lambda>fo. fo\<lparr>fo_candidate_may_be_primary := True\<rparr>) (vi_status i))"
    if "live_candidate i fo p" "ns_role p = NodeRoleReplica" "\<not> ns_app_enabled p" for p
    using may_be_primary [OF stage that, of e] fo by (intro map_failover_update) simp
  have promote: "emits (failover_call e i) (promote_candidate e p) i"
    if "live_candidate i fo p" "ns_role p = NodeRoleReplica" "\<not> ns_app_enabled p" "fo_candidate_may_be_primary fo"
      "ns_app_password_version p = ac_password_version (accepted_of (vi_status i))" for p
    by (rule emits_promote_candidate)
      (use that fo stage in \<open>auto simp: promotion_allowed_def failover_operation_def\<close>)
  show ?thesis
    unfolding reconcile_failover_promoting_def candidate_identity_unknown_def
    by (intro emits_case_option emits_with_inst emits_fail emits_if emits_failover_wait
        emits_failover_update)
      (auto intro: stopped mark promote apply_promoted_update [OF fo stage] simp: live_candidate_def)
qed

lemma restart_failover_update:
  assumes "st_failover (vi_status i) = Some fo" and "fo_stage fo = FailoverStageReconfiguring"
    and "failover_primary_process i = Some p" and "node_failed e p"
  shows "failover_update e i (vi_status i) (restart_failover e p b (vi_status i))"
  using restart [OF assms(2-4)] assms(1,2)
  by (simp add: failover_update_def restart_failover_def failover_core_def [of "vi_status i"])

lemma complete_failover_update:
  assumes "st_failover (vi_status i) = Some fo" and "fo_stage fo = FailoverStageReconfiguring" and "reconfigured i"
  shows "failover_update e i (vi_status i) (complete_failover e b (vi_status i))"
  using complete [OF assms(2-3)] assms(1)
  by (simp add: failover_update_def complete_failover_def failover_core_def [of "vi_status i"])

lemma ends_reconfiguration_ready:
  "ends (failover_reconfiguration_ready e) i (Inr True) j \<Longrightarrow> j = i \<and> reconfigured i"
  unfolding failover_reconfiguration_ready_def reconfigured_def Let_def
  by (auto elim!: ends_on_errE split: if_splits option.splits simp: bind_eq_Some_conv list_all_iff
      dest!: ends_current_process_pod)

lemma emits_reconfiguration_ready: "emits (failover_call e i) (failover_reconfiguration_ready e) i"
  unfolding failover_reconfiguration_ready_def Let_def
  by (intro emits_intros) (simp_all add: failover_call_reading)

lemma emits_reconcile_failover_reconfiguring:
  assumes fo: "st_failover (vi_status i) = Some fo" and stage: "fo_stage fo = FailoverStageReconfiguring"
  shows "emits (failover_call e i) (reconcile_failover_reconfiguring e) i"
  unfolding reconcile_failover_reconfiguring_def
proof (intro emits_with_inst emits_case_option emits_bnd emits_if emits_failover_wait emits_now_op emits_ret)
  fix p failed j
  assume p: "failover_primary_process i = Some p"
    and m: "ends (if ns_termination p \<noteq> None then ret True
              else bnd (now_op e) (\<lambda>now.
                   ret (th_transport_failure (process_thresholds (ns_observation p) None now)))) i (Inr failed) j"
  have ji: "j = i" and nf: "failed \<Longrightarrow> node_failed e p"
    using m by (auto simp: node_failed_def elim!: ends_bndE split: if_splits)
  show "emits (failover_call e i) (update_status e (restart_failover e p)) j" if "failed"
    by (intro emits_update_status) (auto intro: restart_failover_update [OF fo stage p] nf that)
  show "emits (failover_call e i) (failover_reconfiguration_ready e) j"
    using ji emits_reconfiguration_ready by simp
  show "emits (failover_call e i) (update_status e (complete_failover e)) k"
    if "ends (failover_reconfiguration_ready e) j (Inr ready) k" "\<not> \<not> ready" for ready k
    using that ji
    by (intro emits_update_status) (auto intro: complete_failover_update [OF fo stage] dest: ends_reconfiguration_ready)
qed (simp_all add: failover_call_reading)

lemma apply_full_stop_update:
  assumes "st_failover (vi_status i) \<noteq> None" and "full_stop_rollout_owns_availability i"
    and "apply_full_stop e b (vi_status i) = Some st"
  shows "failover_update e i (vi_status i) st"
  using assms full_stop [OF assms(2)]
  by (auto simp: failover_update_def apply_full_stop_def failover_core_def [of "vi_status i"] split: option.splits)

lemma reconcile_failover_calls: "emits (failover_call e i) (reconcile_failover e) i"
proof -
  have stop: "emits (failover_call e i) (update_status_partial e (apply_full_stop e)) i"
    if "st_failover (vi_status i) \<noteq> None" "full_stop_rollout_owns_availability i"
    by (intro emits_intros) (auto intro: apply_full_stop_update [OF that])
  have stages: "emits (failover_call e i)
      (case fo_stage fo of
            FailoverStageFencing \<Rightarrow> reconcile_failover_fencing e fo
          | FailoverStageChoosing \<Rightarrow> reconcile_failover_choosing e fo
          | FailoverStagePromoting \<Rightarrow> reconcile_failover_promoting e fo
          | FailoverStageReconfiguring \<Rightarrow> reconcile_failover_reconfiguring e
          | FailoverStageOther _ \<Rightarrow> fail (Plain ''unknown stage of failover'')) i"
    if "st_failover (vi_status i) = Some fo" for fo
    using that by (cases "fo_stage fo") (simp_all add: emits_reconcile_failover_fencing
        emits_reconcile_failover_choosing emits_reconcile_failover_promoting
        emits_reconcile_failover_reconfiguring emits_fail)
  show ?thesis
    unfolding reconcile_failover_def
    by (intro emits_with_inst emits_if emits_ret emits_bnd emits_case_option emits_maybe_start_failure_failover
        stages stop)
qed

section \<open>What holds of every failover\<close>

text \<open>
  Without looking at the world: a candidate may be the primary only while it is being promoted or
  after, it is promoted only with its clients cut off, and its offset was given a deadline first.
\<close>

definition failover_ok :: "failover_status \<Rightarrow> bool" where
  "failover_ok fo \<longleftrightarrow>
     (fo_stage fo = FailoverStagePromoting \<longrightarrow>
        fo_candidate fo \<noteq> None \<and> fo_candidate_app_disabled fo \<and> fo_candidate_clients_killed fo) \<and>
     (fo_candidate_may_be_primary fo \<longrightarrow>
        fo_stage fo = FailoverStagePromoting \<or> fo_stage fo = FailoverStageReconfiguring) \<and>
     (fo_candidate fo = None \<longrightarrow> \<not> fo_candidate_app_disabled fo \<and> \<not> fo_candidate_clients_killed fo)"

lemma set_control_point_fields [simp]:
  "fo_stage (set_control_point s fo) = fo_stage fo"
  "fo_candidate (set_control_point s fo) = fo_candidate fo"
  "fo_candidate_app_disabled (set_control_point s fo) = fo_candidate_app_disabled fo"
  "fo_candidate_clients_killed (set_control_point s fo) = fo_candidate_clients_killed fo"
  "fo_candidate_may_be_primary (set_control_point s fo) = fo_candidate_may_be_primary fo"
  "fo_source (set_control_point s fo) = fo_source fo"
  "fo_source_app_disabled (set_control_point s fo) = fo_source_app_disabled fo"
  "fo_source_clients_killed (set_control_point s fo) = fo_source_clients_killed fo"
  by (simp_all add: set_control_point_def split: option.split)

section \<open>A conflict while a stopped candidate is forgotten\<close>

text \<open>
  The captured pointer: when the first patch meets a conflict and the failover read again still has
  a candidate, the second run of the closure dereferences nil.
\<close>

lemma forget_stopped_candidate_conflict:
  assumes candidate: "st_failover (vi_status i) = Some fo" "fo_candidate fo = Some c"
      "fo_offset_deadline fo = Some deadline" "known_process (vi_status i) c = Some p" "ns_termination p \<noteq> None"
    and conflict: "\<And>h b a. answer_patch_status e h b a = Inl (Kube KubeConflict)"
    and reread: "\<And>h. answer_get_instance e h = Inr i'" "st_failover (vi_status i') = Some fo'"
      "fo_candidate fo' \<noteq> None"
    and attempts: "retry_steps e = Suc (Suc n)"
  shows "outcome (reconcile_failover_choosing e fo) i = Inl Panic"
proof -
  have "st_failover (vi_status i) \<noteq> st_failover (map_failover (\<lambda>_. True) forget_candidate (vi_status i))"
  proof
    assume "st_failover (vi_status i) = st_failover (map_failover (\<lambda>_. True) forget_candidate (vi_status i))"
    then have "fo_candidate fo = fo_candidate (forget_candidate fo)" using candidate(1) by (simp add: map_failover_def)
    then show False using candidate(2) by (simp add: forget_candidate_def)
  qed
  then have changed: "vi_status i \<noteq> map_failover (\<lambda>_. True) forget_candidate (vi_status i)"
    by (metis (no_types))
  obtain c' where c': "fo_candidate fo' = Some c'" using reread(3) by auto
  let ?forgotten = "map_failover (\<lambda>_. True) forget_candidate"
  have first: "forget_stopped_candidate (Some c) (start i) = (Inr None, start (update_vi_status ?forgotten i))"
    using candidate(1,2) by (simp add: forget_stopped_candidate_def with_inst_def bnd_def on_err_def
        modify_status_def ret_def same_identity_def start_def)
  have second: "forget_stopped_candidate None s = (Inl Panic, s)" if "os_inst s = i'" for s
    using reread(2) c' that by (simp add: forget_stopped_candidate_def with_inst_def fail_def)
  have again: "fst (update_attempts e (Suc n) False forget_stopped_candidate None s) = Inl Panic" for s
    by (simp add: update_attempt_def on_err_def bnd_def do_call_def put_inst_def get_inst_def fail_def
        reread(1) second)
  have "fst (update_attempts e (Suc (Suc n)) True forget_stopped_candidate (Some c) (start i)) = Inl Panic"
    using again [of "start (update_vi_status ?forgotten i)\<lparr>os_hist := [PatchStatus i (update_vi_status ?forgotten i)]\<rparr>"]
      changed unfolding update_attempts.simps(2) [of e "Suc n" True]
    by (simp add: update_attempt_def on_err_def bnd_def do_call_def get_inst_def ret_def first conflict
        retry_on_conflict_def del: update_attempts.simps)
  then have "fst (update_status_captured e forget_stopped_candidate (Some c) (start i)) = Inl Panic"
    unfolding update_status_captured_def on_err_def attempts by (auto split: prod.splits sum.splits)
  then have captured: "fst (bnd (update_status_captured e forget_stopped_candidate (Some c)) k (start i)) = Inl Panic"
    for k :: "bool \<Rightarrow> result op"
    unfolding bnd_def on_err_def by (auto split: prod.splits sum.splits)
  show ?thesis
    using captured candidate by (simp add: outcome_def reconcile_failover_choosing_def with_inst_def)
qed

end
