(* ===== verification/Failover_Passes.thy ===== *)
theory Failover_Passes
  imports Failover_Lemmas
begin

text \<open>
  What the status patches of real passes of \<open>reconcileFailover\<close> keep, the retries after a
  conflict included: the primary changes only with evidence, and a failover that started from none
  is never saved as being promoted without the fencing of its candidate.
\<close>

section \<open>The primary\<close>

text \<open>The failover the pass runs is promoting \<open>p\<close>, which lives and reports itself as the primary.\<close>

definition promoted_to :: "valkey_instance \<Rightarrow> valkey_instance \<Rightarrow> instance_status \<Rightarrow> bool" where
  "promoted_to i b st \<longleftrightarrow>
     (\<exists>f c p. st_failover (vi_status i) = Some f \<and> fo_stage f = FailoverStagePromoting \<and>
        fo_candidate f = Some c \<and> known_process (vi_status i) c = Some p \<and>
        ns_termination p = None \<and> ns_role p = NodeRolePrimary \<and>
        (\<exists>g. st_failover (vi_status b) = Some g \<and> fo_candidate g = Some c) \<and>
        st_primary_ordinal st = Some (ns_ordinal p) \<and> primary_identity st = process_identity p)"

definition emptied_safely :: "env \<Rightarrow> instance_status \<Rightarrow> instance_status \<Rightarrow> bool" where
  "emptied_safely e st st' \<longleftrightarrow>
     st_primary_ordinal st' = None \<and> st_failover st' = None \<and>
     (\<forall>p\<in>set (st_nodes st). ns_termination p = None \<longrightarrow>
        ns_role p = NodeRoleReplica \<and> \<not> ns_app_enabled p \<and> ns_observation p = None \<and>
        ns_app_password_version p = ac_password_version (accepted_of st) \<and>
        (\<exists>r. ns_replication p = Some r \<and> rp_synced_at r = None \<and> rp_offset r \<le> 1)) \<and>
     (\<forall>p\<in>set (st_previous_processes st). ns_termination p = None \<longrightarrow>
        (\<exists>f. st_failover st = Some f \<and>
           (fo_source f = process_identity p \<and> fo_source_app_disabled f \<and> fo_source_clients_killed f \<or>
            fo_candidate f = Some (process_identity p) \<and> fo_candidate_app_disabled f \<and>
              fo_candidate_clients_killed f))) \<and>
     ((\<exists>p. known_process st (primary_identity st) = Some p \<and> ns_termination p \<noteq> None) \<or>
      (\<exists>f since h. st_failover st = Some f \<and> fo_reason f = FailoverReasonFailure \<and>
         fo_empty_since f = Some since \<and> since + EmptyPrimaryTimeout \<le> answer_clock e h))"

definition same_primary :: "instance_status \<Rightarrow> instance_status \<Rightarrow> bool" where
  "same_primary st st' \<longleftrightarrow>
     st_primary_ordinal st' = st_primary_ordinal st \<and> primary_identity st' = primary_identity st"

definition keeps_failover_ok :: "failover_status option \<Rightarrow> failover_status option \<Rightarrow> bool" where
  "keeps_failover_ok x y \<longleftrightarrow> (case x of None \<Rightarrow> True | Some fo \<Rightarrow> failover_ok fo) \<longrightarrow>
     (case y of None \<Rightarrow> True | Some fo \<Rightarrow> failover_ok fo)"

definition failover_patch :: "env \<Rightarrow> valkey_instance \<Rightarrow> valkey_instance \<Rightarrow> instance_status \<Rightarrow> bool" where
  "failover_patch e i b st \<longleftrightarrow>
     (same_primary (vi_status b) st \<or> promoted_to i b st \<or> emptied_safely e (vi_status b) st) \<and>
     (st_failover (vi_status b) = st_failover (vi_status i) \<longrightarrow>
        keeps_failover_ok (st_failover (vi_status b)) (st_failover st))"

fun patch_ok :: "env \<Rightarrow> valkey_instance \<Rightarrow> call \<Rightarrow> bool" where
  "patch_ok e i (PatchStatus b a) = failover_patch e i b (vi_status a)"
| "patch_ok e i _ = True"

lemma patch_ok_simps [simp]:
  "reading c \<Longrightarrow> patch_ok e i c" "fencing_call j p c \<Longrightarrow> patch_ok e i c"
  "role_label_patch j p c \<Longrightarrow> patch_ok e i c"
  by (cases c; simp add: fencing_call_def role_label_patch_def)+

lemma snd_core [simp]: "snd (failover_core (vi_status b)) = (st_primary_ordinal (vi_status b), primary_identity (vi_status b))"
  by (simp add: failover_core_def)

lemma keeps_failover_ok_refl [simp]: "keeps_failover_ok x x" "keeps_failover_ok x None"
  by (simp_all add: keeps_failover_ok_def)

lemma same_primary_core [simp]:
  "same_primary st st' \<longleftrightarrow> snd (failover_core st') = snd (failover_core st)"
  by (auto simp: same_primary_def failover_core_def)

lemma failover_patch_core:
  assumes "snd (failover_core st) = snd (failover_core (vi_status b))"
    and "st_failover (vi_status b) = st_failover (vi_status i) \<Longrightarrow>
      keeps_failover_ok (st_failover (vi_status i)) (st_failover st)"
  shows "failover_patch e i b st"
  using assms by (auto simp: failover_patch_def)

lemma failover_patch_same: "failover_core st = failover_core (vi_status b) \<Longrightarrow> failover_patch e i b st"
  by (auto simp: failover_patch_def failover_core_def)

lemma failover_patch_map:
  assumes "\<And>fo. st_failover (vi_status i) = Some fo \<Longrightarrow> p fo \<Longrightarrow> failover_ok fo \<Longrightarrow> failover_ok (f fo)"
  shows "failover_patch e i b (map_failover p f (vi_status b))"
  using assms by (auto simp: failover_patch_def map_failover_def failover_core_def keeps_failover_ok_def primary_identity_def split: option.split)

lemma patches_failover:
  assumes "\<And>b. failover_patch e i b (f b (vi_status b))"
  shows "emits (patch_ok e i) (bnd (update_status e f) (\<lambda>changed. ret (requeue_if changed))) j"
  by (intro emits_intros) (use assms in auto)

lemma waits_failover: "emits (patch_ok e i) (failover_wait e reason message) j"
  unfolding failover_wait_def apply_failover_wait_def
  by (intro emits_intros) (auto intro!: failover_patch_same split: option.split)

section \<open>The handlers\<close>

lemma empty_recovery_safe_isolated:
  assumes "empty_recovery_safe b"
  shows "emptied_safely e (vi_status b) (apply_empty_recovery e t j (vi_status b))"
  using assms unfolding emptied_safely_def apply_empty_recovery_def empty_recovery_safe_def Let_def
  by (auto simp: mark_unavailable_def clear_primary_identity_def empty_replica_def has_unterminated_previous_process_def list_all_iff list_ex_iff
      emptyReplicaInitialOffset_def split: if_splits option.splits)

lemma empty_primary_elapsed:
  assumes "th_empty_primary (process_thresholds None since now)"
  shows "\<exists>t. since = Some t \<and> t + EmptyPrimaryTimeout \<le> now"
  using assms time_sub_ge [of EmptyPrimaryTimeout] 
  by (auto simp: process_thresholds_def elapsed_def EmptyPrimaryTimeout_def minute_def second_def split: option.splits)

lemma empty_recovery_waiting_isolated:
  assumes "empty_recovery_waiting_safe b fo" and "st_failover (vi_status b) = Some fo"
    and "th_empty_primary (process_thresholds None (fo_empty_since fo) (answer_clock e h))"
  shows "emptied_safely e (vi_status b) (apply_empty_recovery e t j (vi_status b))"
  using assms(1,2) empty_primary_elapsed [OF assms(3)]
  unfolding emptied_safely_def apply_empty_recovery_def empty_recovery_waiting_safe_def Let_def
  by (auto simp: mark_unavailable_def clear_primary_identity_def empty_replica_def list_all_iff same_identity_def
      emptyReplicaInitialOffset_def split: if_splits option.splits)

lemma ends_emptied:
  assumes "ends (empty_recovery_closure e timed_out) b (Inr ()) a" and "vi_status b \<noteq> vi_status a"
  shows "failover_patch e i b (vi_status a)"
proof -
  have "emptied_safely e (vi_status b) (vi_status a)"
    using assms unfolding empty_recovery_closure_def
    by (auto simp: empty_recovery_safe_isolated elim!: ends_bndE split: if_splits option.splits
        intro: empty_recovery_waiting_isolated)
  moreover have "st_failover (vi_status a) = None" using calculation by (simp add: emptied_safely_def)
  ultimately show ?thesis by (simp add: failover_patch_def)
qed

lemma patches_begin_empty_recovery: "emits (patch_ok e i) (begin_empty_recovery e timed_out) j"
  unfolding begin_empty_recovery_def empty_recovery_closure_def
  by (intro emits_intros) (auto intro: ends_emptied simp flip: empty_recovery_closure_def)

lemma failover_ok_new: "failover_ok (new_failover reason t s None)"
  by (simp add: failover_ok_def new_failover_def)

lemma patches_start_failure_failover: "emits (patch_ok e i) (start_failure_failover e p) j"
  unfolding start_failure_failover_def
  by (intro emits_intros) (auto intro!: failover_patch_core simp: keeps_failover_ok_def failover_ok_new)

lemma patches_maybe_start: "emits (patch_ok e i) (maybe_start_failure_failover e) j"
  unfolding maybe_start_failure_failover_def
  by (intro emits_intros patches_begin_empty_recovery patches_start_failure_failover) simp_all

lemma patches_fencing:
  assumes fo: "st_failover (vi_status i) = Some fo" and stage: "fo_stage fo = FailoverStageFencing"
  shows "emits (patch_ok e i) (reconcile_failover_fencing e fo) j"
proof -
  have choosing: "failover_patch e i b (apply_choosing s (vi_status b))" for b s
    using fo stage by (auto simp: failover_patch_def apply_choosing_def
        keeps_failover_ok_def failover_ok_def set_failover_stage_def split: option.split)
  have fenced: "failover_patch e i b (apply_source_fenced s (vi_status b))" for b s
    unfolding apply_source_fenced_def by (intro failover_patch_map) (simp add: failover_ok_def)
  show ?thesis
    unfolding reconcile_failover_fencing_def fence_failover_source_def begin_choosing_def source_identity_unknown_def
    by (intro patches_failover waits_failover emits_intros choosing fenced) simp_all
qed

lemma patches_empty_recovery_wait: "emits (patch_ok e i) (reconcile_empty_recovery_wait e) j"
  unfolding reconcile_empty_recovery_wait_def apply_empty_since_def
  by (intro patches_failover waits_failover emits_intros patches_begin_empty_recovery)
    (auto intro!: failover_patch_map simp: failover_ok_def)

lemma patches_choosing:
  assumes fo: "st_failover (vi_status i) = Some fo" and stage: "fo_stage fo = FailoverStageChoosing"
  shows "emits (patch_ok e i) (reconcile_failover_choosing e fo) i"
proof -
  have chosen: "failover_patch e i b (apply_candidate s c t (vi_status b))" if "fo_candidate fo = None" for b s c t
    unfolding apply_candidate_def using fo stage that by (intro failover_patch_map) (auto simp: failover_ok_def)
  have deadline: "failover_patch e i b (apply_offset_deadline s t (vi_status b))" for b s t
    unfolding apply_offset_deadline_def using fo stage by (intro failover_patch_map) (auto simp: failover_ok_def)
  have forget: "failover_patch e i b (map_failover (\<lambda>_. True) forget_candidate (vi_status b))" for b
    using fo stage by (intro failover_patch_map) (auto simp: failover_ok_def forget_candidate_def)
  have fenced: "failover_patch e i b (apply_candidate_fenced c (vi_status b))" for b c
    unfolding apply_candidate_fenced_def
    by (intro failover_patch_map) (auto simp: failover_ok_def same_candidate_def split: option.splits)
  have go: "failover_patch e i b (apply_promoting (vi_status b))"
    if "fo_candidate fo \<noteq> None" "fo_candidate_app_disabled fo" "fo_candidate_clients_killed fo" for b
    using fo that by (auto simp: failover_patch_def apply_promoting_def
        keeps_failover_ok_def failover_ok_def set_failover_stage_def split: option.split)
  have forgets: "vi_status a = map_failover (\<lambda>_. True) forget_candidate (vi_status b)"
    if "ends (forget_stopped_candidate x) b (Inr x') a" "vi_status b \<noteq> vi_status a" for x x' b a
    using that unfolding forget_stopped_candidate_def by (auto elim!: ends_bndE split: option.splits if_splits)
  have stopped: "emits (patch_ok e i) (update_status_captured e forget_stopped_candidate x) i" for x
  proof (rule emits_update_captured)
    show "emits (patch_ok e i) (forget_stopped_candidate c) b" for c b
      unfolding forget_stopped_candidate_def by (intro emits_intros)
    show "patch_ok e i (PatchStatus b a)"
      if "ends (forget_stopped_candidate x) b (Inr x') a" "vi_status b \<noteq> vi_status a" for x x' b a
      using forgets [OF that] forget [of b] by simp
  qed simp
  show ?thesis
    unfolding reconcile_failover_choosing_def choose_candidate_def set_offset_deadline_def
      fence_failover_candidate_def await_offset_def source_identity_unknown_def candidate_identity_unknown_def
    by (intro patches_failover waits_failover emits_intros patches_begin_empty_recovery patches_empty_recovery_wait
        stopped chosen fenced go)
      (auto intro: chosen deadline)
qed

lemma patches_promoting:
  assumes fo: "st_failover (vi_status i) = Some fo" and stage: "fo_stage fo = FailoverStagePromoting"
  shows "emits (patch_ok e i) (reconcile_failover_promoting e fo) i"
proof -
  have stopped: "failover_patch e i b (apply_candidate_stopped (vi_status b))" for b
    unfolding apply_candidate_stopped_def
    by (intro failover_patch_map) (auto simp: failover_ok_def forget_candidate_def set_failover_stage_def)
  have mark: "failover_patch e i b
      (map_failover (\<lambda>_. True) (\<lambda>fo. fo\<lparr>fo_candidate_may_be_primary := True\<rparr>) (vi_status b))" for b
    using fo stage by (intro failover_patch_map) (auto simp: failover_ok_def)
  have promoted: "failover_patch e i b (apply_promoted c p (vi_status b))"
    if "fo_candidate fo = Some c" "known_process (vi_status i) c = Some p" "ns_termination p = None"
      "ns_role p = NodeRolePrimary" for b c p
    using that fo stage by (auto simp: failover_patch_def apply_promoted_def promoted_to_def same_candidate_def
        same_identity_def keeps_failover_ok_def failover_ok_def set_failover_stage_def primary_identity_def
        failover_core_def process_identity_def set_primary_identity_def split: option.splits)
  show ?thesis
    unfolding reconcile_failover_promoting_def promote_candidate_def promote_process_def Let_def
      candidate_identity_unknown_def
    by (intro patches_failover waits_failover emits_intros stopped mark promoted) simp_all
qed

lemma patches_reconfiguring:
  assumes fo: "st_failover (vi_status i) = Some fo" and stage: "fo_stage fo = FailoverStageReconfiguring"
  shows "emits (patch_ok e i) (reconcile_failover_reconfiguring e) i"
proof -
  have restart: "failover_patch e i b (restart_failover e p j (vi_status b))" for b p j
    by (auto simp: failover_patch_def restart_failover_def keeps_failover_ok_def failover_ok_def
        forget_candidate_def split: option.split)
  have complete: "failover_patch e i b (complete_failover e j (vi_status b))" for b j
    by (auto simp: failover_patch_def complete_failover_def)
  show ?thesis
    unfolding reconcile_failover_reconfiguring_def failover_reconfiguration_ready_def Let_def
    by (intro patches_failover waits_failover emits_intros restart complete) simp_all
qed

lemma patches_full_stop: "apply_full_stop e b (vi_status b) = Some st \<Longrightarrow> failover_patch e i b st"
  by (auto simp: apply_full_stop_def failover_patch_def keeps_failover_ok_def split: option.splits)

lemma reconcile_failover_patches: "emits (patch_ok e i) (reconcile_failover e) i"
  unfolding reconcile_failover_def
  by (intro emits_intros patches_maybe_start)
    (auto split: failover_stage.split intro: patches_full_stop patches_fencing patches_choosing patches_promoting
      patches_reconfiguring emits_fail)

section \<open>Passes one after another\<close>

text \<open>
  The failovers that can be on record: none, the one a rollout has just begun for its primary
  (\<open>rollout.go\<close>), and what any pass of \<open>reconcileFailover\<close>, on any object and in any world, patches
  where it found one of them. A retry counts as long as the object it has read again still holds
  the failover the pass started with.
\<close>

inductive failover_saved :: "failover_status option \<Rightarrow> bool" where
  none: "failover_saved None"
| begun: "failover_saved (Some (new_failover FailoverReasonResize t source (Some c)))"
| patched: "failover_saved (st_failover (vi_status i)) \<Longrightarrow>
    PatchStatus b a \<in> set (calls (reconcile_failover e) i) \<Longrightarrow>
    st_failover (vi_status b) = st_failover (vi_status i) \<Longrightarrow>
    failover_saved (st_failover (vi_status a))"

lemma failover_saved_ok: "failover_saved x \<Longrightarrow> keeps_failover_ok None x"
proof (induction rule: failover_saved.induct)
  case (begun t source c)
  then show ?case by (simp add: keeps_failover_ok_def failover_ok_def new_failover_def)
next
  case (patched i b a e)
  have "failover_patch e i b (vi_status a)"
    using emits_calls [OF reconcile_failover_patches patched(2)] by simp
  then show ?case using patched(3,4) by (auto simp: failover_patch_def keeps_failover_ok_def)
qed simp

lemma failover_primary_patch:
  assumes "PatchStatus b a \<in> set (calls (reconcile_failover e) i)"
  shows "same_primary (vi_status b) (vi_status a) \<or> promoted_to i b (vi_status a) \<or>
    emptied_safely e (vi_status b) (vi_status a)"
  using emits_calls [OF reconcile_failover_patches assms] by (simp add: failover_patch_def del: same_primary_core)

section \<open>A conflict while the promotion is saved\<close>

lemma await_offset_conflict:
  assumes "offset_ready fo p"
    and "st_failover (vi_status i) = Some fo" and "fo_stage fo \<noteq> FailoverStagePromoting"
    and "st_failover (vi_status i') = Some fo'" and "fo_stage fo' \<noteq> FailoverStagePromoting"
    and "\<And>h a. answer_patch_status e h i a = Inl (Kube KubeConflict)"
    and "\<And>h. answer_get_instance e h = Inr i'" and "\<And>h a. answer_patch_status e h i' a = Inr a"
    and "retry_steps e = Suc (Suc n)"
  shows "outcome (await_offset e fo deadline p) i = Inr 1"
    "final_inst (await_offset e fo deadline p) i = update_vi_status apply_promoting i'"
proof -
  have changed: "apply_promoting (vi_status j) \<noteq> vi_status j"
    if "st_failover (vi_status j) = Some x" "fo_stage x \<noteq> FailoverStagePromoting" for j x
  proof
    assume "apply_promoting (vi_status j) = vi_status j"
    then have "fo_stage (the (st_failover (apply_promoting (vi_status j)))) = fo_stage x" using that(1) by simp
    then show False using that by (simp add: apply_promoting_def set_failover_stage_def)
  qed
  have *: "update_status e (\<lambda>_. apply_promoting) (start i\<lparr>os_hist := [ReadClock]\<rparr>) = (Inr True,
    \<lparr>os_inst = update_vi_status apply_promoting i', os_hist = [ReadClock,
      PatchStatus i (update_vi_status apply_promoting i), GetInstance,
      PatchStatus i' (update_vi_status apply_promoting i')]\<rparr>)"
    using update_status_second_attempt [where f = "\<lambda>_. apply_promoting", OF assms(6-8) changed [OF assms(2,3)] changed [OF assms(4,5)] assms(9),
        of "start i\<lparr>os_hist := [ReadClock]\<rparr>"] by simp
  show "outcome (await_offset e fo deadline p) i = Inr 1"
    "final_inst (await_offset e fo deadline p) i = update_vi_status apply_promoting i'"
    using * assms(1)
    by (simp_all add: outcome_def final_inst_def await_offset_def bnd_def on_err_def now_op_def do_call_def
        ret_def requeue_if_def)
qed

end
