(* ===== verification/Topology.thy ===== *)
theory Topology
  imports Failover_Lemmas
begin

text \<open>
  The topology of an HA instance (\<open>topology.go\<close>): the first primary of an empty instance and the
  replicas that follow the primary.
\<close>

section \<open>The first primary\<close>

definition initial_primary_ready :: "valkey_instance \<Rightarrow> node_status \<Rightarrow> bool" where
  "initial_primary_ready i target \<longleftrightarrow>
     ns_termination target = None \<and> ns_observation target = None \<and> \<not> ns_app_enabled target \<and>
     ns_app_password_version target = ac_password_version (accepted_of (vi_status i))"

definition promote_initial_primary :: "env \<Rightarrow> node_status \<Rightarrow> result op" where
  "promote_initial_primary e target =
     on_err (current_process_pod e target)
       (\<lambda>er. if is_not_found er then ret HealthCheckInterval else fail (Wrapped er))
     (\<lambda>pod.
     bnd (process_credentials e) (\<lambda>(credentials, _).
     bnd (promote_process e pod credentials (ns_run_id target)) (\<lambda>state.
     if ps_run_id state \<noteq> ns_run_id target \<or> ps_app_enabled state \<or>
        ps_role state \<noteq> node_role_string NodeRoleReplica
     then ret HealthCheckInterval
     else ret (requeue_if True))))"

definition reconcile_initial_primary :: "env \<Rightarrow> result op" where
  "reconcile_initial_primary e =
     with_inst (\<lambda>i.
     case node_status_at_ordinal (st_nodes (vi_status i)) 0 of
       None \<Rightarrow> ret HealthCheckInterval
     | Some target \<Rightarrow>
         if \<not> initial_primary_ready i target then ret HealthCheckInterval
         else if st_primary_ordinal (vi_status i) = None \<or> \<not> primary_identity_matches i target
         then if st_primary_ordinal (vi_status i) \<noteq> None \<and> \<not> initial_primary_replacement_safe i target
              then ret HealthCheckInterval
              else bnd (update_status e (\<lambda>_ st. (set_primary_identity target st)\<lparr>st_primary_ordinal := Some 0\<rparr>))
                     (\<lambda>changed. ret (requeue_if changed))
         else if ns_role target = NodeRolePrimary then ret 0
         else if ns_role target \<noteq> NodeRoleReplica then ret HealthCheckInterval
         else promote_initial_primary e target)"

section \<open>The replicas\<close>

definition follow_process :: "env \<Rightarrow> kube_pod \<Rightarrow> service_credentials \<Rightarrow> string \<Rightarrow> string \<Rightarrow> int \<Rightarrow> process_state op" where
  "follow_process e pod c run_id host port =
     (let address = valkey_address (pod_ip pod); password = cr_operator_password c in
      do_call (FollowProcess address password run_id host port)
        (\<lambda>h. answer_follow e h address password run_id host port))"

definition fenced_source_may_follow :: "valkey_instance \<Rightarrow> node_status \<Rightarrow> bool" where
  "fenced_source_may_follow i replica =
     (case st_failover (vi_status i) of None \<Rightarrow> False
      | Some fo \<Rightarrow> fo_stage fo = FailoverStageReconfiguring \<and>
                   same_identity (fo_source fo) (process_identity replica) \<and> \<not> ns_app_enabled replica)"

definition must_follow :: "valkey_instance \<Rightarrow> node_status \<Rightarrow> kube_pod \<Rightarrow> node_status \<Rightarrow> bool" where
  \<comment> \<open>the nodes the loop does not skip before it reads their pod\<close>
  "must_follow i primary primary_pod replica \<longleftrightarrow>
     ns_ordinal replica \<noteq> ns_ordinal primary \<and> ns_termination replica = None \<and>
     ns_observation replica = None \<and>
     (ns_role replica = NodeRoleReplica \<or> fenced_source_may_follow i replica) \<and>
     ns_app_password_version replica = ac_password_version (accepted_of (vi_status i)) \<and>
     \<not> (case ns_replication replica of None \<Rightarrow> False
        | Some r \<Rightarrow> rp_upstream_host r = pod_ip primary_pod \<and> rp_upstream_port r = valkeyPort)"

definition reconcile_replica :: "env \<Rightarrow> valkey_instance \<Rightarrow> node_status \<Rightarrow> kube_pod \<Rightarrow> node_status \<Rightarrow> result option op" where
  \<comment> \<open>one round of the loop: \<open>Some r\<close> returns from the handler\<close>
  "reconcile_replica e i primary primary_pod replica =
     (if \<not> must_follow i primary primary_pod replica then ret None
      else on_err (current_process_pod e replica)
        (\<lambda>er. if is_not_found er then ret None else fail (Wrapped er))
      (\<lambda>pod.
      bnd (process_credentials e) (\<lambda>(credentials, _).
      bnd (follow_process e pod credentials (ns_run_id replica) (pod_ip primary_pod) valkeyPort) (\<lambda>state.
      if ps_run_id state \<noteq> ns_run_id replica \<or> ps_role state \<noteq> node_role_string NodeRoleReplica \<or>
         ps_app_enabled state
      then ret (Some HealthCheckInterval)
      else ret (Some (requeue_if True))))))"

definition primary_can_lead :: "valkey_instance \<Rightarrow> node_status \<Rightarrow> bool" where
  "primary_can_lead i primary \<longleftrightarrow>
     ns_role primary = NodeRolePrimary \<and> ns_termination primary = None \<and>
     ns_observation primary = None \<and> primary_identity_matches i primary"

definition reconcile_replicas :: "env \<Rightarrow> result op" where
  "reconcile_replicas e =
     with_inst (\<lambda>i.
     case Option.bind (st_primary_ordinal (vi_status i)) (node_status_at_ordinal (st_nodes (vi_status i))) of
       None \<Rightarrow> ret HealthCheckInterval
     | Some primary \<Rightarrow>
         if \<not> primary_can_lead i primary then ret HealthCheckInterval
         else on_err (current_process_pod e primary)
           (\<lambda>er. if is_not_found er then ret HealthCheckInterval else fail (Wrapped er))
         (\<lambda>primary_pod.
         bnd (for_each (reconcile_replica e i primary primary_pod) (st_nodes (vi_status i))) (\<lambda>r.
         ret (case r of None \<Rightarrow> 0 | Some result \<Rightarrow> result))))"

definition reconcile_topology :: "env \<Rightarrow> result op" where
  "reconcile_topology e =
     bnd deref_accepted (\<lambda>accepted.
     if ac_mode accepted \<noteq> ValkeyModeHA then ret 0
     else with_inst (\<lambda>i.
       if empty_primary_assignment_allowed i
       then bnd (reconcile_initial_primary e) (\<lambda>result.
            with_inst (\<lambda>j.
            if result \<noteq> 0 \<or> st_primary_ordinal (vi_status j) = None then ret result
            else reconcile_replicas e))
       else reconcile_replicas e))"

section \<open>What it does\<close>

text \<open>
  Where a primary may be named at all: before the first start, while a full stop for less memory is
  being started again, or after every process has stopped.
\<close>

definition may_name_primary :: "instance_status \<Rightarrow> bool" where
  "may_name_primary st \<longleftrightarrow>
     \<not> st_initialized st \<or>
     (\<exists>ro ap. st_rollout st = Some ro \<and> st_applied st = Some ap \<and> ro_ram_gb ro < ap_ram_gb ap \<and>
        (ro_stage ro = RolloutStageStarting \<or> ro_stage ro = RolloutStageVerifying)) \<or>
     st_reason st = ''EMPTY_RECOVERY'' \<and>
     (\<exists>c\<in>set (st_conditions st). cd_type c = conditionTypeDataLoss \<and> cd_status c = ConditionTrue \<and>
        cd_reason c = ''AllProcessesStopped'')"

text \<open>The process that may be named: it lives, answers, serves nobody and has the accepted password.\<close>

definition closed_process :: "instance_status \<Rightarrow> node_status \<Rightarrow> bool" where
  "closed_process st p \<longleftrightarrow> p \<in> set (st_nodes st) \<and> ns_termination p = None \<and> ns_observation p = None \<and>
     \<not> ns_app_enabled p \<and> (\<exists>ac. st_accepted st = Some ac \<and> ns_app_password_version p = ac_password_version ac)"

text \<open>The status names exactly this process as the primary.\<close>

definition names_primary :: "instance_status \<Rightarrow> node_status \<Rightarrow> bool" where
  "names_primary st p \<longleftrightarrow> st_primary_ordinal st = Some (ns_ordinal p) \<and> primary_identity st = process_identity p"

definition stopped_primary :: "instance_status \<Rightarrow> bool" where
  "stopped_primary st \<longleftrightarrow>
     (\<exists>p\<in>set (st_previous_processes st). names_primary st p \<and> ns_termination p \<noteq> None)"

definition live_primary :: "instance_status \<Rightarrow> node_status \<Rightarrow> bool" where
  "live_primary st p \<longleftrightarrow> p \<in> set (st_nodes st) \<and> ns_role p = NodeRolePrimary \<and> ns_termination p = None \<and>
     ns_observation p = None \<and> (accepted_mode_is st ValkeyModeSingle \<or> names_primary st p)"

definition may_follow :: "instance_status \<Rightarrow> node_status \<Rightarrow> bool" where
  "may_follow st p \<longleftrightarrow> p \<in> set (st_nodes st) \<and> ns_termination p = None \<and> ns_observation p = None \<and>
     ns_app_password_version p = ac_password_version (accepted_of st) \<and>
     (ns_role p = NodeRoleReplica \<or>
      \<not> ns_app_enabled p \<and> (\<exists>fo. st_failover st = Some fo \<and> fo_stage fo = FailoverStageReconfiguring \<and>
         fo_source fo = process_identity p))"

fun topology_call :: "env \<Rightarrow> valkey_instance \<Rightarrow> call \<Rightarrow> bool" where
  "topology_call e i (PatchStatus b a) =
     (may_name_primary (vi_status i) \<and> (st_primary_ordinal (vi_status i) = None \<or> stopped_primary (vi_status i)) \<and>
      (\<exists>p. closed_process (vi_status i) p \<and> ns_ordinal p = 0 \<and> \<not> names_primary (vi_status i) p \<and>
         vi_status a = set_primary_identity p (vi_status b)))"
| "topology_call e i (PromoteProcess address password run_id) =
     (may_name_primary (vi_status i) \<and>
      (\<exists>p pod. closed_process (vi_status i) p \<and> ns_ordinal p = 0 \<and> names_primary (vi_status i) p \<and>
         ns_role p = NodeRoleReplica \<and> pod_of_process i p pod \<and> address = valkey_address (pod_ip pod) \<and>
         run_id = ns_run_id p))"
| "topology_call e i (FollowProcess address password run_id host port) =
     (\<exists>j primary primary_pod replica pod. fresh e i j \<and> live_primary (vi_status j) primary \<and>
        pod_of_process j primary primary_pod \<and> host = pod_ip primary_pod \<and> port = 6379 \<and>
        may_follow (vi_status j) replica \<and> ns_ordinal replica \<noteq> ns_ordinal primary \<and>
        pod_of_process j replica pod \<and> address = valkey_address (pod_ip pod) \<and> run_id = ns_run_id replica)"
| "topology_call e i c = reading c"

lemma node_at_ordinal: "node_status_at_ordinal nodes n = Some p \<Longrightarrow> p \<in> set nodes \<and> ns_ordinal p = n"
  by (auto simp: node_status_at_ordinal_def dest: find_Some_set)

lemma primary_identity_matches_names:
  "\<not> accepted_mode_is (vi_status i) ValkeyModeSingle \<Longrightarrow>
   primary_identity_matches i p \<longleftrightarrow> names_primary (vi_status i) p"
  by (auto simp: primary_identity_matches_def names_primary_def primary_identity_def process_identity_def Let_def)

text \<open>What the guards of the handler establish.\<close>

definition initial_target :: "valkey_instance \<Rightarrow> node_status \<Rightarrow> bool" where
  "initial_target i target \<longleftrightarrow> empty_primary_assignment_allowed i \<and> accepted_mode_is (vi_status i) ValkeyModeHA \<and>
     node_status_at_ordinal (st_nodes (vi_status i)) 0 = Some target \<and> initial_primary_ready i target"

lemma initial_target_facts:
  assumes "initial_target i target"
  shows "may_name_primary (vi_status i)" "closed_process (vi_status i) target" "ns_ordinal target = 0"
    "primary_identity_matches i target \<longleftrightarrow> names_primary (vi_status i) target"
proof -
  have mode: "\<not> accepted_mode_is (vi_status i) ValkeyModeSingle" "ac_mode (accepted_of (vi_status i)) = ValkeyModeHA"
    "\<exists>ac. st_accepted (vi_status i) = Some ac \<and> accepted_of (vi_status i) = ac"
    using assms by (auto simp: initial_target_def accepted_mode_is_def accepted_of_def split: option.splits)
  show "may_name_primary (vi_status i)"
    using assms mode(2) unfolding initial_target_def may_name_primary_def empty_primary_assignment_allowed_def Let_def
    by (auto simp: rollout_requires_full_stop_def rollout_stage_in_def find_condition_def
        split: if_splits option.splits dest: find_Some_set)
  show "closed_process (vi_status i) target"
    using assms mode(3) by (auto simp: initial_target_def closed_process_def initial_primary_ready_def dest: node_at_ordinal)
  show "ns_ordinal target = 0" using assms by (auto simp: initial_target_def dest: node_at_ordinal)
  show "primary_identity_matches i target \<longleftrightarrow> names_primary (vi_status i) target"
    by (rule primary_identity_matches_names [OF mode(1)])
qed

lemma replacement_safe_stopped: "initial_primary_replacement_safe i target \<Longrightarrow> stopped_primary (vi_status i)"
  by (auto simp: initial_primary_replacement_safe_def stopped_primary_def names_primary_def Let_def
      primary_identity_def process_identity_def split: if_splits option.splits dest!: find_Some_set) (rule bexI, simp_all)

lemma primary_can_lead_live:
  assumes "primary_can_lead j p" and "p \<in> set (st_nodes (vi_status j))"
  shows "live_primary (vi_status j) p"
  using assms primary_identity_matches_names [of j p] by (auto simp: primary_can_lead_def live_primary_def)

lemma must_follow_may: "must_follow j p pod r \<Longrightarrow> r \<in> set (st_nodes (vi_status j)) \<Longrightarrow>
    may_follow (vi_status j) r \<and> ns_ordinal r \<noteq> ns_ordinal p"
  by (auto simp: must_follow_def may_follow_def fenced_source_may_follow_def same_identity_def split: option.splits)

lemma topology_call_reading: "reading c \<Longrightarrow> topology_call e i c"
  by (cases c) simp_all

lemma emits_promote_initial_primary:
  assumes "initial_target i target" and "primary_identity_matches i target" and "ns_role target = NodeRoleReplica"
  shows "emits (topology_call e i) (promote_initial_primary e target) i"
  unfolding promote_initial_primary_def
proof (intro emits_on_err emits_bnd emits_current_process_pod emits_process_credentials emits_if
    emits_fail emits_ret emits_case_prod)
  fix pod j x k a b
  assume "ends (current_process_pod e target) i (Inr pod) j" and "ends (process_credentials e) j (Inr x) k"
  then have "k = i" "pod_of_process i target pod"
    using ends_current_process_pod ends_process_credentials by blast+
  then show "emits (topology_call e i) (promote_process e pod a (ns_run_id target)) k"
    unfolding promote_process_def Let_def using assms initial_target_facts [OF assms(1)]
    by (intro emits_intros) auto
qed (simp_all add: topology_call_reading)

lemma emits_reconcile_initial_primary:
  assumes "empty_primary_assignment_allowed i" and "accepted_mode_is (vi_status i) ValkeyModeHA"
  shows "emits (topology_call e i) (reconcile_initial_primary e) i"
proof -
  have target: "initial_target i t" if "node_status_at_ordinal (st_nodes (vi_status i)) 0 = Some t"
    "initial_primary_ready i t" for t
    using that assms by (simp add: initial_target_def)
  have same: "(set_primary_identity t st)\<lparr>st_primary_ordinal := Some 0\<rparr> = set_primary_identity t st"
    if "ns_ordinal t = 0" for t st
    using that by (simp add: set_primary_identity_def)
  have assign: "emits (topology_call e i) (update_status e
      (\<lambda>_ st. (set_primary_identity t st)\<lparr>st_primary_ordinal := Some 0\<rparr>)) i"
    if "initial_target i t" "st_primary_ordinal (vi_status i) = None \<or> initial_primary_replacement_safe i t"
      "st_primary_ordinal (vi_status i) = None \<or> \<not> primary_identity_matches i t" for t
    using that(2,3) initial_target_facts [OF that(1)] same [of t] replacement_safe_stopped [of i t]
    by (intro emits_update_status) (auto simp: names_primary_def)
  show ?thesis
    unfolding reconcile_initial_primary_def
    by (intro emits_with_inst emits_case_option emits_if emits_ret emits_bnd assign emits_promote_initial_primary target)
      auto
qed

lemma ends_promote_initial_primary: "ends (promote_initial_primary e target) i r j \<Longrightarrow> j = i"
  unfolding promote_initial_primary_def
  by (auto elim!: ends_on_errE ends_bndE split: if_splits
      dest!: ends_current_process_pod_Inl ends_process_credentials ends_promote_process)

lemma ends_reconcile_initial_primary:
  "ends (reconcile_initial_primary e) i (Inr 0) j \<Longrightarrow> fresh e i j"
  unfolding reconcile_initial_primary_def
  by (auto elim!: ends_bndE split: option.splits if_splits simp: requeue_if_def
      dest!: ends_promote_initial_primary ends_update_status_False)

lemma ends_follow_process: "ends (follow_process e pod c run_id host port) i r j \<Longrightarrow> j = i"
  by (simp add: follow_process_def Let_def)

lemma ends_reconcile_replica: "ends (reconcile_replica e k primary primary_pod replica) i r j \<Longrightarrow> j = i"
  unfolding reconcile_replica_def
  by (auto elim!: ends_on_errE ends_bndE split: if_splits
      dest!: ends_current_process_pod_Inl ends_process_credentials ends_follow_process)

lemma emits_reconcile_replica:
  assumes "fresh e i j" and "replica \<in> set (st_nodes (vi_status j))" and "primary \<in> set (st_nodes (vi_status j))"
    and "primary_can_lead j primary" and "pod_of_process j primary primary_pod"
  shows "emits (topology_call e i) (reconcile_replica e j primary primary_pod replica) j"
proof (cases "must_follow j primary primary_pod replica")
  case True
  then have f: "may_follow (vi_status j) replica" "ns_ordinal replica \<noteq> ns_ordinal primary"
    "live_primary (vi_status j) primary"
    using must_follow_may primary_can_lead_live assms(2-4) by blast+
  show ?thesis
    unfolding reconcile_replica_def
  proof (intro emits_if emits_on_err emits_bnd emits_current_process_pod emits_process_credentials
      emits_fail emits_ret emits_case_prod)
    fix pod k x l a b
    assume "ends (current_process_pod e replica) j (Inr pod) k" and "ends (process_credentials e) k (Inr x) l"
    then have "l = j" "pod_of_process j replica pod"
      using ends_current_process_pod ends_process_credentials by blast+
    then show "emits (topology_call e i) (follow_process e pod a (ns_run_id replica) (pod_ip primary_pod) valkeyPort) l"
      unfolding follow_process_def Let_def using assms(1,5) f by (intro emits_intros) (simp add: valkeyPort_def, blast)
  qed (simp_all add: topology_call_reading)
qed (simp add: reconcile_replica_def emits_ret)

lemma emits_reconcile_replicas:
  assumes "fresh e i j"
  shows "emits (topology_call e i) (reconcile_replicas e) j"
proof -
  have loop: "emits (topology_call e i)
      (for_each (reconcile_replica e j primary pod) (st_nodes (vi_status j))) j"
    if "primary \<in> set (st_nodes (vi_status j))" "primary_can_lead j primary" "pod_of_process j primary pod"
    for primary pod
    using that assms by (intro emits_for_each emits_reconcile_replica) (auto dest: ends_reconcile_replica)
  show ?thesis
    unfolding reconcile_replicas_def
    by (intro emits_with_inst emits_case_option emits_if emits_ret emits_on_err emits_bnd
        emits_current_process_pod emits_fail)
      (auto simp: topology_call_reading bind_eq_Some_conv dest!: ends_current_process_pod node_at_ordinal
        intro: loop)
qed

lemma reconcile_topology_calls: "emits (topology_call e i) (reconcile_topology e) i"
  unfolding reconcile_topology_def deref_accepted_def
  by (intro emits_bnd emits_with_inst emits_case_option emits_fail emits_ret emits_if)
    (auto intro!: emits_reconcile_initial_primary emits_reconcile_replicas dest: ends_reconcile_initial_primary
      split: option.splits simp: accepted_mode_is_def)

section \<open>A conflict while the primary is named\<close>

lemma initial_primary_conflict:
  assumes "node_status_at_ordinal (st_nodes (vi_status i)) 0 = Some t" and "initial_primary_ready i t"
    and "st_primary_ordinal (vi_status i) = None"
    and "\<And>h a. answer_patch_status e h i a = Inl (Kube KubeConflict)"
    and "\<And>h. answer_get_instance e h = Inr i'" and "\<And>h a. answer_patch_status e h i' a = Inr a"
    and "st_primary_ordinal (vi_status i') \<noteq> Some 0" and "retry_steps e = Suc (Suc n)"
  shows "outcome (reconcile_initial_primary e) i = Inr 1"
    "final_inst (reconcile_initial_primary e) i = update_vi_status (set_primary_identity t) i'"
proof -
  let ?f = "\<lambda>_ st. (set_primary_identity t st)\<lparr>st_primary_ordinal := Some 0\<rparr>"
  have f: "(set_primary_identity t st)\<lparr>st_primary_ordinal := Some 0\<rparr> = set_primary_identity t st" for st
    using node_at_ordinal [OF assms(1)] by (simp add: set_primary_identity_def)
  have differ: "(set_primary_identity t st)\<lparr>st_primary_ordinal := Some 0\<rparr> \<noteq> st'"
    if "st_primary_ordinal st' \<noteq> Some 0" for st st' :: instance_status
  proof
    assume "(set_primary_identity t st)\<lparr>st_primary_ordinal := Some 0\<rparr> = st'"
    then have "st_primary_ordinal st' = Some 0" by auto
    with that show False ..
  qed
  then have changed: "?f i (vi_status i) \<noteq> vi_status i" "?f i' (vi_status i') \<noteq> vi_status i'"
    using assms(3,7) by simp_all
  have run: "update_status e ?f (start i) = (Inr True, \<lparr>os_inst = update_vi_status (?f i') i',
    os_hist = os_hist (start i) @ [PatchStatus i (update_vi_status (?f i) i), GetInstance,
      PatchStatus i' (update_vi_status (?f i') i')]\<rparr>)"
    by (rule update_status_second_attempt [where f = ?f, OF assms(4-6) changed assms(8)]) simp
  show "outcome (reconcile_initial_primary e) i = Inr 1"
    "final_inst (reconcile_initial_primary e) i = update_vi_status (set_primary_identity t) i'"
    using run assms(1-3)
    by (simp_all add: outcome_def final_inst_def reconcile_initial_primary_def with_inst_def bnd_def on_err_def
        ret_def requeue_if_def f)
qed

section \<open>After a timed-out empty recovery\<close>

text \<open>
  \<open>meta.SetStatusCondition\<close> of the API machinery, a parameter of the model: the condition is found
  with the reason it was given.
\<close>

definition sets_reason :: "env \<Rightarrow> bool" where
  "sets_reason e \<longleftrightarrow> (\<forall>c cs. \<exists>d. find_condition (set_status_condition e c cs) (cd_type c) = Some d \<and>
     cd_reason d = cd_reason c)"

lemma timed_out_not_assignable:
  assumes "sets_reason e" and "st_initialized st" and "st_rollout st = None"
    and "vi_status i = (apply_empty_recovery e True j st)\<lparr>st_nodes := nodes, st_previous_processes := old\<rparr>"
  shows "\<not> empty_primary_assignment_allowed i" "st_primary_ordinal (vi_status i) = None"
    "st_failover (vi_status i) = None" "st_initialized (vi_status i)" "st_accepted (vi_status i) = st_accepted st"
    "st_rollout (vi_status i) = None"
proof -
  show p: "st_primary_ordinal (vi_status i) = None" "st_failover (vi_status i) = None" "st_initialized (vi_status i)"
    "st_accepted (vi_status i) = st_accepted st" and r: "st_rollout (vi_status i) = None"
    using assms(2,3,4) by (simp_all add: apply_empty_recovery_def set_condition_def mark_unavailable_def clear_primary_identity_def)
  obtain d where "find_condition (st_conditions (vi_status i)) conditionTypeDataLoss = Some d"
    "cd_reason d = ''EmptyProcessesTimedOut''"
  proof -
    let ?c = "\<lparr>cd_type = conditionTypeDataLoss, cd_status = ConditionTrue, cd_observed_generation = vi_generation j,
      cd_last_transition_time = 0, cd_reason = ''EmptyProcessesTimedOut'',
      cd_message = ''previous primaries are isolated, checked empty processes start after the wait''\<rparr>"
    have "st_conditions (vi_status i) = set_status_condition e ?c (st_conditions st)"
      using assms(4) by (simp add: apply_empty_recovery_def set_condition_def mark_unavailable_def clear_primary_identity_def)
    moreover obtain d where "find_condition (set_status_condition e ?c (st_conditions st)) (cd_type ?c) = Some d"
      "cd_reason d = cd_reason ?c"
      using assms(1) unfolding sets_reason_def by blast
    ultimately show thesis using that by simp
  qed
  then show "\<not> empty_primary_assignment_allowed i"
    using p r by (simp add: empty_primary_assignment_allowed_def rollout_requires_full_stop_def)
qed

lemma timed_out_recovery_waits:
  assumes "sets_reason e" and "st_initialized st" and "st_rollout st = None" and "accepted_mode_is st ValkeyModeHA"
    and "vi_status i = (apply_empty_recovery e True j st)\<lparr>st_nodes := nodes, st_previous_processes := old\<rparr>"
  shows "reconcile_topology e (start i) = (Inr HealthCheckInterval, start i)"
    "reconcile_failover e (start i) = (Inr HealthCheckInterval, start i)"
proof -
  note f = timed_out_not_assignable [OF assms(1-3,5)]
  obtain ac where ac: "st_accepted (vi_status i) = Some ac" "ac_mode ac = ValkeyModeHA"
    using assms(4) f(5) by (auto simp: accepted_mode_is_def split: option.splits)
  show "reconcile_topology e (start i) = (Inr HealthCheckInterval, start i)"
    using f(1,2) ac by (simp add: reconcile_topology_def deref_accepted_def with_inst_def bnd_def on_err_def ret_def
        reconcile_replicas_def)
  show "reconcile_failover e (start i) = (Inr HealthCheckInterval, start i)"
    using f(1-4,6) ac by (simp add: reconcile_failover_def with_inst_def ret_def maybe_start_failure_failover_def
        full_stop_rollout_owns_availability_def rollout_requires_full_stop_def accepted_mode_is_def)
qed

end
