(* ===== verification/Contract.thy ===== *)
theory Contract
  imports Runtime "HOL-Library.List_Lexorder" "HOL-Library.Char_ord"
begin

text \<open>
  The contract of a configuration (\<open>operator/internal/operator/instance_contract.go\<close>): when the
  specification of a new instance is accepted, how a later generation differs from the accepted
  one, and which changes of it are allowed. \<open>uuid.Parse\<close> and \<open>netip.ParsePrefix\<close> are the fields
  \<open>uuid_version\<close> and \<open>masked_prefix\<close> of the environment.
\<close>

section \<open>Validation\<close>

text \<open>\<open>configurationValidationError\<close>: condition type, reason and message.\<close>

datatype configuration_error = ConfigurationError string string string

definition conditionTypeUnsupportedChange :: string where
  "conditionTypeUnsupportedChange = ''UnsupportedChange''"
definition conditionTypeInvalidIntent :: string where
  "conditionTypeInvalidIntent = ''InvalidIntent''"

definition invalid_configuration :: "string \<Rightarrow> string \<Rightarrow> configuration_error" where
  "invalid_configuration reason message = ConfigurationError conditionTypeInvalidIntent reason message"

definition valid_size :: "int \<Rightarrow> int \<Rightarrow> bool" where
  "valid_size vcpu ram_gb \<longleftrightarrow>
     vcpu \<in> set [1, 2, 4, 8, 16] \<and> ram_gb \<in> set [1, 2, 4, 8, 16, 32, 64, 128] \<and>
     ram_gb \<ge> vcpu \<and> ram_gb \<le> wrap32 (16 * vcpu)"

text \<open>The classes \<open>[a-z0-9]\<close> and \<open>[a-z0-9-]\<close> of the regular expressions.\<close>

definition lower_alnum :: "char \<Rightarrow> bool" where
  "lower_alnum c \<longleftrightarrow> (CHR ''a'' \<le> c \<and> c \<le> CHR ''z'') \<or> (CHR ''0'' \<le> c \<and> c \<le> CHR ''9'')"

text \<open>\<open>^[a-z0-9](?:[a-z0-9-]*[a-z0-9])$\<close> on at least two characters.\<close>

definition slug_prefix_matches :: "string \<Rightarrow> bool" where
  "slug_prefix_matches p \<longleftrightarrow> 2 \<le> length p \<and> lower_alnum (hd p) \<and> lower_alnum (last p) \<and>
     (\<forall>c\<in>set p. lower_alnum c \<or> c = CHR ''-'')"

text \<open>\<open>strings.LastIndexByte(slug, '-')\<close> and the two parts around it.\<close>

definition split_last_dash :: "string \<Rightarrow> (string \<times> string) option" where
  "split_last_dash s =
     (let tail = takeWhile (\<lambda>c. c \<noteq> CHR ''-'') (rev s)
      in if length tail = length s then None
         else Some (take (length s - length tail - 1) s, rev tail))"

definition valid_slug :: "string \<Rightarrow> bool" where
  "valid_slug slug =
     (case split_last_dash slug of
        None \<Rightarrow> False
      | Some (p, suffix) \<Rightarrow>
          \<not> (length p < 3 \<or> length p > 20 \<or> length suffix \<noteq> 6) \<and>
          slug_prefix_matches p \<and> list_all lower_alnum suffix)"

section \<open>Whitelist\<close>

fun masked_prefixes :: "env \<Rightarrow> string list \<Rightarrow> string list option" where
  "masked_prefixes e [] = Some []"
| "masked_prefixes e (v # vs) =
     (case masked_prefix e v of
        None \<Rightarrow> None
      | Some p \<Rightarrow> map_option ((#) p) (masked_prefixes e vs))"

definition normalized_whitelist :: "env \<Rightarrow> whitelist_spec option \<Rightarrow> err + whitelist_spec" where
  "normalized_whitelist e w =
     (case w of
        None \<Rightarrow> Inl (Sentinel ErrIncompleteIntent)
      | Some wl \<Rightarrow>
          (case masked_prefixes e (wl_cidrs wl) of
             None \<Rightarrow> Inl (Wrapped (Sentinel ErrInvalidIntent))
           | Some ps \<Rightarrow> Inr \<lparr>wl_is_enabled = wl_is_enabled wl, wl_cidrs = sort (remdups ps)\<rparr>))"

section \<open>Acceptance of a new instance\<close>

definition validate_identity :: "env \<Rightarrow> valkey_instance \<Rightarrow> kube_namespace \<Rightarrow> err option" where
  "validate_identity e i ns =
     (let sp = vi_spec i in
      if uuid_version e (sp_instance_id sp) \<noteq> Some 7 then Some (Sentinel ErrInvalidIdentity)
      else if \<not> valid_slug (sp_slug sp) \<or> vi_name i \<noteq> sp_slug sp \<or>
              vi_namespace i \<noteq> ''valkey-'' @ sp_slug sp \<or> nsp_name ns \<noteq> vi_namespace i
      then Some (Sentinel ErrInvalidIdentity)
      else if (case nsp_labels ns InstanceLabelKey of None \<Rightarrow> '''' | Some v \<Rightarrow> v) \<noteq> sp_slug sp
      then Some (Sentinel ErrInvalidIdentity)
      else if uuid_version e (case nsp_labels ns UserIDLabelKey of None \<Rightarrow> '''' | Some v \<Rightarrow> v) \<noteq> Some 7
      then Some (Sentinel ErrInvalidIdentity)
      else None)"

definition intent_incomplete :: "instance_spec \<Rightarrow> bool" where
  "intent_incomplete sp \<longleftrightarrow>
     sp_mode sp = None \<or> sp_vcpu sp = 0 \<or> sp_ram_gb sp = 0 \<or> sp_public_port sp = 0 \<or>
     sp_whitelist sp = None \<or> sp_password_version sp = 0 \<or> sp_desired_generation sp = 0"

definition known_mode :: "valkey_mode option \<Rightarrow> bool" where
  "known_mode m \<longleftrightarrow> m = Some ValkeyModeSingle \<or> m = Some ValkeyModeHA"

text \<open>The composite literal both acceptance functions build once the mode is known.\<close>

definition configuration_of :: "instance_spec \<Rightarrow> whitelist_spec \<Rightarrow> accepted_configuration" where
  "configuration_of sp wl =
     \<lparr>ac_instance_id = sp_instance_id sp, ac_slug = sp_slug sp,
      ac_mode = (case sp_mode sp of None \<Rightarrow> ValkeyModeOther '''' | Some m \<Rightarrow> m),
      ac_vcpu = sp_vcpu sp, ac_ram_gb = sp_ram_gb sp, ac_public_port = sp_public_port sp,
      ac_whitelist = wl, ac_password_version = sp_password_version sp,
      ac_desired_generation = sp_desired_generation sp\<rparr>"

definition accepted_configuration ::
  "env \<Rightarrow> valkey_instance \<Rightarrow> kube_namespace \<Rightarrow> err + accepted_configuration" where
  "accepted_configuration e i ns =
     (case validate_identity e i ns of
        Some er \<Rightarrow> Inl er
      | None \<Rightarrow>
          (let sp = vi_spec i in
           if intent_incomplete sp then Inl (Sentinel ErrIncompleteIntent)
           else if \<not> known_mode (sp_mode sp) then Inl (Sentinel ErrInvalidIntent)
           else if \<not> valid_size (sp_vcpu sp) (sp_ram_gb sp) then Inl (Sentinel ErrInvalidIntent)
           else case normalized_whitelist e (sp_whitelist sp) of
                  Inl _ \<Rightarrow> Inl (Sentinel ErrInvalidIntent)
                | Inr wl \<Rightarrow> Inr (configuration_of sp wl)))"

section \<open>The next generation\<close>

definition configuration_differences ::
  "env \<Rightarrow> instance_spec \<Rightarrow> accepted_configuration \<Rightarrow> string list" where
  "configuration_differences e sp ac =
     (if sp_instance_id sp \<noteq> ac_instance_id ac then [''instanceId''] else []) @
     (if sp_slug sp \<noteq> ac_slug ac then [''slug''] else []) @
     (if sp_mode sp \<noteq> Some (ac_mode ac) then [''mode''] else []) @
     (if sp_vcpu sp \<noteq> ac_vcpu ac then [''vcpu''] else []) @
     (if sp_ram_gb sp \<noteq> ac_ram_gb ac then [''ramGb''] else []) @
     (if sp_public_port sp \<noteq> ac_public_port ac then [''publicPort''] else []) @
     (if sp_password_version sp \<noteq> ac_password_version ac then [''passwordVersion''] else []) @
     (if sp_desired_generation sp \<noteq> ac_desired_generation ac then [''desiredGeneration''] else []) @
     (case normalized_whitelist e (sp_whitelist sp) of
        Inl _ \<Rightarrow> [''whitelist'']
      | Inr wl \<Rightarrow> if wl_is_enabled wl \<noteq> wl_is_enabled (ac_whitelist ac) \<or>
                    wl_cidrs wl \<noteq> wl_cidrs (ac_whitelist ac)
                 then [''whitelist''] else [])"

text \<open>\<open>strings.Join\<close>.\<close>

fun join_strings :: "string \<Rightarrow> string list \<Rightarrow> string" where
  "join_strings sep [] = []"
| "join_strings sep [x] = x"
| "join_strings sep (x # xs) = x @ sep @ join_strings sep xs"

definition unsupported_fields :: "accepted_configuration \<Rightarrow> accepted_configuration \<Rightarrow> string list" where
  "unsupported_fields candidate ac =
     (if ac_instance_id candidate \<noteq> ac_instance_id ac then [''instanceId''] else []) @
     (if ac_slug candidate \<noteq> ac_slug ac then [''slug''] else []) @
     (if ac_mode candidate \<noteq> ac_mode ac then [''mode''] else []) @
     (if ac_public_port candidate \<noteq> ac_public_port ac then [''publicPort''] else []) @
     (if wl_is_enabled (ac_whitelist candidate) \<noteq> wl_is_enabled (ac_whitelist ac) \<or>
         wl_cidrs (ac_whitelist candidate) \<noteq> wl_cidrs (ac_whitelist ac) then [''whitelist''] else [])"

definition next_accepted_configuration ::
  "env \<Rightarrow> instance_spec \<Rightarrow> accepted_configuration \<Rightarrow> configuration_error + accepted_configuration" where
  "next_accepted_configuration e sp ac =
     (if intent_incomplete sp
      then Inl (invalid_configuration ''MissingRequiredFields'' ''the new generation is incomplete'')
      else if \<not> known_mode (sp_mode sp)
      then Inl (invalid_configuration ''InvalidMode'' ''the new generation has an unknown mode'')
      else if \<not> valid_size (sp_vcpu sp) (sp_ram_gb sp)
      then Inl (invalid_configuration ''InvalidSize'' ''the new generation has a wrong size'')
      else case normalized_whitelist e (sp_whitelist sp) of
        Inl _ \<Rightarrow> Inl (invalid_configuration ''InvalidWhitelist'' ''the new generation has a wrong whitelist'')
      | Inr wl \<Rightarrow>
         (let candidate = configuration_of sp wl; unsupported = unsupported_fields candidate ac in
          if sp_desired_generation sp < ac_desired_generation ac
          then Inl (invalid_configuration ''StaleDesiredGeneration'' ''desiredGeneration is below the accepted one'')
          else if sp_desired_generation sp = ac_desired_generation ac
          then Inl (invalid_configuration ''AcceptedGenerationChanged'' ''the accepted generation was changed in place'')
          else if sp_password_version sp < ac_password_version ac
          then Inl (invalid_configuration ''PasswordVersionRollback'' ''passwordVersion is below the accepted one'')
          else if unsupported \<noteq> []
          then Inl (ConfigurationError conditionTypeUnsupportedChange ''UnsupportedFields''
                 (''change of these fields is not supported: '' @ join_strings '', '' unsupported))
          else Inr candidate))"

definition accepted_configuration_complete :: "instance_status \<Rightarrow> accepted_configuration \<Rightarrow> bool" where
  "accepted_configuration_complete st ac \<longleftrightarrow>
     st_observed_generation st = ac_desired_generation ac \<and>
     st_failover st = None \<and> st_rollout st = None \<and> st_credential_rotation st = None"

section \<open>Lemmas\<close>

lemma configuration_of_fields [simp]:
  "ac_instance_id (configuration_of sp wl) = sp_instance_id sp"
  "ac_slug (configuration_of sp wl) = sp_slug sp"
  "ac_vcpu (configuration_of sp wl) = sp_vcpu sp"
  "ac_ram_gb (configuration_of sp wl) = sp_ram_gb sp"
  "ac_public_port (configuration_of sp wl) = sp_public_port sp"
  "ac_whitelist (configuration_of sp wl) = wl"
  "ac_password_version (configuration_of sp wl) = sp_password_version sp"
  "ac_desired_generation (configuration_of sp wl) = sp_desired_generation sp"
  "sp_mode sp = Some m \<Longrightarrow> ac_mode (configuration_of sp wl) = m"
  by (simp_all add: configuration_of_def)

lemma valid_size_values:
  "valid_size v r \<Longrightarrow> v \<in> {1, 2, 4, 8, 16} \<and> r \<in> {1, 2, 4, 8, 16, 32, 64, 128} \<and> v \<le> r \<and> r \<le> 16 * v"
  by (auto simp: valid_size_def wrap32_def)

lemma masked_prefixes_eq: "masked_prefixes e vs = Some ps \<Longrightarrow> map (masked_prefix e) vs = map Some ps"
  by (induction vs arbitrary: ps) (auto split: option.splits)

lemma masked_prefixes_all: "(\<And>v. v \<in> set vs \<Longrightarrow> masked_prefix e v = Some v) \<Longrightarrow> masked_prefixes e vs = Some vs"
  by (induction vs) auto

text \<open>What a successful step to the next generation guarantees.\<close>

lemma next_accepted_configuration_Inr:
  assumes "next_accepted_configuration e sp ac = Inr c"
  shows "ac_desired_generation ac < ac_desired_generation c"
    and "ac_password_version ac \<le> ac_password_version c"
    and "ac_instance_id c = ac_instance_id ac" and "ac_slug c = ac_slug ac"
    and "ac_mode c = ac_mode ac" and "ac_public_port c = ac_public_port ac"
    and "ac_whitelist c = ac_whitelist ac"
    and "valid_size (ac_vcpu c) (ac_ram_gb c)"
    and "ac_mode c = ValkeyModeSingle \<or> ac_mode c = ValkeyModeHA"
  using assms
  by (auto simp: next_accepted_configuration_def Let_def unsupported_fields_def known_mode_def
      split: if_splits sum.splits intro!: whitelist_spec.equality)

lemma next_accepted_configuration_values:
  "next_accepted_configuration e sp ac = Inr c \<Longrightarrow>
   ac_vcpu c = sp_vcpu sp \<and> ac_ram_gb c = sp_ram_gb sp \<and> ac_desired_generation c = sp_desired_generation sp \<and>
   ac_password_version c = sp_password_version sp"
  by (auto simp: next_accepted_configuration_def Let_def split: if_splits sum.splits)

end
