(* ===== verification/Stages.thy ===== *)
theory Stages
  imports Prelude
begin

text \<open>
  The contract of the long-running operations that walk through stages: a step either stays or
  moves to a stage of higher rank. What follows holds of every operation that keeps it.
\<close>

locale staged =
  fixes step :: "'s \<Rightarrow> 's \<Rightarrow> bool"
    and rank :: "'s \<Rightarrow> nat"
  assumes step_rank: "step s t \<Longrightarrow> s \<noteq> t \<Longrightarrow> rank s < rank t"
begin

definition moves :: "'s \<Rightarrow> 's \<Rightarrow> bool" where
  "moves s t \<longleftrightarrow> step s t \<and> s \<noteq> t"

lemma walk_rank: "step\<^sup>*\<^sup>* s t \<Longrightarrow> s = t \<or> rank s < rank t"
proof (induction rule: rtranclp_induct)
  case base
  then show ?case by simp
next
  case (step y z)
  then show ?case using step_rank by (cases "y = z") (auto intro: less_trans)
qed

lemma no_return: "step\<^sup>*\<^sup>* s t \<Longrightarrow> step\<^sup>*\<^sup>* t s \<Longrightarrow> s = t"
  using walk_rank [of s t] walk_rank [of t s] by auto

lemma moves_bounded:
  assumes "\<And>k. k < n \<Longrightarrow> moves (walk k) (walk (Suc k))"
  shows "rank (walk 0) + n \<le> rank (walk n)"
  using assms
proof (induction n)
  case 0
  then show ?case by simp
next
  case (Suc n)
  then have "rank (walk 0) + n \<le> rank (walk n)" by simp
  moreover have "rank (walk n) < rank (walk (Suc n))" using Suc.prems [of n] step_rank by (simp add: moves_def)
  ultimately show ?case by simp
qed

end

end
