(* ===== verification/Recovery_Stages.thy ===== *)
theory Recovery_Stages
  imports Recovery_Lemmas Stages
begin

text \<open>
  The stages of a recovery over many passes of the two handlers that touch it: the recovery itself and
  the look at the processes, which carries it over to the entry it saves.
\<close>

section \<open>Going forward\<close>

text \<open>
  What a patch may do to the recovery of a process that stays current: the reason and the start stay,
  the stage stays or goes forward, and a recovery that waits for the termination is not cancelled.
\<close>

fun recovery_forward :: "process_recovery_status option \<Rightarrow> process_recovery_status option \<Rightarrow> bool" where
  "recovery_forward None y = True"
| "recovery_forward (Some rc) None = (rc_stage rc \<noteq> ProcessRecoveryStageWaitingForTermination)"
| "recovery_forward (Some rc) (Some rc') =
     (rc_reason rc' = rc_reason rc \<and> rc_started_at rc' = rc_started_at rc \<and>
      (rc_stage rc' = rc_stage rc \<or>
       rc_stage rc = ProcessRecoveryStageKillingBusy \<and> rc_stage rc' = ProcessRecoveryStageDeleting \<or>
       rc_stage rc = ProcessRecoveryStageDeleting \<and> rc_stage rc' = ProcessRecoveryStageWaitingForTermination))"

definition recoveries_forward :: "instance_status \<Rightarrow> instance_status \<Rightarrow> bool" where
  "recoveries_forward st st' \<longleftrightarrow> (\<forall>p\<in>set (st_nodes st). \<forall>q\<in>set (st_nodes st').
     same_process q p \<longrightarrow> recovery_forward (ns_recovery p) (ns_recovery q))"

lemma recovery_forward_refl [simp]: "recovery_forward x x"
  by (cases x) auto

lemma recovery_edge_forward: "recovery_edge e p x y \<Longrightarrow> recovery_forward x y"
  by (induction rule: recovery_edge.induct) auto

lemma node_of_ordinal:
  "nodes_ok ns \<Longrightarrow> p \<in> set ns \<Longrightarrow> n \<in> set ns \<Longrightarrow> same_process n p \<Longrightarrow> n = p"
  unfolding nodes_ok_def by (simp add: same_process_iff distinct_map inj_on_def)

lemma recoveries_forward_nodes:
  assumes "nodes_ok (st_nodes st)"
    and "\<And>q. q \<in> set (st_nodes st') \<Longrightarrow> \<exists>n\<in>set (st_nodes st). same_process n q \<and>
      recovery_forward (ns_recovery n) (ns_recovery q)"
  shows "recoveries_forward st st'"
  unfolding recoveries_forward_def
proof (intro ballI impI)
  fix p q assume pq: "p \<in> set (st_nodes st)" "q \<in> set (st_nodes st')" "same_process q p"
  then obtain n where n: "n \<in> set (st_nodes st)" "same_process n q" "recovery_forward (ns_recovery n) (ns_recovery q)"
    using assms(2) by blast
  then have "n = p" using node_of_ordinal [OF assms(1) pq(1)] pq(3) same_process_trans by blast
  then show "recovery_forward (ns_recovery p) (ns_recovery q)" using n(3) by simp
qed

lemma recoveries_forward_same:
  "nodes_ok (st_nodes st) \<Longrightarrow> st_nodes st' = st_nodes st \<Longrightarrow> recoveries_forward st st'"
  by (rule recoveries_forward_nodes) (auto intro: same_process_refl)

lemma recoveries_forward_list:
  assumes "nodes_ok (st_nodes st)"
    and "list_all2 (\<lambda>n n'. same_process n n' \<and> recovery_forward (ns_recovery n) (ns_recovery n'))
      (st_nodes st) (st_nodes st')"
  shows "recoveries_forward st st'"
proof (rule recoveries_forward_nodes [OF assms(1)])
  fix q assume "q \<in> set (st_nodes st')"
  then obtain k where k: "k < length (st_nodes st')" "q = st_nodes st' ! k" by (auto simp: in_set_conv_nth)
  then show "\<exists>n\<in>set (st_nodes st). same_process n q \<and> recovery_forward (ns_recovery n) (ns_recovery q)"
    using list_all2_nthD2 [OF assms(2)] list_all2_lengthD [OF assms(2)] by (intro bexI [of _ "st_nodes st ! k"]) auto
qed

lemma recovery_update_forward:
  assumes "nodes_ok (st_nodes st)" and "recovery_update e st st'"
  shows "recoveries_forward st st'"
proof -
  obtain nodes where n: "st_nodes st' = nodes"
    "list_all2 (\<lambda>n n'. n' = n\<lparr>ns_recovery := ns_recovery n'\<rparr> \<and> recovery_edge e n (ns_recovery n) (ns_recovery n') \<and>
       (ns_termination n \<noteq> None \<longrightarrow> n' = n)) (st_nodes st) nodes"
    using assms(2) by (auto simp: recovery_update_def)
  have same: "same_process n (n\<lparr>ns_recovery := r\<rparr>)" for n r by (simp add: same_process_def same_container_process_def)
  have "list_all2 (\<lambda>n n'. same_process n n' \<and> recovery_forward (ns_recovery n) (ns_recovery n')) (st_nodes st) nodes"
    by (intro list_all2_mono [OF n(2)]) (metis same recovery_edge_forward)
  then show ?thesis using recoveries_forward_list [OF assms(1)] n(1) by simp
qed

section \<open>What a look at a process does to its recovery\<close>

fun forward_call :: "valkey_instance \<Rightarrow> call \<Rightarrow> bool" where
  "forward_call i (PatchStatus b a) =
     (vi_status b = vi_status i \<longrightarrow> recoveries_forward (vi_status b) (vi_status a))"
| "forward_call i _ = True"

lemma forward_call_reading [simp]: "reading c \<Longrightarrow> forward_call i c"
  by (cases c) simp_all

lemma forward_call_release [simp]: "release_call pod n c \<Longrightarrow> forward_call i c"
  by (cases c) simp_all

lemma recoveries_forward_updated:
  assumes "nodes_ok (st_nodes st)" and "st_nodes st' = update_where p f (st_nodes st)"
    and "\<And>n. same_process n (f n)" and "\<And>n. ns_recovery (f n) = ns_recovery n"
  shows "recoveries_forward st st'"
  using assms by (intro recoveries_forward_list) (auto simp: update_where_def list_all2_conv_all_nth)

lemma recoveries_forward_replace:
  assumes "nodes_ok (st_nodes st)" and "st_nodes st' = replace_node_status (st_nodes st) ob"
    and "\<And>c. c \<in> set (st_nodes st) \<Longrightarrow> same_process c ob \<Longrightarrow> recovery_forward (ns_recovery c) (ns_recovery ob)"
  shows "recoveries_forward st st'"
  unfolding recoveries_forward_def
proof (intro ballI impI)
  fix p q assume p: "p \<in> set (st_nodes st)" and q: "q \<in> set (st_nodes st')" and s: "same_process q p"
  show "recovery_forward (ns_recovery p) (ns_recovery q)"
  proof (cases "q = ob")
    case True
    then show ?thesis using assms(3) p s same_process_sym by blast
  next
    case False
    then have "q \<in> set (st_nodes st)" using q assms(2) by (auto simp: set_replace_node_status)
    then show ?thesis using node_of_ordinal [OF assms(1) p _ s] by simp
  qed
qed

lemma forward_process_unavailable:
  "nodes_ok (st_nodes (vi_status i)) \<Longrightarrow> emits (forward_call i) (process_unavailable e ordinal) j"
  unfolding process_unavailable_def
  by (intro emits_intros)
    (auto intro!: recoveries_forward_updated [where f = "\<lambda>n. n\<lparr>ns_readiness := False\<rparr>"]
      simp: apply_process_unavailable_def Let_def same_process_def same_container_process_def)

lemma forward_observation_error:
  "nodes_ok (st_nodes (vi_status i)) \<Longrightarrow>
   emits (forward_call i) (record_process_observation_error e pod node container ordinal cause) j"
  unfolding record_process_observation_error_def Let_def
  by (intro emits_intros)
    (auto intro!: recoveries_forward_updated simp: apply_observation_error_def Let_def observe_failure_def
      same_process_def same_container_process_def)

lemma forward_node_deletion:
  assumes "nodes_ok (st_nodes (vi_status i))"
  shows "emits (forward_call i) (save_node_deletion_termination e node) j"
  unfolding save_node_deletion_termination_def
proof (intro emits_intros)
  fix b a
  assume e: "ends (with_inst (\<lambda>i. bnd (update_where_now e (\<lambda>p. same_process p node) node_deleted_evidence
        (st_nodes (vi_status i))) (\<lambda>nodes. modify_status (\<lambda>st0. let st = st0\<lparr>st_nodes := nodes\<rparr>
          in if st_initialized st \<and> process_failure_affects_primary st (ns_ordinal node)
             then mark_unavailable ''PRIMARY_NOT_READY'' st else degrade_replicas st)))) b (Inr ()) a"
  then obtain nodes where n: "st_nodes (vi_status a) = nodes"
    "list_all2 (\<lambda>x y. if same_process x node then \<exists>t. y = node_deleted_evidence t x else y = x)
        (st_nodes (vi_status b)) nodes"
    by (auto elim!: ends_bndE dest!: ends_update_where_now simp: Let_def)
  have same: "same_process n (node_deleted_evidence t n)" "ns_recovery (node_deleted_evidence t n) = ns_recovery n" for n t
    by (simp_all add: node_deleted_evidence_def same_process_def same_container_process_def)
  have "list_all2 (\<lambda>n n'. same_process n n' \<and> recovery_forward (ns_recovery n) (ns_recovery n')) (st_nodes (vi_status b)) nodes"
    by (rule list_all2_mono [OF n(2)]) (auto simp: same split: if_splits)
  then show "forward_call i (PatchStatus b a)" using assms by (auto intro!: recoveries_forward_list simp: n(1))
qed simp_all

lemma forward_container_termination:
  assumes ok: "nodes_ok (st_nodes st)"
  shows "recoveries_forward st (apply_container_termination s tm st)"
proof (rule recoveries_forward_replace [OF ok])
  show "st_nodes (apply_container_termination s tm st) = replace_node_status (st_nodes st) (recorded_stop s tm st)"
    by (simp add: apply_container_termination_nodes flip: recorded_stop_def)
  fix c assume c: "c \<in> set (st_nodes st)" "same_process c (recorded_stop s tm st)"
  then have o: "ns_ordinal c = ns_ordinal s"
    by (auto simp: recorded_stop_def same_process_iff same_container_process_def split: option.splits if_splits)
  then have at: "node_status_at_ordinal (st_nodes st) (ns_ordinal s) = Some c"
    using c(1) ok node_at_unique unfolding nodes_ok_def by metis
  moreover have "same_container_process c s"
  proof (rule ccontr)
    assume n: "\<not> same_container_process c s"
    then have "recorded_stop s tm st = s" using at by (simp add: recorded_stop_def)
    then show False using c(2) n same_process_container by simp
  qed
  ultimately show "recovery_forward (ns_recovery c) (ns_recovery (recorded_stop s tm st))"
    by (simp add: recorded_stop_def)
qed

lemma forward_save_container:
  assumes ok: "nodes_ok (st_nodes (vi_status i))"
  shows "emits (forward_call i) (save_container_termination e pod container ordinal) j"
proof (cases "cs_state container")
  case (ContainerTerminated code reason finished)
  show ?thesis
    unfolding save_container_termination_def Let_def ContainerTerminated container_state.case
      termination_proof_lost_def record_termination_proof_lost_event_def
    by (intro emits_intros)
      (auto intro!: recoveries_forward_same forward_container_termination simp: ok)
qed (simp_all add: save_container_termination_def emits_ret)

text \<open>The entry that is saved for the observed process carries the recovery of the current one.\<close>

lemma retained_forward:
  "recovery_forward (ns_recovery c) (retained_process_recovery c ob deleted) \<or> \<not> same_process c ob"
  by (auto simp: retained_process_recovery_def split: option.split)

lemma recoveries_forward_record:
  assumes ok: "nodes_ok (st_nodes st)"
    and r: "\<And>c. c \<in> set (st_nodes st) \<Longrightarrow> same_process c ob \<Longrightarrow> recovery_forward (ns_recovery c) (ns_recovery ob)"
  shows "recoveries_forward st (record_current_process ob prior st)"
proof -
  have "\<exists>t. st_nodes (record_current_process ob prior st) = replace_node_status (st_nodes st) (ob\<lparr>ns_termination := t\<rparr>)"
  proof (cases "node_status_at_ordinal (st_nodes st) (ns_ordinal ob)")
    case None
    then show ?thesis by (intro exI [of _ "ns_termination ob"]) (simp add: record_current_process_def)
  next
    case (Some c)
    then show ?thesis
      by (cases "same_process c ob", intro exI [of _ "ns_termination c"], simp add: record_current_process_def)
        (intro exI [of _ "ns_termination ob"], simp add: record_current_process_def Let_def)
  qed
  then obtain t where "st_nodes (record_current_process ob prior st) = replace_node_status (st_nodes st) (ob\<lparr>ns_termination := t\<rparr>)"
    by blast
  moreover have "same_process c (ob\<lparr>ns_termination := t\<rparr>) = same_process c ob" for c
    by (simp add: same_process_def same_container_process_def)
  ultimately show ?thesis using r by (intro recoveries_forward_replace [OF ok]) auto
qed

lemma recoveries_forward_cong:
  "st_nodes st' = st_nodes st'' \<Longrightarrow> recoveries_forward st st'' \<Longrightarrow> recoveries_forward st st'"
  by (simp add: recoveries_forward_def)

lemma forward_save_observed:
  assumes ok: "nodes_ok (st_nodes (vi_status i))"
  shows "emits (forward_call i) (save_observed_process e ordinal pod node container credentials app_hash state) i"
proof -
  let ?current = "node_status_at_ordinal (st_nodes (vi_status i)) ordinal"
  let ?saved = "\<lambda>ob0 x. ob0\<lparr>ns_recovery := (case ?current of None \<Rightarrow> None
      | Some c \<Rightarrow> retained_process_recovery c ob0 (pod_deletion_timestamp pod)), ns_replication := x\<rparr>"
  have recorded: "recoveries_forward (vi_status i) (record_current_process (?saved ob0 x) prior (vi_status i))"
    if "ns_ordinal ob0 = ordinal" for ob0 x prior
  proof (rule recoveries_forward_record [OF ok])
    fix c assume c: "c \<in> set (st_nodes (vi_status i))" "same_process c (?saved ob0 x)"
    have "same_process c (n\<lparr>ns_recovery := r, ns_replication := x\<rparr>) = same_process c n" for n r
      by (simp add: same_process_def same_container_process_def)
    then have s: "same_process c ob0" using c(2) by simp
    then have "ns_ordinal c = ordinal" using that by (simp add: same_process_iff)
    then have "?current = Some c" using c(1) ok node_at_unique unfolding nodes_ok_def by blast
    then show "recovery_forward (ns_recovery c) (ns_recovery (?saved ob0 x))"
      using retained_forward [of c ob0] s by simp
  qed
  have identity: "recoveries_forward (vi_status i) (apply_identity_change e' c (?saved ob0 x) prior b (vi_status i))"
    if "ns_ordinal ob0 = ordinal" for ob0 x prior c b e'
    by (rule recoveries_forward_cong [OF _ recorded [OF that, where x = x and prior = prior]]) (simp add: apply_identity_change_def Let_def)
  have observed: "recoveries_forward (vi_status i) st'"
    if "ns_ordinal ob0 = ordinal" "apply_observed_process e' (?saved ob0 x) prior now b (vi_status i) = Some st'"
    for ob0 x prior now b e' st'
    by (rule recoveries_forward_cong [OF _ recorded [OF that(1), where x = x and prior = prior]])
      (use that(2) in \<open>auto simp: apply_observed_process_def Let_def split: if_splits\<close>)
  show ?thesis
    unfolding save_observed_process_def Let_def
  proof (intro emits_bnd emits_with_inst emits_deref_accepted emits_now_op emits_evidence_of_prior
      emits_case_option emits_if emits_ret)
    fix accepted j t1 j1 t2 j2 prior j3 c
    assume "ends deref_accepted i (Inr accepted) j" "ends (now_op e) j (Inr t1) j1" "ends (now_op e) j1 (Inr t2) j2"
    then have j: "j = i" "j2 = i" by simp_all
    let ?ob = "observed_process ordinal pod node container state accepted app_hash t1"
    let ?observed = "?ob\<lparr>
      ns_recovery := case node_status_at_ordinal (st_nodes (vi_status j)) ordinal of None \<Rightarrow> None
        | Some c \<Rightarrow> retained_process_recovery c ?ob (pod_deletion_timestamp pod),
      ns_replication := merge_observed_replication
        (Option.bind (node_status_at_ordinal (st_nodes (vi_status j)) ordinal) ns_replication)
        (ns_replication ?ob) (ns_role ?ob) t2\<rparr>"
    show "emits (forward_call i) (save_identity_change e c ?observed prior) j3"
      unfolding save_identity_change_def record_termination_proof_lost_event_def j
      by (intro emits_intros) (use identity [of ?ob] in simp_all)
    show "emits (forward_call i) (update_app_access e pod credentials app_hash False) j3"
      unfolding update_app_access_def Let_def by (intro emits_intros) simp
    show "emits (forward_call i) (update_status_partial_now e (apply_observed_process e ?observed prior)) j3"
      unfolding j by (intro emits_intros) (use observed [of ?ob] in auto)
  qed simp_all
qed

lemma forward_observation:
  assumes ok: "nodes_ok (st_nodes (vi_status i))"
  shows "emits (forward_call i) (reconcile_process_ordinal e ordinal) i"
proof -
  have inspect: "emits (forward_call i) (observe_running_process e ordinal pod node container) i" for pod node container
    unfolding observe_running_process_def inspect_process_def Let_def
    by (intro emits_intros)
      (auto dest!: ends_process_credentials intro: forward_observation_error [OF ok] forward_save_observed [OF ok])
  have started: "emits (forward_call i) (observe_started_pod e ordinal pod container current) i" for pod container current
    unfolding observe_started_pod_def
    by (intro emits_case_option emits_if forward_process_unavailable [OF ok] emits_on_err emits_get_node
        emits_fail emits_release_terminated_pod)
      (auto intro: forward_node_deletion [OF ok] inspect)
  have pod: "emits (forward_call i) (observe_pod e ordinal pod) i" for pod
    unfolding observe_pod_def
    by (intro emits_case_option forward_process_unavailable [OF ok])
      (auto split: container_state.split intro: forward_save_container [OF ok] emits_with_inst started)
  have missing: "emits (forward_call i) (observe_missing_pod e ordinal) i"
    unfolding observe_missing_pod_def
    by (intro emits_with_inst emits_case_option forward_process_unavailable [OF ok] emits_bnd emits_if
        emits_previous_node_deleted forward_node_deletion [OF ok]) simp
  have conflict: "emits (forward_call i) (set_pod_ownership_conflict e name) i" for name
    unfolding set_pod_ownership_conflict_def by (intro emits_intros) (auto intro!: recoveries_forward_same simp: ok)
  show ?thesis
    unfolding reconcile_process_ordinal_def
    by (intro emits_bnd emits_on_err emits_deref_accepted emits_get_pod emits_if emits_with_inst
        emits_fail emits_ret emits_patch_pod) (auto intro: missing conflict pod)
qed

section \<open>Many passes\<close>

text \<open>
  One pass of either handler patches an unchanged status, and the process of the entry stays current.
\<close>

definition recovery_pass :: "process_recovery_status option \<Rightarrow> process_recovery_status option \<Rightarrow> bool" where
  "recovery_pass x y \<longleftrightarrow>
     (\<exists>e i ordinal b a p q. nodes_ok (st_nodes (vi_status i)) \<and>
        (PatchStatus b a \<in> set (calls (reconcile_process_recovery e) i) \<or>
         PatchStatus b a \<in> set (calls (reconcile_process_ordinal e ordinal) i)) \<and>
        vi_status b = vi_status i \<and> p \<in> set (st_nodes (vi_status b)) \<and> q \<in> set (st_nodes (vi_status a)) \<and>
        same_process q p \<and> ns_recovery p = x \<and> ns_recovery q = y)"

lemma recovery_pass_forward: "recovery_pass x y \<Longrightarrow> recovery_forward x y"
proof -
  have *: "recoveries_forward (vi_status b) (vi_status a)"
    if "nodes_ok (st_nodes (vi_status i))" "vi_status b = vi_status i"
      "PatchStatus b a \<in> set (calls (reconcile_process_recovery e) i) \<or>
       PatchStatus b a \<in> set (calls (reconcile_process_ordinal e ordinal) i)" for b a i e ordinal
    using that(3)
  proof
    assume "PatchStatus b a \<in> set (calls (reconcile_process_recovery e) i)"
    then have "recovery_update e (vi_status i) (vi_status a)"
      using emits_calls [OF reconcile_process_recovery_calls [OF that(1)]] that(2) by fastforce
    then show ?thesis using recovery_update_forward that(1,2) by simp
  next
    assume "PatchStatus b a \<in> set (calls (reconcile_process_ordinal e ordinal) i)"
    then show ?thesis using emits_calls [OF forward_observation [OF that(1)]] that(2) by fastforce
  qed
  assume "recovery_pass x y"
  then show ?thesis using * unfolding recovery_pass_def recoveries_forward_def by metis
qed

fun recovery_rank :: "process_recovery_stage \<Rightarrow> nat" where
  "recovery_rank ProcessRecoveryStageKillingBusy = 0"
| "recovery_rank ProcessRecoveryStageDeleting = 1"
| "recovery_rank ProcessRecoveryStageWaitingForTermination = 2"
| "recovery_rank (ProcessRecoveryStageOther _) = 3"

definition recovery_stage_step :: "process_recovery_stage \<Rightarrow> process_recovery_stage \<Rightarrow> bool" where
  "recovery_stage_step s s' \<longleftrightarrow>
     (\<exists>rc rc'. recovery_pass (Some rc) (Some rc') \<and> rc_stage rc = s \<and> rc_stage rc' = s')"

interpretation recovery: staged recovery_stage_step recovery_rank
proof
  fix s t assume "recovery_stage_step s t" "s \<noteq> t"
  then show "recovery_rank s < recovery_rank t"
    by (auto simp: recovery_stage_step_def dest!: recovery_pass_forward)
qed

end
