(* ===== verification/Samples.thy ===== *)
theory Samples
  imports Topology Contract Recovery_Stages
begin

text \<open>
  Concrete inputs: an HA instance with three processes, a world that answers every call with an
  error, and variations of both. They show that the hypotheses of the properties can hold.
\<close>

definition sample_accepted :: accepted_configuration where
  "sample_accepted = zero_accepted\<lparr>ac_slug := ''shop-a1b2c3'', ac_mode := ValkeyModeHA, ac_vcpu := 1,
     ac_ram_gb := 2, ac_public_port := 41379, ac_password_version := 1, ac_desired_generation := 1\<rparr>"

definition sample_replication :: "int \<Rightarrow> replication_status" where
  "sample_replication offset = \<lparr>rp_replication_id = ''repl'', rp_secondary_replication_id = '''',
     rp_secondary_offset = 0, rp_offset = offset, rp_upstream_host = ''10.0.0.1'', rp_upstream_port = 6379,
     rp_link_up = True, rp_sync_in_progress = False, rp_synced_at = Some 1, rp_observed_at = 1\<rparr>"

definition sample_node :: "int \<Rightarrow> string \<Rightarrow> node_role \<Rightarrow> int \<Rightarrow> node_status" where
  "sample_node ordinal uid role offset = empty_node_status\<lparr>ns_ordinal := ordinal, ns_pod_uid := uid,
     ns_container_id := uid, ns_run_id := uid, ns_node_name := ''worker'', ns_node_uid := ''w'',
     ns_role := role, ns_app_password_version := 1, ns_replication := Some (sample_replication offset)\<rparr>"

definition sample_nodes :: "node_status list" where
  "sample_nodes = [sample_node 0 ''a'' NodeRolePrimary 100, sample_node 1 ''b'' NodeRoleReplica 90,
     sample_node 2 ''c'' NodeRoleReplica 100]"

definition empty_status :: instance_status where
  "empty_status = \<lparr>st_credentials_initialized = False, st_initialized = False, st_valkey_image = '''',
     st_phase = None, st_reason = '''', st_observed_at = None, st_primary_ordinal = None,
     st_primary_pod_uid = '''', st_primary_container_id = '''', st_primary_run_id = '''',
     st_primary_node_name = '''', st_primary_node_uid = '''', st_observed_generation = 0,
     st_applied_password_version = 0, st_accepted = None, st_applied = None, st_network = None,
     st_failover = None, st_rollout = None, st_credential_rotation = None, st_deletion = None,
     st_nodes = [], st_previous_processes = [], st_metrics = [], st_conditions = []\<rparr>"

definition sample_status :: instance_status where
  "sample_status = set_primary_identity (sample_node 0 ''a'' NodeRolePrimary 100)
     (empty_status\<lparr>st_initialized := True, st_accepted := Some sample_accepted, st_nodes := sample_nodes\<rparr>)"

definition sample_spec :: instance_spec where
  "sample_spec = \<lparr>sp_instance_id = '''', sp_slug = ''shop-a1b2c3'', sp_mode = Some ValkeyModeHA, sp_vcpu = 1,
     sp_ram_gb = 2, sp_public_port = 41379, sp_whitelist = Some \<lparr>wl_is_enabled = False, wl_cidrs = []\<rparr>,
     sp_password_version = 1, sp_desired_generation = 1\<rparr>"

definition sample_instance :: valkey_instance where
  "sample_instance = \<lparr>vi_name = ''shop-a1b2c3'', vi_namespace = ''valkey-shop-a1b2c3'', vi_uid = ''u'',
     vi_generation = 1, vi_resource_version = ''1'', vi_creation_timestamp = 1, vi_deletion_timestamp = None,
     vi_finalizers = [InstanceFinalizer], vi_labels = Map.empty, vi_annotations = Map.empty,
     vi_spec = sample_spec, vi_status = sample_status\<rparr>"

definition sample_env :: env where
  "sample_env =
     \<lparr>retry_steps = 5, recorder_set = True, own_valkey_image = ''valkey/valkey:8.1.9'',
       observation_started_at = 0, answer_clock = (\<lambda>h. int (length h)),
       answer_get_instance = (\<lambda>h. Inr sample_instance),
       answer_patch_status = (\<lambda>h b a. Inr a), answer_patch_instance = (\<lambda>h b a. Inr a),
       answer_get_pod = (\<lambda>h r n. Inl (Plain ''unavailable'')), answer_get_node = (\<lambda>h r n. Inl (Plain ''unavailable'')),
       answer_get_namespace = (\<lambda>h n. Inl (Plain ''unavailable'')),
       answer_get_stateful_set = (\<lambda>h n. Inl (Kube KubeNotFound)),
       answer_get_secret = (\<lambda>h r n. Inl (Plain ''unavailable'')), answer_patch_pod = (\<lambda>h b a. Inr ()),
       answer_delete_pod = (\<lambda>h p g. Inr ()), answer_update_secret = (\<lambda>h s. Inr ()),
       answer_create_pod = (\<lambda>h p. Inr ()), answer_random = (\<lambda>h. Inr (\<lambda>k. 0)),
       answer_patch_secret = (\<lambda>h b a. Inr ()), answer_remove_network = (\<lambda>h. Inr False),
       answer_list_endpoints = (\<lambda>h n. Inl (Plain ''unavailable'')),
       answer_inspect = (\<lambda>h a p x t. Inl (Plain ''unavailable'')),
       answer_app_access = (\<lambda>h a p x en. Inl (Plain ''unavailable'')),
       answer_promote = (\<lambda>h a p r. Inl (Plain ''unavailable'')),
       answer_follow = (\<lambda>h a p r u q. Inl (Plain ''unavailable'')),
       answer_rotate = (\<lambda>h a p x. Inl (Plain ''unavailable'')),
       answer_stop_busy = (\<lambda>h a p. Inl (Plain ''unavailable'')),
       set_status_condition = (\<lambda>c cs. c # filter (\<lambda>d. cd_type d \<noteq> cd_type c) cs),
       remove_status_condition = (\<lambda>t cs. filter (\<lambda>d. cd_type d \<noteq> t) cs),
       set_controller_reference = (\<lambda>i ows. Inr ows), uuid_version = (\<lambda>s. Some 7),
       masked_prefix = (\<lambda>s. Some s), decode_identity = (\<lambda>s. None), error_text = (\<lambda>er. ''error'')\<rparr>"

lemmas sample_defs = sample_accepted_def sample_replication_def sample_node_def sample_nodes_def
  empty_status_def sample_status_def sample_spec_def sample_instance_def sample_env_def
  empty_node_status_def zero_accepted_def set_primary_identity_def

lemma sample_instance_nodes [simp]: "st_nodes (vi_status sample_instance) = sample_nodes"
  by (simp add: sample_instance_def sample_status_def set_primary_identity_def)

lemma sample_nodes_ok: "nodes_ok sample_nodes"
  by (simp add: nodes_ok_def ordinal_ok_def sample_nodes_def sample_node_def empty_node_status_def is_int32_def)

section \<open>Variations\<close>

definition failed_primary :: node_status where
  "failed_primary = (sample_node 0 ''a'' NodeRolePrimary 100)\<lparr>ns_termination :=
     Some \<lparr>tm_reason = ''Terminated'', tm_exit_code = 1, tm_finished_at = 1, tm_evidence = ''container_status''\<rparr>\<rparr>"

definition switched_node :: node_status where
  "switched_node = sample_node 1 ''b'' NodeRolePrimary 90"

definition promoting_failover :: "failover_status option" where
  "promoting_failover = Some ((new_failover FailoverReasonFailure 0
     (Processes.process_identity (sample_node 0 ''a'' NodeRolePrimary 100)) (Some (Processes.process_identity switched_node)))
     \<lparr>fo_stage := FailoverStagePromoting\<rparr>)"

definition stopped_node :: node_status where
  "stopped_node = (sample_node 1 ''b'' NodeRoleReplica 90)\<lparr>ns_termination :=
     Some \<lparr>tm_reason = ''Terminated'', tm_exit_code = 1, tm_finished_at = 1, tm_evidence = ''container_status''\<rparr>\<rparr>"

definition stopped_failover :: failover_status where
  "stopped_failover = (new_failover FailoverReasonFailure 0
     (Processes.process_identity (sample_node 0 ''a'' NodeRolePrimary 100)) (Some (Processes.process_identity stopped_node)))
     \<lparr>fo_stage := FailoverStageChoosing, fo_offset_deadline := Some 5\<rparr>"

definition stopped_instance :: valkey_instance where
  "stopped_instance = update_vi_status (\<lambda>st. st\<lparr>st_nodes := [stopped_node], st_failover := Some stopped_failover\<rparr>)
     sample_instance"

lemma stopped_node_known: "known_process (vi_status stopped_instance) (Processes.process_identity stopped_node) = Some stopped_node"
  by (simp add: stopped_instance_def known_process_def same_identity_def)

definition conflict_env :: env where
  "conflict_env = sample_env\<lparr>answer_patch_status := (\<lambda>h b a. Inl (Kube KubeConflict)),
     answer_get_instance := (\<lambda>h. Inr stopped_instance)\<rparr>"

definition ready_node :: "node_status \<Rightarrow> node_status" where
  "ready_node n = n\<lparr>ns_readiness := True, ns_app_enabled := True\<rparr>"

definition ready_status :: instance_status where
  "ready_status = sample_status\<lparr>st_nodes := map ready_node sample_nodes,
     st_applied := Some \<lparr>ap_mode = ValkeyModeHA, ap_vcpu = 1, ap_ram_gb = 2\<rparr>, st_applied_password_version := 1,
     st_conditions := [\<lparr>cd_type = conditionTypePublicReady, cd_status = ConditionTrue, cd_observed_generation = 1,
       cd_last_transition_time = 1, cd_reason = ''Admitted'', cd_message = ''''\<rparr>]\<rparr>"

definition sample_password :: string where "sample_password = replicate 32 (CHR ''A'')"

definition sample_credentials :: service_credentials where
  "sample_credentials = \<lparr>cr_operator_password = sample_password, cr_replica_password = sample_password,
     cr_health_password = sample_password, cr_users_acl = ''acl''\<rparr>"

lemma sample_password_valid: "valid_service_password sample_password"
  by code_simp

lemma sample_credentials_valid: "credentials_valid sample_credentials"
  by (simp add: credentials_valid_def sample_credentials_def sample_password_valid)

lemma sample_ordinals: "\<forall>n\<in>set sample_nodes. is_int32 (ns_ordinal n) \<and> 0 \<le> ns_ordinal n"
  by (simp add: sample_nodes_def sample_node_def empty_node_status_def is_int32_def)

lemma switched_node_simps [simp]: "ns_role switched_node = NodeRolePrimary" "ns_ordinal switched_node = 1"
  by (simp_all add: switched_node_def sample_node_def empty_node_status_def)

lemma stopped_simps:
  "st_failover (vi_status stopped_instance) = Some stopped_failover"
  "fo_candidate stopped_failover = Some (Processes.process_identity stopped_node)"
  "fo_offset_deadline stopped_failover = Some 5" "ns_termination stopped_node \<noteq> None"
  "answer_patch_status conflict_env h b a = Inl (Kube KubeConflict)"
  "answer_get_instance conflict_env h = Inr stopped_instance" "retry_steps conflict_env = 5"
  by (simp_all add: stopped_instance_def stopped_failover_def new_failover_def stopped_node_def conflict_env_def sample_env_def)

lemma ready_status_generation: "st_observed_generation (apply_operational_phase sample_env sample_instance ready_status) = 1"
    "st_observed_generation ready_status = 0"
    by (simp_all add: apply_operational_phase_def primary_publicly_ready_def find_condition_def ready_status_def
        node_status_at_ordinal_def app_admitted_def accepted_of_def ready_replica_count_def ready_node_def
        replica_synced_def has_unterminated_previous_process_def active_operation_def Let_def
        confirm_applied_generation_def set_phase_def set_condition_def sample_defs)

section \<open>A process that is silent for too long\<close>

definition silent_node :: "process_recovery_stage \<Rightarrow> node_status" where
  "silent_node stage = (sample_node 0 ''a'' NodeRolePrimary 100)\<lparr>ns_observation :=
     Some \<lparr>ob_kind = ProcessObservationTransportError, ob_observed_at = 1, ob_consecutive_transport_errors = 3,
       ob_transport_error_since = Some 0, ob_busy_since = None\<rparr>,
     ns_recovery := Some \<lparr>rc_reason = ProcessRecoveryBusy, rc_stage = stage, rc_started_at = 1,
       rc_delete_requested_at = None\<rparr>\<rparr>"

definition silent_instance :: valkey_instance where
  "silent_instance = update_vi_status (\<lambda>st. st\<lparr>st_nodes := [silent_node ProcessRecoveryStageKillingBusy]\<rparr>) sample_instance"

definition late_env :: env where
  "late_env = sample_env\<lparr>answer_clock := (\<lambda>h. ProcessUnresponsiveTimeout)\<rparr>"

lemma silent_nodes_ok: "nodes_ok (st_nodes (vi_status silent_instance))"
  by (simp add: silent_instance_def silent_node_def nodes_ok_def ordinal_ok_def sample_node_def empty_node_status_def
      is_int32_def update_vi_status_def)

lemma silent_advanced:
  "\<exists>a. PatchStatus silent_instance a \<in> set (calls (reconcile_process_recovery late_env) silent_instance) \<and>
     st_nodes (vi_status a) = [silent_node ProcessRecoveryStageDeleting]"
proof -
  let ?n = "silent_node ProcessRecoveryStageKillingBusy"
  let ?f = "\<lambda>_. map_process ?n (set_recovery_stage ProcessRecoveryStageDeleting)"
  have n: "ns_termination ?n = None" "\<not> process_recovery_canceled_by_response ?n"
    "ns_recovery ?n = Some \<lparr>rc_reason = ProcessRecoveryBusy, rc_stage = ProcessRecoveryStageKillingBusy,
       rc_started_at = 1, rc_delete_requested_at = None\<rparr>"
    "th_unresponsive (process_thresholds (ns_observation ?n) None ProcessUnresponsiveTimeout)"
    by (simp_all add: silent_node_def process_recovery_canceled_by_response_def process_thresholds_def elapsed_def
        duration_defs PrimaryFailureThreshold_def time_sub_def sample_node_def empty_node_status_def)
  have nodes: "st_nodes (?f silent_instance (vi_status silent_instance)) = [silent_node ProcessRecoveryStageDeleting]"
    "st_nodes (vi_status silent_instance) = [?n]"
    by (simp_all add: silent_instance_def map_process_def update_where_def set_recovery_stage_def silent_node_def
        update_vi_status_def)
  have "silent_node ProcessRecoveryStageDeleting \<noteq> ?n"
  proof
    assume "silent_node ProcessRecoveryStageDeleting = ?n"
    then have "ns_recovery (silent_node ProcessRecoveryStageDeleting) = ns_recovery ?n" by simp
    then show False by (simp add: silent_node_def)
  qed
  then have "?f silent_instance (vi_status silent_instance) \<noteq> vi_status silent_instance"
    using nodes by (metis list.inject)
  then have run: "update_status late_env ?f (start silent_instance\<lparr>os_hist := [ReadClock]\<rparr>) = (Inr True,
      \<lparr>os_inst = update_vi_status (?f silent_instance) silent_instance,
       os_hist = [ReadClock, PatchStatus silent_instance (update_vi_status (?f silent_instance) silent_instance)]\<rparr>)"
    using update_status_first_attempt [where f = ?f and e = late_env and n = 4
        and s = "start silent_instance\<lparr>os_hist := [ReadClock]\<rparr>"] by (simp add: late_env_def sample_env_def)
  have "answer_clock late_env h = ProcessUnresponsiveTimeout" for h by (simp add: late_env_def)
  then show ?thesis using n nodes run
    by (intro exI [of _ "update_vi_status (?f silent_instance) silent_instance"])
      (simp add: calls_def reconcile_process_recovery_def with_inst_def recover_process_def bnd_def on_err_def now_op_def
        do_call_def advance_process_recovery_to_deletion_def ret_def start_def update_vi_status_def)
qed

section \<open>A stale object without a primary\<close>

definition unnamed_instance :: valkey_instance where
  "unnamed_instance = update_vi_status (\<lambda>st. st\<lparr>st_primary_ordinal := None\<rparr>) sample_instance"

definition named_instance :: valkey_instance where
  "named_instance = (update_vi_status (\<lambda>st. (set_primary_identity switched_node st)\<lparr>st_nodes := [switched_node]\<rparr>) sample_instance)
     \<lparr>vi_resource_version := ''2''\<rparr>"

definition named_env :: env where
  "named_env = sample_env\<lparr>answer_patch_status := (\<lambda>h b a. if vi_resource_version b = ''2'' then Inr a
       else Inl (Kube KubeConflict)), answer_get_instance := (\<lambda>h. Inr named_instance)\<rparr>"

lemma named_simps:
  "node_status_at_ordinal (st_nodes (vi_status unnamed_instance)) 0 = Some (sample_node 0 ''a'' NodeRolePrimary 100)"
  "initial_primary_ready unnamed_instance (sample_node 0 ''a'' NodeRolePrimary 100)"
  "st_primary_ordinal (vi_status unnamed_instance) = None"
  "answer_patch_status named_env h unnamed_instance x = Inl (Kube KubeConflict)"
  "answer_get_instance named_env h = Inr named_instance" "answer_patch_status named_env h named_instance x = Inr x"
  "switched_node \<in> set (st_nodes (vi_status named_instance))" "ns_termination switched_node = None"
  "names_primary (vi_status named_instance) switched_node" "retry_steps named_env = 5"
  by (simp_all add: unnamed_instance_def named_instance_def named_env_def node_status_at_ordinal_def sample_nodes_def
      initial_primary_ready_def accepted_of_def names_primary_def primary_identity_def process_identity_def
      update_vi_status_def switched_node_def) (simp_all add: sample_defs)

end
