(* ===== verification/Failover_Samples.thy ===== *)
theory Failover_Samples
  imports Failover_Passes Samples
begin

text \<open>
  A switch of the primary, pass by pass, in a world where the pod of the candidate runs and the
  candidate closes the access of app when it is told to.
\<close>

definition switch_candidate :: node_status where
  "switch_candidate = sample_node 1 ''b'' NodeRoleReplica 100"

definition switch_instance :: "failover_status option \<Rightarrow> valkey_instance" where
  "switch_instance fo = update_vi_status
     (\<lambda>st. st\<lparr>st_nodes := [failed_primary, switch_candidate], st_failover := fo\<rparr>) sample_instance"

definition switch_pod :: kube_pod where
  "switch_pod = \<lparr>pod_name = ''shop-a1b2c3-1'', pod_namespace = ''valkey-shop-a1b2c3'', pod_uid = ''b'',
     pod_resource_version = ''1'', pod_labels = Map.empty, pod_annotations = Map.empty, pod_finalizers = [],
     pod_deletion_timestamp = None,
     pod_owners = [\<lparr>ow_api_version = group_version, ow_kind = ''ValkeyInstance'', ow_name = ''shop-a1b2c3'',
       ow_uid = ''u'', ow_controller = True\<rparr>],
     pod_node_name = ''worker'', pod_containers = [], pod_volumes = [], pod_ip = ''10.0.0.2'',
     pod_conditions = [], pod_container_statuses = [\<lparr>cs_name = ''valkey'', cs_container_id = ''b'',
       cs_state = ContainerRunning\<rparr>]\<rparr>"

definition switch_secret :: kube_secret where
  "switch_secret = \<lparr>sc_type = ''Opaque'', sc_data = [OperatorPasswordKey \<mapsto> sample_password,
     ReplicaPasswordKey \<mapsto> sample_password, HealthPasswordKey \<mapsto> sample_password, UsersACLKey \<mapsto> ''acl'',
     ''app-password-hash.1'' \<mapsto> replicate 64 (CHR ''0'')], sc_owners = []\<rparr>"

definition switch_env :: env where
  "switch_env = sample_env\<lparr>answer_get_pod := (\<lambda>h r n. Inr switch_pod),
     answer_get_node := (\<lambda>h r n. Inr \<lparr>kn_name = ''worker'', kn_uid = ''w'', kn_conditions = []\<rparr>),
     answer_get_secret := (\<lambda>h r n. Inr switch_secret),
     answer_app_access := (\<lambda>h a p hash enabled. Inr \<lparr>ps_role = ''slave'', ps_run_id = ''b'', ps_app_enabled = False,
       ps_app_password_hashes = [hash], ps_replication = None\<rparr>)\<rparr>"

lemma switch_env_simps [simp]: "answer_patch_status switch_env h b j = Inr j" "retry_steps switch_env = Suc 4"
  "answer_clock switch_env h = int (length h)" "answer_get_pod switch_env h r n = Inr switch_pod"
  "answer_get_node switch_env h r n = Inr \<lparr>kn_name = ''worker'', kn_uid = ''w'', kn_conditions = []\<rparr>"
  "answer_get_secret switch_env h r n = Inr switch_secret"
  "answer_app_access switch_env h a p hash enabled = Inr \<lparr>ps_role = ''slave'', ps_run_id = ''b'',
     ps_app_enabled = False, ps_app_password_hashes = [hash], ps_replication = None\<rparr>"
  by (simp_all add: switch_env_def sample_env_def)

lemma switch_instance_simps [simp]:
  "\<not> full_stop_rollout_owns_availability (switch_instance fo)"
  "accepted_mode_is (vi_status (switch_instance fo)) ValkeyModeHA"
  "st_initialized (vi_status (switch_instance fo))" "st_failover (vi_status (switch_instance fo)) = fo"
  "st_accepted (vi_status (switch_instance fo)) = Some sample_accepted"
  "vi_name (switch_instance fo) = ''shop-a1b2c3''" "vi_uid (switch_instance fo) = ''u''"
  "known_process (vi_status (switch_instance fo)) (process_identity failed_primary) = Some failed_primary"
  "known_process (vi_status (switch_instance fo)) (process_identity switch_candidate) = Some switch_candidate"
  by (simp_all add: switch_instance_def full_stop_rollout_owns_availability_def rollout_requires_full_stop_def
      accepted_mode_is_def known_process_def same_identity_def process_identity_def failed_primary_def
      switch_candidate_def sample_defs update_vi_status_def)

lemma switch_node_simps [simp]: "ns_termination failed_primary \<noteq> None" "ns_termination switch_candidate = None"
  "ns_run_id switch_candidate = ''b''" "ns_ordinal switch_candidate = 1"
  "ns_replication failed_primary = Some (sample_replication 100)"
  "rp_replication_id (sample_replication k) = ''repl''" "rp_offset (sample_replication k) = k"
  by (simp_all add: failed_primary_def switch_candidate_def sample_defs)

lemma switch_current_pod:
  "os_inst s = switch_instance fo \<Longrightarrow> current_process_pod switch_env switch_candidate s = (Inr switch_pod,
     s\<lparr>os_hist := os_hist s @ [GetPod Direct (pod_key ''shop-a1b2c3'' 1), GetNode Direct ''worker'']\<rparr>)"
  by (simp add: current_process_pod_def with_inst_def deref_accepted_def bnd_def on_err_def ret_def get_pod_def get_node_def
      do_call_def pod_owned_by_instance_def switch_pod_def valkey_container_status_def container_is_running_def)
    (simp add: switch_candidate_def sample_defs)

lemma switch_credentials:
  "os_inst s = switch_instance fo \<Longrightarrow> process_credentials switch_env s =
    (Inr (sample_credentials, replicate 64 (CHR ''0'')),
     s\<lparr>os_hist := os_hist s @ [GetSecret Cached (auth_secret_name (sp_slug (vi_spec (switch_instance fo))))]\<rparr>)"
  using sample_password_valid
  by (simp add: process_credentials_def with_inst_def deref_accepted_def bnd_def on_err_def ret_def get_secret_def
      do_call_def switch_secret_def parse_service_credentials_def credential_keys_def secret_key_defs data_at_def
      credentials_valid_def parse_app_password_hash_def app_password_hash_key_def sample_accepted_def
      show_int_def show_nat_small digit_char_def sample_credentials_def list_ex_iff)

definition switch_failover :: "failover_stage \<Rightarrow> time option \<Rightarrow> bool \<Rightarrow> failover_status" where
  "switch_failover stage deadline fenced =
     (new_failover FailoverReasonResize 0 (process_identity failed_primary) (Some (process_identity switch_candidate)))
       \<lparr>fo_stage := stage, fo_offset_deadline := deadline, fo_candidate_app_disabled := fenced,
        fo_candidate_clients_killed := fenced\<rparr>"

definition patches_failover_to :: "failover_status \<Rightarrow> failover_status \<Rightarrow> bool" where
  "patches_failover_to f g \<longleftrightarrow> (\<exists>a. PatchStatus (switch_instance (Some f)) a \<in>
       set (calls (reconcile_failover switch_env) (switch_instance (Some f))) \<and> st_failover (vi_status a) = Some g)"

lemma switch_update:
  assumes "st_failover (f (os_inst s) (vi_status (os_inst s))) \<noteq> st_failover (vi_status (os_inst s))"
  shows "update_status switch_env f s = (Inr True, \<lparr>os_inst = update_vi_status (f (os_inst s)) (os_inst s),
    os_hist = os_hist s @ [PatchStatus (os_inst s) (update_vi_status (f (os_inst s)) (os_inst s))]\<rparr>)"
proof -
  from assms have "f (os_inst s) (vi_status (os_inst s)) \<noteq> vi_status (os_inst s)" by metis
  then show ?thesis by (rule update_status_first_attempt) simp_all
qed

lemma switch_update_when_now:
  fixes f :: "time \<Rightarrow> valkey_instance \<Rightarrow> instance_status \<Rightarrow> instance_status"
  assumes "guard (os_inst s)"
    and "st_failover (f (int (length (os_hist s))) (os_inst s) (vi_status (os_inst s))) \<noteq> st_failover (vi_status (os_inst s))"
  shows "update_status_when_now switch_env guard f s = (Inr True,
    \<lparr>os_inst = update_vi_status (f (int (length (os_hist s))) (os_inst s)) (os_inst s),
     os_hist = os_hist s @ [ReadClock, PatchStatus (os_inst s)
       (update_vi_status (f (int (length (os_hist s))) (os_inst s)) (os_inst s))]\<rparr>)"
proof -
  from assms(2) have "f (int (length (os_hist s))) (os_inst s) (vi_status (os_inst s)) \<noteq> vi_status (os_inst s)" by metis
  then show ?thesis using assms(1) 
    update_status_when_now_first_attempt [where guard = guard and f = f and s = s and e = switch_env and n = 4]
    by simp
qed

lemmas run_simps = calls_def reconcile_failover_def with_inst_def bnd_def on_err_def ret_def do_call_def
  switch_update switch_update_when_now update_vi_status_def switch_failover_def new_failover_def map_failover_def

lemma switch_choosing:
  "patches_failover_to (switch_failover FailoverStageFencing None False) (switch_failover FailoverStageChoosing None False)"
  unfolding patches_failover_to_def
  by (simp add: run_simps reconcile_failover_fencing_def begin_choosing_def
      apply_choosing_def from_source_def same_identity_def set_failover_stage_def)

lemma switch_deadline:
  "patches_failover_to (switch_failover FailoverStageChoosing None False)
     ((switch_failover FailoverStageChoosing (Some FailoverTimeout) False)
        \<lparr>fo_replication_id := ''repl'', fo_control_offset := 100\<rparr>)"
  unfolding patches_failover_to_def
  by (simp add: run_simps reconcile_failover_choosing_def set_offset_deadline_def
      apply_offset_deadline_def failover_with_candidate_def set_control_point_def)

lemma switch_fenced:
  "patches_failover_to ((switch_failover FailoverStageChoosing (Some FailoverTimeout) False)
        \<lparr>fo_replication_id := ''repl'', fo_control_offset := 100\<rparr>)
     ((switch_failover FailoverStageChoosing (Some FailoverTimeout) True)
        \<lparr>fo_replication_id := ''repl'', fo_control_offset := 100\<rparr>)"
  unfolding patches_failover_to_def
  by (simp add: run_simps reconcile_failover_choosing_def fence_failover_candidate_def fence_process_def
      switch_current_pod switch_credentials update_app_access_def app_acl_matches_def apply_candidate_fenced_def
      same_candidate_def same_identity_def Let_def)

lemma switch_promoting:
  "patches_failover_to ((switch_failover FailoverStageChoosing (Some FailoverTimeout) True)
        \<lparr>fo_replication_id := ''repl'', fo_control_offset := 100\<rparr>)
     ((switch_failover FailoverStagePromoting (Some FailoverTimeout) True)
        \<lparr>fo_replication_id := ''repl'', fo_control_offset := 100\<rparr>)"
proof -
  have "offset_ready ((switch_failover FailoverStageChoosing (Some FailoverTimeout) True)
        \<lparr>fo_replication_id := ''repl'', fo_control_offset := 100\<rparr>) switch_candidate"
    by (simp add: offset_ready_def switch_failover_def new_failover_def switch_candidate_def sample_defs)
  then show ?thesis
  unfolding patches_failover_to_def
  by (simp add: run_simps reconcile_failover_choosing_def await_offset_def apply_promoting_def now_op_def
      set_failover_stage_def)
qed

lemma switch_saved: "failover_saved (Some ((switch_failover FailoverStagePromoting (Some FailoverTimeout) True)
        \<lparr>fo_replication_id := ''repl'', fo_control_offset := 100\<rparr>))"
proof -
  have step: "failover_saved (Some g)" if saved: "failover_saved (Some f)" and p: "patches_failover_to f g" for f g
  proof -
    obtain a where a: "PatchStatus (switch_instance (Some f)) a \<in>
       set (calls (reconcile_failover switch_env) (switch_instance (Some f)))" "st_failover (vi_status a) = Some g"
      using p unfolding patches_failover_to_def by blast
    have "failover_saved (st_failover (vi_status (switch_instance (Some f))))" using saved by simp
    from failover_saved.patched [OF this a(1)] show ?thesis using a(2) by simp
  qed
  have "failover_saved (Some (switch_failover FailoverStageFencing None False))"
    using failover_saved.begun [of 0 "process_identity failed_primary" "process_identity switch_candidate"]
    by (simp add: switch_failover_def new_failover_def)
  then show ?thesis using switch_choosing switch_deadline switch_fenced switch_promoting by (blast intro: step)
qed

section \<open>The candidate has taken over\<close>

definition taken_over_instance :: valkey_instance where
  "taken_over_instance = update_vi_status
     (\<lambda>st. st\<lparr>st_nodes := [switched_node], st_failover := promoting_failover\<rparr>) sample_instance"

lemma taken_over_pass:
  "PatchStatus taken_over_instance
     (update_vi_status (apply_promoted (process_identity switched_node) switched_node) taken_over_instance)
   \<in> set (calls (reconcile_failover switch_env) taken_over_instance)"
proof -
  have facts: "\<not> full_stop_rollout_owns_availability taken_over_instance"
    "accepted_mode_is (vi_status taken_over_instance) ValkeyModeHA" "st_initialized (vi_status taken_over_instance)"
    "st_failover (vi_status taken_over_instance) = promoting_failover"
    "known_process (vi_status taken_over_instance) (process_identity switched_node) = Some switched_node"
    by (simp_all add: taken_over_instance_def full_stop_rollout_owns_availability_def rollout_requires_full_stop_def
      accepted_mode_is_def known_process_def same_identity_def sample_defs update_vi_status_def)
  have "ns_termination switched_node = None" by (simp add: switched_node_def sample_defs)
  then show ?thesis using facts
    by (simp add: calls_def reconcile_failover_def with_inst_def bnd_def on_err_def ret_def switch_update
        promoting_failover_def new_failover_def reconcile_failover_promoting_def apply_promoted_def
        same_candidate_def same_identity_def set_failover_stage_def)
qed

section \<open>The promotion meets a conflict\<close>

text \<open>The cached object still has the fenced candidate; the server's has a new one, not fenced.\<close>

definition fenced_failover :: failover_status where
  "fenced_failover = (switch_failover FailoverStageChoosing (Some FailoverTimeout) True)
     \<lparr>fo_replication_id := ''repl'', fo_control_offset := 100\<rparr>"

definition new_choice :: failover_status where
  "new_choice = (switch_failover FailoverStageChoosing (Some FailoverTimeout) False)
     \<lparr>fo_candidate := Some (process_identity (sample_node 2 ''c'' NodeRoleReplica 100))\<rparr>"

definition newer_instance :: valkey_instance where
  "newer_instance = (switch_instance (Some new_choice))\<lparr>vi_resource_version := ''2''\<rparr>"

definition stale_env :: env where
  "stale_env = switch_env\<lparr>answer_patch_status := (\<lambda>h b a. if vi_resource_version b = ''2'' then Inr a
       else Inl (Kube KubeConflict)), answer_get_instance := (\<lambda>h. Inr newer_instance)\<rparr>"

lemma stale_simps:
  "st_failover (vi_status (switch_instance (Some fenced_failover))) = Some fenced_failover"
  "fo_stage fenced_failover = FailoverStageChoosing" "fo_candidate fenced_failover = Some (process_identity switch_candidate)"
  "fo_offset_deadline fenced_failover = Some FailoverTimeout"
  "fo_candidate_app_disabled fenced_failover" "fo_candidate_clients_killed fenced_failover"
  "offset_ready fenced_failover switch_candidate"
  "answer_patch_status stale_env h (switch_instance (Some fenced_failover)) x = Inl (Kube KubeConflict)"
  "answer_get_instance stale_env h = Inr newer_instance" "answer_patch_status stale_env h newer_instance x = Inr x"
  "st_failover (vi_status newer_instance) = Some new_choice" "fo_stage new_choice = FailoverStageChoosing"
  "\<not> fo_candidate_app_disabled new_choice" "\<not> fo_candidate_clients_killed new_choice"
  "retry_steps stale_env = 5"
  by (simp_all add: fenced_failover_def new_choice_def switch_failover_def new_failover_def stale_env_def newer_instance_def
      offset_ready_def) (simp_all add: switch_instance_def switch_candidate_def sample_defs update_vi_status_def switch_env_def)

end
