(* ===== verification/Update_Bounds.thy ===== *)
theory Update_Bounds
  imports Trace_Rules
begin

text \<open>
  How often a status update tries: each attempt of \<open>updateStatusChecked\<close> sends at most one patch, so
  a call sends at most \<open>retry.DefaultRetry.Steps\<close> of them.
\<close>
section \<open>How often a status update tries\<close>

fun status_patch :: "call \<Rightarrow> bool" where
  "status_patch (PatchStatus b a) = True"
| "status_patch c = False"

definition patch_count :: "call list \<Rightarrow> nat" where
  "patch_count cs = length (filter status_patch cs)"

text \<open>\<open>bounded k m\<close>: from any state \<open>m\<close> adds at most \<open>k\<close> status patches to the history.\<close>

definition bounded :: "nat \<Rightarrow> 'a op \<Rightarrow> bool" where
  "bounded k m \<longleftrightarrow> (\<forall>s. patch_count (os_hist (snd (m s))) \<le> patch_count (os_hist s) + k)"

lemma bounded_step: "bounded k m \<Longrightarrow> m s = (r, s') \<Longrightarrow> patch_count (os_hist s') \<le> patch_count (os_hist s) + k"
  unfolding bounded_def by (metis snd_conv)

lemma bounded_on_err:
  assumes "bounded j m" and "\<And>er. bounded k (h er)" and "\<And>x. bounded k (f x)"
  shows "bounded (j + k) (on_err m h f)"
  unfolding bounded_def
proof
  fix s
  obtain r s' where m: "m s = (r, s')" by (cases "m s")
  have le: "patch_count (os_hist s') \<le> patch_count (os_hist s) + j" by (rule bounded_step [OF assms(1) m])
  have "patch_count (os_hist (snd (h er s'))) \<le> patch_count (os_hist s') + k" for er
    using assms(2) by (simp add: bounded_def)
  moreover have "patch_count (os_hist (snd (f x s'))) \<le> patch_count (os_hist s') + k" for x
    using assms(3) by (simp add: bounded_def)
  ultimately show "patch_count (os_hist (snd (on_err m h f s))) \<le> patch_count (os_hist s) + (j + k)"
    using le by (auto simp: on_err_def m split: sum.split intro: le_trans add_mono)
       (metis add.assoc add_le_mono1 le_trans)+
qed

lemma bounded_bnd: "bounded j m \<Longrightarrow> (\<And>x. bounded k (f x)) \<Longrightarrow> bounded (j + k) (bnd m f)"
  unfolding bnd_def by (rule bounded_on_err) (simp_all add: bounded_def fail_def)

lemma bounded_mono: "bounded j m \<Longrightarrow> j \<le> k \<Longrightarrow> bounded k m"
  unfolding bounded_def by (meson add_left_mono le_trans)

lemma bounded_simple [simp]:
  "bounded k (ret x)" "bounded k (fail er)" "bounded k get_inst" "bounded k (put_inst i)"
  "bounded k (modify_status f)" "\<not> status_patch c \<Longrightarrow> bounded k (do_call c g)"
  "bounded (Suc k) (do_call c g)"
  by (simp_all add: bounded_def ret_def fail_def get_inst_def put_inst_def modify_status_def do_call_def
      patch_count_def)

lemma bounded_with_inst: "(\<And>i. bounded k (m i)) \<Longrightarrow> bounded k (with_inst m)"
  by (simp add: bounded_def with_inst_def)

lemma bounded_update_attempt:
  assumes "\<And>c. bounded 0 (mutate c)" and "\<And>f c. again = Some f \<Longrightarrow> bounded k (f c)"
  shows "bounded (Suc k) (update_attempt e first mutate again c)"
proof -
  have retry: "bounded k (retry_on_conflict again c er)" for c er
    using assms(2) by (simp add: retry_on_conflict_def split: option.split)
  then have retry': "bounded (Suc k) (retry_on_conflict again c er)" for c er
    by (rule bounded_mono) simp
  have put: "bounded k (bnd (put_inst server) (\<lambda>_. ret True))" for server
    using bounded_bnd [of 0 "put_inst server" k "\<lambda>_. ret True"] by simp
  have "bounded (1 + k) (on_err (do_call (PatchStatus b a) g) (retry_on_conflict again c)
      (\<lambda>server. bnd (put_inst server) (\<lambda>_. ret True)))" for b a g c
    by (intro bounded_on_err retry put) simp
  then have patch: "bounded (Suc k) (on_err (do_call (PatchStatus b a) g) (retry_on_conflict again c)
      (\<lambda>server. bnd (put_inst server) (\<lambda>_. ret True)))" for b a g c
    by simp
  have "bounded (0 + (0 + (0 + (0 + Suc k)))) (update_attempt e first mutate again c)"
    unfolding update_attempt_def
    by (intro bounded_on_err bounded_bnd)
      (auto intro: retry' assms(1) patch bounded_bnd [where j = 0 and k = 0, simplified])
  then show ?thesis by simp
qed

lemma bounded_update_attempts:
  assumes "\<And>c. bounded 0 (mutate c)"
  shows "bounded n (update_attempts e n first mutate c)"
proof (induction n arbitrary: first c)
  case (Suc n)
  show ?case
    unfolding update_attempts.simps
    by (rule bounded_update_attempt) (auto intro: assms Suc.IH split: if_splits)
qed simp

lemma bounded_update_captured:
  assumes "\<And>c. bounded 0 (mutate c)"
  shows "bounded (retry_steps e) (update_status_captured e mutate c)"
proof -
  have "bounded (retry_steps e + 0) (update_status_captured e mutate c)"
    unfolding update_status_captured_def
    by (intro bounded_on_err bounded_update_attempts assms) simp_all
  then show ?thesis by simp
qed

lemma bounded_update_status: "bounded (retry_steps e) (update_status e f)"
  unfolding update_status_def update_status_checked_def
  by (intro bounded_update_captured bounded_with_inst) simp

lemma patch_count_calls: "bounded k m \<Longrightarrow> patch_count (calls m i) \<le> k"
  unfolding bounded_def calls_def using start_simps [of i] by (metis add_0 patch_count_def filter.simps(1) list.size(3))

end
