(* ===== verification/Spec2Isabelle.thy ===== *)
theory Spec2Isabelle
  imports Failover_Samples Update_Bounds
begin

text \<open>
  Verification of the operator of managed-valkey (\<open>src/operator\<close>): the controller that keeps Valkey
  instances, single or with two replicas (HA), running on Kubernetes.

  The program and its parts. \<open>ValkeyInstanceReconciler\<close> (\<open>internal/operator/valkeyinstance_controller.go\<close>)
  is called with one instance object, reads its status, asks Kubernetes and the Valkey processes for what
  it needs, saves one step in the status and asks to be run again. All memory of an operation is in the
  status of the custom resource, so every handler works on a status that other passes have written, and
  a status patch that meets a conflict is tried again on the object read anew. The handlers call one
  another through the status: the observation of the processes records who runs and who has provably
  stopped; recovery kills or deletes who hangs; failover fences, chooses, promotes and reconfigures;
  topology names the first primary and tells the replicas whom to follow; availability derives the phase.

  Correspondence of the theories to the code (functions keep their names, in snake case; a name that
  two files use is qualified by its theory):
  \<^item> Api_Types: \<open>api/v1alpha1/valkeyinstance_types.go\<close> (one record per struct, one datatype per string
    enumeration), \<open>internal/config/timings.go\<close>, the fields of Kubernetes objects the handlers read.
  \<^item> Prelude: \<open>int32\<close> with its wrap-around (values as \<open>int\<close>, written \<open>wrap32\<close>), instants, decimal
    printing, \<open>slices.SortFunc\<close>, generic lemmas. The sort is an insertion sort, which is what the
    library runs up to 12 elements; the code sorts entries whose ordinals differ, where every correct
    sort gives the same list.
  \<^item> Runtime: errors and \<open>errors.Is\<close>, the calls to the outside, the environment that answers them,
    \<open>updateStatus\<close> and its variants, requeue arithmetic.
  \<^item> Processes: identity, lookup and history of processes, thresholds of failed observations
    (\<open>process_observation.go\<close>, \<open>process_health.go\<close>, \<open>process_termination.go\<close> and others).
  \<^item> Valkey_Errors: \<open>ClassifyError\<close> of \<open>internal/valkey/client.go\<close>.
  \<^item> Credentials: \<open>credentials.go\<close>, \<open>auth_secret.go\<close>, \<open>acl.go\<close>, \<open>processCredentials\<close>.
  \<^item> Contract: \<open>instance_contract.go\<close>. Availability: \<open>availability.go\<close> and predicates on a rollout.
  \<^item> Pods, Termination, Observation, Recovery, Failover, Topology: the handlers of
    \<open>process_termination.go\<close>, \<open>process_observation.go\<close>, \<open>process_recovery.go\<close>, \<open>manual_fencing.go\<close>,
    \<open>failover.go\<close> and \<open>topology.go\<close>, every branch and early return of them.

  How the state is modelled. A handler is an operation (\<open>'a op\<close>) on the instance object it holds and
  the history of its calls. Every answer of Kubernetes, of Valkey, of the clock and of \<open>rand.Read\<close> is a
  function of that history, an arbitrary field of \<open>env\<close>: nothing is assumed about it except what a
  theorem says. Errors and run-time panics are values (\<open>Inl\<close>). Closures that share a variable with the
  code around them by reference thread it through the attempts (\<open>update_status_captured\<close>), which is
  what C21 turns on.

  What the lemmas show:
  \<^item> Trace_Rules is a calculus: \<open>ends\<close> for the outcomes an operation can have, \<open>emits\<close> for the calls it
    can make, with an introduction rule per construct, and what an update with its retries ends with.
    The statements about all calls of a handler (C1, C5, C6, C8, C9, C10) are proved with it. Their
    right-hand sides say what a call needs in terms of the object the pass started with. Where they say
    so they speak of patches on an unchanged status, that is of the attempts whose object has the status
    the pass decided on; what a retry on another status can do is in C4 and in the findings C21, C23, C25.
  \<^item> Process_Lemmas, Observation_Lemmas: no process is lost without evidence (C5, C11, C12, C13).
  \<^item> Failover_Lemmas: the choice of the candidate (C3) and the transitions of single patches. The relation
    \<open>failover_edge\<close> is a specification that C1 compares the patches with; no other property
    is stated of it. Failover_Passes: what the patches of real passes keep, retries included, alone and
    over many passes (C2, C4), and the conflict of C23.
  \<^item> Recovery_Lemmas and Recovery_Stages: thresholds by the clock (C6) and the stages over real patches of
    both handlers that write them (C7, C24), through the locale of Stages.
  \<^item> Credentials_Lemmas: base64, the Secret, what is written into it (C10, C17, C18, C22).
  \<^item> Update_Bounds: a status update sends at most \<open>retry_steps\<close> patches (C19).
  \<^item> Samples, Failover_Samples: concrete objects and worlds on which the properties are applied.

  Interfaces: \<open>keyed_store\<close> (Process_Lemmas) is what the handlers rely on when they look up and replace
  the entry of an ordinal, interpreted on the node list; \<open>staged\<close> (Stages) is what an operation with
  stages owes, interpreted on the recovery.

  Bounds. The number of attempts of a status update is the field \<open>retry_steps\<close> (5 for
  \<open>retry.DefaultRetry\<close>); every theorem holds for any number, and a handler has no other loop that is not
  over a list, so no fuel is used and every operation is a total function.

  What is not modelled: rollout, rotation of the credentials, deletion of an instance, admission of app,
  the workload and network objects, metrics, the session of the Valkey client behind the answers, and
  the composition of the handlers in \<open>Reconcile\<close>. The goroutines of \<open>reconcileProcess\<close> run one after
  another here, in an order that is a parameter, while in the program their calls interleave; no
  property rests on \<open>reconcile_process\<close>, the look at the processes is stated of one ordinal. Texts of
  errors and conditions are given in English where the code has them in Russian.
\<close>

text \<open>
  C1. Whatever Kubernetes and Valkey answer, a pass of reconcileFailover makes only allowed calls.
  A status patch on an unchanged status is one transition of failover_edge and touches no process
  entry. PromoteProcess goes only to the saved live candidate of a failover in stage Promoting,
  after CandidateMayBePrimary was saved, while the process is a replica with app disabled and the
  accepted password. Access of app is only ever closed, and only for the source or the candidate.
\<close>

theorem failover_calls: "list_all (failover_call e i) (calls (reconcile_failover e) i)"
  by (rule emits_all [OF reconcile_failover_calls])

text \<open>
  C2. Over any number of passes of reconcileFailover, on any objects and in any worlds, that patch a
  status whose failover is the one the pass started with (also where a retry has read it again): a
  failover that was started by this handler or by a rollout is saved in stage Promoting only with a
  candidate whose app is recorded as disabled and whose clients as killed, its candidate is marked as
  possibly primary only in stage Promoting or later, and without a candidate no fencing is on record.
  C23 shows why the failover must be the same.
\<close>

theorem failover_reachable_fenced:
  assumes "failover_saved (Some fo)"
  shows "(fo_stage fo = FailoverStagePromoting \<longrightarrow>
      fo_candidate fo \<noteq> None \<and> fo_candidate_app_disabled fo \<and> fo_candidate_clients_killed fo) \<and>
    (fo_candidate_may_be_primary fo \<longrightarrow>
      fo_stage fo = FailoverStagePromoting \<or> fo_stage fo = FailoverStageReconfiguring) \<and>
    (fo_candidate fo = None \<longrightarrow> \<not> fo_candidate_app_disabled fo \<and> \<not> fo_candidate_clients_killed fo)"
  using failover_saved_ok [OF assms] by (simp add: keeps_failover_ok_def failover_ok_def)

theorem failover_reachable_fenced_witness:
  "\<exists>fo. failover_saved (Some fo) \<and> fo_stage fo = FailoverStagePromoting \<and> fo_candidate_clients_killed fo"
proof -
  have "fo_stage ((switch_failover FailoverStagePromoting (Some FailoverTimeout) True)
      \<lparr>fo_replication_id := ''repl'', fo_control_offset := 100\<rparr>) = FailoverStagePromoting"
    by (simp add: switch_failover_def)
  with failover_reachable_fenced [OF switch_saved] switch_saved show ?thesis by blast
qed

text \<open>
  C3. chooseFailoverCandidate returns a live, synchronized replica of the same replication history
  as the source, and no such replica has a greater offset, nor an equal offset and a smaller
  ordinal.
\<close>

theorem failover_candidate_optimal:
  assumes "choose_failover_candidate source nodes = Some c"
    and "\<forall>n\<in>set nodes. is_int32 (ns_ordinal n) \<and> 0 \<le> ns_ordinal n"
  shows "\<exists>sr. ns_replication source = Some sr \<and> c \<in> set nodes \<and> failover_candidate source sr c \<and>
    (\<forall>n\<in>set nodes. failover_candidate source sr n \<longrightarrow>
       node_offset n < node_offset c \<or> node_offset n = node_offset c \<and> ns_ordinal c \<le> ns_ordinal n)"
  using choose_failover_candidate_optimal [OF assms(1)] assms(2) by blast

theorem failover_candidate_optimal_witness:
  "\<exists>sr. ns_replication (sample_node 0 ''a'' NodeRolePrimary 100) = Some sr \<and>
    failover_candidate (sample_node 0 ''a'' NodeRolePrimary 100) sr (sample_node 2 ''c'' NodeRoleReplica 100)"
proof -
  have chosen: "choose_failover_candidate (sample_node 0 ''a'' NodeRolePrimary 100) sample_nodes =
      Some (sample_node 2 ''c'' NodeRoleReplica 100)"
    by (simp add: choose_failover_candidate_def failover_candidate_def sort_func_def compare_candidates_def
        node_offset_def sample_nodes_def sample_node_def sample_replication_def empty_node_status_def)
  have ok: "\<forall>n\<in>set sample_nodes. is_int32 (ns_ordinal n) \<and> 0 \<le> ns_ordinal n"
    by (rule sample_ordinals)
  from failover_candidate_optimal [OF chosen ok] show ?thesis by blast
qed

text \<open>
  C4. A status patch of reconcileFailover, a retry after a conflict included, changes the primary in
  two cases only. Either the failover of the pass is in stage Promoting and its candidate, still the
  candidate in the patched status, lives and reports itself as the primary: then it is the new
  primary. Or the primary and the failover are forgotten, where every live process of the patched
  status is a replica that answers, has app disabled, the accepted password and no data, every live
  previous process is the source or the candidate of a failover with its clients cut off, and either
  the former primary has stopped or the failover has waited for EmptyPrimaryTimeout by the clock.
\<close>

theorem failover_primary_change:
  assumes "PatchStatus b a \<in> set (calls (reconcile_failover e) i)"
    and "(st_primary_ordinal (vi_status a), primary_identity (vi_status a)) \<noteq>
      (st_primary_ordinal (vi_status b), primary_identity (vi_status b))"
  shows "promoted_to i b (vi_status a) \<or> emptied_safely e (vi_status b) (vi_status a)"
  using failover_primary_patch [OF assms(1)] assms(2) by (auto simp: same_primary_def simp del: same_primary_core)

theorem failover_primary_change_witness:
  "\<exists>a. PatchStatus taken_over_instance a \<in> set (calls (reconcile_failover switch_env) taken_over_instance) \<and>
     st_primary_ordinal (vi_status a) = Some 1 \<and> promoted_to taken_over_instance taken_over_instance (vi_status a)"
proof -
  let ?a = "update_vi_status (apply_promoted (process_identity switched_node) switched_node) taken_over_instance"
  have a: "st_primary_ordinal (vi_status ?a) = Some 1" "st_primary_ordinal (vi_status taken_over_instance) = Some 0"
    by (simp_all add: taken_over_instance_def apply_promoted_def promoting_failover_def new_failover_def
        same_candidate_def same_identity_def sample_defs update_vi_status_def)
  from failover_primary_change [OF taken_over_pass] a
  have "promoted_to taken_over_instance taken_over_instance (vi_status ?a) \<or>
      emptied_safely switch_env (vi_status taken_over_instance) (vi_status ?a)" by simp
  with a taken_over_pass show ?thesis unfolding emptied_safely_def by auto
qed

text \<open>
  C5. One look at a process makes only allowed calls. A status patch on an unchanged status keeps
  the node list sorted with distinct ordinals and loses no process whose stop is not proven: an
  entry with the same pod, container, run and node stays, current or previous, and a termination on
  it is one that was already saved for it or that this pass has read from Kubernetes (the node is
  gone, or the container of the pod has terminated). A pod is deleted, or its finalizer removed, only
  where a current entry of the very container in the pod has a termination; the finalizer is added
  only to a pod of the instance that is not being deleted. Access of app is never opened.
\<close>

theorem observation_calls:
  assumes "nodes_ok (st_nodes (vi_status i))" and "0 \<le> ordinal" and "ordinal < 2147483648"
  shows "list_all (observation_call e i) (calls (reconcile_process_ordinal e ordinal) i)"
  by (rule emits_all [OF reconcile_process_ordinal_calls [OF assms]])

theorem observation_calls_witness:
  "list_all (observation_call sample_env sample_instance) (calls (reconcile_process_ordinal sample_env 0) sample_instance)"
  by (rule observation_calls) (simp_all add: sample_nodes_ok)

text \<open>
  C6. The recovery of hanging processes makes only allowed calls. A patch on an unchanged status
  changes nothing but the recoveries of processes without a termination: one starts only where the
  process has been busy for ScriptBusyTimeout, or silent for ProcessUnresponsiveTimeout, by the clock
  of the pass (and then only while the API server shows its node as ready), it escalates only from
  killing the script to deleting and is cancelled only before the deletion. FUNCTION KILL and SCRIPT
  KILL go only to a process in stage KillingBusy; a pod is deleted only for a process in stage
  Deleting whose node is shown as ready under the same UID, always with the grace period.
\<close>

theorem recovery_calls:
  assumes "nodes_ok (st_nodes (vi_status i))"
  shows "list_all (recovery_call e i) (calls (reconcile_process_recovery e) i)"
  by (rule emits_all [OF reconcile_process_recovery_calls [OF assms]])

theorem recovery_calls_witness:
  "list_all (recovery_call late_env silent_instance) (calls (reconcile_process_recovery late_env) silent_instance) \<and>
   calls (reconcile_process_recovery late_env) silent_instance \<noteq> []"
  using recovery_calls [OF silent_nodes_ok] silent_advanced by auto

text \<open>
  C7. A recovery never goes back. In every patch on an unchanged status, of reconcileProcessRecovery or
  of the look at a process (which carries the recovery over to the entry it saves), the recovery of a
  process that stays current keeps its reason and its start, and its stage stays or moves from killing
  the script to deleting, or from deleting to waiting for the termination; while it waits it is not
  removed.
\<close>

theorem recovery_stages_forward:
  assumes "nodes_ok (st_nodes (vi_status i))"
    and "PatchStatus b a \<in> set (calls (reconcile_process_recovery e) i) \<or>
      PatchStatus b a \<in> set (calls (reconcile_process_ordinal e ordinal) i)"
    and "vi_status b = vi_status i"
    and "p \<in> set (st_nodes (vi_status b))" and "q \<in> set (st_nodes (vi_status a))" and "same_process q p"
    and "ns_recovery p = Some rc"
  shows "case ns_recovery q of
      None \<Rightarrow> rc_stage rc \<noteq> ProcessRecoveryStageWaitingForTermination
    | Some rc' \<Rightarrow> rc_reason rc' = rc_reason rc \<and> rc_started_at rc' = rc_started_at rc \<and>
        (rc_stage rc' = rc_stage rc \<or>
         rc_stage rc = ProcessRecoveryStageKillingBusy \<and> rc_stage rc' = ProcessRecoveryStageDeleting \<or>
         rc_stage rc = ProcessRecoveryStageDeleting \<and> rc_stage rc' = ProcessRecoveryStageWaitingForTermination)"
proof -
  have "recovery_pass (Some rc) (ns_recovery q)" unfolding recovery_pass_def using assms by metis
  then show ?thesis by (auto dest!: recovery_pass_forward split: option.split)
qed

theorem recovery_stages_forward_witness:
  "\<exists>a q. PatchStatus silent_instance a \<in> set (calls (reconcile_process_recovery late_env) silent_instance) \<and>
     st_nodes (vi_status a) = [q] \<and> ns_recovery q \<noteq> None \<and>
     rc_started_at (the (ns_recovery q)) = 1 \<and> rc_stage (the (ns_recovery q)) = ProcessRecoveryStageDeleting"
proof -
  obtain a where a: "PatchStatus silent_instance a \<in> set (calls (reconcile_process_recovery late_env) silent_instance)"
    "st_nodes (vi_status a) = [silent_node ProcessRecoveryStageDeleting]"
    using silent_advanced by blast
  let ?p = "silent_node ProcessRecoveryStageKillingBusy"
  have "?p \<in> set (st_nodes (vi_status silent_instance))"
    "same_process (silent_node ProcessRecoveryStageDeleting) ?p"
    "ns_recovery ?p = Some \<lparr>rc_reason = ProcessRecoveryBusy, rc_stage = ProcessRecoveryStageKillingBusy,
       rc_started_at = 1, rc_delete_requested_at = None\<rparr>"
    by (simp_all add: silent_instance_def silent_node_def same_process_def same_container_process_def update_vi_status_def)
  from recovery_stages_forward [OF silent_nodes_ok disjI1 [OF a(1)] refl this(1) _ this(2,3)] a
  show ?thesis by (intro exI [of _ a] exI [of _ "silent_node ProcessRecoveryStageDeleting"]) (simp add: silent_node_def)
qed

text \<open>
  C8. A stop an administrator vouches for is saved only for the process the annotation names, only
  where an operation waits for its stop or its stop is unproven, and only while the API server
  does not report its node as ready; nothing else of any process entry changes.
\<close>

theorem manual_fencing_calls: "list_all (fencing_decree_call e i) (calls (reconcile_manual_fencing e) i)"
  by (rule emits_all [OF reconcile_manual_fencing_calls])



text \<open>
  C11. Recording an observed process loses nobody: every process without a termination is still
  among the current or previous processes, and it has a termination afterwards only if it was the
  one displaced and the caller passed evidence for it.
\<close>

theorem process_entry_survives:
  assumes "nodes_ok (st_nodes st)"
    and "p \<in> set (st_nodes st @ st_previous_processes st)" and "ns_termination p = None"
  shows "\<exists>q\<in>set (st_nodes (record_current_process ob t st) @ st_previous_processes (record_current_process ob t st)).
    same_process q p \<and> (ns_termination q = None \<or>
      (\<exists>c. node_status_at_ordinal (st_nodes st) (ns_ordinal ob) = Some c \<and> same_process c p \<and>
         ns_termination q = ns_termination (retired c t)))"
  using assms by (rule record_keeps_unterminated)

theorem process_entry_survives_witness:
  "\<exists>q\<in>set (st_nodes (record_current_process (sample_node 1 ''d'' NodeRoleReplica 0) None sample_status) @
       st_previous_processes (record_current_process (sample_node 1 ''d'' NodeRoleReplica 0) None sample_status)).
    same_process q (sample_node 1 ''b'' NodeRoleReplica 90)"
proof -
  have "sample_node 1 ''b'' NodeRoleReplica 90 \<in> set (st_nodes sample_status @ st_previous_processes sample_status)"
    by (simp add: sample_status_def sample_nodes_def set_primary_identity_def)
  moreover have "nodes_ok (st_nodes sample_status)"
    using sample_nodes_ok by (simp add: sample_status_def set_primary_identity_def)
  moreover have "ns_termination (sample_node 1 ''b'' NodeRoleReplica 90) = None"
    by (simp add: sample_node_def empty_node_status_def)
  ultimately show ?thesis using process_entry_survives by blast
qed

text \<open>
  C12. The node list behaves as a map from ordinals: after replaceNodeStatus the lookup at the
  ordinal of the new entry finds it and every other lookup is unchanged, and the list stays sorted
  with distinct ordinals.
\<close>

theorem node_lookup_after_replace:
  assumes "nodes_ok ns" and "ordinal_ok ob"
  shows "nodes_ok (replace_node_status ns ob) \<and>
    node_status_at_ordinal (replace_node_status ns ob) k =
      (if k = ns_ordinal ob then Some ob else node_status_at_ordinal ns k)"
  using nodes_ok_replace [OF assms] node_at_replace [OF assms] by blast+

theorem node_lookup_after_replace_witness:
  "node_status_at_ordinal (replace_node_status sample_nodes (sample_node 1 ''d'' NodeRoleReplica 0)) 1 =
     Some (sample_node 1 ''d'' NodeRoleReplica 0)"
proof -
  have "ordinal_ok (sample_node 1 ''d'' NodeRoleReplica 0)" "ns_ordinal (sample_node 1 ''d'' NodeRoleReplica 0) = 1"
    by (simp_all add: ordinal_ok_def sample_node_def empty_node_status_def)
  with node_lookup_after_replace [OF sample_nodes_ok this(1), of 1] show ?thesis by simp
qed

text \<open>
  C13. reconcileProcessHistory never loses a process that is still needed: the lookup of an identity
  that is the primary, the source or the candidate of a failover, or the process of a rollout, is the
  same afterwards, every previous process without a termination stays, and the current processes are
  left alone.
\<close>

theorem pruning_keeps_referenced:
  assumes "(st_primary_ordinal st \<noteq> None \<and> ident = primary_identity st) \<or>
    (\<exists>f. st_failover st = Some f \<and> (fo_source f = ident \<or> fo_candidate f = Some ident)) \<or>
    (\<exists>r. st_rollout st = Some r \<and> ro_process r = Some ident)"
  shows "known_process (prune_history st) ident = known_process st ident \<and>
    (\<forall>p\<in>set (st_previous_processes st). ns_termination p = None \<longrightarrow> p \<in> set (st_previous_processes (prune_history st))) \<and>
    st_nodes (prune_history st) = st_nodes st"
proof -
  have "previous_process_required st p" if "process_identity p = ident" for p
    using assms that by (auto simp: previous_process_required_def same_identity_def)
  then have "known_process (prune_history st) ident = known_process st ident" by (rule known_process_prune)
  then show ?thesis using prune_history_keeps by (auto simp: prune_history_def)
qed

theorem pruning_keeps_referenced_witness:
  "known_process (prune_history (empty_status\<lparr>st_failover := promoting_failover, st_previous_processes := [failed_primary]\<rparr>))
     (process_identity failed_primary) = Some failed_primary"
proof -
  let ?st = "empty_status\<lparr>st_failover := promoting_failover, st_previous_processes := [failed_primary]\<rparr>"
  have "known_process ?st (process_identity failed_primary) = Some failed_primary"
    by (simp add: known_process_def same_identity_def empty_status_def)
  moreover have "\<exists>f. st_failover ?st = Some f \<and> fo_source f = process_identity failed_primary"
    by (simp add: promoting_failover_def failed_primary_def new_failover_def process_identity_def)
  ultimately show ?thesis using pruning_keeps_referenced [of ?st "process_identity failed_primary"] by auto
qed

text \<open>
  C14. applyOperationalPhase shows what the accepted configuration asks for: unavailable while a stop
  is unproven or no publicly ready primary serves app, updating during a failover, a rollout or a
  rotation of the credentials, degraded with fewer than two ready replicas in HA mode, running
  otherwise. Before the first start nothing changes.
\<close>

theorem phase_matches_specification:
  assumes "nodes_ok (st_nodes st)"
  shows "(\<forall>ac. st_initialized st \<and> st_accepted st = Some ac \<longrightarrow>
      st_phase (apply_operational_phase e i st) = Some (phase_expected ac st)) \<and>
    (\<not> st_initialized st \<or> st_accepted st = None \<longrightarrow> apply_operational_phase e i st = st)"
  using apply_operational_phase_expected [OF assms] by (auto simp: apply_operational_phase_def)

theorem phase_matches_specification_witness:
  "st_phase (apply_operational_phase sample_env sample_instance ready_status) = Some InstancePhaseRunning"
proof -
  have "{n \<in> set (st_nodes ready_status). ready_replica sample_accepted n} =
      {ready_node (sample_node 1 ''b'' NodeRoleReplica 90), ready_node (sample_node 2 ''c'' NodeRoleReplica 100)}"
    by (auto simp: ready_status_def sample_nodes_def ready_node_def ready_replica_def serves_app_def
        sample_node_def empty_node_status_def sample_replication_def sample_accepted_def zero_accepted_def)
  moreover have "public_primary sample_accepted ready_status"
    by (auto simp: public_primary_def find_condition_def ready_status_def sample_nodes_def ready_node_def serves_app_def
        conditionTypePublicReady_def sample_status_def set_primary_identity_def
        sample_node_def empty_node_status_def sample_accepted_def zero_accepted_def)
  ultimately have expected: "phase_expected sample_accepted ready_status = InstancePhaseRunning"
    by (simp add: phase_expected_def ready_status_def sample_status_def set_primary_identity_def empty_status_def
        ready_node_def sample_node_def empty_node_status_def)
  have "nodes_ok (st_nodes ready_status)"
    by (simp add: nodes_ok_def ordinal_ok_def ready_status_def ready_node_def sample_nodes_def sample_node_def
        empty_node_status_def is_int32_def)
  from phase_matches_specification [OF this] expected show ?thesis
    by (simp add: ready_status_def sample_status_def set_primary_identity_def)
qed

text \<open>
  C15. The observed generation changes only to the accepted one, and only when no operation is
  running, the phase is running or degraded, and the applied mode, size and password version are
  the accepted ones.
\<close>

theorem generation_confirmed_only_when_applied:
  assumes "st_observed_generation (apply_operational_phase e i st) \<noteq> st_observed_generation st"
  shows "st_observed_generation (apply_operational_phase e i st) = ac_desired_generation (accepted_of st) \<and>
    \<not> active_operation st \<and> phase_spec st \<in> {InstancePhaseRunning, InstancePhaseDegraded} \<and>
    (\<exists>applied. st_applied st = Some applied \<and> ap_mode applied = ac_mode (accepted_of st) \<and>
       ap_vcpu applied = ac_vcpu (accepted_of st) \<and> ap_ram_gb applied = ac_ram_gb (accepted_of st)) \<and>
    st_applied_password_version st = ac_password_version (accepted_of st)"
  using assms by (rule apply_operational_phase_generation)

theorem generation_confirmed_only_when_applied_witness:
  "st_observed_generation (apply_operational_phase sample_env sample_instance ready_status) = 1 \<and>
   \<not> active_operation ready_status"
proof -
  show ?thesis
    using generation_confirmed_only_when_applied [of sample_env sample_instance ready_status]
      ready_status_generation by simp
qed

text \<open>
  C16. A later generation is accepted only with a greater desired generation, a password version
  that does not go back, the same identity, slug, mode, port and whitelist, and a size that is sold: 1,
  2, 4, 8 or 16 vCPU, a power of two of 1 to 128 GB, and between 1 and 16 GB per vCPU. Size, password
  version and generation are then the ones of the specification.
\<close>

theorem next_generation_monotone:
  assumes "next_accepted_configuration e sp ac = Inr c"
  shows "ac_desired_generation ac < ac_desired_generation c \<and> ac_password_version ac \<le> ac_password_version c \<and>
    ac_instance_id c = ac_instance_id ac \<and> ac_slug c = ac_slug ac \<and> ac_mode c = ac_mode ac \<and>
    ac_public_port c = ac_public_port ac \<and> ac_whitelist c = ac_whitelist ac \<and>
    ac_vcpu c \<in> {1, 2, 4, 8, 16} \<and> ac_ram_gb c \<in> {1, 2, 4, 8, 16, 32, 64, 128} \<and>
    ac_vcpu c \<le> ac_ram_gb c \<and> ac_ram_gb c \<le> 16 * ac_vcpu c \<and>
    ac_vcpu c = sp_vcpu sp \<and> ac_ram_gb c = sp_ram_gb sp \<and>
    ac_desired_generation c = sp_desired_generation sp \<and> ac_password_version c = sp_password_version sp"
  using next_accepted_configuration_Inr [OF assms] next_accepted_configuration_values [OF assms]
    valid_size_values [of "ac_vcpu c" "ac_ram_gb c"] by blast

theorem next_generation_monotone_witness:
  "\<exists>c. next_accepted_configuration sample_env (sample_spec\<lparr>sp_ram_gb := 4, sp_desired_generation := 2\<rparr>)
         sample_accepted = Inr c \<and> ac_desired_generation sample_accepted < ac_desired_generation c"
proof -
  obtain c where c: "next_accepted_configuration sample_env
      (sample_spec\<lparr>sp_ram_gb := 4, sp_desired_generation := 2\<rparr>) sample_accepted = Inr c"
    by (simp add: next_accepted_configuration_def intent_incomplete_def known_mode_def valid_size_def wrap32_def
        normalized_whitelist_def configuration_of_def unsupported_fields_def Let_def sample_defs)
  with next_generation_monotone [OF c] show ?thesis by blast
qed

text \<open>
  C17. A password drawn by randomServicePassword is base64 without padding of exactly 24 bytes, the
  ones rand.Read filled the buffer with, so it passes validServicePassword.
\<close>

theorem service_password_roundtrip:
  assumes "outcome (random_service_password e) i = Inr password"
  shows "\<exists>h read. answer_random e h = Inr read \<and>
    raw_url_decode password = Some (map (\<lambda>k. read k mod 256) [0..<24]) \<and>
    valid_service_password password"
proof -
  have "ends (random_service_password e) i (Inr password) (final_inst (random_service_password e) i)"
    using ends_outcome [of "random_service_password e" i] assms by simp
  then obtain h read where read: "answer_random e h = Inr read"
      "password = raw_url_encode (map (\<lambda>k. read k mod 256) [0..<ServicePasswordRandomBytes])"
    by (rule ends_random_service_password)
  have small: "list_all (\<lambda>b. b < 256) (map (\<lambda>k. read k mod 256) [0..<ServicePasswordRandomBytes])"
    by (simp add: list_all_iff)
  show ?thesis
    using read raw_url_roundtrip [OF small] random_password_valid [OF small]
    by (intro exI [of _ h] exI [of _ read]) (simp add: ServicePasswordRandomBytes_def)
qed

theorem service_password_roundtrip_witness:
  "\<exists>password. outcome (random_service_password sample_env) sample_instance = Inr password \<and> valid_service_password password"
proof -
  have "\<exists>password. outcome (random_service_password sample_env) sample_instance = Inr password"
    by (simp add: random_service_password_def outcome_def on_err_def do_call_def sample_env_def ret_def)
  with service_password_roundtrip show ?thesis by blast
qed

text \<open>
  C18. Service credentials written into a Secret parse back to themselves, whatever else the
  Secret holds.
\<close>

theorem written_credentials_parse:
  assumes "service_credentials_data c = Inr d"
  shows "parse_service_credentials (data ++ d) = Inr (Some c)"
  using assms by (rule parse_written_credentials)

theorem written_credentials_parse_witness:
  "\<exists>d. service_credentials_data sample_credentials = Inr d \<and>
     parse_service_credentials (Map.empty ++ d) = Inr (Some sample_credentials)"
proof -
  obtain d where "service_credentials_data sample_credentials = Inr d"
    using sample_credentials_valid by (simp add: service_credentials_data_def)
  with written_credentials_parse [OF this, of Map.empty] show ?thesis by blast
qed

text \<open>
  C19. updateStatus reports a change only when the API server has accepted the patch of what the
  closure made of the object or of one read again, and no change only when the object it ends with is
  one of these and the closure leaves its status as it is; and it sends at most as many patches as it has attempts.
\<close>

theorem status_update_accounted:
  "patch_count (calls (update_status e f) i) \<le> retry_steps e \<and>
   (case outcome (update_status e f) i of
      Inl er \<Rightarrow> True
    | Inr True \<Rightarrow> (\<exists>b h. fresh e i b \<and> vi_status b \<noteq> f b (vi_status b) \<and>
        answer_patch_status e h b (update_vi_status (f b) b) = Inr (final_inst (update_status e f) i))
    | Inr False \<Rightarrow> fresh e i (final_inst (update_status e f) i) \<and>
        f (final_inst (update_status e f) i) (vi_status (final_inst (update_status e f) i)) =
          vi_status (final_inst (update_status e f) i))"
proof (cases "outcome (update_status e f) i")
  case (Inl er)
  then show ?thesis using patch_count_calls [OF bounded_update_status] by simp
next
  case (Inr b)
  have ends: "ends (update_status e f) i (Inr b) (final_inst (update_status e f) i)"
    using ends_outcome [of "update_status e f" i] Inr by simp
  show ?thesis
    using patch_count_calls [OF bounded_update_status, of e f i] Inr ends
      ends_update_status_True [of e f i "final_inst (update_status e f) i"]
      ends_update_status_False [of e f i "final_inst (update_status e f) i"]
      ends_update_status_unchanged [of e f i "final_inst (update_status e f) i"]
    by (cases b) simp_all
qed

text \<open>
  C20. An error of the operator itself - a lost lease, a closed client, an invalid address, a
  canceled context - is never counted against a process, whether it is returned bare, wrapped, or put
  into a command error: it has no observation kind, and recordProcessObservationError returns it
  without any call and without a change of the object.
\<close>

theorem lost_lease_is_no_process_failure:
  assumes "operator_error er"
  shows "process_observation_kind_of (classify_error er) = None \<and>
    outcome (record_process_observation_error e pod node container ordinal er) i = Inl er \<and>
    calls (record_process_observation_error e pod node container ordinal er) i = [] \<and>
    final_inst (record_process_observation_error e pod node container ordinal er) i = i"
  using classify_operator_error [OF assms]
  by (simp add: record_process_observation_error_def outcome_def calls_def final_inst_def fail_def)

theorem lost_lease_is_no_process_failure_witness:
  "\<forall>pod node container.
     calls (record_process_observation_error sample_env pod node container 0
       (command_error ''PING'' False (Wrapped (Sentinel ErrLeaseLost)))) sample_instance = [] \<and>
     outcome (record_process_observation_error sample_env pod node container 0 (Sentinel ErrInvalidAddress))
       sample_instance = Inl (Sentinel ErrInvalidAddress)"
  using lost_lease_is_no_process_failure [OF command [OF wrapped [OF bare [of ErrLeaseLost]]]]
    lost_lease_is_no_process_failure [OF bare [of ErrInvalidAddress]] by simp

text \<open>
  C21. When the candidate of a failover in stage Choosing has stopped and the first status patch
  meets a conflict, the retry dereferences the candidate pointer that the first attempt set to
  nil: the pass ends in a run-time panic instead of a second attempt.
\<close>

theorem forget_candidate_conflict_panics:
  assumes "st_failover (vi_status i) = Some fo" and "fo_candidate fo = Some c"
    and "fo_offset_deadline fo = Some deadline"
    and "known_process (vi_status i) c = Some p" and "ns_termination p \<noteq> None"
    and "\<And>h b a. answer_patch_status e h b a = Inl (Kube KubeConflict)"
    and "\<And>h. answer_get_instance e h = Inr i'"
    and "st_failover (vi_status i') = Some fo'" and "fo_candidate fo' \<noteq> None"
    and "retry_steps e = Suc (Suc n)"
  shows "outcome (reconcile_failover_choosing e fo) i = Inl Panic"
  using assms by (rule forget_stopped_candidate_conflict)

theorem forget_candidate_conflict_panics_witness:
  "outcome (reconcile_failover_choosing conflict_env stopped_failover) stopped_instance = Inl Panic"
  by (rule forget_candidate_conflict_panics [where i' = stopped_instance and fo' = stopped_failover
        and n = 3, OF _ _ _ stopped_node_known])
    (simp_all add: stopped_simps)

text \<open>
  C22. base64 decoding ignores line breaks, so a Secret whose operator password has one inserted at
  any place still passes ParseServiceCredentials, and the ACL built from the credentials then has a
  non-empty line that does not begin a user definition (unless what follows the break is the word
  user itself).
\<close>

theorem password_with_line_break_accepted:
  assumes "parse_service_credentials data = Inr (Some c)" and "cr_operator_password c = u @ v"
    and "line_feed \<notin> set v" and "v \<noteq> ''user''"
  shows "\<exists>broken line. parse_service_credentials (data(OperatorPasswordKey \<mapsto> u @ [line_feed] @ v)) = Inr (Some broken) \<and>
    line \<in> set (acl_lines (credentials_acl app_hash broken)) \<and> line \<noteq> '''' \<and> take 5 line \<noteq> ''user ''"
proof (intro exI conjI)
  show "parse_service_credentials (data(OperatorPasswordKey \<mapsto> u @ [line_feed] @ v)) =
      Inr (Some (c\<lparr>cr_operator_password := u @ line_feed # v\<rparr>))"
    using parse_broken_password [OF assms(1,2)] by simp
  show "v @ '' ~* &* +@all'' \<in> set (acl_lines (credentials_acl app_hash (c\<lparr>cr_operator_password := u @ line_feed # v\<rparr>)))"
    using broken_acl_line [OF assms(3)] by (simp add: credentials_acl_def)
  have "valid_service_password (u @ v)"
    using parse_service_credentials_Some(1) [OF assms(1)] assms(2) by (simp add: credentials_valid_def)
  then have "CHR '' '' \<notin> set v" using valid_password_no_space by fastforce
  from not_user_line [OF this assms(4)] show "take 5 (v @ '' ~* &* +@all'') \<noteq> ''user ''" .
qed simp

theorem password_with_line_break_accepted_witness:
  "\<exists>data broken line. parse_service_credentials data = Inr (Some broken) \<and>
     data OperatorPasswordKey = Some (replicate 4 (CHR ''A'') @ [line_feed] @ replicate 28 (CHR ''A'')) \<and>
     line \<in> set (acl_lines (credentials_acl ''h'' broken)) \<and> line \<noteq> '''' \<and> take 5 line \<noteq> ''user ''"
proof -
  obtain d where d: "service_credentials_data sample_credentials = Inr d"
    using sample_credentials_valid by (simp add: service_credentials_data_def)
  then have parsed: "parse_service_credentials d = Inr (Some sample_credentials)"
    using parse_written_credentials [OF d, of Map.empty] by simp
  have split: "cr_operator_password sample_credentials = replicate 4 (CHR ''A'') @ replicate 28 (CHR ''A'')"
    "line_feed \<notin> set (replicate 28 (CHR ''A''))" "replicate 28 (CHR ''A'') \<noteq> ''user''"
    by (simp_all add: sample_credentials_def sample_password_def line_feed_def numeral_eq_Suc)
  have "(d(OperatorPasswordKey \<mapsto> x)) OperatorPasswordKey = Some x" for x by simp
  with password_with_line_break_accepted [OF parsed split, of "''h''"] show ?thesis by blast
qed

text \<open>
  C23. The closure that saves stage Promoting does not look at the candidate. When the first patch
  meets a conflict, because the object read again holds another choice of the candidate, the second
  attempt saves stage Promoting for that candidate, with whatever fencing it has: in the witness app
  of the new candidate was not closed and its clients were not killed.
\<close>

theorem unfenced_candidate_promoting_after_conflict:
  assumes "st_failover (vi_status i) = Some fo" and "fo_stage fo = FailoverStageChoosing"
    and "fo_candidate fo = Some c" and "fo_offset_deadline fo = Some deadline"
    and "known_process (vi_status i) c = Some p" and "ns_termination p = None" and "offset_ready fo p"
    and "fo_candidate_app_disabled fo" and "fo_candidate_clients_killed fo"
    and "\<And>h a. answer_patch_status e h i a = Inl (Kube KubeConflict)"
    and "\<And>h. answer_get_instance e h = Inr i'" and "\<And>h a. answer_patch_status e h i' a = Inr a"
    and "st_failover (vi_status i') = Some fo'" and "fo_stage fo' = FailoverStageChoosing"
    and "retry_steps e = Suc (Suc n)"
  shows "outcome (reconcile_failover_choosing e fo) i = Inr 1 \<and>
    st_failover (vi_status (final_inst (reconcile_failover_choosing e fo) i)) =
      Some (fo'\<lparr>fo_stage := FailoverStagePromoting\<rparr>)"
  using assms(1-9,13) await_offset_conflict [OF assms(7,1) _ assms(13) _ assms(10-12,15)] assms(14)
  by (simp add: reconcile_failover_choosing_def outcome_def final_inst_def with_inst_def apply_promoting_def
      set_failover_stage_def update_vi_status_def)

theorem unfenced_candidate_promoting_after_conflict_witness:
  "\<exists>fo. st_failover (vi_status (final_inst (reconcile_failover_choosing stale_env fenced_failover)
       (switch_instance (Some fenced_failover)))) = Some fo \<and> fo_stage fo = FailoverStagePromoting \<and>
     \<not> fo_candidate_app_disabled fo \<and> \<not> fo_candidate_clients_killed fo"
  using unfenced_candidate_promoting_after_conflict [where i = "switch_instance (Some fenced_failover)" and
      fo = fenced_failover and c = "process_identity switch_candidate" and p = switch_candidate and e = stale_env
      and i' = newer_instance and fo' = new_choice and n = 3]
  by (simp add: stale_simps)



text \<open>
  C25. The closure that names the first primary checks nothing again. When the first patch meets a
  conflict because the object read again already has a live primary at another ordinal, the second
  attempt overwrites it: the pass succeeds, the process of ordinal 0 is named, and the live primary is
  still among the processes but named no more.
\<close>

theorem naming_conflict_overwrites_primary:
  assumes "node_status_at_ordinal (st_nodes (vi_status i)) 0 = Some t" and "initial_primary_ready i t"
    and "st_primary_ordinal (vi_status i) = None"
    and "\<And>h a. answer_patch_status e h i a = Inl (Kube KubeConflict)"
    and "\<And>h. answer_get_instance e h = Inr i'" and "\<And>h a. answer_patch_status e h i' a = Inr a"
    and "p \<in> set (st_nodes (vi_status i'))" and "ns_role p = NodeRolePrimary" and "ns_termination p = None"
    and "names_primary (vi_status i') p" and "ns_ordinal p \<noteq> 0" and "retry_steps e = Suc (Suc n)"
  shows "outcome (reconcile_initial_primary e) i = Inr 1 \<and>
    names_primary (vi_status (final_inst (reconcile_initial_primary e) i)) t \<and>
    p \<in> set (st_nodes (vi_status (final_inst (reconcile_initial_primary e) i))) \<and>
    \<not> names_primary (vi_status (final_inst (reconcile_initial_primary e) i)) p"
  using initial_primary_conflict [OF assms(1-6) _ assms(12)] assms(7,10,11) node_at_ordinal [OF assms(1)]
  by (simp add: names_primary_def update_vi_status_def)

theorem naming_conflict_overwrites_primary_witness:
  "names_primary (vi_status (final_inst (reconcile_initial_primary named_env) unnamed_instance))
     (sample_node 0 ''a'' NodeRolePrimary 100) \<and>
   \<not> names_primary (vi_status (final_inst (reconcile_initial_primary named_env) unnamed_instance)) switched_node"
  using naming_conflict_overwrites_primary [of unnamed_instance "sample_node 0 ''a'' NodeRolePrimary 100" named_env
      named_instance switched_node 3]
  by (simp add: named_simps)



end
